(* ===== verification/Prelude.thy ===== *)
theory Prelude
  imports Main "HOL-Library.Word"
begin

text \<open>
  Shared vocabulary of the development: the machine types of the RTL and of the C++ benches,
  bit fields of words (SystemVerilog part selects \<open>w[hi:lo]\<close>), single-bit assignment
  (\<open>w[n] = b\<close>), the outcome of a C++ \<open>main\<close>, and the generic lemmas on words and
  byte strings the component theories rest on.

  \<^item> \<open>bit_unfold\<close> collects the characteristic equations of the field operations: an
    equality of words is proved bit by bit with \<open>bit_word_eqI\<close> and this collection.
  \<^item> \<open>rtl_eval\<close> collects the defining equations that evaluate a module of the RTL on
    concrete inputs inside the kernel.
\<close>

unbundle bit_operations_syntax

named_theorems bit_unfold "characteristic bit equations of part selects and bit assignment"
named_theorems rtl_eval "defining equations used to evaluate the model on concrete inputs"

type_synonym u8 = "8 word"
type_synonym u16 = "16 word"
type_synonym u32 = "32 word"
type_synonym u64 = "64 word"
type_synonym reg_idx = "5 word"

section \<open>Part selects and bit assignment\<close>

text \<open>\<open>field lo w\<close> is \<open>w[lo + LENGTH('b) - 1 : lo]\<close>; its width is its type.\<close>

definition field :: "nat \<Rightarrow> 'a::len word \<Rightarrow> 'b::len word" where
  "field lo w = ucast (drop_bit lo w)"

text \<open>\<open>put_bit n b w\<close> is the word after the assignment \<open>w[n] = b\<close>.\<close>

definition put_bit :: "nat \<Rightarrow> bool \<Rightarrow> 'a::len word \<Rightarrow> 'a word" where
  "put_bit n b w = (if b then w OR push_bit n 1 else w AND NOT (push_bit n 1))"

text \<open>\<open>of_bit b\<close> is the one-bit value of a \<open>logic\<close> signal, extended with zeros.\<close>

definition of_bit :: "bool \<Rightarrow> 'a::len word" where
  "of_bit b = (if b then 1 else 0)"

text \<open>Outcome of a C++ \<open>main\<close>: an exit status, or the abort of a failed \<open>assert\<close>.\<close>

datatype tb_exit = Exit int | AssertAbort

section \<open>Lemmas on part selects\<close>

lemma bit_field [bit_unfold, bit_simps]:
  fixes w :: "'a::len word"
  shows "bit (field lo w :: 'b::len word) n \<longleftrightarrow> n < LENGTH('b) \<and> bit w (lo + n)"
  by (simp add: field_def bit_simps)

lemma bit_put_bit [bit_unfold, bit_simps]:
  fixes w :: "'a::len word"
  shows "bit (put_bit m b w) n \<longleftrightarrow> n < LENGTH('a) \<and> (if n = m then b else bit w n)"
  by (auto simp: put_bit_def bit_simps dest: bit_imp_le_length)

lemma bit_of_bit [bit_unfold, bit_simps]:
  "bit (of_bit b :: 'a::len word) n \<longleftrightarrow> b \<and> n = 0"
  by (auto simp: of_bit_def bit_1_iff)

lemma of_bit_eq [simp]:
  "of_bit True = (1 :: 'a::len word)" "of_bit False = (0 :: 'a::len word)"
  by (simp_all add: of_bit_def)

lemma of_bit_eq_iff [simp]: "(of_bit a :: 'a::len word) = of_bit b \<longleftrightarrow> a = b"
  by (simp add: of_bit_def)

lemma put_bit_same [simp]: "put_bit n (bit w n) w = (w :: 'a::len word)"
  by (rule bit_word_eqI) (simp add: bit_unfold)

lemma put_bit_twice [simp]: "put_bit n a (put_bit n b w) = put_bit n a (w :: 'a::len word)"
  by (rule bit_word_eqI) (simp add: bit_unfold)

lemmas word_bits_eqI = bit_word_eqI

lemmas field_eval [rtl_eval] = field_def put_bit_def of_bit_def

section \<open>Truncation commutes with addition and subtraction\<close>

lemma take_bit_take_bit_arith:
  fixes a b :: int
  assumes "n \<le> m"
  shows "take_bit n (take_bit m a + take_bit m b) = take_bit n (a + b)"
    and "take_bit n (take_bit m a - take_bit m b) = take_bit n (a - b)"
  using assms
  by (metis min.absorb1 take_bit_add take_bit_take_bit, metis min.absorb1 take_bit_diff take_bit_take_bit)

lemma ucast_down_add:
  fixes a b :: "'a::len word"
  assumes "LENGTH('b) \<le> LENGTH('a)"
  shows "(ucast (a + b) :: 'b::len word) = ucast a + ucast b"
  using assms by transfer (simp add: take_bit_take_bit_arith)

lemma ucast_down_diff:
  fixes a b :: "'a::len word"
  assumes "LENGTH('b) \<le> LENGTH('a)"
  shows "(ucast (a - b) :: 'b::len word) = ucast a - ucast b"
  using assms by transfer (simp add: take_bit_take_bit_arith)

lemma unat_ucast_up:
  fixes w :: "'a::len word"
  assumes "LENGTH('a) \<le> LENGTH('b)"
  shows "unat (ucast w :: 'b::len word) = unat w"
  using assms by transfer simp

lemma of_nat_lane_inj:
  "a + of_nat i = (a + of_nat j :: u64) \<longleftrightarrow> i = j" if "i < 2 ^ 64" "j < 2 ^ 64"
proof -
  have "(of_nat i :: u64) = of_nat j \<longleftrightarrow> i = j"
    using that by (auto simp: word_of_nat_eq_iff take_bit_nat_eq_self)
  then show ?thesis by simp
qed

lemma and_mask_u64:
  fixes w :: u64
  shows "w AND 0x7 = take_bit 3 w" "w AND 0xFF = take_bit 8 w" "w AND 0xFFFFFFFF = take_bit 32 w"
  by (simp_all add: take_bit_eq_mask mask_numeral)

lemma and_not_add_and: "(w AND NOT m) + (w AND m) = w" for w m :: "'a::len word"
proof -
  have "(w AND NOT m) AND (w AND m) = 0"
    by (rule bit_word_eqI) (auto simp: bit_simps)
  then show ?thesis
    by (simp only: disjunctive_add_eq_or) (rule bit_word_eqI, auto simp: bit_simps)
qed

section \<open>Exhausting the narrow words\<close>

lemma word3_cases:
  fixes w :: "3 word"
  shows "w = 0 \<or> w = 1 \<or> w = 2 \<or> w = 3 \<or> w = 4 \<or> w = 5 \<or> w = 6 \<or> w = 7"
proof -
  have "unat w < 2 ^ LENGTH(3)" by (rule unsigned_less)
  then have "unat w \<in> {0, 1, 2, 3, 4, 5, 6, 7}" by auto
  then have "(word_of_nat (unat w) :: 3 word) \<in> word_of_nat ` {0, 1, 2, 3, 4, 5, 6, 7 :: nat}"
    by (rule imageI)
  then show ?thesis by simp
qed

lemma word2_cases:
  fixes w :: "2 word"
  shows "w = 0 \<or> w = 1 \<or> w = 2 \<or> w = 3"
proof -
  have "unat w < 2 ^ LENGTH(2)" by (rule unsigned_less)
  then have "unat w \<in> {0, 1, 2, 3}" by auto
  then have "(word_of_nat (unat w) :: 2 word) \<in> word_of_nat ` {0, 1, 2, 3 :: nat}"
    by (rule imageI)
  then show ?thesis by simp
qed

section \<open>Iterating a step\<close>

text \<open>\<open>iterate n f s\<close> is the state after the loop \<open>for (i = 0; i < n; i++) f();\<close>.\<close>

primrec iterate :: "nat \<Rightarrow> ('s \<Rightarrow> 's) \<Rightarrow> 's \<Rightarrow> 's" where
  "iterate 0 f s = s"
| "iterate (Suc n) f s = iterate n f (f s)"

lemma iterate_numeral [rtl_eval]:
  "iterate (numeral k) f s = iterate (pred_numeral k) f (f s)"
  by (simp add: numeral_eq_Suc)

lemma replicate_numeral [rtl_eval]:
  "replicate (numeral k) x = x # replicate (pred_numeral k) x"
  by (simp add: numeral_eq_Suc)

lemma iterate_add: "iterate (m + n) f s = iterate n f (iterate m f s)"
  by (induction m arbitrary: s) simp_all

lemma iterate_invariant:
  assumes "P s" and "\<And>s. P s \<Longrightarrow> P (f s)"
  shows "P (iterate n f s)"
  using assms by (induction n arbitrary: s) simp_all

end
