(* ===== verification/Rv64_Pkg.thy ===== *)
theory Rv64_Pkg
  imports Prelude
begin

text \<open>
  The constants of \<^verbatim>\<open>src/rtl/core/include/rv64_pkg.sv\<close> and
  \<^verbatim>\<open>src/rtl/core/include/csr_pkg.sv\<close>. An enumeration of the packages is a
  \<open>logic\<close> vector: a port of that type can carry an encoding that no enumerator has, and
  the modules have a \<open>default\<close> branch for it. The enumerators are therefore named words of
  the declared width.
\<close>

section \<open>Opcodes, ALU and branch operations (rv64\_pkg)\<close>

type_synonym opcode_t = "7 word"

abbreviation (input) OPCODE_LOAD :: opcode_t where "OPCODE_LOAD \<equiv> 0b0000011"
abbreviation (input) OPCODE_LOAD_FP :: opcode_t where "OPCODE_LOAD_FP \<equiv> 0b0000111"
abbreviation (input) OPCODE_MISC_MEM :: opcode_t where "OPCODE_MISC_MEM \<equiv> 0b0001111"
abbreviation (input) OPCODE_OP_IMM :: opcode_t where "OPCODE_OP_IMM \<equiv> 0b0010011"
abbreviation (input) OPCODE_OP_IMM_32 :: opcode_t where "OPCODE_OP_IMM_32 \<equiv> 0b0011011"
abbreviation (input) OPCODE_AUIPC :: opcode_t where "OPCODE_AUIPC \<equiv> 0b0010111"
abbreviation (input) OPCODE_LUI :: opcode_t where "OPCODE_LUI \<equiv> 0b0110111"
abbreviation (input) OPCODE_STORE :: opcode_t where "OPCODE_STORE \<equiv> 0b0100011"
abbreviation (input) OPCODE_STORE_FP :: opcode_t where "OPCODE_STORE_FP \<equiv> 0b0100111"
abbreviation (input) OPCODE_AMO :: opcode_t where "OPCODE_AMO \<equiv> 0b0101111"
abbreviation (input) OPCODE_OP :: opcode_t where "OPCODE_OP \<equiv> 0b0110011"
abbreviation (input) OPCODE_OP_32 :: opcode_t where "OPCODE_OP_32 \<equiv> 0b0111011"
abbreviation (input) OPCODE_MADD :: opcode_t where "OPCODE_MADD \<equiv> 0b1000011"
abbreviation (input) OPCODE_MSUB :: opcode_t where "OPCODE_MSUB \<equiv> 0b1000111"
abbreviation (input) OPCODE_NMSUB :: opcode_t where "OPCODE_NMSUB \<equiv> 0b1001011"
abbreviation (input) OPCODE_NMADD :: opcode_t where "OPCODE_NMADD \<equiv> 0b1001111"
abbreviation (input) OPCODE_OP_FP :: opcode_t where "OPCODE_OP_FP \<equiv> 0b1010011"
abbreviation (input) OPCODE_BRANCH :: opcode_t where "OPCODE_BRANCH \<equiv> 0b1100011"
abbreviation (input) OPCODE_JALR :: opcode_t where "OPCODE_JALR \<equiv> 0b1100111"
abbreviation (input) OPCODE_JAL :: opcode_t where "OPCODE_JAL \<equiv> 0b1101111"
abbreviation (input) OPCODE_SYSTEM :: opcode_t where "OPCODE_SYSTEM \<equiv> 0b1110011"

type_synonym alu_op_t = "4 word"

abbreviation (input) ALU_ADD :: alu_op_t where "ALU_ADD \<equiv> 0b0000"
abbreviation (input) ALU_SUB :: alu_op_t where "ALU_SUB \<equiv> 0b1000"
abbreviation (input) ALU_SLL :: alu_op_t where "ALU_SLL \<equiv> 0b0001"
abbreviation (input) ALU_SLT :: alu_op_t where "ALU_SLT \<equiv> 0b0010"
abbreviation (input) ALU_SLTU :: alu_op_t where "ALU_SLTU \<equiv> 0b0011"
abbreviation (input) ALU_XOR :: alu_op_t where "ALU_XOR \<equiv> 0b0100"
abbreviation (input) ALU_SRL :: alu_op_t where "ALU_SRL \<equiv> 0b0101"
abbreviation (input) ALU_SRA :: alu_op_t where "ALU_SRA \<equiv> 0b1101"
abbreviation (input) ALU_OR :: alu_op_t where "ALU_OR \<equiv> 0b0110"
abbreviation (input) ALU_AND :: alu_op_t where "ALU_AND \<equiv> 0b0111"

type_synonym branch_op_t = "3 word"

abbreviation (input) BRANCH_EQ :: branch_op_t where "BRANCH_EQ \<equiv> 0b000"
abbreviation (input) BRANCH_NE :: branch_op_t where "BRANCH_NE \<equiv> 0b001"
abbreviation (input) BRANCH_LT :: branch_op_t where "BRANCH_LT \<equiv> 0b100"
abbreviation (input) BRANCH_GE :: branch_op_t where "BRANCH_GE \<equiv> 0b101"
abbreviation (input) BRANCH_LTU :: branch_op_t where "BRANCH_LTU \<equiv> 0b110"
abbreviation (input) BRANCH_GEU :: branch_op_t where "BRANCH_GEU \<equiv> 0b111"

section \<open>CSR addresses and cause codes (csr\_pkg)\<close>

type_synonym csr_addr = "12 word"

abbreviation (input) CSR_FFLAGS :: csr_addr where "CSR_FFLAGS \<equiv> 0x001"
abbreviation (input) CSR_FRM :: csr_addr where "CSR_FRM \<equiv> 0x002"
abbreviation (input) CSR_FCSR :: csr_addr where "CSR_FCSR \<equiv> 0x003"
abbreviation (input) CSR_MVENDORID :: csr_addr where "CSR_MVENDORID \<equiv> 0xF11"
abbreviation (input) CSR_MARCHID :: csr_addr where "CSR_MARCHID \<equiv> 0xF12"
abbreviation (input) CSR_MIMPID :: csr_addr where "CSR_MIMPID \<equiv> 0xF13"
abbreviation (input) CSR_MHARTID :: csr_addr where "CSR_MHARTID \<equiv> 0xF14"
abbreviation (input) CSR_MSTATUS :: csr_addr where "CSR_MSTATUS \<equiv> 0x300"
abbreviation (input) CSR_MISA :: csr_addr where "CSR_MISA \<equiv> 0x301"
abbreviation (input) CSR_MEDELEG :: csr_addr where "CSR_MEDELEG \<equiv> 0x302"
abbreviation (input) CSR_MIDELEG :: csr_addr where "CSR_MIDELEG \<equiv> 0x303"
abbreviation (input) CSR_MIE :: csr_addr where "CSR_MIE \<equiv> 0x304"
abbreviation (input) CSR_MTVEC :: csr_addr where "CSR_MTVEC \<equiv> 0x305"
abbreviation (input) CSR_MCOUNTEREN :: csr_addr where "CSR_MCOUNTEREN \<equiv> 0x306"
abbreviation (input) CSR_MSCRATCH :: csr_addr where "CSR_MSCRATCH \<equiv> 0x340"
abbreviation (input) CSR_MEPC :: csr_addr where "CSR_MEPC \<equiv> 0x341"
abbreviation (input) CSR_MCAUSE :: csr_addr where "CSR_MCAUSE \<equiv> 0x342"
abbreviation (input) CSR_MTVAL :: csr_addr where "CSR_MTVAL \<equiv> 0x343"
abbreviation (input) CSR_MIP :: csr_addr where "CSR_MIP \<equiv> 0x344"
abbreviation (input) CSR_MCYCLE :: csr_addr where "CSR_MCYCLE \<equiv> 0xB00"
abbreviation (input) CSR_MINSTRET :: csr_addr where "CSR_MINSTRET \<equiv> 0xB02"
abbreviation (input) CSR_SSTATUS :: csr_addr where "CSR_SSTATUS \<equiv> 0x100"
abbreviation (input) CSR_SIE :: csr_addr where "CSR_SIE \<equiv> 0x104"
abbreviation (input) CSR_STVEC :: csr_addr where "CSR_STVEC \<equiv> 0x105"
abbreviation (input) CSR_SCOUNTEREN :: csr_addr where "CSR_SCOUNTEREN \<equiv> 0x106"
abbreviation (input) CSR_SSCRATCH :: csr_addr where "CSR_SSCRATCH \<equiv> 0x140"
abbreviation (input) CSR_SEPC :: csr_addr where "CSR_SEPC \<equiv> 0x141"
abbreviation (input) CSR_SCAUSE :: csr_addr where "CSR_SCAUSE \<equiv> 0x142"
abbreviation (input) CSR_STVAL :: csr_addr where "CSR_STVAL \<equiv> 0x143"
abbreviation (input) CSR_SIP :: csr_addr where "CSR_SIP \<equiv> 0x144"
abbreviation (input) CSR_SATP :: csr_addr where "CSR_SATP \<equiv> 0x180"
abbreviation (input) CSR_CYCLE :: csr_addr where "CSR_CYCLE \<equiv> 0xC00"
abbreviation (input) CSR_TIME :: csr_addr where "CSR_TIME \<equiv> 0xC01"
abbreviation (input) CSR_INSTRET :: csr_addr where "CSR_INSTRET \<equiv> 0xC02"

abbreviation (input) EXC_INST_ILLEGAL :: u64 where "EXC_INST_ILLEGAL \<equiv> 2"
abbreviation (input) EXC_BREAKPOINT :: u64 where "EXC_BREAKPOINT \<equiv> 3"
abbreviation (input) EXC_LOAD_ADDR_MISALIGNED :: u64 where "EXC_LOAD_ADDR_MISALIGNED \<equiv> 4"
abbreviation (input) EXC_LOAD_FAULT :: u64 where "EXC_LOAD_FAULT \<equiv> 5"
abbreviation (input) EXC_STORE_ADDR_MISALIGNED :: u64 where "EXC_STORE_ADDR_MISALIGNED \<equiv> 6"
abbreviation (input) EXC_STORE_FAULT :: u64 where "EXC_STORE_FAULT \<equiv> 7"
abbreviation (input) EXC_ECALL_FROM_U :: u64 where "EXC_ECALL_FROM_U \<equiv> 8"
abbreviation (input) EXC_ECALL_FROM_S :: u64 where "EXC_ECALL_FROM_S \<equiv> 9"
abbreviation (input) EXC_ECALL_FROM_M :: u64 where "EXC_ECALL_FROM_M \<equiv> 11"
abbreviation (input) EXC_INSTR_PAGE_FAULT :: u64 where "EXC_INSTR_PAGE_FAULT \<equiv> 12"
abbreviation (input) EXC_LOAD_PAGE_FAULT :: u64 where "EXC_LOAD_PAGE_FAULT \<equiv> 13"
abbreviation (input) EXC_STORE_PAGE_FAULT :: u64 where "EXC_STORE_PAGE_FAULT \<equiv> 15"

abbreviation (input) INTERRUPT_M_SOFTWARE :: u64 where "INTERRUPT_M_SOFTWARE \<equiv> 3"
abbreviation (input) INTERRUPT_M_TIMER :: u64 where "INTERRUPT_M_TIMER \<equiv> 7"
abbreviation (input) INTERRUPT_M_EXTERNAL :: u64 where "INTERRUPT_M_EXTERNAL \<equiv> 11"

section \<open>Privilege modes\<close>

text \<open>
  The \<open>priv_mode_t\<close> of the CSR unit. Its registers hold one of the three enumerators; on the
  two-bit ports of the decoder and of the trap controller the encodings are named words.
\<close>

datatype priv_mode_t = PRIV_MODE_U | PRIV_MODE_S | PRIV_MODE_M

abbreviation (input) PRIV_U :: "2 word" where "PRIV_U \<equiv> 0b00"
abbreviation (input) PRIV_S :: "2 word" where "PRIV_S \<equiv> 0b01"
abbreviation (input) PRIV_M :: "2 word" where "PRIV_M \<equiv> 0b11"

instantiation priv_mode_t :: linorder
begin

text \<open>U is the least privileged mode, M the most privileged one.\<close>

primrec priv_level :: "priv_mode_t \<Rightarrow> nat" where
  "priv_level PRIV_MODE_U = 0"
| "priv_level PRIV_MODE_S = 1"
| "priv_level PRIV_MODE_M = 3"

definition less_eq_priv_mode_t :: "priv_mode_t \<Rightarrow> priv_mode_t \<Rightarrow> bool" where
  "less_eq_priv_mode_t a b \<longleftrightarrow> priv_level a \<le> priv_level b"

definition less_priv_mode_t :: "priv_mode_t \<Rightarrow> priv_mode_t \<Rightarrow> bool" where
  "less_priv_mode_t a b \<longleftrightarrow> priv_level a < priv_level b"

instance
proof
  fix a b c :: priv_mode_t
  show "(a < b) = (a \<le> b \<and> \<not> b \<le> a)"
    by (auto simp: less_eq_priv_mode_t_def less_priv_mode_t_def)
  show "a \<le> a" by (simp add: less_eq_priv_mode_t_def)
  show "a \<le> b \<Longrightarrow> b \<le> c \<Longrightarrow> a \<le> c" by (simp add: less_eq_priv_mode_t_def)
  show "a \<le> b \<Longrightarrow> b \<le> a \<Longrightarrow> a = b"
    by (cases a; cases b) (simp_all add: less_eq_priv_mode_t_def)
  show "a \<le> b \<or> b \<le> a" by (auto simp: less_eq_priv_mode_t_def)
qed

end

end
