(* ===== verification/Decoder.thy ===== *)
theory Decoder
  imports Rv64_Pkg
begin

text \<open>
  The instruction decoder, \<^verbatim>\<open>src/rtl/core/decoder.sv\<close>: field extraction, the five
  immediate formats, the privilege checks, and one definition per group of opcodes of the main
  \<open>case\<close>. The output record has one field per output port, with the prefix \<open>dec_\<close>.
\<close>

section \<open>Definitions\<close>

record decoder_out =
  dec_rs1_addr :: reg_idx
  dec_rs2_addr :: reg_idx
  dec_rd_addr :: reg_idx
  dec_reg_write_en :: bool
  dec_alu_op :: alu_op_t
  dec_alu_src1_sel :: bool
  dec_alu_src2_sel :: bool
  dec_imm :: u64
  dec_is_load :: bool
  dec_is_store :: bool
  dec_mem_size :: "3 word"
  dec_is_branch :: bool
  dec_is_jump :: bool
  dec_branch_op :: "3 word"
  dec_wb_sel :: "2 word"
  dec_is_word_op :: bool
  dec_is_csr :: bool
  dec_csr_op :: "3 word"
  dec_is_ecall :: bool
  dec_is_ebreak :: bool
  dec_is_mret :: bool
  dec_is_sret :: bool
  dec_is_wfi :: bool
  dec_is_sfence_vma :: bool
  dec_is_fence :: bool
  dec_is_fence_i :: bool
  dec_illegal_instr :: bool

subsection \<open>Immediates\<close>

definition imm_i :: "u32 \<Rightarrow> u64" where
  "imm_i instr = scast (field 20 instr :: 12 word)"

definition imm_s :: "u32 \<Rightarrow> u64" where
  "imm_s instr = scast (word_cat (field 25 instr :: 7 word) (field 7 instr :: 5 word) :: 12 word)"

definition imm_b :: "u32 \<Rightarrow> u64" where
  "imm_b instr =
     scast (word_cat
       (word_cat
         (word_cat
           (word_cat (field 31 instr :: 1 word) (field 7 instr :: 1 word) :: 2 word)
           (field 25 instr :: 6 word) :: 8 word)
         (field 8 instr :: 4 word) :: 12 word)
       (0 :: 1 word) :: 13 word)"

definition imm_u :: "u32 \<Rightarrow> u64" where
  "imm_u instr = scast (word_cat (field 12 instr :: 20 word) (0 :: 12 word) :: 32 word)"

definition imm_j :: "u32 \<Rightarrow> u64" where
  "imm_j instr =
     scast (word_cat
       (word_cat
         (word_cat
           (word_cat (field 31 instr :: 1 word) (field 12 instr :: 8 word) :: 9 word)
           (field 20 instr :: 1 word) :: 10 word)
         (field 21 instr :: 10 word) :: 20 word)
       (0 :: 1 word) :: 21 word)"

subsection \<open>Privilege checks\<close>

definition priv_rank :: "2 word \<Rightarrow> int" where
  "priv_rank mode =
     (if mode = PRIV_U then 0 else if mode = PRIV_S then 1 else if mode = 0b10 then 2 else 3)"

definition priv_ge :: "2 word \<Rightarrow> 2 word \<Rightarrow> bool" where
  "priv_ge cur req \<longleftrightarrow> priv_rank cur \<ge> priv_rank req"

definition csr_access_allowed :: "2 word \<Rightarrow> csr_addr \<Rightarrow> bool" where
  "csr_access_allowed cur addr = priv_ge cur (field 8 addr)"

subsection \<open>The main decode\<close>

text \<open>The assignments outside the \<open>always_comb\<close> block and the default values inside it.\<close>

definition decoder_defaults :: "u32 \<Rightarrow> decoder_out" where
  "decoder_defaults instr =
     \<lparr>dec_rs1_addr = (if (field 0 instr :: 7 word) = OPCODE_LUI then 0 else field 15 instr),
      dec_rs2_addr = field 20 instr,
      dec_rd_addr = field 7 instr,
      dec_reg_write_en = False,
      dec_alu_op = ALU_ADD,
      dec_alu_src1_sel = False,
      dec_alu_src2_sel = False,
      dec_imm = 0,
      dec_is_load = False,
      dec_is_store = False,
      dec_mem_size = 0,
      dec_is_branch = False,
      dec_is_jump = False,
      dec_branch_op = 0,
      dec_wb_sel = 0b00,
      dec_is_word_op = False,
      dec_is_csr = False,
      dec_csr_op = 0,
      dec_is_ecall = False,
      dec_is_ebreak = False,
      dec_is_mret = False,
      dec_is_sret = False,
      dec_is_wfi = False,
      dec_is_sfence_vma = False,
      dec_is_fence = False,
      dec_is_fence_i = False,
      dec_illegal_instr = False\<rparr>"

text \<open>OP-IMM: the ALU operation of an I-type ALU instruction.\<close>

definition op_imm_alu :: "3 word \<Rightarrow> 7 word \<Rightarrow> alu_op_t" where
  "op_imm_alu funct3 funct7 =
     (if funct3 = 0b000 then ALU_ADD
      else if funct3 = 0b010 then ALU_SLT
      else if funct3 = 0b011 then ALU_SLTU
      else if funct3 = 0b100 then ALU_XOR
      else if funct3 = 0b110 then ALU_OR
      else if funct3 = 0b111 then ALU_AND
      else if funct3 = 0b001 then ALU_SLL
      else if funct3 = 0b101 then (if bit funct7 5 then ALU_SRA else ALU_SRL)
      else ALU_ADD)"

text \<open>OP: the ALU operation of an R-type ALU instruction.\<close>

definition op_alu :: "3 word \<Rightarrow> 7 word \<Rightarrow> alu_op_t" where
  "op_alu funct3 funct7 =
     (if funct3 = 0b000 then (if bit funct7 5 then ALU_SUB else ALU_ADD)
      else if funct3 = 0b001 then ALU_SLL
      else if funct3 = 0b010 then ALU_SLT
      else if funct3 = 0b011 then ALU_SLTU
      else if funct3 = 0b100 then ALU_XOR
      else if funct3 = 0b101 then (if bit funct7 5 then ALU_SRA else ALU_SRL)
      else if funct3 = 0b110 then ALU_OR
      else if funct3 = 0b111 then ALU_AND
      else ALU_ADD)"

text \<open>OP-IMM-32 and OP-32: \<open>None\<close> where the decoder raises \<open>illegal_instr\<close>.\<close>

definition op_imm_32_alu :: "3 word \<Rightarrow> 7 word \<Rightarrow> alu_op_t option" where
  "op_imm_32_alu funct3 funct7 =
     (if funct3 = 0b000 then Some ALU_ADD
      else if funct3 = 0b001 then Some ALU_SLL
      else if funct3 = 0b101 then Some (if bit funct7 5 then ALU_SRA else ALU_SRL)
      else None)"

definition op_32_alu :: "3 word \<Rightarrow> 7 word \<Rightarrow> alu_op_t option" where
  "op_32_alu funct3 funct7 =
     (if funct7 = 0b0000001 then None
      else if funct3 = 0b000 then Some (if bit funct7 5 then ALU_SUB else ALU_ADD)
      else if funct3 = 0b001 then Some ALU_SLL
      else if funct3 = 0b101 then Some (if bit funct7 5 then ALU_SRA else ALU_SRL)
      else None)"

definition decode_misc_mem :: "3 word \<Rightarrow> decoder_out \<Rightarrow> decoder_out" where
  "decode_misc_mem funct3 d =
     (if funct3 = 0b000 then d\<lparr>dec_is_fence := True\<rparr>
      else if funct3 = 0b001 then d\<lparr>dec_is_fence_i := True\<rparr>
      else d\<lparr>dec_illegal_instr := True\<rparr>)"

text \<open>SYSTEM with \<open>funct3 = 0\<close>: ECALL, EBREAK, xRET, WFI, SFENCE.VMA.\<close>

definition decode_priv :: "u32 \<Rightarrow> 2 word \<Rightarrow> decoder_out \<Rightarrow> decoder_out" where
  "decode_priv instr priv_mode d =
     (let funct7 = (field 25 instr :: 7 word);
          f12 = (word_cat funct7 (field 20 instr :: 5 word) :: 12 word) in
      if f12 = 0b000000000000 then d\<lparr>dec_is_ecall := True\<rparr>
      else if f12 = 0b000000000001 then d\<lparr>dec_is_ebreak := True\<rparr>
      else if f12 = 0b001100000010 then
        (if priv_mode = PRIV_M then d\<lparr>dec_is_mret := True\<rparr> else d\<lparr>dec_illegal_instr := True\<rparr>)
      else if f12 = 0b000100000010 then
        (if priv_ge priv_mode PRIV_S then d\<lparr>dec_is_sret := True\<rparr>
         else d\<lparr>dec_illegal_instr := True\<rparr>)
      else if f12 = 0b000100000101 then d\<lparr>dec_is_wfi := True\<rparr>
      else if funct7 = 0b0001001 then
        (if priv_ge priv_mode PRIV_S then d\<lparr>dec_is_sfence_vma := True\<rparr>
         else d\<lparr>dec_illegal_instr := True\<rparr>)
      else d\<lparr>dec_illegal_instr := True\<rparr>)"

text \<open>SYSTEM with \<open>funct3 \<noteq> 0\<close>: the CSR instructions.\<close>

definition decode_csr :: "u32 \<Rightarrow> 2 word \<Rightarrow> decoder_out \<Rightarrow> decoder_out" where
  "decode_csr instr priv_mode d =
     (if csr_access_allowed priv_mode (field 20 instr) then
        d\<lparr>dec_reg_write_en := True, dec_is_csr := True, dec_csr_op := field 12 instr,
          dec_imm := imm_i instr\<rparr>
      else
        d\<lparr>dec_csr_op := field 12 instr, dec_imm := imm_i instr, dec_illegal_instr := True\<rparr>)"

definition decoder :: "u32 \<Rightarrow> 2 word \<Rightarrow> decoder_out" where
  "decoder instr priv_mode =
     (let opcode = (field 0 instr :: 7 word);
          funct3 = (field 12 instr :: 3 word);
          funct7 = (field 25 instr :: 7 word);
          d = decoder_defaults instr in
      if opcode = OPCODE_LUI then
        d\<lparr>dec_reg_write_en := True, dec_alu_src2_sel := True, dec_imm := imm_u instr\<rparr>
      else if opcode = OPCODE_AUIPC then
        d\<lparr>dec_reg_write_en := True, dec_alu_src1_sel := True, dec_alu_src2_sel := True,
          dec_imm := imm_u instr\<rparr>
      else if opcode = OPCODE_JAL then
        d\<lparr>dec_reg_write_en := True, dec_is_jump := True, dec_alu_src1_sel := True,
          dec_alu_src2_sel := True, dec_imm := imm_j instr, dec_wb_sel := 0b10\<rparr>
      else if opcode = OPCODE_JALR then
        d\<lparr>dec_reg_write_en := True, dec_is_jump := True, dec_alu_src2_sel := True,
          dec_imm := imm_i instr, dec_wb_sel := 0b10\<rparr>
      else if opcode = OPCODE_BRANCH then
        d\<lparr>dec_is_branch := True, dec_alu_src1_sel := True, dec_alu_src2_sel := True,
          dec_imm := imm_b instr, dec_branch_op := funct3\<rparr>
      else if opcode = OPCODE_LOAD then
        d\<lparr>dec_reg_write_en := True, dec_is_load := True, dec_alu_src2_sel := True,
          dec_imm := imm_i instr, dec_mem_size := funct3, dec_wb_sel := 0b01\<rparr>
      else if opcode = OPCODE_STORE then
        d\<lparr>dec_is_store := True, dec_alu_src2_sel := True, dec_imm := imm_s instr,
          dec_mem_size := funct3\<rparr>
      else if opcode = OPCODE_OP_IMM then
        d\<lparr>dec_reg_write_en := True, dec_alu_src2_sel := True, dec_imm := imm_i instr,
          dec_alu_op := op_imm_alu funct3 funct7\<rparr>
      else if opcode = OPCODE_OP_IMM_32 then
        (let d' = d\<lparr>dec_reg_write_en := True, dec_is_word_op := True, dec_alu_src2_sel := True,
                    dec_imm := imm_i instr\<rparr> in
         case op_imm_32_alu funct3 funct7 of
           Some alu_op \<Rightarrow> d'\<lparr>dec_alu_op := alu_op\<rparr>
         | None \<Rightarrow> d'\<lparr>dec_illegal_instr := True\<rparr>)
      else if opcode = OPCODE_OP then
        (let d' = d\<lparr>dec_reg_write_en := True\<rparr> in
         if funct7 = 0b0000001 then d'\<lparr>dec_illegal_instr := True\<rparr>
         else d'\<lparr>dec_alu_op := op_alu funct3 funct7\<rparr>)
      else if opcode = OPCODE_OP_32 then
        (let d' = d\<lparr>dec_reg_write_en := True, dec_is_word_op := True\<rparr> in
         case op_32_alu funct3 funct7 of
           Some alu_op \<Rightarrow> d'\<lparr>dec_alu_op := alu_op\<rparr>
         | None \<Rightarrow> d'\<lparr>dec_illegal_instr := True\<rparr>)
      else if opcode = OPCODE_MISC_MEM then decode_misc_mem funct3 d
      else if opcode = OPCODE_SYSTEM then
        (if funct3 = 0b000 then decode_priv instr priv_mode d else decode_csr instr priv_mode d)
      else d\<lparr>dec_illegal_instr := True\<rparr>)"

section \<open>Lemmas\<close>

lemmas imm_defs = imm_i_def imm_s_def imm_b_def imm_u_def imm_j_def

lemmas decoder_parts = decoder_defaults_def op_imm_alu_def op_alu_def op_imm_32_alu_def
  op_32_alu_def decode_misc_mem_def decode_priv_def decode_csr_def csr_access_allowed_def
  priv_ge_def priv_rank_def

lemmas decoder_eval [rtl_eval] = decoder_def decoder_parts imm_defs

text \<open>The sub-decoders leave the register indices alone.\<close>

lemma decode_frame [simp]:
  "dec_rd_addr (decode_misc_mem f d) = dec_rd_addr d"
  "dec_rs2_addr (decode_misc_mem f d) = dec_rs2_addr d"
  "dec_rs1_addr (decode_misc_mem f d) = dec_rs1_addr d"
  "dec_rd_addr (decode_priv i p d) = dec_rd_addr d"
  "dec_rs2_addr (decode_priv i p d) = dec_rs2_addr d"
  "dec_rs1_addr (decode_priv i p d) = dec_rs1_addr d"
  "dec_rd_addr (decode_csr i p d) = dec_rd_addr d"
  "dec_rs2_addr (decode_csr i p d) = dec_rs2_addr d"
  "dec_rs1_addr (decode_csr i p d) = dec_rs1_addr d"
  by (simp_all add: decode_misc_mem_def decode_priv_def decode_csr_def Let_def)

text \<open>
  The register indices are plain fields of the instruction; only LUI forces \<open>rs1\<close> to 0.
\<close>

lemma decoder_addrs:
  "dec_rd_addr (decoder instr p) = field 7 instr"
  "dec_rs2_addr (decoder instr p) = field 20 instr"
  "dec_rs1_addr (decoder instr p) =
     (if (field 0 instr :: 7 word) = OPCODE_LUI then 0 else field 15 instr)"
  unfolding decoder_def Let_def
  by (simp_all only: if_distrib [of dec_rd_addr] if_distrib [of dec_rs2_addr]
        if_distrib [of dec_rs1_addr] option.case_distrib [of dec_rd_addr]
        option.case_distrib [of dec_rs2_addr] option.case_distrib [of dec_rs1_addr]
        decode_frame decoder_out.simps decoder_out.select_convs decoder_out.update_convs
        decoder_defaults_def if_cancel option.case_eq_if)

text \<open>The decoder on each opcode.\<close>

lemma decoder_opcodes:
  fixes instr :: u32
  defines "opcode \<equiv> field 0 instr :: 7 word"
    and "funct3 \<equiv> field 12 instr :: 3 word"
    and "funct7 \<equiv> field 25 instr :: 7 word"
    and "d \<equiv> decoder_defaults instr"
  shows decoder_LUI: "opcode = OPCODE_LUI \<Longrightarrow> decoder instr p =
          d\<lparr>dec_reg_write_en := True, dec_alu_src2_sel := True, dec_imm := imm_u instr\<rparr>"
    and decoder_AUIPC: "opcode = OPCODE_AUIPC \<Longrightarrow> decoder instr p =
          d\<lparr>dec_reg_write_en := True, dec_alu_src1_sel := True, dec_alu_src2_sel := True,
            dec_imm := imm_u instr\<rparr>"
    and decoder_JAL: "opcode = OPCODE_JAL \<Longrightarrow> decoder instr p =
          d\<lparr>dec_reg_write_en := True, dec_is_jump := True, dec_alu_src1_sel := True,
            dec_alu_src2_sel := True, dec_imm := imm_j instr, dec_wb_sel := 0b10\<rparr>"
    and decoder_JALR: "opcode = OPCODE_JALR \<Longrightarrow> decoder instr p =
          d\<lparr>dec_reg_write_en := True, dec_is_jump := True, dec_alu_src2_sel := True,
            dec_imm := imm_i instr, dec_wb_sel := 0b10\<rparr>"
    and decoder_BRANCH: "opcode = OPCODE_BRANCH \<Longrightarrow> decoder instr p =
          d\<lparr>dec_is_branch := True, dec_alu_src1_sel := True, dec_alu_src2_sel := True,
            dec_imm := imm_b instr, dec_branch_op := funct3\<rparr>"
    and decoder_LOAD: "opcode = OPCODE_LOAD \<Longrightarrow> decoder instr p =
          d\<lparr>dec_reg_write_en := True, dec_is_load := True, dec_alu_src2_sel := True,
            dec_imm := imm_i instr, dec_mem_size := funct3, dec_wb_sel := 0b01\<rparr>"
    and decoder_STORE: "opcode = OPCODE_STORE \<Longrightarrow> decoder instr p =
          d\<lparr>dec_is_store := True, dec_alu_src2_sel := True, dec_imm := imm_s instr,
            dec_mem_size := funct3\<rparr>"
    and decoder_OP_IMM: "opcode = OPCODE_OP_IMM \<Longrightarrow> decoder instr p =
          d\<lparr>dec_reg_write_en := True, dec_alu_src2_sel := True, dec_imm := imm_i instr,
            dec_alu_op := op_imm_alu funct3 funct7\<rparr>"
    and decoder_OP: "opcode = OPCODE_OP \<Longrightarrow> funct7 \<noteq> 1 \<Longrightarrow> decoder instr p =
          d\<lparr>dec_reg_write_en := True, dec_alu_op := op_alu funct3 funct7\<rparr>"
    and decoder_OP_IMM_32: "opcode = OPCODE_OP_IMM_32 \<Longrightarrow> decoder instr p =
          (let d' = d\<lparr>dec_reg_write_en := True, dec_is_word_op := True, dec_alu_src2_sel := True,
                      dec_imm := imm_i instr\<rparr> in
           case op_imm_32_alu funct3 funct7 of
             Some alu_op \<Rightarrow> d'\<lparr>dec_alu_op := alu_op\<rparr>
           | None \<Rightarrow> d'\<lparr>dec_illegal_instr := True\<rparr>)"
    and decoder_OP_32: "opcode = OPCODE_OP_32 \<Longrightarrow> decoder instr p =
          (let d' = d\<lparr>dec_reg_write_en := True, dec_is_word_op := True\<rparr> in
           case op_32_alu funct3 funct7 of
             Some alu_op \<Rightarrow> d'\<lparr>dec_alu_op := alu_op\<rparr>
           | None \<Rightarrow> d'\<lparr>dec_illegal_instr := True\<rparr>)"
    and decoder_MISC_MEM: "opcode = OPCODE_MISC_MEM \<Longrightarrow> decoder instr p =
          decode_misc_mem funct3 d"
    and decoder_zero: "opcode = 0 \<Longrightarrow> decoder instr p = d\<lparr>dec_illegal_instr := True\<rparr>"
    and decoder_SYSTEM: "opcode = OPCODE_SYSTEM \<Longrightarrow> decoder instr p =
          (if funct3 = 0 then decode_priv instr p d else decode_csr instr p d)"
  unfolding opcode_def funct3_def funct7_def d_def by (simp_all add: decoder_def Let_def)

text \<open>The write-back select follows from the class of the instruction.\<close>

lemma decode_system_class [simp]:
  "dec_wb_sel (decode_misc_mem f d) = dec_wb_sel d" "dec_wb_sel (decode_priv i p d) = dec_wb_sel d"
  "dec_wb_sel (decode_csr i p d) = dec_wb_sel d"
  "dec_is_load (decode_misc_mem f d) = dec_is_load d"
  "dec_is_load (decode_priv i p d) = dec_is_load d" "dec_is_load (decode_csr i p d) = dec_is_load d"
  "dec_is_jump (decode_misc_mem f d) = dec_is_jump d"
  "dec_is_jump (decode_priv i p d) = dec_is_jump d" "dec_is_jump (decode_csr i p d) = dec_is_jump d"
  "dec_is_store (decode_misc_mem f d) = dec_is_store d"
  "dec_is_store (decode_priv i p d) = dec_is_store d"
  "dec_is_store (decode_csr i p d) = dec_is_store d"
  by (simp_all add: decode_misc_mem_def decode_priv_def decode_csr_def Let_def)

lemma decoder_class:
  fixes instr :: u32
  defines "opcode \<equiv> field 0 instr :: 7 word"
  shows "dec_is_load (decoder instr p) \<longleftrightarrow> opcode = OPCODE_LOAD"
    and "dec_is_store (decoder instr p) \<longleftrightarrow> opcode = OPCODE_STORE"
    and "dec_is_jump (decoder instr p) \<longleftrightarrow> opcode = OPCODE_JAL \<or> opcode = OPCODE_JALR"
    and "dec_wb_sel (decoder instr p) =
           (if opcode = OPCODE_LOAD then 0b01
            else if opcode = OPCODE_JAL \<or> opcode = OPCODE_JALR then 0b10 else 0b00)"
  unfolding opcode_def decoder_def Let_def
  by (simp_all only: if_distrib [of dec_is_load] if_distrib [of dec_is_store]
        if_distrib [of dec_is_jump] if_distrib [of dec_wb_sel] option.case_distrib [of dec_is_load]
        option.case_distrib [of dec_is_store] option.case_distrib [of dec_is_jump]
        option.case_distrib [of dec_wb_sel] decode_system_class decoder_out.simps
        decoder_out.select_convs decoder_out.update_convs decoder_defaults_def if_cancel
        option.case_eq_if) auto

lemma decode_system_branch:
  "dec_is_branch (decode_misc_mem f d) = dec_is_branch d"
  "dec_is_branch (decode_priv i p d) = dec_is_branch d"
  "dec_is_branch (decode_csr i p d) = dec_is_branch d"
  "dec_is_csr (decode_misc_mem f d) = dec_is_csr d"
  by (simp_all add: decode_misc_mem_def decode_priv_def decode_csr_def Let_def)

lemma decoder_branch_csr:
  fixes instr :: u32
  defines "opcode \<equiv> field 0 instr :: 7 word"
  shows "dec_is_branch (decoder instr p) \<longleftrightarrow> opcode = OPCODE_BRANCH"
    and "dec_is_csr (decoder instr p) \<Longrightarrow> opcode = OPCODE_SYSTEM"
  unfolding opcode_def decoder_def Let_def
  by (simp_all only: if_distrib [of dec_is_branch] if_distrib [of dec_is_csr]
        option.case_distrib [of dec_is_branch] option.case_distrib [of dec_is_csr]
        decode_system_branch decoder_out.simps decoder_out.select_convs decoder_out.update_convs
        decoder_defaults_def if_cancel option.case_eq_if if_bool_eq_conj) auto

lemma decoder_wb_sel:
  "dec_wb_sel (decoder instr p) =
     (if dec_is_load (decoder instr p) then 0b01
      else if dec_is_jump (decoder instr p) then 0b10 else 0b00)"
  by (simp only: decoder_class)

lemma decoder_load_not_store: "dec_is_load (decoder instr p) \<Longrightarrow> \<not> dec_is_store (decoder instr p)"
  by (simp add: decoder_class)

text \<open>The low bit of a branch or jump offset is zero.\<close>

lemma imm_b_even: "\<not> bit (imm_b instr) 0"
  by (simp add: imm_b_def bit_simps)

lemma imm_j_even: "\<not> bit (imm_j instr) 0"
  by (simp add: imm_j_def bit_simps)

text \<open>The order of the modes is that of their encodings.\<close>

lemma priv_ge_unat: "priv_ge cur req \<longleftrightarrow> unat req \<le> unat cur"
proof -
  have "priv_rank m = int (unat m)" for m
  proof -
    have "unat m < 4" using unsigned_less [of m, where ?'a = nat] by simp
    then have "unat m \<in> {0, 1, 2, 3}" by auto
    then show ?thesis by (auto simp: priv_rank_def word_unat_eq_iff simp del: of_nat_unat)
  qed
  then show ?thesis unfolding priv_ge_def by (simp only: of_nat_le_iff)
qed

lemma field_field:
  "(field k (field n w :: 'b::len word) :: 'c::len word) = field (n + k) w"
  if "k + LENGTH('c) \<le> LENGTH('b)" for w :: "'a::len word"
  using that by (intro bit_word_eqI) (auto simp: bit_simps ac_simps)

lemma priv_ge_refl [simp]: "priv_ge p p"
  by (simp add: priv_ge_def)

lemma priv_ge_trans: "priv_ge a b \<Longrightarrow> priv_ge b c \<Longrightarrow> priv_ge a c"
  by (simp add: priv_ge_def)

lemma priv_ge_M [simp]: "priv_ge PRIV_M p"
  by (simp add: priv_ge_def priv_rank_def)

section \<open>Properties\<close>

text \<open>
  C19: the decode of the SYSTEM instructions, with its privilege checks, exactly.  With \<open>funct3\<close>
  not 0 it is a CSR instruction if the mode reaches the level in bits 9 and 8 of the CSR address,
  and only then it writes a register; with \<open>funct3 = 0\<close> the upper twelve bits select \<open>ecall\<close>,
  \<open>ebreak\<close>, \<open>wfi\<close>, \<open>mret\<close> (in M mode only), \<open>sret\<close> and \<open>sfence.vma\<close> (from S mode up only).
  Whatever is none of these, the refused ones included, is flagged illegal, and nothing else is.
\<close>

theorem decoder_privilege:
  assumes "(field 0 instr :: 7 word) = OPCODE_SYSTEM"
    and "d = decoder instr p"
    and "f3 = (field 12 instr :: 3 word)" "f12 = (field 20 instr :: 12 word)"
  shows "dec_is_csr d = (f3 \<noteq> 0 \<and> unat (field 8 f12 :: 2 word) \<le> unat p) \<and>
    dec_is_ecall d = (f3 = 0 \<and> f12 = 0) \<and>
    dec_is_ebreak d = (f3 = 0 \<and> f12 = 1) \<and>
    dec_is_wfi d = (f3 = 0 \<and> f12 = 0x105) \<and>
    dec_is_mret d = (f3 = 0 \<and> f12 = 0x302 \<and> unat p = 3) \<and>
    dec_is_sret d = (f3 = 0 \<and> f12 = 0x102 \<and> 1 \<le> unat p) \<and>
    dec_is_sfence_vma d = (f3 = 0 \<and> (field 5 f12 :: 7 word) = 0x09 \<and> 1 \<le> unat p) \<and>
    dec_reg_write_en d = dec_is_csr d \<and>
    dec_illegal_instr d =
      (\<not> dec_is_csr d \<and> \<not> dec_is_ecall d \<and> \<not> dec_is_ebreak d \<and> \<not> dec_is_wfi d \<and>
       \<not> dec_is_mret d \<and> \<not> dec_is_sret d \<and> \<not> dec_is_sfence_vma d)"
proof (cases "f3 = 0")
  case True
  have f12: "word_cat (field 25 instr :: 7 word) (field 20 instr :: 5 word) = f12"
    "(field 25 instr :: 7 word) = field 5 f12"
    by (rule bit_word_eqI, auto simp: assms(4) bit_simps ac_simps) (simp add: assms(4) field_field)
  have distinct: "(field 5 (0 :: 12 word) :: 7 word) \<noteq> 9" "(field 5 (1 :: 12 word) :: 7 word) \<noteq> 9"
    "(field 5 (0x105 :: 12 word) :: 7 word) \<noteq> 9" "(field 5 (0x302 :: 12 word) :: 7 word) \<noteq> 9"
    "(field 5 (0x102 :: 12 word) :: 7 word) \<noteq> 9"
    by (simp_all add: field_def)
  have p3: "p = 3 \<longleftrightarrow> unat p = 3" by (simp add: word_unat_eq_iff)
  have "d = decode_priv instr p (decoder_defaults instr)"
    using True assms(1) by (simp add: assms(2,3) decoder_SYSTEM)
  then show ?thesis
    unfolding decode_priv_def Let_def f12(1)
    using True distinct by (auto simp: f12(2) decoder_defaults_def priv_ge_unat p3)
next
  case False
  have "(field 8 (field 20 instr :: 12 word) :: 2 word) = field 8 f12" by (simp add: assms(4))
  then show ?thesis
    using False assms(1)
    by (simp add: assms(2,3) decoder_SYSTEM decode_csr_def decoder_defaults_def
        csr_access_allowed_def priv_ge_unat)
qed

theorem decoder_privilege_witness:
  "dec_illegal_instr (decoder 0x30200073 PRIV_S) \<and> dec_is_sret (decoder 0x10200073 PRIV_S)"
  using decoder_privilege [OF _ refl refl refl, of "0x30200073" PRIV_S]
    decoder_privilege [OF _ refl refl refl, of "0x10200073" PRIV_S]
  by (simp add: field_def)

text \<open>
  C20: an instruction is at most one of load, store, branch, jump and CSR access, and the register
  indices are the fields of the instruction word (LUI reads register 0).
\<close>

theorem decoder_exclusive:
  "length (filter (\<lambda>is_class. is_class (decoder instr p))
     [dec_is_load, dec_is_store, dec_is_branch, dec_is_jump, dec_is_csr]) \<le> 1 \<and>
   dec_rd_addr (decoder instr p) = field 7 instr \<and>
   dec_rs2_addr (decoder instr p) = field 20 instr \<and>
   dec_rs1_addr (decoder instr p) =
     (if (field 0 instr :: 7 word) = OPCODE_LUI then 0 else field 15 instr)"
  using decoder_branch_csr [of instr p]
  by (auto simp: decoder_class decoder_addrs)

end
