(* ===== verification/Alu_Branch.thy ===== *)
theory Alu_Branch
  imports Rv64_Pkg
begin

text \<open>
  The two combinational execution units, \<^verbatim>\<open>src/rtl/core/alu.sv\<close> and
  \<^verbatim>\<open>src/rtl/core/branch_unit.sv\<close>, and the unit benches that drive them,
  \<^verbatim>\<open>src/tb/unit/tb_alu.cc\<close> and \<^verbatim>\<open>src/tb/unit/tb_branch.cc\<close>. A bench is a
  function of the device under test; the RTL units are the devices the properties put there.
\<close>

section \<open>Definitions\<close>

definition alu :: "alu_op_t \<Rightarrow> u64 \<Rightarrow> u64 \<Rightarrow> u64" where
  "alu alu_op operand_a operand_b =
     (let shamt = (field 0 operand_b :: 6 word) in
      if alu_op = ALU_ADD then operand_a + operand_b
      else if alu_op = ALU_SUB then operand_a - operand_b
      else if alu_op = ALU_SLL then push_bit (unat shamt) operand_a
      else if alu_op = ALU_SLT then of_bit (operand_a <s operand_b)
      else if alu_op = ALU_SLTU then of_bit (operand_a < operand_b)
      else if alu_op = ALU_XOR then operand_a XOR operand_b
      else if alu_op = ALU_SRL then drop_bit (unat shamt) operand_a
      else if alu_op = ALU_SRA then signed_drop_bit (unat shamt) operand_a
      else if alu_op = ALU_OR then operand_a OR operand_b
      else if alu_op = ALU_AND then operand_a AND operand_b
      else 0)"

definition branch_unit :: "bool \<Rightarrow> branch_op_t \<Rightarrow> u64 \<Rightarrow> u64 \<Rightarrow> bool" where
  "branch_unit is_branch branch_op operand_a operand_b =
     (if is_branch then
        if branch_op = BRANCH_EQ then operand_a = operand_b
        else if branch_op = BRANCH_NE then operand_a \<noteq> operand_b
        else if branch_op = BRANCH_LT then operand_a <s operand_b
        else if branch_op = BRANCH_GE then \<not> operand_a <s operand_b
        else if branch_op = BRANCH_LTU then operand_a < operand_b
        else if branch_op = BRANCH_GEU then operand_a \<ge> operand_b
        else False
      else False)"

subsection \<open>The benches\<close>

text \<open>\<open>test_alu\<close> drives one vector and compares; a mismatch ends in \<open>assert(false)\<close>.\<close>

definition test_alu ::
  "(alu_op_t \<Rightarrow> u64 \<Rightarrow> u64 \<Rightarrow> u64) \<Rightarrow> alu_op_t \<times> u64 \<times> u64 \<times> u64 \<Rightarrow> bool" where
  "test_alu dut v = (case v of (op, rs1, rs2, expected) \<Rightarrow> dut op rs1 rs2 = expected)"

definition tb_alu_vectors :: "(alu_op_t \<times> u64 \<times> u64 \<times> u64) list" where
  "tb_alu_vectors =
    [(ALU_ADD, 100, 50, 150),
     (ALU_SUB, 100, 50, 50),
     (ALU_ADD, -5, 10, 5),
     (ALU_AND, 0xFF00, 0x0F0F, 0x0F00),
     (ALU_XOR, 0xAAAA, 0xFFFF, 0x5555),
     (ALU_SLL, 1, 10, 1024),
     (ALU_SLTU, -1, 5, 0),
     (ALU_SLT, -1, 5, 1),
     (ALU_OR, 0xAAAA, 0x5555, 0xFFFF),
     (ALU_SRL, 0xF000000000000000, 4, 0x0F00000000000000),
     (ALU_SRA, 0xF000000000000000, 4, 0xFF00000000000000),
     (ALU_SRA, 0x7000000000000000, 4, 0x0700000000000000),
     (ALU_SLL, 1, 0, 1),
     (ALU_SLL, 1, 63, 0x8000000000000000),
     (ALU_SRL, 0x8000000000000000, 63, 1),
     (ALU_SRA, 0x8000000000000000, 63, 0xFFFFFFFFFFFFFFFF),
     (ALU_ADD, 0, 0, 0),
     (ALU_ADD, 0xFFFFFFFFFFFFFFFF, 1, 0),
     (ALU_XOR, 0xFFFFFFFFFFFFFFFF, 0xFFFFFFFFFFFFFFFF, 0),
     (ALU_SLT, 100, 100, 0),
     (ALU_SLTU, 100, 100, 0),
     (ALU_SLT, 0x8000000000000000, 0x7FFFFFFFFFFFFFFF, 1),
     (ALU_SLT, 0x7FFFFFFFFFFFFFFF, 0x8000000000000000, 0)]"

definition tb_alu_main :: "(alu_op_t \<Rightarrow> u64 \<Rightarrow> u64 \<Rightarrow> u64) \<Rightarrow> tb_exit" where
  "tb_alu_main dut =
     (if list_all (test_alu dut) tb_alu_vectors then Exit 0 else AssertAbort)"

definition test_branch ::
  "(bool \<Rightarrow> branch_op_t \<Rightarrow> u64 \<Rightarrow> u64 \<Rightarrow> bool) \<Rightarrow>
   bool \<times> branch_op_t \<times> u64 \<times> u64 \<times> bool \<Rightarrow> bool" where
  "test_branch dut v =
     (case v of (is_branch, op, a, b, expected) \<Rightarrow> dut is_branch op a b = expected)"

definition tb_branch_vectors :: "(bool \<times> branch_op_t \<times> u64 \<times> u64 \<times> bool) list" where
  "tb_branch_vectors =
    [(False, BRANCH_EQ, 10, 10, False),
     (True, BRANCH_EQ, 10, 10, True),
     (True, BRANCH_EQ, 10, 20, False),
     (True, BRANCH_NE, 10, 20, True),
     (True, BRANCH_NE, 10, 10, False),
     (True, BRANCH_LT, -1, 1, True),
     (True, BRANCH_GE, -1, 1, False),
     (True, BRANCH_LT, 1, -1, False),
     (True, BRANCH_GE, 1, -1, True),
     (True, BRANCH_LT, -1, -1, False),
     (True, BRANCH_GE, -1, -1, True),
     (True, BRANCH_LTU, -1, 1, False),
     (True, BRANCH_GEU, -1, 1, True),
     (True, BRANCH_LTU, -1, -1, False),
     (True, BRANCH_GEU, -1, -1, True)]"

definition tb_branch_main ::
  "(bool \<Rightarrow> branch_op_t \<Rightarrow> u64 \<Rightarrow> u64 \<Rightarrow> bool) \<Rightarrow> tb_exit" where
  "tb_branch_main dut =
     (if list_all (test_branch dut) tb_branch_vectors then Exit 0 else AssertAbort)"

section \<open>Lemmas\<close>

declare alu_def [rtl_eval] branch_unit_def [rtl_eval]

lemma alu_ops [simp]:
  "alu ALU_ADD a b = a + b"
  "alu ALU_SUB a b = a - b"
  "alu ALU_SLL a b = push_bit (unat (field 0 b :: 6 word)) a"
  "alu ALU_SLT a b = of_bit (a <s b)"
  "alu ALU_SLTU a b = of_bit (a < b)"
  "alu ALU_XOR a b = a XOR b"
  "alu ALU_SRL a b = drop_bit (unat (field 0 b :: 6 word)) a"
  "alu ALU_SRA a b = signed_drop_bit (unat (field 0 b :: 6 word)) a"
  "alu ALU_OR a b = a OR b"
  "alu ALU_AND a b = a AND b"
  by (simp_all add: alu_def)

text \<open>The result of a comparison is 0 or 1.\<close>

lemma alu_compare_bool:
  "alu_op = ALU_SLT \<or> alu_op = ALU_SLTU \<Longrightarrow> alu alu_op a b \<in> {0, 1}"
  by (auto simp: of_bit_def)

lemma branch_unit_not_branch [simp]: "\<not> branch_unit False op a b"
  by (simp add: branch_unit_def)

text \<open>
  \<open>funct3\<close> of a branch negates its condition with its lowest bit: BNE, BGE and BGEU are the
  complements of BEQ, BLT and BLTU.
\<close>

lemma branch_unit_complement:
  assumes "op \<in> {BRANCH_EQ, BRANCH_LT, BRANCH_LTU}"
  shows "branch_unit True (op OR 1) a b \<longleftrightarrow> \<not> branch_unit True op a b"
  using assms by (auto simp: branch_unit_def)

section \<open>Properties\<close>

text \<open>the ALU passes every vector of its bench, whose \<open>main\<close> then exits with status 0.\<close>

theorem tb_alu_passes: "tb_alu_main alu = Exit 0"
  by (simp add: tb_alu_main_def tb_alu_vectors_def test_alu_def rtl_eval word_sless_alt)

text \<open>the branch unit passes every vector of its bench.\<close>

theorem tb_branch_passes: "tb_branch_main branch_unit = Exit 0"
  by (simp add: tb_branch_main_def tb_branch_vectors_def test_branch_def rtl_eval word_sless_alt)

text \<open>
  the branch unit computes the six comparisons of the ISA, signed for BLT and BGE and unsigned
  for BLTU and BGEU, and takes no branch on the two unused codes.
\<close>

theorem branch_unit_refines_isa:
  "branch_unit True op a b \<longleftrightarrow>
     (op = BRANCH_EQ \<and> uint a = uint b) \<or> (op = BRANCH_NE \<and> uint a \<noteq> uint b) \<or>
     (op = BRANCH_LT \<and> sint a < sint b) \<or> (op = BRANCH_GE \<and> sint a \<ge> sint b) \<or>
     (op = BRANCH_LTU \<and> uint a < uint b) \<or> (op = BRANCH_GEU \<and> uint a \<ge> uint b)"
  by (auto simp: branch_unit_def word_sless_alt word_sle_eq word_less_def word_le_def
      word_uint_eq_iff)

end
