(* ===== verification/Ex_Stage.thy ===== *)
theory Ex_Stage
  imports Alu_Branch
begin

text \<open>
  The execute stage, \<^verbatim>\<open>src/rtl/core/ex_stage.sv\<close>: operand multiplexers, the
  pre-conditioning and truncation of the 32-bit word operations, the ALU, the branch unit and
  the branch target; and the reference semantics of the RV64I ALU instructions that it
  implements.
\<close>

section \<open>Definitions\<close>

record ex_in =
  exi_pc :: u64
  exi_rs1_rdata :: u64
  exi_rs2_rdata :: u64
  exi_imm :: u64
  exi_alu_op :: alu_op_t
  exi_alu_src1_sel :: bool
  exi_alu_src2_sel :: bool
  exi_is_branch :: bool
  exi_branch_op :: branch_op_t
  exi_is_jump :: bool
  exi_is_word_op :: bool

record ex_out =
  exo_alu_result :: u64
  exo_branch_taken :: bool
  exo_branch_target :: u64

definition alu_mux_a :: "ex_in \<Rightarrow> u64" where
  "alu_mux_a i = (if exi_alu_src1_sel i then exi_pc i else exi_rs1_rdata i)"

definition alu_mux_b :: "ex_in \<Rightarrow> u64" where
  "alu_mux_b i = (if exi_alu_src2_sel i then exi_imm i else exi_rs2_rdata i)"

definition alu_operand_a :: "bool \<Rightarrow> alu_op_t \<Rightarrow> u64 \<Rightarrow> u64" where
  "alu_operand_a is_word_op alu_op a =
     (if is_word_op then
        if alu_op = ALU_SRA then scast (field 0 a :: u32)
        else if alu_op = ALU_SRL then ucast (field 0 a :: u32)
        else a
      else a)"

definition alu_operand_b :: "bool \<Rightarrow> alu_op_t \<Rightarrow> u64 \<Rightarrow> u64" where
  "alu_operand_b is_word_op alu_op b =
     (if is_word_op then
        if alu_op = ALU_SLL \<or> alu_op = ALU_SRL \<or> alu_op = ALU_SRA then ucast (field 0 b :: 5 word)
        else b
      else b)"

definition ex_alu_raw :: "ex_in \<Rightarrow> u64" where
  "ex_alu_raw i =
     alu (exi_alu_op i)
       (alu_operand_a (exi_is_word_op i) (exi_alu_op i) (alu_mux_a i))
       (alu_operand_b (exi_is_word_op i) (exi_alu_op i) (alu_mux_b i))"

definition ex_stage :: "ex_in \<Rightarrow> ex_out" where
  "ex_stage i =
     \<lparr>exo_alu_result =
        (if exi_is_word_op i then scast (field 0 (ex_alu_raw i) :: u32) else ex_alu_raw i),
      exo_branch_taken =
        (exi_is_jump i \<or>
         (exi_is_branch i \<and>
          branch_unit (exi_is_branch i) (exi_branch_op i) (exi_rs1_rdata i) (exi_rs2_rdata i))),
      exo_branch_target = ex_alu_raw i AND NOT 1\<rparr>"

subsection \<open>Reference semantics of the ALU instructions\<close>

text \<open>
  A 64-bit operation works on the operands; a word operation works on their low 32 bits, shifts
  by the low five bits of the second one, and sign-extends its 32-bit result.
\<close>

definition isa_alu64 :: "alu_op_t \<Rightarrow> u64 \<Rightarrow> u64 \<Rightarrow> u64" where
  "isa_alu64 op a b =
     (if op = ALU_ADD then a + b
      else if op = ALU_SUB then a - b
      else if op = ALU_SLL then word_of_int (uint a * 2 ^ (unat b mod 64))
      else if op = ALU_SLT then (if sint a < sint b then 1 else 0)
      else if op = ALU_SLTU then (if uint a < uint b then 1 else 0)
      else if op = ALU_XOR then a XOR b
      else if op = ALU_SRL then word_of_int (uint a div 2 ^ (unat b mod 64))
      else if op = ALU_SRA then word_of_int (sint a div 2 ^ (unat b mod 64))
      else if op = ALU_OR then a OR b
      else if op = ALU_AND then a AND b
      else 0)"

definition isa_alu32 :: "alu_op_t \<Rightarrow> u64 \<Rightarrow> u64 \<Rightarrow> u64" where
  "isa_alu32 op a b =
     (let x = (ucast a :: u32); y = (ucast b :: u32); s = unat b mod 32 in
      scast (if op = ALU_ADD then x + y
             else if op = ALU_SUB then x - y
             else if op = ALU_SLL then push_bit s x
             else if op = ALU_SRL then drop_bit s x
             else signed_drop_bit s x :: u32))"

definition word_alu_ops :: "alu_op_t set" where
  "word_alu_ops = {ALU_ADD, ALU_SUB, ALU_SLL, ALU_SRL, ALU_SRA}"

section \<open>Lemmas\<close>

lemmas ex_stage_defs = ex_stage_def ex_alu_raw_def alu_mux_a_def alu_mux_b_def
  alu_operand_a_def alu_operand_b_def

declare ex_stage_defs [rtl_eval]

lemma unat_field_low:
  fixes b :: u64
  shows "unat (field 0 b :: 6 word) = unat b mod 64"
    and "unat (field 0 b :: 5 word) = unat b mod 32"
  by (simp_all add: field_def unsigned_ucast_eq take_bit_eq_mod)

lemma alu_refines_isa64: "alu op a b = isa_alu64 op a b"
proof -
  have sll: "push_bit n a = word_of_int (uint a * 2 ^ n)" for n
    by (simp add: push_bit_eq_mult)
  have srl: "drop_bit n a = word_of_int (uint a div 2 ^ n)" for n
    by transfer (simp flip: drop_bit_eq_div)
  have sra: "signed_drop_bit n a = word_of_int (sint a div 2 ^ n)" for n
    by transfer (simp flip: drop_bit_eq_div)
  show ?thesis
    by (simp add: alu_def isa_alu64_def unat_field_low sll srl sra of_bit_def word_sless_alt
        word_less_def)
qed

lemma field0_ucast: "(field 0 (a :: u64) :: u32) = ucast a"
  by (simp add: field_def)

lemma ucast_arith32:
  fixes a b :: u64
  shows "(ucast (a + b) :: u32) = ucast a + ucast b"
    and "(ucast (a - b) :: u32) = ucast a - ucast b"
  by (simp_all add: ucast_down_add ucast_down_diff)

lemma word_shift_sll: "s < 32 \<Longrightarrow> (ucast (push_bit s (a :: u64)) :: u32) = push_bit s (ucast a)"
  by (rule bit_word_eqI) (auto simp: bit_simps)

lemma word_shift_srl:
  "(ucast (drop_bit s (ucast (ucast (a :: u64) :: u32) :: u64)) :: u32) = drop_bit s (ucast a)"
  by (rule bit_word_eqI) (auto simp: bit_simps dest: bit_imp_le_length)

lemma word_shift_sra:
  "s < 32 \<Longrightarrow>
   (ucast (signed_drop_bit s (scast (ucast (a :: u64) :: u32) :: u64)) :: u32) =
     signed_drop_bit s (ucast a)"
  by (rule bit_word_eqI) (auto simp: bit_simps dest: bit_imp_le_length)

lemma unat_ucast_field5: "unat (field 0 (ucast (field 0 (b :: u64) :: 5 word) :: u64) :: 6 word) =
   unat b mod 32"
  by (simp add: unat_field_low unat_ucast_up)

lemma ex_word_op_refines_isa32:
  assumes "exi_is_word_op i" and "exi_alu_op i \<in> word_alu_ops"
  shows "exo_alu_result (ex_stage i) = isa_alu32 (exi_alu_op i) (alu_mux_a i) (alu_mux_b i)"
  using assms
  by (auto simp: word_alu_ops_def ex_stage_def ex_alu_raw_def alu_operand_a_def alu_operand_b_def
      isa_alu32_def field0_ucast ucast_arith32 unat_ucast_field5 word_shift_sll word_shift_srl
      word_shift_sra Let_def)

lemma ex_64_op_refines_isa64:
  assumes "\<not> exi_is_word_op i"
  shows "exo_alu_result (ex_stage i) = isa_alu64 (exi_alu_op i) (alu_mux_a i) (alu_mux_b i)"
  using assms
  by (simp add: ex_stage_def ex_alu_raw_def alu_operand_a_def alu_operand_b_def alu_refines_isa64)

text \<open>A branch target is even: an odd JALR sum loses its low bit.\<close>

lemma ex_branch_target_even: "\<not> bit (exo_branch_target (ex_stage i)) 0"
  by (simp add: ex_stage_def bit_simps)

section \<open>Properties\<close>

text \<open>
  C25: the execute stage computes the ISA's 64-bit operation on its selected operands, and for a
  word operation the ISA's 32-bit operation with its result sign-extended; its branch target is
  even.
\<close>

theorem ex_stage_refines_isa:
  assumes "exi_is_word_op i \<longrightarrow> exi_alu_op i \<in> word_alu_ops"
  shows "exo_alu_result (ex_stage i) =
           (if exi_is_word_op i then isa_alu32 (exi_alu_op i) (alu_mux_a i) (alu_mux_b i)
            else isa_alu64 (exi_alu_op i) (alu_mux_a i) (alu_mux_b i)) \<and>
         \<not> bit (exo_branch_target (ex_stage i)) 0"
  using assms ex_word_op_refines_isa32 ex_64_op_refines_isa64 ex_branch_target_even by auto

theorem ex_stage_refines_isa_witness:
  "exo_alu_result (ex_stage
     \<lparr>exi_pc = 0, exi_rs1_rdata = 0xFFFFFFFF, exi_rs2_rdata = 1, exi_imm = 0,
      exi_alu_op = ALU_ADD, exi_alu_src1_sel = False, exi_alu_src2_sel = False,
      exi_is_branch = False, exi_branch_op = 0, exi_is_jump = False, exi_is_word_op = True\<rparr>) =
   isa_alu32 ALU_ADD 0xFFFFFFFF 1"
  using ex_stage_refines_isa [of
    "\<lparr>exi_pc = 0, exi_rs1_rdata = 0xFFFFFFFF, exi_rs2_rdata = 1, exi_imm = 0,
      exi_alu_op = ALU_ADD, exi_alu_src1_sel = False, exi_alu_src2_sel = False,
      exi_is_branch = False, exi_branch_op = 0, exi_is_jump = False, exi_is_word_op = True\<rparr>"]
  by (simp add: word_alu_ops_def alu_mux_a_def alu_mux_b_def)

end
