(* ===== verification/Pipeline_Regs.thy ===== *)
theory Pipeline_Regs
  imports Rv64_Pkg
begin

text \<open>
  The program counter of \<^verbatim>\<open>src/rtl/core/if_stage.sv\<close> and the four pipeline registers
  \<^verbatim>\<open>if_id_reg.sv\<close>, \<^verbatim>\<open>id_ex_reg.sv\<close>, \<^verbatim>\<open>ex_mem_reg.sv\<close> and
  \<^verbatim>\<open>mem_wb_reg.sv\<close>. A register is a record with one field per output port; its next value is
  a function of reset, stall, flush, the inputs (a record of the same type: the value latched on
  an ordinary edge) and the current value. The shape the four share is the locale
  \<open>pipeline_register\<close>.
\<close>

section \<open>Definitions\<close>

subsection \<open>The program counter\<close>

record redirect =
  pc_redirect_sel :: bool
  pc_redirect_target :: u64
  pc_redirect_is_trap :: bool

definition reset_vector :: u64 where
  "reset_vector = 0x0000000080000000"

definition if_stage_ff :: "bool \<Rightarrow> bool \<Rightarrow> redirect \<Rightarrow> u64 \<Rightarrow> u64" where
  "if_stage_ff rst stall_en r pc_reg =
     (if rst then reset_vector
      else if pc_redirect_sel r \<and> pc_redirect_is_trap r then pc_redirect_target r
      else if \<not> stall_en then
        (if pc_redirect_sel r then pc_redirect_target r else pc_reg + 4)
      else pc_reg)"

subsection \<open>IF/ID\<close>

record if_id =
  ifid_pc :: u64
  ifid_instr :: u32

definition NOP_INSTR :: u32 where
  "NOP_INSTR = 0x00000013"

definition if_id_bubble :: if_id where
  "if_id_bubble = \<lparr>ifid_pc = 0, ifid_instr = NOP_INSTR\<rparr>"

definition if_id_ff :: "bool \<Rightarrow> bool \<Rightarrow> bool \<Rightarrow> if_id \<Rightarrow> if_id \<Rightarrow> if_id" where
  "if_id_ff rst stall_en flush_en d q =
     (if rst then if_id_bubble
      else if flush_en then if_id_bubble
      else if \<not> stall_en then d
      else q)"

subsection \<open>ID/EX\<close>

record id_ex =
  ex_instr :: u32
  ex_pc :: u64
  ex_rs1_rdata :: u64
  ex_rs2_rdata :: u64
  ex_rs1_addr :: reg_idx
  ex_rs2_addr :: reg_idx
  ex_imm :: u64
  ex_alu_op :: alu_op_t
  ex_alu_src1_sel :: bool
  ex_alu_src2_sel :: bool
  ex_is_word_op :: bool
  ex_is_branch :: bool
  ex_branch_op :: branch_op_t
  ex_is_jump :: bool
  ex_is_load :: bool
  ex_is_store :: bool
  ex_mem_size :: "3 word"
  ex_reg_write_en :: bool
  ex_rd_addr :: reg_idx
  ex_wb_sel :: "2 word"
  ex_is_csr :: bool
  ex_csr_op :: "3 word"
  ex_illegal_instr :: bool
  ex_is_ecall :: bool
  ex_is_ebreak :: bool
  ex_is_mret :: bool
  ex_is_sret :: bool
  ex_is_wfi :: bool
  ex_is_sfence_vma :: bool
  ex_is_fence :: bool
  ex_is_fence_i :: bool

text \<open>A flush clears everything but the operands, the register indices and the PC.\<close>

definition id_ex_flush :: "id_ex \<Rightarrow> id_ex" where
  "id_ex_flush q = q\<lparr>
     ex_instr := 0, ex_alu_op := ALU_ADD, ex_alu_src1_sel := False, ex_alu_src2_sel := False,
     ex_is_word_op := False, ex_is_branch := False, ex_branch_op := BRANCH_EQ,
     ex_is_jump := False, ex_is_load := False, ex_is_store := False, ex_mem_size := 0,
     ex_reg_write_en := False, ex_rd_addr := 0, ex_wb_sel := 0, ex_is_csr := False,
     ex_csr_op := 0, ex_illegal_instr := False, ex_is_ecall := False, ex_is_ebreak := False,
     ex_is_mret := False, ex_is_sret := False, ex_is_wfi := False, ex_is_sfence_vma := False,
     ex_is_fence := False, ex_is_fence_i := False\<rparr>"

definition id_ex_reset :: id_ex where
  "id_ex_reset = \<lparr>
     ex_instr = 0, ex_pc = 0, ex_rs1_rdata = 0, ex_rs2_rdata = 0, ex_rs1_addr = 0,
     ex_rs2_addr = 0, ex_imm = 0, ex_alu_op = ALU_ADD, ex_alu_src1_sel = False,
     ex_alu_src2_sel = False, ex_is_word_op = False, ex_is_branch = False,
     ex_branch_op = BRANCH_EQ, ex_is_jump = False, ex_is_load = False, ex_is_store = False,
     ex_mem_size = 0, ex_reg_write_en = False, ex_rd_addr = 0, ex_wb_sel = 0,
     ex_is_csr = False, ex_csr_op = 0, ex_illegal_instr = False, ex_is_ecall = False,
     ex_is_ebreak = False, ex_is_mret = False, ex_is_sret = False, ex_is_wfi = False,
     ex_is_sfence_vma = False, ex_is_fence = False, ex_is_fence_i = False\<rparr>"

definition id_ex_ff :: "bool \<Rightarrow> bool \<Rightarrow> bool \<Rightarrow> id_ex \<Rightarrow> id_ex \<Rightarrow> id_ex" where
  "id_ex_ff rst stall_en flush_en d q =
     (if rst then id_ex_reset
      else if flush_en then id_ex_flush q
      else if \<not> stall_en then d
      else q)"

subsection \<open>EX/MEM\<close>

record ex_mem =
  mem_alu_result :: u64
  mem_branch_taken :: bool
  mem_branch_target :: u64
  mem_rs1_rdata :: u64
  mem_rs2_rdata :: u64
  mem_rs1_addr :: reg_idx
  mem_pc :: u64
  mem_imm :: u64
  mem_instr :: u32
  mem_is_load :: bool
  mem_is_store :: bool
  mem_mem_size :: "3 word"
  mem_reg_write_en :: bool
  mem_rd_addr :: reg_idx
  mem_wb_sel :: "2 word"
  mem_is_csr :: bool
  mem_csr_op :: "3 word"
  mem_illegal_instr :: bool
  mem_is_ecall :: bool
  mem_is_ebreak :: bool
  mem_is_mret :: bool
  mem_is_sret :: bool
  mem_is_wfi :: bool
  mem_is_sfence_vma :: bool
  mem_is_fence :: bool
  mem_is_fence_i :: bool

definition ex_mem_flush :: "ex_mem \<Rightarrow> ex_mem" where
  "ex_mem_flush q = q\<lparr>
     mem_instr := 0, mem_branch_taken := False, mem_is_load := False, mem_is_store := False,
     mem_mem_size := 0, mem_reg_write_en := False, mem_rd_addr := 0, mem_wb_sel := 0,
     mem_is_csr := False, mem_csr_op := 0, mem_illegal_instr := False, mem_is_ecall := False,
     mem_is_ebreak := False, mem_is_mret := False, mem_is_sret := False, mem_is_wfi := False,
     mem_is_sfence_vma := False, mem_is_fence := False, mem_is_fence_i := False\<rparr>"

definition ex_mem_reset :: ex_mem where
  "ex_mem_reset = \<lparr>
     mem_alu_result = 0, mem_branch_taken = False, mem_branch_target = 0, mem_rs1_rdata = 0,
     mem_rs2_rdata = 0, mem_rs1_addr = 0, mem_pc = 0, mem_imm = 0, mem_instr = 0,
     mem_is_load = False, mem_is_store = False, mem_mem_size = 0, mem_reg_write_en = False,
     mem_rd_addr = 0, mem_wb_sel = 0, mem_is_csr = False, mem_csr_op = 0,
     mem_illegal_instr = False, mem_is_ecall = False, mem_is_ebreak = False,
     mem_is_mret = False, mem_is_sret = False, mem_is_wfi = False, mem_is_sfence_vma = False,
     mem_is_fence = False, mem_is_fence_i = False\<rparr>"

definition ex_mem_ff :: "bool \<Rightarrow> bool \<Rightarrow> bool \<Rightarrow> ex_mem \<Rightarrow> ex_mem \<Rightarrow> ex_mem" where
  "ex_mem_ff rst stall_en flush_en d q =
     (if rst then ex_mem_reset
      else if flush_en then ex_mem_flush q
      else if \<not> stall_en then d
      else q)"

subsection \<open>MEM/WB\<close>

record mem_wb =
  wb_pc :: u64
  wb_alu_result :: u64
  wb_mem_rdata :: u64
  wb_instr :: u32
  wb_reg_write_en :: bool
  wb_rd_addr :: reg_idx
  wb_wb_sel :: "2 word"
  wb_is_csr :: bool
  wb_csr_op :: "3 word"
  wb_rs1_rdata :: u64
  wb_rs1_addr :: reg_idx
  wb_imm :: u64
  wb_illegal_instr :: bool
  wb_is_ecall :: bool
  wb_is_ebreak :: bool
  wb_is_mret :: bool
  wb_is_sret :: bool
  wb_load_fault :: bool
  wb_store_fault :: bool
  wb_fault_addr :: u64

definition mem_wb_flush :: "mem_wb \<Rightarrow> mem_wb" where
  "mem_wb_flush q = q\<lparr>
     wb_reg_write_en := False, wb_is_csr := False, wb_illegal_instr := False,
     wb_is_ecall := False, wb_is_ebreak := False, wb_is_mret := False, wb_is_sret := False,
     wb_load_fault := False, wb_store_fault := False, wb_fault_addr := 0\<rparr>"

definition mem_wb_reset :: mem_wb where
  "mem_wb_reset = \<lparr>
     wb_pc = 0, wb_alu_result = 0, wb_mem_rdata = 0, wb_instr = 0, wb_reg_write_en = False,
     wb_rd_addr = 0, wb_wb_sel = 0, wb_is_csr = False, wb_csr_op = 0, wb_rs1_rdata = 0,
     wb_rs1_addr = 0, wb_imm = 0, wb_illegal_instr = False, wb_is_ecall = False,
     wb_is_ebreak = False, wb_is_mret = False, wb_is_sret = False, wb_load_fault = False,
     wb_store_fault = False, wb_fault_addr = 0\<rparr>"

definition mem_wb_ff :: "bool \<Rightarrow> bool \<Rightarrow> bool \<Rightarrow> mem_wb \<Rightarrow> mem_wb \<Rightarrow> mem_wb" where
  "mem_wb_ff rst stall_en flush_en d q =
     (if rst then mem_wb_reset
      else if flush_en then mem_wb_flush q
      else if \<not> stall_en then d
      else q)"

subsection \<open>Bubbles\<close>

text \<open>
  A pipeline register holds a bubble when nothing in it can change the architectural state: no
  register write, no memory access, no control transfer, no system instruction.
\<close>

definition if_id_is_bubble :: "if_id \<Rightarrow> bool" where
  "if_id_is_bubble q \<longleftrightarrow> ifid_instr q = NOP_INSTR"

definition id_ex_is_bubble :: "id_ex \<Rightarrow> bool" where
  "id_ex_is_bubble q \<longleftrightarrow>
     \<not> ex_reg_write_en q \<and> \<not> ex_is_load q \<and> \<not> ex_is_store q \<and> \<not> ex_is_branch q \<and>
     \<not> ex_is_jump q \<and> \<not> ex_is_csr q \<and> \<not> ex_illegal_instr q \<and> \<not> ex_is_ecall q \<and>
     \<not> ex_is_ebreak q \<and> \<not> ex_is_mret q \<and> \<not> ex_is_sret q"

definition ex_mem_is_bubble :: "ex_mem \<Rightarrow> bool" where
  "ex_mem_is_bubble q \<longleftrightarrow>
     \<not> mem_reg_write_en q \<and> \<not> mem_is_load q \<and> \<not> mem_is_store q \<and> \<not> mem_is_csr q \<and>
     \<not> mem_illegal_instr q \<and> \<not> mem_is_ecall q \<and> \<not> mem_is_ebreak q \<and> \<not> mem_is_mret q \<and>
     \<not> mem_is_sret q"

definition mem_wb_is_bubble :: "mem_wb \<Rightarrow> bool" where
  "mem_wb_is_bubble q \<longleftrightarrow>
     \<not> wb_reg_write_en q \<and> \<not> wb_is_csr q \<and> \<not> wb_illegal_instr q \<and> \<not> wb_is_ecall q \<and>
     \<not> wb_is_ebreak q \<and> \<not> wb_is_mret q \<and> \<not> wb_is_sret q \<and> \<not> wb_load_fault q \<and>
     \<not> wb_store_fault q"

section \<open>The contract of a pipeline register\<close>

text \<open>
  Reset and flush leave a bubble, and a stalled register keeps its value unless it is flushed:
  flush has priority over stall, reset over both.
\<close>

locale pipeline_register =
  fixes ff :: "bool \<Rightarrow> bool \<Rightarrow> bool \<Rightarrow> 'r \<Rightarrow> 'r \<Rightarrow> 'r"
    and bubble :: "'r \<Rightarrow> bool"
  assumes reset_bubble: "bubble (ff True stall flush d q)"
    and reset_const: "ff True stall flush d q = ff True stall' flush' d' q'"
    and flush_bubble: "bubble (ff False stall True d q)"
    and latch: "ff False False False d q = d"
    and hold: "ff False True False d q = q"
begin

lemma flush_over_stall: "bubble (ff rst True True d q)"
  by (cases rst) (auto intro: reset_bubble flush_bubble)

lemma next_cases:
  obtains (emptied) "bubble (ff rst stall flush d q)"
  | (latched) "\<not> rst" "\<not> stall" "\<not> flush" "ff rst stall flush d q = d"
  | (held) "\<not> rst" "stall" "\<not> flush" "ff rst stall flush d q = q"
proof (cases "rst \<or> flush")
  case True
  then have "bubble (ff rst stall flush d q)"
    using reset_bubble flush_bubble by (cases rst) auto
  then show ?thesis by (rule that(1))
next
  case False
  then have nr: "\<not> rst" "\<not> flush" by auto
  show ?thesis
  proof (cases stall)
    case True
    show ?thesis by (rule that(3)) (use True nr hold in auto)
  next
    case False
    show ?thesis by (rule that(2)) (use False nr latch in auto)
  qed
qed

lemma held_while_stalled: "iterate n (ff False True False d) q = q"
  by (induction n) (simp_all add: hold)

lemma bubble_stays:
  "bubble d \<Longrightarrow> bubble q \<Longrightarrow> bubble (ff rst stall flush d q)"
  by (cases rule: next_cases [of rst stall flush d q]) auto

end

section \<open>The four registers provide the contract\<close>

lemmas pipe_ff_defs = if_id_ff_def id_ex_ff_def ex_mem_ff_def mem_wb_ff_def
lemmas pipe_flush_defs = if_id_bubble_def id_ex_flush_def ex_mem_flush_def mem_wb_flush_def
lemmas pipe_reset_defs = id_ex_reset_def ex_mem_reset_def mem_wb_reset_def
lemmas bubble_defs = if_id_is_bubble_def id_ex_is_bubble_def ex_mem_is_bubble_def
  mem_wb_is_bubble_def

declare if_stage_ff_def [rtl_eval] pipe_ff_defs [rtl_eval] pipe_flush_defs [rtl_eval]
  reset_vector_def [rtl_eval] NOP_INSTR_def [rtl_eval]

interpretation ifid: pipeline_register if_id_ff if_id_is_bubble
  by unfold_locales (simp_all add: if_id_ff_def if_id_bubble_def if_id_is_bubble_def)

interpretation idex: pipeline_register id_ex_ff id_ex_is_bubble
  by unfold_locales
    (simp_all add: id_ex_ff_def id_ex_reset_def id_ex_flush_def id_ex_is_bubble_def)

interpretation exmem: pipeline_register ex_mem_ff ex_mem_is_bubble
  by unfold_locales
    (simp_all add: ex_mem_ff_def ex_mem_reset_def ex_mem_flush_def ex_mem_is_bubble_def)

interpretation memwb: pipeline_register mem_wb_ff mem_wb_is_bubble
  by unfold_locales
    (simp_all add: mem_wb_ff_def mem_wb_reset_def mem_wb_flush_def mem_wb_is_bubble_def)

text \<open>A trap redirect takes the PC even when the fetch stage is stalled.\<close>

lemma if_stage_trap_over_stall:
  "pc_redirect_sel r \<Longrightarrow> pc_redirect_is_trap r \<Longrightarrow>
   if_stage_ff False stall r pc = pc_redirect_target r"
  by (simp add: if_stage_ff_def)

lemma if_stage_sequential:
  "\<not> pc_redirect_sel r \<Longrightarrow> if_stage_ff False False r pc = pc + 4"
  by (simp add: if_stage_ff_def)

end
