(* ===== verification/Regfile.thy ===== *)
theory Regfile
  imports Rv64_Pkg
begin

text \<open>
  The register file of \<^verbatim>\<open>src/rtl/core/regfile.sv\<close> (32 registers, two combinational
  read ports with an internal bypass of the write port, one synchronous write port), the
  interface its clients rely on as the locale \<open>register_file\<close>, and the unit bench
  \<^verbatim>\<open>src/tb/unit/tb_regfile.cc\<close>.
\<close>

section \<open>Definitions\<close>

type_synonym regs = "reg_idx \<Rightarrow> u64"

text \<open>The write port, sampled at a clock edge and seen by the bypass before it.\<close>

record write_port =
  wp_rd_addr :: reg_idx
  wp_rd_wdata :: u64
  wp_reg_write_en :: bool

definition regfile_read :: "regs \<Rightarrow> write_port \<Rightarrow> reg_idx \<Rightarrow> u64" where
  "regfile_read regs w rs_addr =
     (if rs_addr = 0 then 0
      else if rs_addr = wp_rd_addr w \<and> wp_reg_write_en w then wp_rd_wdata w
      else regs rs_addr)"

definition regfile_ff :: "bool \<Rightarrow> write_port \<Rightarrow> regs \<Rightarrow> regs" where
  "regfile_ff rst w regs =
     (if rst then (\<lambda>i. 0)
      else if wp_reg_write_en w \<and> wp_rd_addr w \<noteq> 0 then regs(wp_rd_addr w := wp_rd_wdata w)
      else regs)"

subsection \<open>The bench\<close>

text \<open>\<open>Vregfile\<close>: the input ports of the verilated module and its registers.\<close>

record Vregfile =
  rf_rst :: bool
  rf_rs1_addr :: reg_idx
  rf_rs2_addr :: reg_idx
  rf_port :: write_port
  rf_regs :: regs

definition rf_rs1_rdata :: "Vregfile \<Rightarrow> u64" where
  "rf_rs1_rdata d = regfile_read (rf_regs d) (rf_port d) (rf_rs1_addr d)"

definition rf_rs2_rdata :: "Vregfile \<Rightarrow> u64" where
  "rf_rs2_rdata d = regfile_read (rf_regs d) (rf_port d) (rf_rs2_addr d)"

definition tb_rf_tick :: "Vregfile \<Rightarrow> Vregfile" where
  "tb_rf_tick d = d\<lparr>rf_regs := regfile_ff (rf_rst d) (rf_port d) (rf_regs d)\<rparr>"

definition tb_rf_write :: "bool \<Rightarrow> reg_idx \<Rightarrow> u64 \<Rightarrow> Vregfile \<Rightarrow> Vregfile" where
  "tb_rf_write en a v d =
     d\<lparr>rf_port := \<lparr>wp_rd_addr = a, wp_rd_wdata = v, wp_reg_write_en = en\<rparr>\<rparr>"

text \<open>Assigning only \<open>reg_write_en\<close> keeps the other wires of the port.\<close>

definition tb_rf_enable :: "bool \<Rightarrow> Vregfile \<Rightarrow> Vregfile" where
  "tb_rf_enable en d = d\<lparr>rf_port := (rf_port d)\<lparr>wp_reg_write_en := en\<rparr>\<rparr>"

definition tb_rf_init :: "regs \<Rightarrow> Vregfile" where
  "tb_rf_init regs =
     \<lparr>rf_rst = False, rf_rs1_addr = 0, rf_rs2_addr = 0,
      rf_port = \<lparr>wp_rd_addr = 0, wp_rd_wdata = 0, wp_reg_write_en = False\<rparr>, rf_regs = regs\<rparr>"

definition tb_rf_reset :: "Vregfile \<Rightarrow> Vregfile" where
  "tb_rf_reset d = (tb_rf_tick (d\<lparr>rf_rst := True\<rparr>))\<lparr>rf_rst := False\<rparr>"

text \<open>The loop \<open>for (i = first; i < 32; i += step)\<close> that writes \<open>base + i\<close> to \<open>x[i]\<close>.\<close>

definition tb_rf_sweep :: "u64 \<Rightarrow> nat list \<Rightarrow> Vregfile \<Rightarrow> Vregfile" where
  "tb_rf_sweep base is d =
     fold (\<lambda>i d. tb_rf_tick (tb_rf_write True (of_nat i) (base + of_nat i) d)) is d"

text \<open>Tests 1 to 5: reset, write and read, x0, two ports at once, write enable low.\<close>

definition tb_rf_tests_1_5 :: "Vregfile \<Rightarrow> bool \<times> Vregfile" where
  "tb_rf_tests_1_5 d0 =
     (let d1 = tb_rf_reset d0;
          d2 = (tb_rf_enable False (tb_rf_tick (tb_rf_write True 5 0xDEADBEEF d1)))
                 \<lparr>rf_rs1_addr := 5\<rparr>;
          d3 = (tb_rf_enable False (tb_rf_tick (tb_rf_write True 0 0x12345678 d2)))
                 \<lparr>rf_rs2_addr := 0\<rparr>;
          d4 = (tb_rf_tick (tb_rf_write True 7 0x11223344
                 (tb_rf_tick (tb_rf_write True 6 0x87654321 d3))))
                 \<lparr>rf_rs1_addr := 6, rf_rs2_addr := 7\<rparr>;
          d5 = (tb_rf_tick (tb_rf_write False 10 0x11111111
                 (tb_rf_tick (tb_rf_write True 10 0xCAFEBABE d4))))\<lparr>rf_rs1_addr := 10\<rparr>
      in (rf_rs1_rdata d2 = 0xDEADBEEF \<and> rf_rs2_rdata d3 = 0 \<and>
          rf_rs1_rdata d4 = 0x87654321 \<and> rf_rs2_rdata d4 = 0x11223344 \<and>
          rf_rs1_rdata d5 = 0xCAFEBABE, d5))"

text \<open>Test 6: registers dirtied in steps of five, then reset, then every register read.\<close>

definition tb_rf_test_6 :: "Vregfile \<Rightarrow> bool \<times> Vregfile" where
  "tb_rf_test_6 d5 =
     (let d6 = tb_rf_reset (tb_rf_enable False (tb_rf_sweep 0x1000 [1, 6, 11, 16, 21, 26, 31] d5))
      in (list_all (\<lambda>i. rf_rs1_rdata (d6\<lparr>rf_rs1_addr := of_nat i\<rparr>) = 0) [1..<32],
          d6\<lparr>rf_rs1_addr := 31\<rparr>))"

text \<open>Test 7: a read in the cycle of a write sees the new value, before and after the edge.\<close>

definition tb_rf_test_7 :: "Vregfile \<Rightarrow> bool \<times> Vregfile" where
  "tb_rf_test_7 d6 =
     (let d7 = tb_rf_tick (tb_rf_write False 15 0x55555555 d6);
          d8 = (tb_rf_write True 15 0x99999999 d7)\<lparr>rf_rs1_addr := 15\<rparr>;
          d9 = tb_rf_enable False (tb_rf_tick d8)
      in (rf_rs1_rdata d8 = 0x99999999 \<and> rf_rs1_rdata d9 = 0x99999999, d9))"

text \<open>Test 8: all 31 registers written with distinct values, then read back.\<close>

definition tb_rf_test_8 :: "Vregfile \<Rightarrow> bool" where
  "tb_rf_test_8 d9 =
     (let d10 = tb_rf_enable False (tb_rf_sweep 0xABCDE000 [1..<32] d9)
      in list_all (\<lambda>i. rf_rs1_rdata (d10\<lparr>rf_rs1_addr := of_nat i\<rparr>) = 0xABCDE000 + of_nat i)
           [1..<32])"

definition tb_regfile_main :: "regs \<Rightarrow> tb_exit" where
  "tb_regfile_main power_up =
     (case tb_rf_tests_1_5 (tb_rf_init power_up) of (ok1, d5) \<Rightarrow>
      case tb_rf_test_6 d5 of (ok6, d6) \<Rightarrow>
      case tb_rf_test_7 d6 of (ok7, d9) \<Rightarrow>
        if ok1 \<and> ok6 \<and> ok7 \<and> tb_rf_test_8 d9 then Exit 0 else AssertAbort)"

section \<open>The interface of a register file\<close>

text \<open>
  What the pipeline relies on: register 0 reads as zero whatever is written to it, and any
  other register reads as the last value written.
\<close>

locale register_file =
  fixes rd :: "'s \<Rightarrow> reg_idx \<Rightarrow> u64"
    and wr :: "'s \<Rightarrow> reg_idx \<Rightarrow> u64 \<Rightarrow> 's"
  assumes read_zero: "rd s 0 = 0"
    and rd_wr: "rd (wr s a v) b = (if b = a \<and> a \<noteq> 0 then v else rd s b)"
begin

definition commit_all :: "(reg_idx \<times> u64) list \<Rightarrow> 's \<Rightarrow> 's" where
  "commit_all log s = foldl (\<lambda>s (a, v). wr s a v) s log"

lemma commit_all_Nil [simp]: "commit_all [] s = s"
  by (simp add: commit_all_def)

lemma commit_all_snoc [simp]: "commit_all (log @ [(a, v)]) s = wr (commit_all log s) a v"
  by (simp add: commit_all_def)

text \<open>The register file after a commit log holds the newest entry of each register.\<close>

lemma read_commit_all:
  "b \<noteq> 0 \<Longrightarrow> rd (commit_all log s) b =
     (case map_of (rev log) b of None \<Rightarrow> rd s b | Some v \<Rightarrow> v)"
  by (induction log rule: rev_induct) (auto simp: rd_wr split: option.splits)

lemma read_commit_all_zero: "rd (commit_all log s) 0 = 0"
  by (simp add: read_zero)

lemma read_write_twice: "rd (wr (wr s a v) a w) b = rd (wr s a w) b"
  by (simp add: rd_wr)

lemma read_write_swap:
  "a \<noteq> b \<Longrightarrow> rd (wr (wr s a v) b w) c = rd (wr (wr s b w) a v) c"
  by (simp add: rd_wr)

end

section \<open>The RTL provides the interface\<close>

text \<open>Reads and writes of the RTL with the port idle, respectively enabled.\<close>

definition idle_port :: write_port where
  "idle_port = \<lparr>wp_rd_addr = 0, wp_rd_wdata = 0, wp_reg_write_en = False\<rparr>"

definition rf_read :: "regs \<Rightarrow> reg_idx \<Rightarrow> u64" where
  "rf_read regs a = regfile_read regs idle_port a"

definition rf_write :: "regs \<Rightarrow> reg_idx \<Rightarrow> u64 \<Rightarrow> regs" where
  "rf_write regs a v =
     regfile_ff False \<lparr>wp_rd_addr = a, wp_rd_wdata = v, wp_reg_write_en = True\<rparr> regs"

lemmas regfile_defs = regfile_read_def regfile_ff_def rf_read_def rf_write_def idle_port_def

declare regfile_read_def [rtl_eval] regfile_ff_def [rtl_eval]

interpretation rf: register_file rf_read rf_write
  by unfold_locales (auto simp: regfile_defs)

text \<open>
  The bypass makes the edge invisible to a reader: what a port reads while a write is pending
  is what it reads once the write is done.
\<close>

lemma regfile_bypass:
  "regfile_read regs w a = rf_read (regfile_ff False w regs) a"
  by (auto simp: regfile_defs)

lemma regfile_ff_reset [simp]: "regfile_ff True w regs = (\<lambda>i. 0)"
  by (simp add: regfile_ff_def)

lemma regfile_read_x0 [simp]: "regfile_read regs w 0 = 0"
  by (simp add: regfile_read_def)

lemma regfile_ff_write:
  "regfile_ff False w regs =
     (if wp_reg_write_en w then rf_write regs (wp_rd_addr w) (wp_rd_wdata w) else regs)"
  by (auto simp: regfile_defs)

lemmas tb_rf_defs = tb_rf_init_def tb_rf_reset_def tb_rf_tick_def tb_rf_write_def
  tb_rf_enable_def tb_rf_sweep_def rf_rs1_rdata_def rf_rs2_rdata_def

lemma upt_1_32: "[Suc 0..<32] = [1, 2, 3, 4, 5, 6, 7, 8, 9, 10, 11, 12, 13, 14, 15, 16, 17, 18, 19,
  20, 21, 22, 23, 24, 25, 26, 27, 28, 29, 30, 31 :: nat]"
  by (simp add: upt_rec)

section \<open>Properties\<close>

text \<open>
  the bench of the register file exits with status 0 whatever the registers hold at power-up.
\<close>

theorem tb_regfile_passes: "tb_regfile_main power_up = Exit 0"
proof -
  have t15: "fst (tb_rf_tests_1_5 (tb_rf_init power_up))"
    by (simp add: tb_rf_tests_1_5_def tb_rf_defs rtl_eval Let_def)
  have t6: "fst (tb_rf_test_6 d)" for d
    by (simp add: tb_rf_test_6_def tb_rf_defs rtl_eval Let_def list_all_iff)
  have t7: "rf_rst d = False \<Longrightarrow> fst (tb_rf_test_7 d)" for d
    by (simp add: tb_rf_test_7_def tb_rf_defs rtl_eval Let_def)
  have t8: "rf_rst d = False \<Longrightarrow> tb_rf_test_8 d" for d
    by (simp add: tb_rf_test_8_def tb_rf_defs rtl_eval Let_def upt_1_32)
  have r6: "rf_rst (snd (tb_rf_test_6 d)) = False" for d
    by (simp add: tb_rf_test_6_def tb_rf_defs Let_def)
  have r7: "rf_rst d = False \<Longrightarrow> rf_rst (snd (tb_rf_test_7 d)) = False" for d
    by (simp add: tb_rf_test_7_def tb_rf_defs Let_def)
  show ?thesis
    using t15 t6 t7 t8 r6 r7 by (simp add: tb_regfile_main_def case_prod_beta)
qed

text \<open>
  C26: after any sequence of writes a register other than 0 holds the value of its last write, and
  register 0 holds zero.
\<close>

theorem regfile_last_write:
  "rf_read (foldl (\<lambda>r (a, v). rf_write r a v) regs log) b =
     (if b = 0 then 0
      else case map_of (rev log) b of None \<Rightarrow> rf_read regs b | Some v \<Rightarrow> v)"
  using rf.read_commit_all [of b log regs] rf.read_commit_all_zero [of log regs]
  by (simp add: rf.commit_all_def)

end
