(* ===== verification/Hazard_Unit.thy ===== *)
theory Hazard_Unit
  imports Pipeline_Regs Regfile
begin

text \<open>
  The hazard unit, \<^verbatim>\<open>src/rtl/core/hazard_unit.sv\<close>: selection of the forwarding
  multiplexers of the execute stage, detection of load-use hazards, the PC redirect, and the
  stall and flush controls of the pipeline registers.
\<close>

section \<open>Definitions\<close>

record hazard_in =
  hz_id_rs1_addr :: reg_idx
  hz_id_rs2_addr :: reg_idx
  hz_ex_rs1_addr :: reg_idx
  hz_ex_rs2_addr :: reg_idx
  hz_ex_rd_addr :: reg_idx
  hz_ex_reg_write_en :: bool
  hz_ex_is_load :: bool
  hz_ex_branch_taken :: bool
  hz_ex_branch_target :: u64
  hz_mem_rd_addr :: reg_idx
  hz_mem_reg_write_en :: bool
  hz_mem_stall_req :: bool
  hz_trap_flush_req :: bool
  hz_trap_pc_sel :: bool
  hz_trap_target_pc :: u64
  hz_wb_rd_addr :: reg_idx
  hz_wb_reg_write_en :: bool

record stall_flush =
  if_stall_en :: bool
  if_id_stall_en :: bool
  id_ex_stall_en :: bool
  ex_mem_stall_en :: bool
  if_id_flush_en :: bool
  id_ex_flush_en :: bool

text \<open>Select of one forwarding multiplexer: 00 register file, 01 MEM, 10 WB.\<close>

definition forward_sel :: "hazard_in \<Rightarrow> reg_idx \<Rightarrow> 2 word" where
  "forward_sel h rs_addr =
     (if hz_mem_reg_write_en h \<and> hz_mem_rd_addr h \<noteq> 0 \<and> hz_mem_rd_addr h = rs_addr then 0b01
      else if hz_wb_reg_write_en h \<and> hz_wb_rd_addr h \<noteq> 0 \<and> hz_wb_rd_addr h = rs_addr then 0b10
      else 0b00)"

definition forward_a_sel :: "hazard_in \<Rightarrow> 2 word" where
  "forward_a_sel h = forward_sel h (hz_ex_rs1_addr h)"

definition forward_b_sel :: "hazard_in \<Rightarrow> 2 word" where
  "forward_b_sel h = forward_sel h (hz_ex_rs2_addr h)"

definition load_use_stall :: "hazard_in \<Rightarrow> bool" where
  "load_use_stall h \<longleftrightarrow>
     hz_ex_is_load h \<and> hz_ex_rd_addr h \<noteq> 0 \<and>
     (hz_ex_rd_addr h = hz_id_rs1_addr h \<or> hz_ex_rd_addr h = hz_id_rs2_addr h)"

definition hazard_redirect :: "hazard_in \<Rightarrow> redirect" where
  "hazard_redirect h =
     (if hz_trap_pc_sel h then
        \<lparr>pc_redirect_sel = True, pc_redirect_target = hz_trap_target_pc h,
         pc_redirect_is_trap = True\<rparr>
      else if hz_ex_branch_taken h then
        \<lparr>pc_redirect_sel = True, pc_redirect_target = hz_ex_branch_target h,
         pc_redirect_is_trap = False\<rparr>
      else
        \<lparr>pc_redirect_sel = False, pc_redirect_target = 0, pc_redirect_is_trap = False\<rparr>)"

definition no_stall_flush :: stall_flush where
  "no_stall_flush =
     \<lparr>if_stall_en = False, if_id_stall_en = False, id_ex_stall_en = False,
      ex_mem_stall_en = False, if_id_flush_en = False, id_ex_flush_en = False\<rparr>"

text \<open>The three assignments of the \<open>else\<close> branch, in source order.\<close>

definition hz_mem_stall :: "hazard_in \<Rightarrow> stall_flush \<Rightarrow> stall_flush" where
  "hz_mem_stall h c =
     (if hz_mem_stall_req h then
        c\<lparr>if_stall_en := True, if_id_stall_en := True, id_ex_stall_en := True,
          ex_mem_stall_en := True\<rparr>
      else c)"

definition hz_load_use :: "hazard_in \<Rightarrow> stall_flush \<Rightarrow> stall_flush" where
  "hz_load_use h c =
     (if load_use_stall h \<and> \<not> hz_mem_stall_req h then
        c\<lparr>if_stall_en := True, if_id_stall_en := True, id_ex_flush_en := True\<rparr>
      else c)"

definition hz_branch :: "hazard_in \<Rightarrow> stall_flush \<Rightarrow> stall_flush" where
  "hz_branch h c =
     (if hz_ex_branch_taken h then
        c\<lparr>if_id_flush_en := True, id_ex_flush_en := True, if_stall_en := False,
          if_id_stall_en := False\<rparr>
      else c)"

definition hazard_controls :: "hazard_in \<Rightarrow> stall_flush" where
  "hazard_controls h =
     (if hz_trap_flush_req h then
        no_stall_flush\<lparr>if_id_flush_en := True, id_ex_flush_en := True\<rparr>
      else hz_branch h (hz_load_use h (hz_mem_stall h no_stall_flush)))"

text \<open>The forwarding multiplexers of the core (they sit in \<^verbatim>\<open>richard_core.sv\<close>).\<close>

definition forward_mux :: "2 word \<Rightarrow> u64 \<Rightarrow> u64 \<Rightarrow> u64 \<Rightarrow> u64" where
  "forward_mux sel from_mem from_wb from_rf =
     (if sel = 0b01 then from_mem else if sel = 0b10 then from_wb else from_rf)"

section \<open>Lemmas\<close>

lemmas hazard_defs = forward_sel_def forward_a_sel_def forward_b_sel_def load_use_stall_def
  hazard_redirect_def no_stall_flush_def hz_mem_stall_def hz_load_use_def hz_branch_def
  hazard_controls_def forward_mux_def

declare hazard_defs [rtl_eval]

text \<open>
  Forwarding is a read of the register file as it will be once the two older instructions, first
  the one in WB and then the one in MEM, have written their results.
\<close>

lemma forward_mux_newest:
  fixes regs :: regs
  defines "after_wb h v \<equiv>
             (if hz_wb_reg_write_en h then rf_write regs (hz_wb_rd_addr h) v else regs)"
  defines "after_mem h v u \<equiv>
             (if hz_mem_reg_write_en h then rf_write (after_wb h v) (hz_mem_rd_addr h) u
              else after_wb h v)"
  assumes "from_rf = rf_read regs r"
  shows "forward_mux (forward_sel h r) from_mem from_wb from_rf =
           rf_read (after_mem h from_wb from_mem) r"
  using assms(3)
  by (auto simp: forward_mux_def forward_sel_def after_mem_def after_wb_def rf.rd_wr
      rf.read_zero)

text \<open>The stall and flush lines in closed form.\<close>

lemma hazard_controls_closed:
  "if_stall_en (hazard_controls h) \<longleftrightarrow>
     \<not> hz_trap_flush_req h \<and> \<not> hz_ex_branch_taken h \<and> (hz_mem_stall_req h \<or> load_use_stall h)"
  "if_id_stall_en (hazard_controls h) \<longleftrightarrow>
     \<not> hz_trap_flush_req h \<and> \<not> hz_ex_branch_taken h \<and> (hz_mem_stall_req h \<or> load_use_stall h)"
  "id_ex_stall_en (hazard_controls h) \<longleftrightarrow> \<not> hz_trap_flush_req h \<and> hz_mem_stall_req h"
  "ex_mem_stall_en (hazard_controls h) \<longleftrightarrow> \<not> hz_trap_flush_req h \<and> hz_mem_stall_req h"
  "if_id_flush_en (hazard_controls h) \<longleftrightarrow> hz_trap_flush_req h \<or> hz_ex_branch_taken h"
  "id_ex_flush_en (hazard_controls h) \<longleftrightarrow>
     hz_trap_flush_req h \<or> hz_ex_branch_taken h \<or>
     (load_use_stall h \<and> \<not> hz_mem_stall_req h)"
  by (auto simp: hazard_controls_def hz_branch_def hz_load_use_def hz_mem_stall_def
      no_stall_flush_def)

section \<open>Properties\<close>

text \<open>
  C5: an operand that the register file cannot supply in time is forwarded: what the multiplexer
  delivers is the register as it will be once WB and then MEM have written.
\<close>

theorem forwarding_delivers_newest:
  assumes "from_rf = rf_read regs r"
  shows "forward_mux (forward_sel h r) from_mem from_wb from_rf =
    rf_read
      (let after_wb = (if hz_wb_reg_write_en h then rf_write regs (hz_wb_rd_addr h) from_wb
                       else regs)
       in if hz_mem_reg_write_en h then rf_write after_wb (hz_mem_rd_addr h) from_mem
          else after_wb) r"
  using forward_mux_newest [OF assms, of h from_mem from_wb] by (simp add: Let_def)

theorem forwarding_delivers_newest_witness:
  "forward_mux (forward_sel
     \<lparr>hz_id_rs1_addr = 0, hz_id_rs2_addr = 0, hz_ex_rs1_addr = 5, hz_ex_rs2_addr = 0,
      hz_ex_rd_addr = 0, hz_ex_reg_write_en = False, hz_ex_is_load = False,
      hz_ex_branch_taken = False, hz_ex_branch_target = 0, hz_mem_rd_addr = 5,
      hz_mem_reg_write_en = True, hz_mem_stall_req = False, hz_trap_flush_req = False,
      hz_trap_pc_sel = False, hz_trap_target_pc = 0, hz_wb_rd_addr = 5,
      hz_wb_reg_write_en = True\<rparr> 5) 22 11 0 =
   rf_read (rf_write (rf_write (\<lambda>_. 0) 5 11) 5 22) 5"
  by (subst forwarding_delivers_newest [where regs = "\<lambda>_. 0"])
    (simp_all add: rf_read_def regfile_read_def idle_port_def Let_def)

text \<open>
  C6: every stall and flush line and the redirect of the fetch, in every situation.  A trap
  squashes the instructions in IF/ID and ID/EX and stalls nothing; else a taken branch or jump
  squashes the two younger instructions and releases fetch and decode, while a memory stall keeps
  holding EX and MEM; else a memory stall holds all four stages; else a load in EX whose
  destination (not x0) is a source of the instruction in ID holds fetch and decode and sends a
  bubble into EX; else nothing is held or squashed.  The fetch goes to the trap target, else to
  the branch target, else it is not redirected.
\<close>

theorem hazard_control_lines:
  "hazard_controls h =
     (if hz_trap_flush_req h then
        \<lparr>if_stall_en = False, if_id_stall_en = False, id_ex_stall_en = False,
         ex_mem_stall_en = False, if_id_flush_en = True, id_ex_flush_en = True\<rparr>
      else if hz_ex_branch_taken h then
        \<lparr>if_stall_en = False, if_id_stall_en = False, id_ex_stall_en = hz_mem_stall_req h,
         ex_mem_stall_en = hz_mem_stall_req h, if_id_flush_en = True, id_ex_flush_en = True\<rparr>
      else if hz_mem_stall_req h then
        \<lparr>if_stall_en = True, if_id_stall_en = True, id_ex_stall_en = True,
         ex_mem_stall_en = True, if_id_flush_en = False, id_ex_flush_en = False\<rparr>
      else if hz_ex_is_load h \<and> hz_ex_rd_addr h \<noteq> 0 \<and>
              hz_ex_rd_addr h \<in> {hz_id_rs1_addr h, hz_id_rs2_addr h} then
        \<lparr>if_stall_en = True, if_id_stall_en = True, id_ex_stall_en = False,
         ex_mem_stall_en = False, if_id_flush_en = False, id_ex_flush_en = True\<rparr>
      else
        \<lparr>if_stall_en = False, if_id_stall_en = False, id_ex_stall_en = False,
         ex_mem_stall_en = False, if_id_flush_en = False, id_ex_flush_en = False\<rparr>) \<and>
   pc_redirect_sel (hazard_redirect h) = (hz_trap_pc_sel h \<or> hz_ex_branch_taken h) \<and>
   pc_redirect_is_trap (hazard_redirect h) = hz_trap_pc_sel h \<and>
   pc_redirect_target (hazard_redirect h) =
     (if hz_trap_pc_sel h then hz_trap_target_pc h
      else if hz_ex_branch_taken h then hz_ex_branch_target h else 0)"
  by (simp add: hazard_defs)

end
