(* ===== verification/Mem_Stage.thy ===== *)
theory Mem_Stage
  imports Pipeline_Regs
begin

text \<open>
  The memory stage, \<^verbatim>\<open>src/rtl/core/mem_stage.sv\<close>: misalignment detection, the data memory
  request, placement of store data on the byte lanes with its strobe, and extraction and
  extension of load data; and \<^verbatim>\<open>src/rtl/core/wb_stage.sv\<close>, which selects the write-back value,
  routes CSR requests and raises the trap signals.
\<close>

section \<open>Definitions\<close>

subsection \<open>Memory stage\<close>

definition addr_misaligned :: "3 word \<Rightarrow> u64 \<Rightarrow> bool" where
  "addr_misaligned sz addr =
     (if sz = 0b000 \<or> sz = 0b100 then False
      else if sz = 0b001 \<or> sz = 0b101 then bit addr 0
      else if sz = 0b010 \<or> sz = 0b110 then (field 0 addr :: 2 word) \<noteq> 0
      else if sz = 0b011 then (field 0 addr :: 3 word) \<noteq> 0
      else False)"

definition load_addr_misaligned :: "ex_mem \<Rightarrow> bool" where
  "load_addr_misaligned m \<longleftrightarrow> mem_is_load m \<and> addr_misaligned (mem_mem_size m) (mem_alu_result m)"

definition store_addr_misaligned :: "ex_mem \<Rightarrow> bool" where
  "store_addr_misaligned m \<longleftrightarrow>
     mem_is_store m \<and> addr_misaligned (mem_mem_size m) (mem_alu_result m)"

definition dmem_read_req :: "ex_mem \<Rightarrow> bool" where
  "dmem_read_req m \<longleftrightarrow> mem_is_load m \<and> \<not> load_addr_misaligned m"

definition dmem_write_req :: "ex_mem \<Rightarrow> bool" where
  "dmem_write_req m \<longleftrightarrow> mem_is_store m \<and> \<not> store_addr_misaligned m"

definition mem_stall_req :: "ex_mem \<Rightarrow> bool \<Rightarrow> bool \<Rightarrow> bool" where
  "mem_stall_req m dmem_req_ready dmem_rsp_valid \<longleftrightarrow>
     (mem_is_load m \<or> mem_is_store m) \<and>
     (\<not> dmem_req_ready \<or> (mem_is_load m \<and> \<not> dmem_rsp_valid))"

definition align_offset :: "u64 \<Rightarrow> nat" where
  "align_offset addr = unat (field 0 addr :: 3 word)"

definition store_data_aligned :: "3 word \<Rightarrow> u64 \<Rightarrow> u64 \<Rightarrow> u64" where
  "store_data_aligned sz addr rs2_rdata =
     (if sz = 0b000 then push_bit (align_offset addr * 8) (ucast (field 0 rs2_rdata :: u8))
      else if sz = 0b001 then push_bit (align_offset addr * 8) (ucast (field 0 rs2_rdata :: u16))
      else if sz = 0b010 then push_bit (align_offset addr * 8) (ucast (field 0 rs2_rdata :: u32))
      else if sz = 0b011 then rs2_rdata
      else 0)"

definition write_strobe :: "3 word \<Rightarrow> u64 \<Rightarrow> u8" where
  "write_strobe sz addr =
     (if sz = 0b000 then push_bit (align_offset addr) 0b00000001
      else if sz = 0b001 then push_bit (align_offset addr) 0b00000011
      else if sz = 0b010 then push_bit (align_offset addr) 0b00001111
      else if sz = 0b011 then 0b11111111
      else 0)"

definition dmem_wdata :: "ex_mem \<Rightarrow> u64" where
  "dmem_wdata m =
     (if mem_is_store m
      then store_data_aligned (mem_mem_size m) (mem_alu_result m) (mem_rs2_rdata m) else 0)"

definition dmem_wstrb :: "ex_mem \<Rightarrow> u8" where
  "dmem_wstrb m = (if mem_is_store m then write_strobe (mem_mem_size m) (mem_alu_result m) else 0)"

definition load_data_aligned :: "3 word \<Rightarrow> u64 \<Rightarrow> u64 \<Rightarrow> u64" where
  "load_data_aligned sz addr dmem_rdata =
     (let shifted_rdata = drop_bit (align_offset addr * 8) dmem_rdata in
      if sz = 0b000 then scast (field 0 shifted_rdata :: u8)
      else if sz = 0b001 then scast (field 0 shifted_rdata :: u16)
      else if sz = 0b010 then scast (field 0 shifted_rdata :: u32)
      else if sz = 0b011 then shifted_rdata
      else if sz = 0b100 then ucast (field 0 shifted_rdata :: u8)
      else if sz = 0b101 then ucast (field 0 shifted_rdata :: u16)
      else if sz = 0b110 then ucast (field 0 shifted_rdata :: u32)
      else 0)"

text \<open>The outputs to the MEM/WB register, as the value that register latches.\<close>

definition mem_stage :: "ex_mem \<Rightarrow> u64 \<Rightarrow> mem_wb" where
  "mem_stage m dmem_rdata =
     \<lparr>wb_pc = mem_pc m,
      wb_alu_result = mem_alu_result m,
      wb_mem_rdata = load_data_aligned (mem_mem_size m) (mem_alu_result m) dmem_rdata,
      wb_instr = mem_instr m,
      wb_reg_write_en = mem_reg_write_en m,
      wb_rd_addr = mem_rd_addr m,
      wb_wb_sel = mem_wb_sel m,
      wb_is_csr = mem_is_csr m,
      wb_csr_op = mem_csr_op m,
      wb_rs1_rdata = mem_rs1_rdata m,
      wb_rs1_addr = mem_rs1_addr m,
      wb_imm = mem_imm m,
      wb_illegal_instr = mem_illegal_instr m,
      wb_is_ecall = mem_is_ecall m,
      wb_is_ebreak = mem_is_ebreak m,
      wb_is_mret = mem_is_mret m,
      wb_is_sret = mem_is_sret m,
      wb_load_fault = load_addr_misaligned m,
      wb_store_fault = store_addr_misaligned m,
      wb_fault_addr =
        (if load_addr_misaligned m \<or> store_addr_misaligned m then mem_alu_result m else 0)\<rparr>"

subsection \<open>Write-back stage\<close>

definition wb_has_trap :: "mem_wb \<Rightarrow> bool" where
  "wb_has_trap w \<longleftrightarrow>
     wb_illegal_instr w \<or> wb_is_ecall w \<or> wb_is_ebreak w \<or> wb_load_fault w \<or> wb_store_fault w"

definition wb_csr_req :: "mem_wb \<Rightarrow> bool" where
  "wb_csr_req w \<longleftrightarrow> wb_is_csr w \<and> \<not> wb_has_trap w"

definition wb_csr_addr :: "mem_wb \<Rightarrow> csr_addr" where
  "wb_csr_addr w = field 0 (wb_imm w)"

definition wb_csr_rs1_data :: "mem_wb \<Rightarrow> u64" where
  "wb_csr_rs1_data w = (if bit (wb_csr_op w) 2 then ucast (wb_rs1_addr w) else wb_rs1_rdata w)"

definition wb_rd_wdata :: "mem_wb \<Rightarrow> u64 \<Rightarrow> u64 \<Rightarrow> u64" where
  "wb_rd_wdata w pc_plus_4 csr_rdata =
     (if wb_is_csr w then csr_rdata
      else if wb_wb_sel w = 0b00 then wb_alu_result w
      else if wb_wb_sel w = 0b01 then wb_mem_rdata w
      else if wb_wb_sel w = 0b10 then pc_plus_4
      else 0)"

definition wb_reg_write_en_out :: "mem_wb \<Rightarrow> bool \<Rightarrow> bool" where
  "wb_reg_write_en_out w csr_illegal_access \<longleftrightarrow>
     wb_reg_write_en w \<and> \<not> (wb_has_trap w \<or> csr_illegal_access)"

text \<open>The trap signals to the trap controller.\<close>

record trap_sigs =
  trap_illegal_instr :: bool
  trap_is_ecall :: bool
  trap_is_ebreak :: bool
  trap_is_mret :: bool
  trap_is_sret :: bool
  trap_load_fault :: bool
  trap_store_fault :: bool
  trap_instr_page_fault :: bool
  trap_load_page_fault :: bool
  trap_store_page_fault :: bool
  trap_epc :: u64
  trap_bad_addr :: u64
  trap_bad_instr :: u32

text \<open>The page-fault inputs are tied to zero in the core until the MMU drives them.\<close>

definition wb_trap_sigs :: "mem_wb \<Rightarrow> bool \<Rightarrow> trap_sigs" where
  "wb_trap_sigs w csr_illegal_access =
     \<lparr>trap_illegal_instr = (wb_illegal_instr w \<or> csr_illegal_access),
      trap_is_ecall = wb_is_ecall w,
      trap_is_ebreak = wb_is_ebreak w,
      trap_is_mret = wb_is_mret w,
      trap_is_sret = wb_is_sret w,
      trap_load_fault = wb_load_fault w,
      trap_store_fault = wb_store_fault w,
      trap_instr_page_fault = False,
      trap_load_page_fault = False,
      trap_store_page_fault = False,
      trap_epc = wb_pc w,
      trap_bad_addr = wb_fault_addr w,
      trap_bad_instr = wb_instr w\<rparr>"

section \<open>Lemmas\<close>

lemmas mem_stage_defs = addr_misaligned_def load_addr_misaligned_def store_addr_misaligned_def
  dmem_read_req_def dmem_write_req_def mem_stall_req_def align_offset_def store_data_aligned_def
  write_strobe_def dmem_wdata_def dmem_wstrb_def load_data_aligned_def mem_stage_def

lemmas wb_stage_defs = wb_has_trap_def wb_csr_req_def wb_csr_addr_def wb_csr_rs1_data_def
  wb_rd_wdata_def wb_reg_write_en_out_def wb_trap_sigs_def

declare mem_stage_defs [rtl_eval] wb_stage_defs [rtl_eval]

lemma align_offset_bound: "align_offset addr < 8"
proof -
  have "unat (field 0 addr :: 3 word) < 2 ^ LENGTH(3)"
    by (rule unsigned_less)
  then show ?thesis by (simp add: align_offset_def)
qed

lemma align_offset_mod: "align_offset addr = unat addr mod 8"
  by (simp add: align_offset_def field_def unsigned_ucast_eq take_bit_eq_mod)

text \<open>The two halves of the address: \<open>addr & ~7\<close> and \<open>addr & 7\<close>.\<close>

lemma align_split: "(addr AND NOT 0x7) + of_nat (align_offset addr) = (addr :: u64)"
proof -
  have "of_nat (align_offset addr) = addr AND 0x7"
    unfolding and_mask_u64 align_offset_def
    by (rule bit_word_eqI) (simp add: bit_simps)
  then show ?thesis by (simp only: and_not_add_and)
qed

lemma align_offset_and: "unat (addr AND 0x7 :: u64) = align_offset addr"
  unfolding and_mask_u64 align_offset_def field_def
  by transfer (simp add: take_bit_take_bit)

text \<open>The number of bytes an access of each size moves.\<close>

definition access_bytes :: "3 word \<Rightarrow> nat" where
  "access_bytes sz =
     (if sz = 0b000 \<or> sz = 0b100 then 1
      else if sz = 0b001 \<or> sz = 0b101 then 2
      else if sz = 0b010 \<or> sz = 0b110 then 4 else 8)"

lemma addr_misaligned_iff:
  assumes "sz \<noteq> 0b111"
  shows "addr_misaligned sz addr \<longleftrightarrow> unat addr mod access_bytes sz \<noteq> 0"
proof -
  have b0: "bit addr 0 \<longleftrightarrow> unat addr mod 2 \<noteq> 0"
  proof -
    have "bit addr 0 \<longleftrightarrow> bit (unat addr) 0" by (simp only: bit_unsigned_iff) simp
    also have "\<dots> \<longleftrightarrow> unat addr mod 2 \<noteq> 0" by (simp only: bit_0) presburger
    finally show ?thesis .
  qed
  have b2: "(field 0 addr :: 2 word) \<noteq> 0 \<longleftrightarrow> unat addr mod 4 \<noteq> 0"
    by (simp add: field_def unat_eq_zero [symmetric] unsigned_ucast_eq take_bit_eq_mod)
  have b3: "(field 0 addr :: 3 word) \<noteq> 0 \<longleftrightarrow> unat addr mod 8 \<noteq> 0"
    by (simp add: field_def unat_eq_zero [symmetric] unsigned_ucast_eq take_bit_eq_mod)
  have "sz = 0 \<or> sz = 1 \<or> sz = 2 \<or> sz = 3 \<or> sz = 4 \<or> sz = 5 \<or> sz = 6"
    using assms word3_cases [of sz] by auto
  then show ?thesis
    by (auto simp: addr_misaligned_def access_bytes_def b0 b2 b3)
qed

end
