(* ===== verification/Trap_Ctrl.thy ===== *)
theory Trap_Ctrl
  imports Mem_Stage
begin

text \<open>
  The trap controller, \<^verbatim>\<open>src/rtl/core/trap_ctrl.sv\<close>: selection of the synchronous exception
  and of the interrupt, delegation to S mode, the values saved in the CSRs, the target of the
  redirect, and the return instructions.
\<close>

section \<open>Definitions\<close>

text \<open>The status the controller reads from the CSR unit and the interrupt pins.\<close>

record trap_env =
  te_ext_timer :: bool
  te_ext_software :: bool
  te_ext_external :: bool
  te_mstatus_mie :: bool
  te_mtvec :: u64
  te_stvec :: u64
  te_mepc :: u64
  te_sepc :: u64
  te_medeleg :: u64
  te_mideleg :: u64
  te_priv_mode :: "2 word"

record trap_out =
  to_trigger :: bool
  to_mepc :: u64
  to_mcause :: u64
  to_mtval :: u64
  to_to_s_mode :: bool
  to_mret_en :: bool
  to_sret_en :: bool
  to_flush_req :: bool
  to_pc_sel :: bool
  to_next_pc :: u64

definition INTERRUPT_BIT :: u64 where
  "INTERRUPT_BIT = push_bit 63 1"

definition ecall_cause :: "2 word \<Rightarrow> u64" where
  "ecall_cause priv_mode =
     (if priv_mode = PRIV_U then EXC_ECALL_FROM_U
      else if priv_mode = PRIV_S then EXC_ECALL_FROM_S else EXC_ECALL_FROM_M)"

text \<open>Cause and trap value of the synchronous exception, if there is one.\<close>

definition sync_exception :: "trap_sigs \<Rightarrow> 2 word \<Rightarrow> (u64 \<times> u64) option" where
  "sync_exception t priv_mode =
     (if trap_illegal_instr t then Some (EXC_INST_ILLEGAL, ucast (trap_bad_instr t))
      else if trap_is_ebreak t then Some (EXC_BREAKPOINT, trap_epc t)
      else if trap_is_ecall t then Some (ecall_cause priv_mode, 0)
      else if trap_load_fault t then Some (EXC_LOAD_FAULT, trap_bad_addr t)
      else if trap_store_fault t then Some (EXC_STORE_FAULT, trap_bad_addr t)
      else if trap_instr_page_fault t then Some (EXC_INSTR_PAGE_FAULT, trap_bad_addr t)
      else if trap_load_page_fault t then Some (EXC_LOAD_PAGE_FAULT, trap_bad_addr t)
      else if trap_store_page_fault t then Some (EXC_STORE_PAGE_FAULT, trap_bad_addr t)
      else None)"

definition interrupt_cause :: "trap_env \<Rightarrow> u64 option" where
  "interrupt_cause e =
     (if te_mstatus_mie e then
        if te_ext_external e then Some (INTERRUPT_BIT OR INTERRUPT_M_EXTERNAL)
        else if te_ext_software e then Some (INTERRUPT_BIT OR INTERRUPT_M_SOFTWARE)
        else if te_ext_timer e then Some (INTERRUPT_BIT OR INTERRUPT_M_TIMER)
        else None
      else None)"

text \<open>An interrupt has priority over a synchronous exception. The last component is its mark.\<close>

definition trap_select :: "trap_sigs \<Rightarrow> trap_env \<Rightarrow> (u64 \<times> u64 \<times> bool) option" where
  "trap_select t e =
     (case interrupt_cause e of
        Some c \<Rightarrow> Some (c, 0, True)
      | None \<Rightarrow> map_option (\<lambda>(c, v). (c, v, False)) (sync_exception t (te_priv_mode e)))"

definition delegate_to_s :: "u64 \<Rightarrow> bool \<Rightarrow> trap_env \<Rightarrow> bool" where
  "delegate_to_s cause is_interrupt e \<longleftrightarrow>
     te_priv_mode e \<noteq> PRIV_M \<and>
     bit (if is_interrupt then te_mideleg e else te_medeleg e) (unat (field 0 cause :: 6 word))"

definition trap_vector :: "u64 \<Rightarrow> u64 \<Rightarrow> bool \<Rightarrow> u64" where
  "trap_vector base cause is_interrupt =
     (let aligned = (word_cat (field 2 base :: 62 word) (0 :: 2 word) :: u64) in
      if (field 0 base :: 2 word) = 0b01 \<and> is_interrupt
      then aligned + push_bit 2 (ucast (field 0 cause :: 6 word))
      else aligned)"

definition trap_ctrl :: "trap_sigs \<Rightarrow> trap_env \<Rightarrow> trap_out" where
  "trap_ctrl t e =
     (case trap_select t e of
        Some (cause, tval, is_interrupt) \<Rightarrow>
          (let to_s = delegate_to_s cause is_interrupt e in
           \<lparr>to_trigger = True, to_mepc = trap_epc t, to_mcause = cause, to_mtval = tval,
            to_to_s_mode = to_s, to_mret_en = False, to_sret_en = False, to_flush_req = True,
            to_pc_sel = True,
            to_next_pc = trap_vector (if to_s then te_stvec e else te_mtvec e) cause is_interrupt\<rparr>)
      | None \<Rightarrow>
          \<lparr>to_trigger = False, to_mepc = 0, to_mcause = 0, to_mtval = 0, to_to_s_mode = False,
           to_mret_en = trap_is_mret t, to_sret_en = trap_is_sret t,
           to_flush_req = (trap_is_mret t \<or> trap_is_sret t),
           to_pc_sel = (trap_is_mret t \<or> trap_is_sret t),
           to_next_pc =
             (if trap_is_mret t then te_mepc e else if trap_is_sret t then te_sepc e else 0)\<rparr>)"

subsection \<open>Specification\<close>

text \<open>The instruction in write-back raises an exception.\<close>

definition raises_exception :: "trap_sigs \<Rightarrow> bool" where
  "raises_exception t \<longleftrightarrow>
     trap_illegal_instr t \<or> trap_is_ebreak t \<or> trap_is_ecall t \<or> trap_load_fault t \<or>
     trap_store_fault t \<or> trap_instr_page_fault t \<or> trap_load_page_fault t \<or>
     trap_store_page_fault t"

text \<open>
  The exception codes in the order of their priority, by the numbers of the privileged
  specification, and the trap value that goes with them.
\<close>

definition exception_code :: "trap_sigs \<Rightarrow> 2 word \<Rightarrow> nat" where
  "exception_code t p =
     (if trap_illegal_instr t then 2 else if trap_is_ebreak t then 3
      else if trap_is_ecall t then (if p = 0 then 8 else if p = 1 then 9 else 11)
      else if trap_load_fault t then 5 else if trap_store_fault t then 7
      else if trap_instr_page_fault t then 12 else if trap_load_page_fault t then 13 else 15)"

definition exception_tval :: "trap_sigs \<Rightarrow> u64" where
  "exception_tval t =
     (if trap_illegal_instr t then ucast (trap_bad_instr t)
      else if trap_is_ebreak t then trap_epc t
      else if trap_is_ecall t then 0 else trap_bad_addr t)"

text \<open>Below M mode the delegation register of the kind of trap sends a code to S mode.\<close>

definition delegated :: "trap_env \<Rightarrow> bool \<Rightarrow> nat \<Rightarrow> bool" where
  "delegated e irq code \<longleftrightarrow>
     te_priv_mode e \<noteq> 3 \<and> bit (if irq then te_mideleg e else te_medeleg e) code"

text \<open>The handler: the base of the vector register, for a vectored interrupt its entry.\<close>

definition handler_address :: "u64 \<Rightarrow> bool \<Rightarrow> nat \<Rightarrow> u64" where
  "handler_address tvec irq code =
     (tvec AND NOT 3) + (if irq \<and> tvec AND 3 = 1 then of_nat (4 * code) else 0)"

definition trap_response :: "trap_sigs \<Rightarrow> trap_env \<Rightarrow> trap_out \<Rightarrow> bool \<Rightarrow> nat \<Rightarrow> bool" where
  "trap_response t e out irq code \<longleftrightarrow>
     to_trigger out \<and> to_flush_req out \<and> to_pc_sel out \<and> \<not> to_mret_en out \<and> \<not> to_sret_en out \<and>
     to_mepc out = trap_epc t \<and>
     to_mcause out = of_nat code + (if irq then 2 ^ 63 else 0) \<and>
     to_mtval out = (if irq then 0 else exception_tval t) \<and>
     to_to_s_mode out = delegated e irq code \<and>
     to_next_pc out =
       handler_address (if delegated e irq code then te_stvec e else te_mtvec e) irq code"

section \<open>Lemmas\<close>

lemmas trap_ctrl_defs = INTERRUPT_BIT_def ecall_cause_def sync_exception_def interrupt_cause_def
  trap_select_def delegate_to_s_def trap_vector_def trap_ctrl_def

declare trap_ctrl_defs [rtl_eval]

lemma trap_select_None_iff:
  "trap_select t e = None \<longleftrightarrow>
     interrupt_cause e = None \<and> sync_exception t (te_priv_mode e) = None"
  by (auto simp: trap_select_def split: option.splits)

text \<open>A trap from M mode is never delegated.\<close>

lemma trap_ctrl_M_not_delegated:
  "te_priv_mode e = PRIV_M \<Longrightarrow> \<not> to_to_s_mode (trap_ctrl t e)"
  by (auto simp: trap_ctrl_def delegate_to_s_def Let_def split: option.split)

lemma trap_vector_handler:
  assumes "unat (field 0 c :: 6 word) = code"
  shows "trap_vector base c irq = handler_address base irq code"
proof -
  have "word_cat (field 2 base :: 62 word) (0 :: 2 word) = base AND NOT 3"
  proof (rule bit_word_eqI)
    fix n assume "n < LENGTH(64)"
    have "bit (3 :: u64) n \<longleftrightarrow> n < 2"
      using bit_mask_iff [of 2 n, where ?'a = u64] by (auto simp: mask_numeral)
    then show "bit (word_cat (field 2 base :: 62 word) (0 :: 2 word) :: u64) n \<longleftrightarrow>
        bit (base AND NOT 3) n"
      using \<open>n < LENGTH(64)\<close> le_add_diff_inverse [of 2 n] by (auto simp: bit_simps)
  qed
  moreover have "(field 0 base :: 2 word) = 0b01 \<longleftrightarrow> base AND 3 = 1"
  proof -
    have "base AND 3 = ucast (field 0 base :: 2 word)"
      using take_bit_eq_mask [of 2 base] by (simp add: mask_numeral field_def unsigned_ucast_eq)
    moreover have "(ucast (ucast (field 0 base :: 2 word) :: u64) :: 2 word) = field 0 base"
      by (rule bit_word_eqI) (auto simp: bit_simps)
    ultimately show ?thesis by (metis ucast_1)
  qed
  moreover have "push_bit 2 (ucast (field 0 c :: 6 word)) = (of_nat (4 * code) :: u64)"
    by (simp add: assms [symmetric] push_bit_eq_mult)
  ultimately show ?thesis by (simp add: trap_vector_def handler_address_def Let_def)
qed

lemma trap_ctrl_trigger_iff: "to_trigger (trap_ctrl t e) \<longleftrightarrow> trap_select t e \<noteq> None"
  by (auto simp: trap_ctrl_def Let_def split: option.split prod.split)

lemma trap_ctrl_taken:
  assumes "trap_select t e = Some (c, v, i)"
  shows "to_mepc (trap_ctrl t e) = trap_epc t" "to_mcause (trap_ctrl t e) = c"
    "to_mtval (trap_ctrl t e) = v" "to_to_s_mode (trap_ctrl t e) = delegate_to_s c i e"
    "to_next_pc (trap_ctrl t e) =
       trap_vector (if delegate_to_s c i e then te_stvec e else te_mtvec e) c i"
    "to_flush_req (trap_ctrl t e)" "to_pc_sel (trap_ctrl t e)"
    "\<not> to_mret_en (trap_ctrl t e)" "\<not> to_sret_en (trap_ctrl t e)"
  using assms by (simp_all add: trap_ctrl_def Let_def)

lemma sync_exception_None: "sync_exception t p = None \<longleftrightarrow> \<not> raises_exception t"
  by (simp add: sync_exception_def raises_exception_def)

lemma sync_exception_raises:
  "raises_exception t \<Longrightarrow>
     sync_exception t p = Some (of_nat (exception_code t p), exception_tval t)"
  by (simp add: sync_exception_def raises_exception_def exception_code_def exception_tval_def
      ecall_cause_def) blast

lemma exception_code_less: "exception_code t p < 16"
  by (simp add: exception_code_def)

text \<open>The outputs for a trap whose cause has the given kind and code.\<close>

lemma trap_ctrl_response:
  assumes "trap_select t e = Some (of_nat code + (if irq then 2 ^ 63 else 0), v, irq)" "code < 16"
    and "v = (if irq then 0 else exception_tval t)"
  shows "trap_response t e (trap_ctrl t e) irq code"
proof -
  let ?c = "of_nat code + (if irq then 2 ^ 63 else 0) :: u64"
  have c: "unat (field 0 ?c :: 6 word) = code"
  proof -
    have z: "(9223372036854775808 :: 6 word) = 0" by simp
    show ?thesis
      using assms(2)
      by (simp add: field_def ucast_down_add unsigned_ucast_eq unsigned_of_nat take_bit_nat_eq_self z)
  qed
  have "delegate_to_s ?c irq e = delegated e irq code"
    unfolding delegate_to_s_def c delegated_def ..
  then show ?thesis
    using assms(1,3) unfolding trap_response_def
    by (simp add: trap_ctrl_trigger_iff trap_ctrl_taken [OF assms(1)] trap_vector_handler [OF c])
qed

section \<open>Properties\<close>

text \<open>
  C11: a trap is taken exactly when interrupts are enabled and one is pending, or the instruction
  in write-back raises an exception.  The interrupt wins over the exception, an external one over
  a software one over a timer one; among the exceptions an illegal instruction wins over a
  breakpoint, an environment call, an access fault and a page fault in this order.  The response
  (\<open>trap_response\<close>) saves the PC of the instruction, the code with the interrupt bit and the trap
  value, goes to S mode exactly below M mode when the delegation register of the kind of trap has
  the bit of the code, flushes the front of the pipeline and redirects it to the handler: the
  base in \<open>stvec\<close> or \<open>mtvec\<close>, for an interrupt in vectored mode four bytes per code further on.
  Otherwise \<open>mret\<close> and \<open>sret\<close>, and nothing else, redirect: to \<open>mepc\<close> and \<open>sepc\<close>.
\<close>

theorem trap_ctrl_decision:
  "if te_mstatus_mie e \<and> (te_ext_external e \<or> te_ext_software e \<or> te_ext_timer e)
   then trap_response t e (trap_ctrl t e) True
          (if te_ext_external e then 11 else if te_ext_software e then 3 else 7)
   else if raises_exception t
   then trap_response t e (trap_ctrl t e) False (exception_code t (te_priv_mode e))
   else \<not> to_trigger (trap_ctrl t e) \<and>
        to_mret_en (trap_ctrl t e) = trap_is_mret t \<and>
        to_sret_en (trap_ctrl t e) = trap_is_sret t \<and>
        to_flush_req (trap_ctrl t e) = (trap_is_mret t \<or> trap_is_sret t) \<and>
        to_pc_sel (trap_ctrl t e) = (trap_is_mret t \<or> trap_is_sret t) \<and>
        to_next_pc (trap_ctrl t e) =
          (if trap_is_mret t then te_mepc e else if trap_is_sret t then te_sepc e else 0)"
proof (cases "te_mstatus_mie e \<and> (te_ext_external e \<or> te_ext_software e \<or> te_ext_timer e)")
  case True
  let ?code = "if te_ext_external e then 11 else if te_ext_software e then 3 else 7 :: nat"
  have "trap_select t e = Some (of_nat ?code + (if True then 2 ^ 63 else 0), 0, True)"
    using True by (auto simp: trap_select_def interrupt_cause_def INTERRUPT_BIT_def)
  from trap_ctrl_response [OF this] show ?thesis unfolding if_P [OF True] by simp
next
  case off: False
  then have none: "interrupt_cause e = None" by (auto simp: interrupt_cause_def)
  show ?thesis
  proof (cases "raises_exception t")
    case True
    let ?code = "exception_code t (te_priv_mode e)"
    have "trap_select t e =
        Some (of_nat ?code + (if False then 2 ^ 63 else 0), exception_tval t, False)"
      using none True by (simp add: trap_select_def sync_exception_raises)
    from trap_ctrl_response [OF this exception_code_less] show ?thesis
      unfolding if_not_P [OF off] if_P [OF True] by simp
  next
    case False
    then have "trap_select t e = None"
      using none by (simp add: trap_select_None_iff sync_exception_None)
    then show ?thesis
      unfolding if_not_P [OF off] if_not_P [OF False] by (simp add: trap_ctrl_def)
  qed
qed

end
