(* ===== verification/Csr_Unit.thy ===== *)
theory Csr_Unit
  imports Rv64_Pkg
begin

text \<open>
  The CSR unit, \<^verbatim>\<open>src/rtl/core/csr_unit.sv\<close>, with its default parameters: the register
  state as a record, the combinational read port and the legality of an access, and the clocked
  update. Non-blocking assignments read the old state: each part of the update takes the old
  state and the state built so far, in source order, so that a later assignment wins.
\<close>

section \<open>Definitions\<close>

record csr_state =
  mstatus_reg :: u64
  medeleg_reg :: u64
  mideleg_reg :: u64
  mie_reg :: u64
  mtvec_reg :: u64
  mcounteren_reg :: u64
  mscratch_reg :: u64
  mepc_reg :: u64
  mcause_reg :: u64
  mtval_reg :: u64
  mip_reg :: u64
  sstatus_reg :: u64
  sie_reg :: u64
  stvec_reg :: u64
  scounteren_reg :: u64
  sscratch_reg :: u64
  sepc_reg :: u64
  scause_reg :: u64
  stval_reg :: u64
  sip_reg :: u64
  satp_reg :: u64
  mcycle_reg :: u64
  minstret_reg :: u64
  time_reg :: u64
  fflags_reg :: "5 word"
  frm_reg :: "3 word"
  priv_mode_q :: priv_mode_t
  trap_vector_q :: u64
  trap_to_s_q :: bool

record csr_in =
  ci_rst :: bool
  ci_csr_req :: bool
  ci_csr_op :: "3 word"
  ci_csr_addr :: csr_addr
  ci_csr_rs1_data :: u64
  ci_trap_trigger :: bool
  ci_trap_to_s_mode :: bool
  ci_trap_mepc :: u64
  ci_trap_mcause :: u64
  ci_trap_mtval :: u64
  ci_mret_en :: bool
  ci_sret_en :: bool

abbreviation (input) MSTATUS_MIE_BIT :: nat where "MSTATUS_MIE_BIT \<equiv> 3"
abbreviation (input) MSTATUS_MPIE_BIT :: nat where "MSTATUS_MPIE_BIT \<equiv> 7"
abbreviation (input) MSTATUS_MPP_LO :: nat where "MSTATUS_MPP_LO \<equiv> 11"
abbreviation (input) MSTATUS_MPP_HI :: nat where "MSTATUS_MPP_HI \<equiv> 12"
abbreviation (input) SSTATUS_SIE_BIT :: nat where "SSTATUS_SIE_BIT \<equiv> 1"
abbreviation (input) SSTATUS_SPIE_BIT :: nat where "SSTATUS_SPIE_BIT \<equiv> 5"
abbreviation (input) SSTATUS_SPP_BIT :: nat where "SSTATUS_SPP_BIT \<equiv> 8"

definition HART_ID :: u64 where "HART_ID = 0"
definition VENDOR_ID :: u64 where "VENDOR_ID = 0"
definition ARCH_ID :: u64 where "ARCH_ID = 0"
definition IMPL_ID :: u64 where "IMPL_ID = 0"
definition MISA_VALUE :: u64 where "MISA_VALUE = 0x800000000050112D"

subsection \<open>Helper functions\<close>

definition canonical_addr :: "csr_addr \<Rightarrow> csr_addr" where
  "canonical_addr addr =
     (if addr = CSR_CYCLE then CSR_MCYCLE
      else if addr = CSR_INSTRET then CSR_MINSTRET
      else addr)"

definition is_write_cmd :: "3 word \<Rightarrow> bool" where
  "is_write_cmd op \<longleftrightarrow> op = 0b001 \<or> op = 0b101"

definition is_set_cmd :: "3 word \<Rightarrow> bool" where
  "is_set_cmd op \<longleftrightarrow> op = 0b010 \<or> op = 0b110"

definition is_clear_cmd :: "3 word \<Rightarrow> bool" where
  "is_clear_cmd op \<longleftrightarrow> op = 0b011 \<or> op = 0b111"

definition csr_write_next :: "u64 \<Rightarrow> u64 \<Rightarrow> 3 word \<Rightarrow> u64" where
  "csr_write_next current_data write_data op_code =
     (if op_code = 0b001 \<or> op_code = 0b101 then write_data
      else if op_code = 0b010 \<or> op_code = 0b110 then current_data OR write_data
      else if op_code = 0b011 \<or> op_code = 0b111 then current_data AND NOT write_data
      else current_data)"

definition csr_is_writable :: "csr_addr \<Rightarrow> bool" where
  "csr_is_writable addr \<longleftrightarrow>
     addr \<notin> {CSR_MISA, CSR_MVENDORID, CSR_MARCHID, CSR_MIMPID, CSR_MHARTID, CSR_TIME}"

definition csr_is_supported :: "csr_addr \<Rightarrow> bool" where
  "csr_is_supported addr \<longleftrightarrow>
     addr \<in> {CSR_MSTATUS, CSR_MISA, CSR_MEDELEG, CSR_MIDELEG, CSR_MIE, CSR_MTVEC, CSR_MSCRATCH,
       CSR_MEPC, CSR_MCAUSE, CSR_MTVAL, CSR_MIP, CSR_MCOUNTEREN, CSR_MVENDORID, CSR_MARCHID,
       CSR_MIMPID, CSR_MHARTID, CSR_SSTATUS, CSR_SIE, CSR_STVEC, CSR_SCOUNTEREN, CSR_SSCRATCH,
       CSR_SEPC, CSR_SCAUSE, CSR_STVAL, CSR_SIP, CSR_SATP, CSR_MCYCLE, CSR_MINSTRET, CSR_CYCLE,
       CSR_INSTRET, CSR_TIME, CSR_FFLAGS, CSR_FRM, CSR_FCSR}"

definition apply_sstatus_to_mstatus :: "u64 \<Rightarrow> u64 \<Rightarrow> u64" where
  "apply_sstatus_to_mstatus mstatus_cur sstatus_data =
     put_bit SSTATUS_SPP_BIT (bit sstatus_data SSTATUS_SPP_BIT)
       (put_bit SSTATUS_SPIE_BIT (bit sstatus_data SSTATUS_SPIE_BIT)
         (put_bit SSTATUS_SIE_BIT (bit sstatus_data SSTATUS_SIE_BIT) mstatus_cur))"

definition mirror_mstatus_to_sstatus :: "u64 \<Rightarrow> u64 \<Rightarrow> u64" where
  "mirror_mstatus_to_sstatus sstatus_cur mstatus_data =
     put_bit SSTATUS_SPP_BIT (bit mstatus_data SSTATUS_SPP_BIT)
       (put_bit SSTATUS_SPIE_BIT (bit mstatus_data SSTATUS_SPIE_BIT)
         (put_bit SSTATUS_SIE_BIT (bit mstatus_data SSTATUS_SIE_BIT) sstatus_cur))"

definition compose_fcsr :: "csr_state \<Rightarrow> u64" where
  "compose_fcsr s = ucast (word_cat (frm_reg s) (fflags_reg s) :: 8 word)"

definition decode_priv_mode :: "2 word \<Rightarrow> priv_mode_t" where
  "decode_priv_mode encoded =
     (if encoded = 0b00 then PRIV_MODE_U else if encoded = 0b01 then PRIV_MODE_S
      else PRIV_MODE_M)"

definition encode_priv_mode :: "priv_mode_t \<Rightarrow> 2 word" where
  "encode_priv_mode mode =
     (case mode of PRIV_MODE_U \<Rightarrow> 0b00 | PRIV_MODE_S \<Rightarrow> 0b01 | PRIV_MODE_M \<Rightarrow> 0b11)"

text \<open>The assignment \<open>w[MPP_HI:MPP_LO] = v\<close>.\<close>

definition put_mpp :: "2 word \<Rightarrow> u64 \<Rightarrow> u64" where
  "put_mpp v w = put_bit MSTATUS_MPP_HI (bit v 1) (put_bit MSTATUS_MPP_LO (bit v 0) w)"

subsection \<open>The read port\<close>

definition read_csr :: "csr_state \<Rightarrow> csr_addr \<Rightarrow> u64" where
  "read_csr s addr =
     (if addr = CSR_FFLAGS then ucast (fflags_reg s)
      else if addr = CSR_FRM then ucast (frm_reg s)
      else if addr = CSR_FCSR then compose_fcsr s
      else if addr = CSR_MSTATUS then mstatus_reg s
      else if addr = CSR_MISA then MISA_VALUE
      else if addr = CSR_MEDELEG then medeleg_reg s
      else if addr = CSR_MIDELEG then mideleg_reg s
      else if addr = CSR_MIE then mie_reg s
      else if addr = CSR_MTVEC then mtvec_reg s
      else if addr = CSR_MSCRATCH then mscratch_reg s
      else if addr = CSR_MEPC then mepc_reg s
      else if addr = CSR_MCAUSE then mcause_reg s
      else if addr = CSR_MTVAL then mtval_reg s
      else if addr = CSR_MIP then mip_reg s
      else if addr = CSR_MCOUNTEREN then mcounteren_reg s
      else if addr = CSR_MVENDORID then VENDOR_ID
      else if addr = CSR_MARCHID then ARCH_ID
      else if addr = CSR_MIMPID then IMPL_ID
      else if addr = CSR_MHARTID then HART_ID
      else if addr = CSR_SSTATUS then sstatus_reg s
      else if addr = CSR_SIE then sie_reg s
      else if addr = CSR_STVEC then stvec_reg s
      else if addr = CSR_SCOUNTEREN then scounteren_reg s
      else if addr = CSR_SSCRATCH then sscratch_reg s
      else if addr = CSR_SEPC then sepc_reg s
      else if addr = CSR_SCAUSE then scause_reg s
      else if addr = CSR_STVAL then stval_reg s
      else if addr = CSR_SIP then sip_reg s
      else if addr = CSR_SATP then satp_reg s
      else if addr = CSR_MCYCLE then mcycle_reg s
      else if addr = CSR_MINSTRET then minstret_reg s
      else if addr = CSR_CYCLE then mcycle_reg s
      else if addr = CSR_INSTRET then minstret_reg s
      else if addr = CSR_TIME then time_reg s
      else 0)"

definition csr_rdata :: "csr_in \<Rightarrow> csr_state \<Rightarrow> u64" where
  "csr_rdata i s = read_csr s (canonical_addr (ci_csr_addr i))"

definition csr_illegal_access :: "csr_in \<Rightarrow> bool" where
  "csr_illegal_access i \<longleftrightarrow>
     ci_csr_req i \<and>
     (\<not> csr_is_supported (canonical_addr (ci_csr_addr i)) \<or>
      ((is_write_cmd (ci_csr_op i) \<or> is_set_cmd (ci_csr_op i) \<or> is_clear_cmd (ci_csr_op i)) \<and>
       \<not> csr_is_writable (canonical_addr (ci_csr_addr i))))"

definition csr_write_en :: "csr_in \<Rightarrow> bool" where
  "csr_write_en i \<longleftrightarrow>
     ci_csr_req i \<and> csr_is_supported (canonical_addr (ci_csr_addr i)) \<and>
     (is_write_cmd (ci_csr_op i) \<or>
      ((is_set_cmd (ci_csr_op i) \<or> is_clear_cmd (ci_csr_op i)) \<and> ci_csr_rs1_data i \<noteq> 0))"

definition csr_trap_vector_next :: "csr_in \<Rightarrow> csr_state \<Rightarrow> u64" where
  "csr_trap_vector_next i s = (if ci_trap_to_s_mode i then stvec_reg s else mtvec_reg s)"

subsection \<open>The clocked update\<close>

definition csr_reset :: csr_state where
  "csr_reset =
     \<lparr>mstatus_reg = 0, medeleg_reg = 0, mideleg_reg = 0, mie_reg = 0, mtvec_reg = 0,
      mcounteren_reg = 0, mscratch_reg = 0, mepc_reg = 0, mcause_reg = 0, mtval_reg = 0,
      mip_reg = 0, sstatus_reg = 0, sie_reg = 0, stvec_reg = 0, scounteren_reg = 0,
      sscratch_reg = 0, sepc_reg = 0, scause_reg = 0, stval_reg = 0, sip_reg = 0, satp_reg = 0,
      mcycle_reg = 0, minstret_reg = 0, time_reg = 0, fflags_reg = 0, frm_reg = 0,
      priv_mode_q = PRIV_MODE_M, trap_vector_q = 0, trap_to_s_q = False\<rparr>"

definition csr_count :: "csr_in \<Rightarrow> csr_state \<Rightarrow> csr_state \<Rightarrow> csr_state" where
  "csr_count i s n =
     (let n' = n\<lparr>mcycle_reg := mcycle_reg s + 1, time_reg := time_reg s + 1\<rparr> in
      if \<not> ci_trap_trigger i then n'\<lparr>minstret_reg := minstret_reg s + 1\<rparr> else n')"

text \<open>The \<open>unique case\<close> on the canonical address of a CSR write.\<close>

definition csr_write :: "csr_addr \<Rightarrow> u64 \<Rightarrow> 3 word \<Rightarrow> csr_state \<Rightarrow> csr_state \<Rightarrow> csr_state" where
  "csr_write addr data op s n =
     (let nx = (\<lambda>cur. csr_write_next cur data op) in
      if addr = CSR_MSTATUS then
        n\<lparr>mstatus_reg := nx (mstatus_reg s),
          sstatus_reg := mirror_mstatus_to_sstatus (sstatus_reg s) (nx (mstatus_reg s))\<rparr>
      else if addr = CSR_MEDELEG then n\<lparr>medeleg_reg := nx (medeleg_reg s)\<rparr>
      else if addr = CSR_MIDELEG then n\<lparr>mideleg_reg := nx (mideleg_reg s)\<rparr>
      else if addr = CSR_MIE then n\<lparr>mie_reg := nx (mie_reg s)\<rparr>
      else if addr = CSR_MTVEC then n\<lparr>mtvec_reg := nx (mtvec_reg s)\<rparr>
      else if addr = CSR_MSCRATCH then n\<lparr>mscratch_reg := nx (mscratch_reg s)\<rparr>
      else if addr = CSR_MEPC then n\<lparr>mepc_reg := nx (mepc_reg s)\<rparr>
      else if addr = CSR_MCAUSE then n\<lparr>mcause_reg := nx (mcause_reg s)\<rparr>
      else if addr = CSR_MTVAL then n\<lparr>mtval_reg := nx (mtval_reg s)\<rparr>
      else if addr = CSR_MIP then n\<lparr>mip_reg := nx (mip_reg s)\<rparr>
      else if addr = CSR_MCOUNTEREN then n\<lparr>mcounteren_reg := nx (mcounteren_reg s)\<rparr>
      else if addr = CSR_SSTATUS then
        n\<lparr>sstatus_reg := nx (sstatus_reg s),
          mstatus_reg := apply_sstatus_to_mstatus (mstatus_reg s) (nx (sstatus_reg s))\<rparr>
      else if addr = CSR_SIE then n\<lparr>sie_reg := nx (sie_reg s)\<rparr>
      else if addr = CSR_STVEC then n\<lparr>stvec_reg := nx (stvec_reg s)\<rparr>
      else if addr = CSR_SCOUNTEREN then n\<lparr>scounteren_reg := nx (scounteren_reg s)\<rparr>
      else if addr = CSR_SSCRATCH then n\<lparr>sscratch_reg := nx (sscratch_reg s)\<rparr>
      else if addr = CSR_SEPC then n\<lparr>sepc_reg := nx (sepc_reg s)\<rparr>
      else if addr = CSR_SCAUSE then n\<lparr>scause_reg := nx (scause_reg s)\<rparr>
      else if addr = CSR_STVAL then n\<lparr>stval_reg := nx (stval_reg s)\<rparr>
      else if addr = CSR_SIP then n\<lparr>sip_reg := nx (sip_reg s)\<rparr>
      else if addr = CSR_SATP then n\<lparr>satp_reg := nx (satp_reg s)\<rparr>
      else if addr = CSR_MCYCLE then n\<lparr>mcycle_reg := nx (mcycle_reg s)\<rparr>
      else if addr = CSR_MINSTRET then n\<lparr>minstret_reg := nx (minstret_reg s)\<rparr>
      else if addr = CSR_FFLAGS then n\<lparr>fflags_reg := field 0 (nx (ucast (fflags_reg s)))\<rparr>
      else if addr = CSR_FRM then n\<lparr>frm_reg := field 0 (nx (ucast (frm_reg s)))\<rparr>
      else if addr = CSR_FCSR then
        n\<lparr>fflags_reg := field 0 (nx (compose_fcsr s)), frm_reg := field 5 (nx (compose_fcsr s))\<rparr>
      else n)"

definition csr_write_phase :: "csr_in \<Rightarrow> csr_state \<Rightarrow> csr_state \<Rightarrow> csr_state" where
  "csr_write_phase i s n =
     (if csr_write_en i \<and> csr_is_writable (canonical_addr (ci_csr_addr i))
      then csr_write (canonical_addr (ci_csr_addr i)) (ci_csr_rs1_data i) (ci_csr_op i) s n
      else n)"

definition csr_trap_s :: "csr_in \<Rightarrow> csr_state \<Rightarrow> csr_state \<Rightarrow> csr_state" where
  "csr_trap_s i s n =
     (let next_sstatus =
            put_bit SSTATUS_SPP_BIT (priv_mode_q s = PRIV_MODE_S)
              (put_bit SSTATUS_SIE_BIT False
                (put_bit SSTATUS_SPIE_BIT (bit (sstatus_reg s) SSTATUS_SIE_BIT) (sstatus_reg s)))
      in n\<lparr>sstatus_reg := next_sstatus,
           mstatus_reg := apply_sstatus_to_mstatus (mstatus_reg s) next_sstatus,
           sepc_reg := ci_trap_mepc i, scause_reg := ci_trap_mcause i,
           stval_reg := ci_trap_mtval i, priv_mode_q := PRIV_MODE_S\<rparr>)"

definition csr_trap_m :: "csr_in \<Rightarrow> csr_state \<Rightarrow> csr_state \<Rightarrow> csr_state" where
  "csr_trap_m i s n =
     (let next_mstatus =
            put_mpp (encode_priv_mode (priv_mode_q s))
              (put_bit MSTATUS_MIE_BIT False
                (put_bit MSTATUS_MPIE_BIT (bit (mstatus_reg s) MSTATUS_MIE_BIT) (mstatus_reg s)))
      in n\<lparr>mstatus_reg := next_mstatus,
           sstatus_reg := mirror_mstatus_to_sstatus (sstatus_reg s) next_mstatus,
           mepc_reg := ci_trap_mepc i, mcause_reg := ci_trap_mcause i,
           mtval_reg := ci_trap_mtval i, priv_mode_q := PRIV_MODE_M\<rparr>)"

definition csr_mret :: "csr_state \<Rightarrow> csr_state \<Rightarrow> csr_state" where
  "csr_mret s n =
     (let next_mstatus =
            put_mpp (encode_priv_mode PRIV_MODE_U)
              (put_bit MSTATUS_MPIE_BIT True
                (put_bit MSTATUS_MIE_BIT (bit (mstatus_reg s) MSTATUS_MPIE_BIT) (mstatus_reg s)))
      in n\<lparr>mstatus_reg := next_mstatus,
           sstatus_reg := mirror_mstatus_to_sstatus (sstatus_reg s) next_mstatus,
           priv_mode_q := decode_priv_mode (field MSTATUS_MPP_LO (mstatus_reg s))\<rparr>)"

definition csr_sret :: "csr_state \<Rightarrow> csr_state \<Rightarrow> csr_state" where
  "csr_sret s n =
     (let next_sstatus =
            put_bit SSTATUS_SPP_BIT False
              (put_bit SSTATUS_SPIE_BIT True
                (put_bit SSTATUS_SIE_BIT (bit (sstatus_reg s) SSTATUS_SPIE_BIT) (sstatus_reg s)))
      in n\<lparr>sstatus_reg := next_sstatus,
           mstatus_reg := apply_sstatus_to_mstatus (mstatus_reg s) next_sstatus,
           priv_mode_q :=
             (if bit (sstatus_reg s) SSTATUS_SPP_BIT then PRIV_MODE_S else PRIV_MODE_U)\<rparr>)"

definition csr_trap_phase :: "csr_in \<Rightarrow> csr_state \<Rightarrow> csr_state \<Rightarrow> csr_state" where
  "csr_trap_phase i s n =
     (if ci_trap_trigger i then
        (let n' = n\<lparr>trap_vector_q := csr_trap_vector_next i s,
                    trap_to_s_q := ci_trap_to_s_mode i\<rparr> in
         if ci_trap_to_s_mode i then csr_trap_s i s n' else csr_trap_m i s n')
      else
        (let n' = (if ci_mret_en i then csr_mret s n else n) in
         if ci_sret_en i then csr_sret s n' else n'))"

definition csr_unit_ff :: "csr_in \<Rightarrow> csr_state \<Rightarrow> csr_state" where
  "csr_unit_ff i s =
     (if ci_rst i then csr_reset
      else csr_trap_phase i s (csr_write_phase i s (csr_count i s s)))"

subsection \<open>Reachable states\<close>

inductive csr_reachable :: "csr_state \<Rightarrow> bool" where
  csr_init: "csr_reachable csr_reset"
| csr_step: "csr_reachable s \<Longrightarrow> csr_reachable (csr_unit_ff i s)"

text \<open>
  The invariant: the supervisor view \<open>sstatus\<close> and \<open>mstatus\<close> agree on SIE, SPIE and SPP.
\<close>

definition status_mirrored :: "csr_state \<Rightarrow> bool" where
  "status_mirrored s \<longleftrightarrow>
     (\<forall>n \<in> {SSTATUS_SIE_BIT, SSTATUS_SPIE_BIT, SSTATUS_SPP_BIT}.
        bit (mstatus_reg s) n = bit (sstatus_reg s) n)"

text \<open>
  The registers that record a trap are the status registers, the exception PCs, causes and values
  of both modes, the privilege mode and the latched vector; the other registers, the cycle
  and time counters apart, are as before.
\<close>

definition only_trap_registers :: "csr_state \<Rightarrow> csr_state \<Rightarrow> bool" where
  "only_trap_registers s t \<longleftrightarrow>
     medeleg_reg t = medeleg_reg s \<and> mideleg_reg t = mideleg_reg s \<and>
     mie_reg t = mie_reg s \<and> mtvec_reg t = mtvec_reg s \<and>
     mcounteren_reg t = mcounteren_reg s \<and> mscratch_reg t = mscratch_reg s \<and>
     mip_reg t = mip_reg s \<and> sie_reg t = sie_reg s \<and>
     stvec_reg t = stvec_reg s \<and> scounteren_reg t = scounteren_reg s \<and>
     sscratch_reg t = sscratch_reg s \<and> sip_reg t = sip_reg s \<and>
     satp_reg t = satp_reg s \<and> minstret_reg t = minstret_reg s \<and>
     fflags_reg t = fflags_reg s \<and> frm_reg t = frm_reg s \<and>
     mcycle_reg t = mcycle_reg s + 1 \<and> time_reg t = time_reg s + 1"

section \<open>Lemmas\<close>

lemmas csr_helper_defs = canonical_addr_def is_write_cmd_def is_set_cmd_def is_clear_cmd_def
  csr_write_next_def csr_is_writable_def csr_is_supported_def compose_fcsr_def
  decode_priv_mode_def encode_priv_mode_def put_mpp_def apply_sstatus_to_mstatus_def
  mirror_mstatus_to_sstatus_def HART_ID_def VENDOR_ID_def ARCH_ID_def IMPL_ID_def MISA_VALUE_def

lemmas csr_phase_defs = csr_count_def csr_write_def csr_write_phase_def csr_trap_s_def
  csr_trap_m_def csr_mret_def csr_sret_def csr_trap_phase_def csr_unit_ff_def csr_write_en_def
  csr_illegal_access_def csr_rdata_def read_csr_def csr_trap_vector_next_def

declare csr_helper_defs [rtl_eval] csr_phase_defs [rtl_eval]

lemma decode_encode_priv_mode [simp]: "decode_priv_mode (encode_priv_mode m) = m"
  by (cases m) (simp_all add: decode_priv_mode_def encode_priv_mode_def)

lemma bit_put_mpp [bit_unfold]:
  "bit (put_mpp v w) n \<longleftrightarrow>
     (if n = MSTATUS_MPP_LO then bit v 0 else if n = MSTATUS_MPP_HI then bit v 1 else bit w n)"
  by (auto simp: put_mpp_def bit_put_bit dest: bit_imp_le_length)

lemma field_put_mpp [simp]: "(field MSTATUS_MPP_LO (put_mpp v w) :: 2 word) = v"
  by (rule bit_word_eqI) (auto simp: bit_unfold less_Suc_eq numeral_2_eq_2)

lemma field_put_bit_MPP [simp]:
  "n \<noteq> MSTATUS_MPP_LO \<Longrightarrow> n \<noteq> MSTATUS_MPP_HI \<Longrightarrow>
   (field MSTATUS_MPP_LO (put_bit n b w) :: 2 word) = field MSTATUS_MPP_LO w" for w :: u64
  by (rule bit_word_eqI) (auto simp: bit_unfold less_Suc_eq numeral_2_eq_2)

lemma bit_mirror [bit_unfold]:
  "bit (mirror_mstatus_to_sstatus c d) n \<longleftrightarrow>
     (if n \<in> {SSTATUS_SIE_BIT, SSTATUS_SPIE_BIT, SSTATUS_SPP_BIT} then bit d n else bit c n)"
  "bit (apply_sstatus_to_mstatus c d) n \<longleftrightarrow>
     (if n \<in> {SSTATUS_SIE_BIT, SSTATUS_SPIE_BIT, SSTATUS_SPP_BIT} then bit d n else bit c n)"
  by (auto simp: mirror_mstatus_to_sstatus_def apply_sstatus_to_mstatus_def bit_put_bit
      dest: bit_imp_le_length)

subsection \<open>The status registers agree\<close>

text \<open>
  Each phase writes the two status registers together: whatever it found in the state built so
  far, it leaves them mirrored if it writes them, and untouched if it does not.
\<close>

definition keeps_mirrored :: "(csr_state \<Rightarrow> csr_state) \<Rightarrow> bool" where
  "keeps_mirrored f \<longleftrightarrow> (\<forall>n. status_mirrored n \<longrightarrow> status_mirrored (f n))"

lemma keeps_mirroredD: "keeps_mirrored f \<Longrightarrow> status_mirrored n \<Longrightarrow> status_mirrored (f n)"
  by (simp add: keeps_mirrored_def)

lemma mirrored_count: "keeps_mirrored (csr_count i s)"
  by (simp add: keeps_mirrored_def csr_count_def status_mirrored_def Let_def)

lemma csr_write_status_frame:
  assumes "addr \<noteq> CSR_MSTATUS" and "addr \<noteq> CSR_SSTATUS"
  shows "mstatus_reg (csr_write addr data op s n) = mstatus_reg n"
    and "sstatus_reg (csr_write addr data op s n) = sstatus_reg n"
  using assms unfolding csr_write_def Let_def
  by (simp_all add: if_distrib [of mstatus_reg] if_distrib [of sstatus_reg] cong: if_weak_cong)

lemma csr_write_mstatus:
  "csr_write CSR_MSTATUS data op s n =
     n\<lparr>mstatus_reg := csr_write_next (mstatus_reg s) data op,
       sstatus_reg := mirror_mstatus_to_sstatus (sstatus_reg s)
                        (csr_write_next (mstatus_reg s) data op)\<rparr>"
  by (simp add: csr_write_def Let_def)

lemma csr_write_sstatus:
  "csr_write CSR_SSTATUS data op s n =
     n\<lparr>sstatus_reg := csr_write_next (sstatus_reg s) data op,
       mstatus_reg := apply_sstatus_to_mstatus (mstatus_reg s)
                        (csr_write_next (sstatus_reg s) data op)\<rparr>"
  by (simp add: csr_write_def Let_def)

lemma mirrored_write: "keeps_mirrored (csr_write addr data op s)"
proof (cases "addr = CSR_MSTATUS \<or> addr = CSR_SSTATUS")
  case True
  then show ?thesis
    by (auto simp: keeps_mirrored_def status_mirrored_def csr_write_mstatus csr_write_sstatus
        bit_unfold)
next
  case False
  then show ?thesis
    by (simp add: keeps_mirrored_def status_mirrored_def csr_write_status_frame)
qed

lemma mirrored_write_phase: "keeps_mirrored (csr_write_phase i s)"
  using mirrored_write by (simp add: keeps_mirrored_def csr_write_phase_def)

lemma mirrored_traps:
  "keeps_mirrored (csr_trap_s i s)" "keeps_mirrored (csr_trap_m i s)"
  "keeps_mirrored (csr_mret s)" "keeps_mirrored (csr_sret s)"
  by (simp_all add: keeps_mirrored_def csr_trap_s_def csr_trap_m_def csr_mret_def csr_sret_def
      status_mirrored_def bit_unfold Let_def)

lemma mirrored_trap_phase: "keeps_mirrored (csr_trap_phase i s)"
  using mirrored_traps
  by (simp add: keeps_mirrored_def csr_trap_phase_def status_mirrored_def Let_def)

lemma status_mirrored_reset: "status_mirrored csr_reset"
  by (simp add: status_mirrored_def csr_reset_def)

lemma status_mirrored_step: "status_mirrored s \<Longrightarrow> status_mirrored (csr_unit_ff i s)"
  by (simp add: csr_unit_ff_def status_mirrored_reset keeps_mirroredD mirrored_count
      mirrored_write_phase mirrored_trap_phase)

subsection \<open>Traps and returns\<close>

text \<open>An input with none of the trap and return lines raised.\<close>

definition csr_quiet :: "csr_in \<Rightarrow> bool" where
  "csr_quiet i \<longleftrightarrow> \<not> ci_rst i \<and> \<not> ci_csr_req i \<and> \<not> ci_trap_trigger i \<and> \<not> ci_mret_en i \<and>
     \<not> ci_sret_en i"

definition csr_takes_trap :: "bool \<Rightarrow> csr_in \<Rightarrow> bool" where
  "csr_takes_trap to_s i \<longleftrightarrow> \<not> ci_rst i \<and> ci_trap_trigger i \<and> ci_trap_to_s_mode i = to_s"

definition csr_takes_mret :: "csr_in \<Rightarrow> bool" where
  "csr_takes_mret i \<longleftrightarrow> \<not> ci_rst i \<and> \<not> ci_csr_req i \<and> \<not> ci_trap_trigger i \<and> ci_mret_en i \<and>
     \<not> ci_sret_en i"

definition csr_takes_sret :: "csr_in \<Rightarrow> bool" where
  "csr_takes_sret i \<longleftrightarrow> \<not> ci_rst i \<and> \<not> ci_csr_req i \<and> \<not> ci_trap_trigger i \<and> \<not> ci_mret_en i \<and>
     ci_sret_en i"

lemma csr_write_phase_idle: "\<not> ci_csr_req i \<Longrightarrow> csr_write_phase i s n = n"
  by (simp add: csr_write_phase_def csr_write_en_def)

text \<open>An access the unit rejects writes nothing.\<close>

lemma csr_write_phase_illegal: "csr_illegal_access i \<Longrightarrow> csr_write_phase i s n = n"
  by (auto simp: csr_write_phase_def csr_write_en_def csr_illegal_access_def)

lemma csr_trap_m_step:
  assumes "csr_takes_trap False i"
  shows "priv_mode_q (csr_unit_ff i s) = PRIV_MODE_M"
    and "mepc_reg (csr_unit_ff i s) = ci_trap_mepc i"
    and "mcause_reg (csr_unit_ff i s) = ci_trap_mcause i"
    and "mtval_reg (csr_unit_ff i s) = ci_trap_mtval i"
    and "mstatus_reg (csr_unit_ff i s) =
           put_mpp (encode_priv_mode (priv_mode_q s))
             (put_bit MSTATUS_MIE_BIT False
               (put_bit MSTATUS_MPIE_BIT (bit (mstatus_reg s) MSTATUS_MIE_BIT) (mstatus_reg s)))"
  using assms by (simp_all add: csr_takes_trap_def csr_unit_ff_def csr_trap_phase_def
      csr_trap_m_def Let_def)

lemma csr_trap_s_step:
  assumes "csr_takes_trap True i"
  shows "priv_mode_q (csr_unit_ff i s) = PRIV_MODE_S"
    and "sepc_reg (csr_unit_ff i s) = ci_trap_mepc i"
    and "scause_reg (csr_unit_ff i s) = ci_trap_mcause i"
    and "stval_reg (csr_unit_ff i s) = ci_trap_mtval i"
    and "sstatus_reg (csr_unit_ff i s) =
           put_bit SSTATUS_SPP_BIT (priv_mode_q s = PRIV_MODE_S)
              (put_bit SSTATUS_SIE_BIT False
                (put_bit SSTATUS_SPIE_BIT (bit (sstatus_reg s) SSTATUS_SIE_BIT) (sstatus_reg s)))"
  using assms by (simp_all add: csr_takes_trap_def csr_unit_ff_def csr_trap_phase_def
      csr_trap_s_def Let_def)

lemma csr_mret_step:
  assumes "csr_takes_mret i"
  shows "priv_mode_q (csr_unit_ff i s) =
           decode_priv_mode (field MSTATUS_MPP_LO (mstatus_reg s))"
    and "mepc_reg (csr_unit_ff i s) = mepc_reg s"
    and "mstatus_reg (csr_unit_ff i s) =
           put_mpp (encode_priv_mode PRIV_MODE_U)
             (put_bit MSTATUS_MPIE_BIT True
               (put_bit MSTATUS_MIE_BIT (bit (mstatus_reg s) MSTATUS_MPIE_BIT) (mstatus_reg s)))"
  using assms by (simp_all add: csr_takes_mret_def csr_unit_ff_def csr_trap_phase_def
      csr_write_phase_idle csr_mret_def csr_count_def Let_def)

lemma csr_sret_step:
  assumes "csr_takes_sret i"
  shows "priv_mode_q (csr_unit_ff i s) =
           (if bit (sstatus_reg s) SSTATUS_SPP_BIT then PRIV_MODE_S else PRIV_MODE_U)"
    and "sepc_reg (csr_unit_ff i s) = sepc_reg s"
    and "sstatus_reg (csr_unit_ff i s) =
            put_bit SSTATUS_SPP_BIT False
              (put_bit SSTATUS_SPIE_BIT True
                (put_bit SSTATUS_SIE_BIT (bit (sstatus_reg s) SSTATUS_SPIE_BIT) (sstatus_reg s)))"
  using assms by (simp_all add: csr_takes_sret_def csr_unit_ff_def csr_trap_phase_def
      csr_write_phase_idle csr_sret_def csr_count_def Let_def)

text \<open>Without a trap, a return or a reset the mode stays.\<close>

lemma csr_write_priv_frame: "priv_mode_q (csr_write addr data op s n) = priv_mode_q n"
  unfolding csr_write_def Let_def
  by (simp add: if_distrib [of priv_mode_q] cong: if_weak_cong)

lemma csr_priv_frame:
  assumes "\<not> ci_rst i" "\<not> ci_trap_trigger i" "\<not> ci_mret_en i" "\<not> ci_sret_en i"
  shows "priv_mode_q (csr_unit_ff i s) = priv_mode_q s"
  using assms by (simp add: csr_unit_ff_def csr_trap_phase_def csr_write_phase_def
      csr_write_priv_frame csr_count_def Let_def)

subsection \<open>Reading back a written register\<close>

text \<open>The CSRs that hold a full 64-bit value of their own.\<close>

definition csr_full_width :: "csr_addr \<Rightarrow> bool" where
  "csr_full_width a \<longleftrightarrow>
     a \<in> {CSR_MSTATUS, CSR_MEDELEG, CSR_MIDELEG, CSR_MIE, CSR_MTVEC, CSR_MSCRATCH, CSR_MEPC,
       CSR_MCAUSE, CSR_MTVAL, CSR_MIP, CSR_MCOUNTEREN, CSR_SSTATUS, CSR_SIE, CSR_STVEC,
       CSR_SCOUNTEREN, CSR_SSCRATCH, CSR_SEPC, CSR_SCAUSE, CSR_STVAL, CSR_SIP, CSR_SATP,
       CSR_MCYCLE, CSR_MINSTRET}"

lemma read_csr_write:
  assumes "csr_full_width a"
  shows "read_csr (csr_write a data op s n) a = csr_write_next (read_csr s a) data op"
  using assms by (auto simp: csr_full_width_def csr_write_def read_csr_def Let_def)

text \<open>Another register keeps its value; \<open>mstatus\<close> and \<open>sstatus\<close> share bits.\<close>

lemma read_csr_write_frame:
  assumes "csr_full_width a" "b \<noteq> a" "{a, b} \<noteq> {CSR_MSTATUS, CSR_SSTATUS}"
    and "b \<noteq> CSR_CYCLE" "b \<noteq> CSR_INSTRET"
  shows "read_csr (csr_write a data op s n) b = read_csr n b"
  using assms unfolding csr_full_width_def
  by (elim insertE; simp add: csr_write_def read_csr_def compose_fcsr_def doubleton_eq_iff Let_def
      cong: if_cong split del: if_split)

lemma read_csr_count:
  "csr_full_width b \<Longrightarrow> b \<noteq> CSR_MCYCLE \<Longrightarrow> b \<noteq> CSR_MINSTRET \<Longrightarrow>
     read_csr (csr_count i s s) b = read_csr s b"
  unfolding csr_full_width_def by (auto simp: csr_count_def read_csr_def Let_def)

lemma full_width_not_alias: "csr_full_width b \<Longrightarrow> b \<noteq> CSR_CYCLE \<and> b \<noteq> CSR_INSTRET"
  by (auto simp: csr_full_width_def)

lemma full_width_access:
  "csr_full_width a \<Longrightarrow> csr_is_supported a \<and> csr_is_writable a"
  by (auto simp: csr_full_width_def csr_is_supported_def csr_is_writable_def)

lemma csr_write_step:
  assumes "\<not> ci_rst i" "\<not> ci_trap_trigger i" "\<not> ci_mret_en i" "\<not> ci_sret_en i"
    and "csr_write_en i" and "csr_is_writable (canonical_addr (ci_csr_addr i))"
  shows "csr_unit_ff i s =
           csr_write (canonical_addr (ci_csr_addr i)) (ci_csr_rs1_data i) (ci_csr_op i) s
             (csr_count i s s)"
  using assms by (simp add: csr_unit_ff_def csr_trap_phase_def csr_write_phase_def)

text \<open>The input lines of a trap to M and of an \<open>mret\<close>, for concrete instances.\<close>

definition trap_lines :: "bool \<Rightarrow> bool \<Rightarrow> bool \<Rightarrow> csr_in" where
  "trap_lines trap mret sret =
     \<lparr>ci_rst = False, ci_csr_req = False, ci_csr_op = 0, ci_csr_addr = 0, ci_csr_rs1_data = 0,
      ci_trap_trigger = trap, ci_trap_to_s_mode = False, ci_trap_mepc = 0x80000040,
      ci_trap_mcause = 11, ci_trap_mtval = 0, ci_mret_en = mret, ci_sret_en = sret\<rparr>"

section \<open>Properties\<close>

text \<open>
  C12: in every reachable state \<open>sstatus\<close> and \<open>mstatus\<close> agree on SIE, SPIE and SPP, whatever
  sequence of CSR writes, traps, returns and resets led there.
\<close>

theorem csr_reachable_mirrored: "csr_reachable s \<Longrightarrow> status_mirrored s"
  by (induction rule: csr_reachable.induct) (simp_all add: status_mirrored_reset status_mirrored_step)

theorem csr_reachable_mirrored_witness:
  "status_mirrored (csr_unit_ff (trap_lines True False False) csr_reset)"
  using csr_reachable_mirrored [OF csr_step [OF csr_init]] .

text \<open>
  C13: a trap into M mode followed by \<open>mret\<close> restores the privilege mode and the interrupt-enable
  bit the trap found, and \<open>mepc\<close> still holds the trapped PC.
\<close>

theorem trap_mret_roundtrip:
  assumes "csr_takes_trap False i" "csr_takes_mret j"
  shows "priv_mode_q (csr_unit_ff j (csr_unit_ff i s)) = priv_mode_q s \<and>
         bit (mstatus_reg (csr_unit_ff j (csr_unit_ff i s))) MSTATUS_MIE_BIT =
           bit (mstatus_reg s) MSTATUS_MIE_BIT \<and>
         mepc_reg (csr_unit_ff j (csr_unit_ff i s)) = ci_trap_mepc i"
  using assms by (simp add: csr_mret_step csr_trap_m_step bit_unfold)

theorem trap_mret_roundtrip_witness:
  "priv_mode_q (csr_unit_ff (trap_lines False True False)
     (csr_unit_ff (trap_lines True False False) (csr_reset\<lparr>priv_mode_q := PRIV_MODE_U\<rparr>))) =
   PRIV_MODE_U"
  using trap_mret_roundtrip [of "trap_lines True False False" "trap_lines False True False"]
  by (simp add: csr_takes_trap_def csr_takes_mret_def trap_lines_def)

text \<open>
  C14: a trap delegated to S mode from U or S followed by \<open>sret\<close> restores the mode and the
  supervisor interrupt-enable bit, and \<open>sepc\<close> still holds the trapped PC.
\<close>

theorem trap_sret_roundtrip:
  assumes "csr_takes_trap True i" "csr_takes_sret j" "priv_mode_q s \<noteq> PRIV_MODE_M"
  shows "priv_mode_q (csr_unit_ff j (csr_unit_ff i s)) = priv_mode_q s \<and>
         bit (sstatus_reg (csr_unit_ff j (csr_unit_ff i s))) SSTATUS_SIE_BIT =
           bit (sstatus_reg s) SSTATUS_SIE_BIT \<and>
         sepc_reg (csr_unit_ff j (csr_unit_ff i s)) = ci_trap_mepc i"
  using assms by (cases "priv_mode_q s") (simp_all add: csr_sret_step csr_trap_s_step bit_unfold)

theorem trap_sret_roundtrip_witness:
  "priv_mode_q (csr_unit_ff (trap_lines False False True)
     (csr_unit_ff ((trap_lines True False False)\<lparr>ci_trap_to_s_mode := True\<rparr>)
        (csr_reset\<lparr>priv_mode_q := PRIV_MODE_U\<rparr>))) = PRIV_MODE_U"
  using trap_sret_roundtrip [of "(trap_lines True False False)\<lparr>ci_trap_to_s_mode := True\<rparr>"
      "trap_lines False False True" "csr_reset\<lparr>priv_mode_q := PRIV_MODE_U\<rparr>"]
  by (simp add: csr_takes_trap_def csr_takes_sret_def trap_lines_def)

text \<open>
  C15: a CSR instruction that writes, sets or clears a 64-bit CSR, without a reset, a trap or a
  return in the same cycle, leaves there the operand, the old value with the bits of the operand
  set, or the old value with them cleared, and the next read returns it (setting and clearing
  with an operand other than 0).  Every other such CSR keeps its value, the two cycle counters
  and the view of \<open>mstatus\<close> and \<open>sstatus\<close> on each other excepted.
\<close>

theorem csr_write_read:
  assumes "\<not> ci_rst i" "\<not> ci_trap_trigger i" "\<not> ci_mret_en i" "\<not> ci_sret_en i"
    and "ci_csr_req i" "a = canonical_addr (ci_csr_addr i)" "csr_full_width a"
    and "ci_csr_op i \<in> {0b001, 0b101} \<or>
         ci_csr_op i \<in> {0b010, 0b011, 0b110, 0b111} \<and> ci_csr_rs1_data i \<noteq> 0"
  shows "read_csr (csr_unit_ff i s) a =
           (if ci_csr_op i \<in> {0b001, 0b101} then ci_csr_rs1_data i
            else if ci_csr_op i \<in> {0b010, 0b110} then read_csr s a OR ci_csr_rs1_data i
            else read_csr s a AND NOT (ci_csr_rs1_data i)) \<and>
         (csr_full_width b \<and> b \<notin> {a, CSR_MCYCLE, CSR_MINSTRET} \<and>
            {a, b} \<noteq> {CSR_MSTATUS, CSR_SSTATUS} \<longrightarrow>
          read_csr (csr_unit_ff i s) b = read_csr s b)"
proof -
  have "csr_write_en i"
    using assms(5-8) full_width_access [OF assms(7)]
    by (auto simp: csr_write_en_def is_write_cmd_def is_set_cmd_def is_clear_cmd_def)
  then have step: "csr_unit_ff i s = csr_write a (ci_csr_rs1_data i) (ci_csr_op i) s (csr_count i s s)"
    using csr_write_step [OF assms(1-4)] full_width_access [OF assms(7)] assms(6) by simp
  have "csr_write_next old d op =
      (if op \<in> {0b001, 0b101} then d else if op \<in> {0b010, 0b110} then old OR d else old AND NOT d)"
    if "op \<in> {0b001, 0b101} \<or> op \<in> {0b010, 0b011, 0b110, 0b111} \<and> d \<noteq> 0" for old d op
    using that by (auto simp: csr_write_next_def)
  then show ?thesis
    using assms(8) read_csr_write_frame [OF assms(7)] full_width_not_alias
    by (auto simp: step read_csr_write [OF assms(7)] read_csr_count)
qed

text \<open>Clearing bits of \<open>mscratch\<close>.\<close>

theorem csr_write_read_witness:
  "read_csr (csr_unit_ff ((trap_lines False False False)
     \<lparr>ci_csr_req := True, ci_csr_op := 0b011, ci_csr_addr := CSR_MSCRATCH,
      ci_csr_rs1_data := 0x0F0F\<rparr>) (csr_reset\<lparr>mscratch_reg := 0xFFFF\<rparr>)) CSR_MSCRATCH = 0xF0F0"
  using csr_write_read [of "(trap_lines False False False)
     \<lparr>ci_csr_req := True, ci_csr_op := 0b011, ci_csr_addr := CSR_MSCRATCH,
      ci_csr_rs1_data := 0x0F0F\<rparr>" CSR_MSCRATCH "csr_reset\<lparr>mscratch_reg := 0xFFFF\<rparr>"]
  by (simp add: trap_lines_def canonical_addr_def csr_full_width_def read_csr_def)

text \<open>
  C16: an access the unit rejects has no effect.  Whatever happens in the same cycle, the unit does
  what it does without the access.  Without a reset, a trap or a return only the three counters
  advance; with a trap, as the core raises for a rejected access, nothing but the registers that
  record the trap and two of the counters changes.
\<close>

theorem csr_rejected_access_frame:
  assumes "csr_illegal_access i"
  shows "csr_unit_ff i s = csr_unit_ff (i\<lparr>ci_csr_req := False\<rparr>) s \<and>
    (\<not> ci_rst i \<and> \<not> ci_trap_trigger i \<and> \<not> ci_mret_en i \<and> \<not> ci_sret_en i \<longrightarrow>
       csr_unit_ff i s =
         s\<lparr>mcycle_reg := mcycle_reg s + 1, minstret_reg := minstret_reg s + 1,
           time_reg := time_reg s + 1\<rparr>) \<and>
    (\<not> ci_rst i \<and> ci_trap_trigger i \<longrightarrow> only_trap_registers s (csr_unit_ff i s))"
proof (intro conjI impI)
  have no_write: "csr_write_phase (i\<lparr>ci_csr_req := False\<rparr>) s n = n" for n
    by (simp add: csr_write_phase_def csr_write_en_def)
  note frame = csr_unit_ff_def csr_write_phase_illegal [OF assms] csr_count_def Let_def
    csr_trap_phase_def csr_trap_s_def csr_trap_m_def
  show "csr_unit_ff i s = csr_unit_ff (i\<lparr>ci_csr_req := False\<rparr>) s"
    by (simp add: frame no_write csr_trap_vector_next_def)
  show "csr_unit_ff i s =
      s\<lparr>mcycle_reg := mcycle_reg s + 1, minstret_reg := minstret_reg s + 1,
        time_reg := time_reg s + 1\<rparr>"
    if "\<not> ci_rst i \<and> \<not> ci_trap_trigger i \<and> \<not> ci_mret_en i \<and> \<not> ci_sret_en i"
    using that by (simp add: frame)
  show "only_trap_registers s (csr_unit_ff i s)" if "\<not> ci_rst i \<and> ci_trap_trigger i"
    using that by (cases "ci_trap_to_s_mode i") (simp_all add: frame only_trap_registers_def)
qed

theorem csr_rejected_access_frame_witness:
  "csr_unit_ff ((trap_lines False False False)\<lparr>ci_csr_req := True, ci_csr_op := 0b001,
     ci_csr_addr := CSR_MHARTID, ci_csr_rs1_data := 1\<rparr>) csr_reset =
   csr_reset\<lparr>mcycle_reg := 1, minstret_reg := 1, time_reg := 1\<rparr>"
proof -
  let ?i = "(trap_lines False False False)\<lparr>ci_csr_req := True, ci_csr_op := 0b001,
     ci_csr_addr := CSR_MHARTID, ci_csr_rs1_data := 1\<rparr>"
  have "csr_illegal_access ?i" by (simp add: csr_illegal_access_def csr_helper_defs)
  moreover have "\<not> ci_rst ?i \<and> \<not> ci_trap_trigger ?i \<and> \<not> ci_mret_en ?i \<and> \<not> ci_sret_en ?i"
    by (simp add: trap_lines_def)
  ultimately have "csr_unit_ff ?i csr_reset =
      csr_reset\<lparr>mcycle_reg := mcycle_reg csr_reset + 1, minstret_reg := minstret_reg csr_reset + 1,
        time_reg := time_reg csr_reset + 1\<rparr>"
    using csr_rejected_access_frame [of ?i csr_reset] by blast
  then show ?thesis by (simp add: csr_reset_def)
qed

end
