(* ===== verification/Core.thy ===== *)
theory Core
  imports Decoder Ex_Stage Hazard_Unit Trap_Ctrl Csr_Unit
begin

text \<open>
  The core, \<^verbatim>\<open>src/rtl/core/richard_core.sv\<close>, with the decode stage
  \<^verbatim>\<open>src/rtl/core/id_stage.sv\<close>: the register state of the five-stage pipeline, the wires
  between the modules as functions of state and inputs, and one clock edge as \<open>core_step\<close>.
  Every output port of the core is a function of the registers alone.
\<close>

section \<open>Definitions\<close>

record core_state =
  pc_reg :: u64
  rf_q :: regs
  ifid_q :: if_id
  idex_q :: id_ex
  exmem_q :: ex_mem
  memwb_q :: mem_wb
  csr_q :: csr_state

record core_in =
  in_rst :: bool
  in_imem_rdata :: u32
  in_dmem_rdata :: u64
  in_ext_timer :: bool
  in_ext_software :: bool
  in_ext_external :: bool

subsection \<open>Output ports\<close>

definition imem_addr :: "core_state \<Rightarrow> u64" where
  "imem_addr s = pc_reg s"

definition dmem_read_en :: "core_state \<Rightarrow> bool" where
  "dmem_read_en s = dmem_read_req (exmem_q s)"

definition dmem_write_en :: "core_state \<Rightarrow> bool" where
  "dmem_write_en s = dmem_write_req (exmem_q s)"

definition dmem_addr :: "core_state \<Rightarrow> u64" where
  "dmem_addr s = mem_alu_result (exmem_q s)"

definition dmem_wdata_out :: "core_state \<Rightarrow> u64" where
  "dmem_wdata_out s = dmem_wdata (exmem_q s)"

definition dmem_size :: "core_state \<Rightarrow> 3 word" where
  "dmem_size s = mem_mem_size (exmem_q s)"

subsection \<open>Write-back, CSR unit and trap controller\<close>

text \<open>The request the write-back stage sends to the CSR unit; the trap lines come later.\<close>

definition wb_csr_in :: "core_state \<Rightarrow> csr_in" where
  "wb_csr_in s =
     \<lparr>ci_rst = False,
      ci_csr_req = wb_csr_req (memwb_q s),
      ci_csr_op = wb_csr_op (memwb_q s),
      ci_csr_addr = wb_csr_addr (memwb_q s),
      ci_csr_rs1_data = wb_csr_rs1_data (memwb_q s),
      ci_trap_trigger = False, ci_trap_to_s_mode = False, ci_trap_mepc = 0,
      ci_trap_mcause = 0, ci_trap_mtval = 0, ci_mret_en = False, ci_sret_en = False\<rparr>"

definition core_csr_illegal :: "core_state \<Rightarrow> bool" where
  "core_csr_illegal s = csr_illegal_access (wb_csr_in s)"

definition core_wb_wdata :: "core_state \<Rightarrow> u64" where
  "core_wb_wdata s =
     wb_rd_wdata (memwb_q s) (wb_pc (memwb_q s) + 4) (csr_rdata (wb_csr_in s) (csr_q s))"

definition core_wb_port :: "core_state \<Rightarrow> write_port" where
  "core_wb_port s =
     \<lparr>wp_rd_addr = wb_rd_addr (memwb_q s),
      wp_rd_wdata = core_wb_wdata s,
      wp_reg_write_en = wb_reg_write_en_out (memwb_q s) (core_csr_illegal s)\<rparr>"

definition core_trap_env :: "core_in \<Rightarrow> core_state \<Rightarrow> trap_env" where
  "core_trap_env i s =
     \<lparr>te_ext_timer = in_ext_timer i,
      te_ext_software = in_ext_software i,
      te_ext_external = in_ext_external i,
      te_mstatus_mie = bit (mstatus_reg (csr_q s)) 3,
      te_mtvec = mtvec_reg (csr_q s),
      te_stvec = stvec_reg (csr_q s),
      te_mepc = mepc_reg (csr_q s),
      te_sepc = sepc_reg (csr_q s),
      te_medeleg = medeleg_reg (csr_q s),
      te_mideleg = mideleg_reg (csr_q s),
      te_priv_mode = encode_priv_mode (priv_mode_q (csr_q s))\<rparr>"

definition core_trap :: "core_in \<Rightarrow> core_state \<Rightarrow> trap_out" where
  "core_trap i s = trap_ctrl (wb_trap_sigs (memwb_q s) (core_csr_illegal s)) (core_trap_env i s)"

text \<open>All inputs of the CSR unit.\<close>

definition core_csr_in :: "core_in \<Rightarrow> core_state \<Rightarrow> csr_in" where
  "core_csr_in i s =
     (wb_csr_in s)\<lparr>ci_rst := in_rst i,
        ci_trap_trigger := to_trigger (core_trap i s),
        ci_trap_to_s_mode := to_to_s_mode (core_trap i s),
        ci_trap_mepc := to_mepc (core_trap i s),
        ci_trap_mcause := to_mcause (core_trap i s),
        ci_trap_mtval := to_mtval (core_trap i s),
        ci_mret_en := to_mret_en (core_trap i s),
        ci_sret_en := to_sret_en (core_trap i s)\<rparr>"

subsection \<open>Decode stage\<close>

definition core_decode :: "core_state \<Rightarrow> decoder_out" where
  "core_decode s = decoder (ifid_instr (ifid_q s)) (encode_priv_mode (priv_mode_q (csr_q s)))"

text \<open>The outputs of the decode stage, as the value the ID/EX register latches.\<close>

definition id_stage :: "decoder_out \<Rightarrow> if_id \<Rightarrow> regs \<Rightarrow> write_port \<Rightarrow> id_ex" where
  "id_stage d f regs w =
     \<lparr>ex_instr = ifid_instr f,
      ex_pc = ifid_pc f,
      ex_rs1_rdata = regfile_read regs w (dec_rs1_addr d),
      ex_rs2_rdata = regfile_read regs w (dec_rs2_addr d),
      ex_rs1_addr = dec_rs1_addr d,
      ex_rs2_addr = dec_rs2_addr d,
      ex_imm = dec_imm d,
      ex_alu_op = dec_alu_op d,
      ex_alu_src1_sel = dec_alu_src1_sel d,
      ex_alu_src2_sel = dec_alu_src2_sel d,
      ex_is_word_op = dec_is_word_op d,
      ex_is_branch = dec_is_branch d,
      ex_branch_op = dec_branch_op d,
      ex_is_jump = dec_is_jump d,
      ex_is_load = dec_is_load d,
      ex_is_store = dec_is_store d,
      ex_mem_size = dec_mem_size d,
      ex_reg_write_en = dec_reg_write_en d,
      ex_rd_addr = dec_rd_addr d,
      ex_wb_sel = dec_wb_sel d,
      ex_is_csr = dec_is_csr d,
      ex_csr_op = dec_csr_op d,
      ex_illegal_instr = dec_illegal_instr d,
      ex_is_ecall = dec_is_ecall d,
      ex_is_ebreak = dec_is_ebreak d,
      ex_is_mret = dec_is_mret d,
      ex_is_sret = dec_is_sret d,
      ex_is_wfi = dec_is_wfi d,
      ex_is_sfence_vma = dec_is_sfence_vma d,
      ex_is_fence = dec_is_fence d,
      ex_is_fence_i = dec_is_fence_i d\<rparr>"

definition core_id :: "core_state \<Rightarrow> id_ex" where
  "core_id s = id_stage (core_decode s) (ifid_q s) (rf_q s) (core_wb_port s)"

subsection \<open>Execute stage and forwarding\<close>

text \<open>The hazard inputs that select the forwarding multiplexers.\<close>

definition forward_in :: "core_state \<Rightarrow> hazard_in" where
  "forward_in s =
     \<lparr>hz_id_rs1_addr = dec_rs1_addr (core_decode s),
      hz_id_rs2_addr = dec_rs2_addr (core_decode s),
      hz_ex_rs1_addr = ex_rs1_addr (idex_q s),
      hz_ex_rs2_addr = ex_rs2_addr (idex_q s),
      hz_ex_rd_addr = ex_rd_addr (idex_q s),
      hz_ex_reg_write_en = ex_reg_write_en (idex_q s),
      hz_ex_is_load = ex_is_load (idex_q s),
      hz_ex_branch_taken = False,
      hz_ex_branch_target = 0,
      hz_mem_rd_addr = mem_rd_addr (exmem_q s),
      hz_mem_reg_write_en = mem_reg_write_en (exmem_q s),
      hz_mem_stall_req = mem_stall_req (exmem_q s) True True,
      hz_trap_flush_req = False,
      hz_trap_pc_sel = False,
      hz_trap_target_pc = 0,
      hz_wb_rd_addr = wb_rd_addr (memwb_q s),
      hz_wb_reg_write_en = wp_reg_write_en (core_wb_port s)\<rparr>"

definition ex_rs1_rdata_fwd :: "core_state \<Rightarrow> u64" where
  "ex_rs1_rdata_fwd s =
     forward_mux (forward_a_sel (forward_in s)) (mem_alu_result (exmem_q s)) (core_wb_wdata s)
       (ex_rs1_rdata (idex_q s))"

definition ex_rs2_rdata_fwd :: "core_state \<Rightarrow> u64" where
  "ex_rs2_rdata_fwd s =
     forward_mux (forward_b_sel (forward_in s)) (mem_alu_result (exmem_q s)) (core_wb_wdata s)
       (ex_rs2_rdata (idex_q s))"

definition core_ex_in :: "core_state \<Rightarrow> ex_in" where
  "core_ex_in s =
     \<lparr>exi_pc = ex_pc (idex_q s),
      exi_rs1_rdata = ex_rs1_rdata_fwd s,
      exi_rs2_rdata = ex_rs2_rdata_fwd s,
      exi_imm = ex_imm (idex_q s),
      exi_alu_op = ex_alu_op (idex_q s),
      exi_alu_src1_sel = ex_alu_src1_sel (idex_q s),
      exi_alu_src2_sel = ex_alu_src2_sel (idex_q s),
      exi_is_branch = ex_is_branch (idex_q s),
      exi_branch_op = ex_branch_op (idex_q s),
      exi_is_jump = ex_is_jump (idex_q s),
      exi_is_word_op = ex_is_word_op (idex_q s)\<rparr>"

definition core_ex :: "core_state \<Rightarrow> ex_out" where
  "core_ex s = ex_stage (core_ex_in s)"

text \<open>The value the EX/MEM register latches.\<close>

definition core_ex_mem :: "core_state \<Rightarrow> ex_mem" where
  "core_ex_mem s =
     (let q = idex_q s; x = core_ex s in
      \<lparr>mem_alu_result = exo_alu_result x,
       mem_branch_taken = exo_branch_taken x,
       mem_branch_target = exo_branch_target x,
       mem_rs1_rdata = ex_rs1_rdata_fwd s,
       mem_rs2_rdata = ex_rs2_rdata_fwd s,
       mem_rs1_addr = ex_rs1_addr q,
       mem_pc = ex_pc q,
       mem_imm = ex_imm q,
       mem_instr = ex_instr q,
       mem_is_load = ex_is_load q,
       mem_is_store = ex_is_store q,
       mem_mem_size = ex_mem_size q,
       mem_reg_write_en = ex_reg_write_en q,
       mem_rd_addr = ex_rd_addr q,
       mem_wb_sel = ex_wb_sel q,
       mem_is_csr = ex_is_csr q,
       mem_csr_op = ex_csr_op q,
       mem_illegal_instr = ex_illegal_instr q,
       mem_is_ecall = ex_is_ecall q,
       mem_is_ebreak = ex_is_ebreak q,
       mem_is_mret = ex_is_mret q,
       mem_is_sret = ex_is_sret q,
       mem_is_wfi = ex_is_wfi q,
       mem_is_sfence_vma = ex_is_sfence_vma q,
       mem_is_fence = ex_is_fence q,
       mem_is_fence_i = ex_is_fence_i q\<rparr>)"

subsection \<open>Hazard unit\<close>

text \<open>All inputs of the hazard unit.\<close>

definition core_hazard_in :: "core_in \<Rightarrow> core_state \<Rightarrow> hazard_in" where
  "core_hazard_in i s =
     (forward_in s)\<lparr>
        hz_ex_branch_taken := exo_branch_taken (core_ex s),
        hz_ex_branch_target := exo_branch_target (core_ex s),
        hz_trap_flush_req := to_flush_req (core_trap i s),
        hz_trap_pc_sel := to_pc_sel (core_trap i s),
        hz_trap_target_pc := to_next_pc (core_trap i s)\<rparr>"

subsection \<open>One clock edge\<close>

definition core_step :: "core_in \<Rightarrow> core_state \<Rightarrow> core_state" where
  "core_step i s =
     (let h = core_hazard_in i s; c = hazard_controls h; rst = in_rst i in
      \<lparr>pc_reg = if_stage_ff rst (if_stall_en c) (hazard_redirect h) (pc_reg s),
       rf_q = regfile_ff rst (core_wb_port s) (rf_q s),
       ifid_q = if_id_ff rst (if_id_stall_en c) (if_id_flush_en c)
                  \<lparr>ifid_pc = pc_reg s, ifid_instr = in_imem_rdata i\<rparr> (ifid_q s),
       idex_q = id_ex_ff rst (id_ex_stall_en c) (id_ex_flush_en c) (core_id s) (idex_q s),
       exmem_q = ex_mem_ff rst (ex_mem_stall_en c) False (core_ex_mem s) (exmem_q s),
       memwb_q = mem_wb_ff rst False (to_flush_req (core_trap i s))
                   (mem_stage (exmem_q s) (in_dmem_rdata i)) (memwb_q s),
       csr_q = csr_unit_ff (core_csr_in i s) (csr_q s)\<rparr>)"

text \<open>The state a reset edge leaves.\<close>

definition core_reset_state :: core_state where
  "core_reset_state =
     \<lparr>pc_reg = reset_vector, rf_q = (\<lambda>r. 0), ifid_q = if_id_bubble, idex_q = id_ex_reset,
      exmem_q = ex_mem_reset, memwb_q = mem_wb_reset, csr_q = csr_reset\<rparr>"

section \<open>Lemmas\<close>

lemmas core_port_defs = imem_addr_def dmem_read_en_def dmem_write_en_def dmem_addr_def
  dmem_wdata_out_def dmem_size_def

lemmas core_wire_defs = wb_csr_in_def core_csr_illegal_def core_wb_wdata_def core_wb_port_def
  core_trap_env_def core_trap_def core_csr_in_def core_decode_def id_stage_def core_id_def
  forward_in_def ex_rs1_rdata_fwd_def ex_rs2_rdata_fwd_def core_ex_in_def core_ex_def
  core_ex_mem_def core_hazard_in_def

declare core_port_defs [rtl_eval] core_wire_defs [rtl_eval] core_step_def [rtl_eval]

text \<open>A reset edge leaves the reset state, whatever the state and the other inputs were.\<close>

lemma core_step_reset: "in_rst i \<Longrightarrow> core_step i s = core_reset_state"
  by (simp add: core_step_def core_reset_state_def if_stage_ff_def pipe_ff_defs csr_unit_ff_def
      core_csr_in_def Let_def)

text \<open>The memory of the core answers at once: the data memory never stalls the pipeline.\<close>

lemma core_no_mem_stall [simp]: "\<not> hz_mem_stall_req (core_hazard_in i s)"
  by (simp add: core_hazard_in_def forward_in_def mem_stall_req_def)

lemma core_exmem_advances:
  "\<not> in_rst i \<Longrightarrow> exmem_q (core_step i s) = core_ex_mem s"
  by (simp add: core_step_def ex_mem_ff_def hazard_controls_closed Let_def)

subsection \<open>The edge of a trap\<close>

lemma core_trap_front:
  assumes "\<not> in_rst i" "to_trigger (core_trap i s)"
  shows "ifid_q (core_step i s) = if_id_bubble" "id_ex_is_bubble (idex_q (core_step i s))"
    "mem_wb_is_bubble (memwb_q (core_step i s))"
    "pc_reg (core_step i s) = to_next_pc (core_trap i s)"
proof -
  have f: "to_flush_req (core_trap i s)" "to_pc_sel (core_trap i s)"
    using assms(2) unfolding core_trap_def trap_ctrl_trigger_iff
    by (auto simp: trap_ctrl_taken)
  show "ifid_q (core_step i s) = if_id_bubble" "id_ex_is_bubble (idex_q (core_step i s))"
    "mem_wb_is_bubble (memwb_q (core_step i s))"
    "pc_reg (core_step i s) = to_next_pc (core_trap i s)"
    using assms(1) f
    by (simp_all add: core_step_def Let_def if_id_ff_def hazard_controls_closed core_hazard_in_def
        idex.flush_bubble memwb.flush_bubble if_stage_ff_def hazard_redirect_def)
qed

lemma core_trap_csr:
  assumes "\<not> in_rst i" "to_trigger (core_trap i s)" "priv_mode_q (csr_q s) = PRIV_MODE_M"
  shows "mepc_reg (csr_q (core_step i s)) = wb_pc (memwb_q s)"
    "mcause_reg (csr_q (core_step i s)) = to_mcause (core_trap i s)"
    "priv_mode_q (csr_q (core_step i s)) = PRIV_MODE_M"
proof -
  have "\<not> to_to_s_mode (core_trap i s)"
    unfolding core_trap_def
    by (rule trap_ctrl_M_not_delegated) (simp add: core_trap_env_def assms(3) encode_priv_mode_def)
  then have t: "csr_takes_trap False (core_csr_in i s)"
    using assms(1,2) by (simp add: csr_takes_trap_def core_csr_in_def)
  have "to_mepc (core_trap i s) = wb_pc (memwb_q s)"
    using assms(2) unfolding core_trap_def trap_ctrl_trigger_iff
    by (auto simp: trap_ctrl_taken wb_trap_sigs_def)
  then show "mepc_reg (csr_q (core_step i s)) = wb_pc (memwb_q s)"
    "mcause_reg (csr_q (core_step i s)) = to_mcause (core_trap i s)"
    "priv_mode_q (csr_q (core_step i s)) = PRIV_MODE_M"
    using csr_trap_m_step [OF t, of "csr_q s"] by (simp_all add: core_step_def core_csr_in_def Let_def)
qed

section \<open>Properties\<close>

text \<open>
  one reset edge puts every register of the core into its reset value, whatever the state and
  the other inputs.
\<close>

theorem core_reset_determines_state: "in_rst i \<Longrightarrow> core_step i s = core_reset_state"
  by (rule core_step_reset)

theorem core_reset_determines_state_witness:
  "core_step \<lparr>in_rst = True, in_imem_rdata = 0xFFFFFFFF, in_dmem_rdata = 1, in_ext_timer = True,
      in_ext_software = False, in_ext_external = True\<rparr> (core_reset_state\<lparr>pc_reg := 4\<rparr>) =
   core_reset_state"
  by (rule core_reset_determines_state) simp

text \<open>
  C7: an exception of the instruction in write-back (a rejected CSR access included), taken in M
  mode while no enabled interrupt is pending.  The instruction writes no register; its PC goes
  to \<open>mepc\<close> and the code of the exception to \<open>mcause\<close>, the mode stays M, and the fetch continues
  at the base address in \<open>mtvec\<close>.  The instructions in IF/ID and ID/EX are replaced by bubbles,
  and the one in MEM does not reach write-back, so that it writes no register and raises no
  exception (a store it has already put on the bus is not recalled).  Only the instruction in EX
  goes on into MEM.
\<close>

theorem core_exception_edge:
  assumes "\<not> in_rst i" "priv_mode_q (csr_q s) = PRIV_MODE_M"
    and "\<not> (bit (mstatus_reg (csr_q s)) 3 \<and>
             (in_ext_timer i \<or> in_ext_software i \<or> in_ext_external i))"
    and "wb_has_trap (memwb_q s) \<or> core_csr_illegal s"
  shows "rf_q (core_step i s) = rf_q s \<and>
    mepc_reg (csr_q (core_step i s)) = wb_pc (memwb_q s) \<and>
    mcause_reg (csr_q (core_step i s)) =
      of_nat (exception_code (wb_trap_sigs (memwb_q s) (core_csr_illegal s)) 3) \<and>
    priv_mode_q (csr_q (core_step i s)) = PRIV_MODE_M \<and>
    pc_reg (core_step i s) = mtvec_reg (csr_q s) AND NOT 3 \<and>
    ifid_q (core_step i s) = if_id_bubble \<and> id_ex_is_bubble (idex_q (core_step i s)) \<and>
    mem_wb_is_bubble (memwb_q (core_step i s)) \<and>
    exmem_q (core_step i s) = core_ex_mem s"
proof -
  let ?t = "wb_trap_sigs (memwb_q s) (core_csr_illegal s)" and ?e = "core_trap_env i s"
  have m: "te_priv_mode ?e = 3"
    using assms(2) by (simp add: core_trap_env_def encode_priv_mode_def)
  have "raises_exception ?t"
    using assms(4) by (auto simp: raises_exception_def wb_trap_sigs_def wb_has_trap_def)
  moreover have "interrupt_cause ?e = None"
    using assms(3) by (auto simp: interrupt_cause_def core_trap_env_def)
  ultimately have sel: "trap_select ?t ?e =
      Some (of_nat (exception_code ?t 3) + (if False then 2 ^ 63 else 0), exception_tval ?t, False)"
    by (simp add: trap_select_def sync_exception_raises m)
  have r: "trap_response ?t ?e (core_trap i s) False (exception_code ?t 3)"
    unfolding core_trap_def by (rule trap_ctrl_response [OF sel exception_code_less]) simp
  then have t: "to_trigger (core_trap i s)" by (simp add: trap_response_def)
  have "\<not> wp_reg_write_en (core_wb_port s)"
    using assms(4) by (auto simp: core_wb_port_def wb_reg_write_en_out_def)
  then have "rf_q (core_step i s) = rf_q s"
    using assms(1) by (simp add: core_step_def Let_def regfile_ff_def)
  moreover have "\<not> delegated ?e False c" for c using m by (simp add: delegated_def)
  then have "to_next_pc (core_trap i s) = mtvec_reg (csr_q s) AND NOT 3"
    "to_mcause (core_trap i s) = of_nat (exception_code ?t 3)"
    using r by (simp_all add: trap_response_def handler_address_def core_trap_env_def)
  ultimately show ?thesis
    using core_trap_front [OF assms(1) t] core_trap_csr [OF assms(1) t assms(2)]
      core_exmem_advances [OF assms(1)] by simp
qed

text \<open>Inputs without reset, and a state whose write-back stage holds an illegal instruction.\<close>

definition quiet_in :: core_in where
  "quiet_in = \<lparr>in_rst = False, in_imem_rdata = 0x13, in_dmem_rdata = 0, in_ext_timer = False,
     in_ext_software = False, in_ext_external = False\<rparr>"

definition illegal_in_wb :: core_state where
  "illegal_in_wb = core_reset_state
     \<lparr>memwb_q := mem_wb_reset\<lparr>wb_illegal_instr := True, wb_pc := 0x80000010\<rparr>,
      idex_q := id_ex_reset\<lparr>ex_is_store := True, ex_imm := 0x40, ex_alu_src2_sel := True\<rparr>\<rparr>"

theorem core_exception_edge_witness:
  "mepc_reg (csr_q (core_step quiet_in illegal_in_wb)) = 0x80000010 \<and>
   mcause_reg (csr_q (core_step quiet_in illegal_in_wb)) = 2"
  using core_exception_edge [of quiet_in illegal_in_wb]
  by (simp add: quiet_in_def illegal_in_wb_def core_reset_state_def csr_reset_def wb_has_trap_def
      exception_code_def wb_trap_sigs_def)

text \<open>
  C8: but the instruction in EX is not squashed: when a trap is taken while a younger store with
  an aligned address is in EX, that store requests its memory write right after the edge.
\<close>

theorem younger_store_escapes_trap:
  assumes "\<not> in_rst i" "to_trigger (core_trap i s)" "ex_is_store (idex_q s)"
    and "\<not> addr_misaligned (ex_mem_size (idex_q s)) (exo_alu_result (core_ex s))"
  shows "dmem_write_en (core_step i s) \<and> dmem_addr (core_step i s) = exo_alu_result (core_ex s)"
  using assms
  by (simp add: dmem_write_en_def dmem_addr_def core_exmem_advances dmem_write_req_def
      store_addr_misaligned_def core_ex_mem_def Let_def)

theorem younger_store_escapes_trap_witness:
  "dmem_write_en (core_step quiet_in illegal_in_wb)"
proof -
  have t: "to_trigger (core_trap quiet_in illegal_in_wb)"
    unfolding core_trap_def trap_ctrl_trigger_iff trap_select_None_iff
    by (simp add: illegal_in_wb_def sync_exception_def wb_trap_sigs_def)
  have i: "idex_q illegal_in_wb =
      id_ex_reset\<lparr>ex_is_store := True, ex_imm := 0x40, ex_alu_src2_sel := True\<rparr>"
    by (simp add: illegal_in_wb_def)
  show ?thesis
    using younger_store_escapes_trap [OF _ t]
    by (simp add: quiet_in_def i id_ex_reset_def addr_misaligned_def)
qed

text \<open>
  C9: the result of a CSR instruction does not reach the instruction right behind it.  With a CSR
  instruction in EX that writes a register other than x0 and its reader in ID, and no trap or
  return in write-back, the next edge does not hold the reader back: it moves into EX, and the
  operand the forwarding gives it there, the first and the second alike, is the ALU output of the
  CSR instruction.  The value the CSR instruction writes to that register is read from the CSR
  one edge later, in write-back.
\<close>

theorem csr_result_not_forwarded:
  assumes "\<not> in_rst i" "\<not> to_flush_req (core_trap i s)"
    and "\<not> in_rst j" "\<not> to_flush_req (core_trap j (core_step i s))"
    and "ex_is_csr (idex_q s)" "ex_reg_write_en (idex_q s)" "ex_rd_addr (idex_q s) \<noteq> 0"
    and "\<not> ex_is_load (idex_q s)" "\<not> ex_is_branch (idex_q s)" "\<not> ex_is_jump (idex_q s)"
  shows "idex_q (core_step i s) = core_id s \<and>
    (dec_rs1_addr (core_decode s) = ex_rd_addr (idex_q s) \<longrightarrow>
       ex_rs1_rdata_fwd (core_step i s) = exo_alu_result (core_ex s)) \<and>
    (dec_rs2_addr (core_decode s) = ex_rd_addr (idex_q s) \<longrightarrow>
       ex_rs2_rdata_fwd (core_step i s) = exo_alu_result (core_ex s)) \<and>
    (let t = core_step j (core_step i s) in
     wb_rd_addr (memwb_q t) = ex_rd_addr (idex_q s) \<and>
     core_wb_wdata t = csr_rdata (wb_csr_in t) (csr_q t))"
proof -
  have idle: "\<not> exo_branch_taken (core_ex s)" "\<not> load_use_stall (core_hazard_in i s)"
    using assms(8-10)
    by (simp_all add: core_ex_def core_ex_in_def ex_stage_def Let_def load_use_stall_def
        core_hazard_in_def forward_in_def)
  have id: "idex_q (core_step i s) = core_id s"
    using assms(1,2) idle
    by (simp add: core_step_def Let_def id_ex_ff_def hazard_controls_closed)
      (simp add: core_hazard_in_def)
  note em = core_exmem_advances [OF assms(1)]
  have fwd: "forward_sel (forward_in (core_step i s)) (ex_rd_addr (idex_q s)) = 0b01"
    using assms(6,7) by (simp add: forward_sel_def forward_in_def em core_ex_mem_def Let_def)
  have wb: "memwb_q (core_step j (core_step i s)) = mem_stage (core_ex_mem s) (in_dmem_rdata j)"
    using assms(3,4) by (simp add: core_step_def [of j] Let_def mem_wb_ff_def em)
  have op: "forward_mux 0b01 (mem_alu_result (exmem_q (core_step i s))) x y = exo_alu_result (core_ex s)"
    for x y by (simp add: forward_mux_def em core_ex_mem_def Let_def)
  show ?thesis
    using assms(5) fwd op
    by (auto simp: id ex_rs1_rdata_fwd_def ex_rs2_rdata_fwd_def forward_a_sel_def forward_b_sel_def
        core_id_def id_stage_def Let_def wb core_wb_wdata_def wb_rd_wdata_def mem_stage_def
        core_ex_mem_def forward_in_def [of "core_step i s"])
qed

text \<open>\<open>csrrs x29, mepc, x0\<close> in EX and \<open>addi x29, x29, 4\<close> in ID, with \<open>mepc = 0x80000020\<close>.\<close>

definition csr_in_ex :: core_state where
  "csr_in_ex = core_reset_state
     \<lparr>csr_q := csr_reset\<lparr>mepc_reg := 0x80000020\<rparr>,
      idex_q := id_ex_reset\<lparr>ex_is_csr := True, ex_csr_op := 0b010, ex_reg_write_en := True,
        ex_rd_addr := 29, ex_imm := 0x341\<rparr>,
      ifid_q := \<lparr>ifid_pc = 0x80000004, ifid_instr = 0x004E8E93\<rparr>\<rparr>"

theorem csr_result_not_forwarded_witness:
  "ex_rs1_rdata_fwd (core_step quiet_in csr_in_ex) = 0 \<and>
   read_csr (csr_q csr_in_ex) CSR_MEPC = 0x80000020"
proof -
  have q: "\<not> to_flush_req (core_trap quiet_in t)"
    if "memwb_q t = mem_wb_reset \<or> memwb_q t = mem_stage ex_mem_reset 0" for t
    using that by (auto simp: core_trap_def trap_ctrl_def trap_select_def interrupt_cause_def
        core_trap_env_def quiet_in_def sync_exception_def wb_trap_sigs_def core_csr_illegal_def
        csr_illegal_access_def wb_csr_in_def wb_csr_req_def mem_stage_def ex_mem_reset_def
        mem_wb_reset_def load_addr_misaligned_def store_addr_misaligned_def)
  have r: "\<not> in_rst quiet_in" "read_csr (csr_q csr_in_ex) CSR_MEPC = 0x80000020"
    by (simp_all add: quiet_in_def csr_in_ex_def read_csr_def)
  have ix: "idex_q csr_in_ex = id_ex_reset\<lparr>ex_is_csr := True, ex_csr_op := 0b010,
      ex_reg_write_en := True, ex_rd_addr := 29, ex_imm := 0x341\<rparr>" "memwb_q csr_in_ex = mem_wb_reset"
    by (simp_all add: csr_in_ex_def core_reset_state_def)
  have w: "memwb_q (core_step quiet_in csr_in_ex) = mem_stage ex_mem_reset 0"
    using q [of csr_in_ex] by (simp add: core_step_def Let_def mem_wb_ff_def quiet_in_def)
      (simp add: csr_in_ex_def core_reset_state_def)
  have d: "dec_rs1_addr (core_decode csr_in_ex) = 29"
    by (simp add: core_decode_def csr_in_ex_def decoder_addrs field_def)
  have x: "exo_alu_result (core_ex csr_in_ex) = 0"
    by (simp add: core_ex_def core_ex_in_def ex_stage_defs alu_def csr_in_ex_def
        core_reset_state_def id_ex_reset_def ex_rs1_rdata_fwd_def ex_rs2_rdata_fwd_def
        forward_a_sel_def forward_b_sel_def forward_sel_def forward_in_def forward_mux_def
        ex_mem_reset_def mem_wb_reset_def core_wb_port_def wb_reg_write_en_out_def)
  show ?thesis
    using csr_result_not_forwarded [of quiet_in csr_in_ex quiet_in] q [of csr_in_ex] q w d x r ix
    by (simp add: id_ex_reset_def)
qed

text \<open>
  C10: an interrupt in M mode lets the instruction in write-back commit and yet saves the PC of that
  same instruction in \<open>mepc\<close>, so that it is executed twice.  For an instruction that raises no
  exception and writes a register other than x0: at the edge of the interrupt the register takes
  its value, and when the handler's \<open>mret\<close> is in write-back (in any later state in which \<open>mepc\<close>
  is as the interrupt left it and no enabled interrupt is pending) the fetch returns to that
  instruction.
\<close>

theorem interrupt_commits_and_returns_to_same_pc:
  assumes "\<not> in_rst i" "priv_mode_q (csr_q s) = PRIV_MODE_M"
    and "bit (mstatus_reg (csr_q s)) 3" "in_ext_timer i \<or> in_ext_software i \<or> in_ext_external i"
    and "wb_reg_write_en (memwb_q s)" "wb_rd_addr (memwb_q s) \<noteq> 0"
    and "\<not> wb_has_trap (memwb_q s)" "\<not> core_csr_illegal s"
    and "\<not> in_rst j" "mepc_reg (csr_q t) = mepc_reg (csr_q (core_step i s))"
    and "wb_is_mret (memwb_q t)" "\<not> wb_has_trap (memwb_q t)" "\<not> core_csr_illegal t"
    and "\<not> (bit (mstatus_reg (csr_q t)) 3 \<and>
             (in_ext_timer j \<or> in_ext_software j \<or> in_ext_external j))"
  shows "rf_q (core_step i s) = (rf_q s)(wb_rd_addr (memwb_q s) := core_wb_wdata s) \<and>
         mepc_reg (csr_q (core_step i s)) = wb_pc (memwb_q s) \<and>
         imem_addr (core_step j t) = wb_pc (memwb_q s)"
proof -
  have "interrupt_cause (core_trap_env i s) \<noteq> None"
    using assms(3,4) by (auto simp: interrupt_cause_def core_trap_env_def)
  then have trig: "to_trigger (core_trap i s)"
    unfolding core_trap_def trap_ctrl_trigger_iff trap_select_None_iff by simp
  have "rf_q (core_step i s) = (rf_q s)(wb_rd_addr (memwb_q s) := core_wb_wdata s)"
    using assms by (simp add: core_step_def Let_def regfile_ff_def core_wb_port_def
        wb_reg_write_en_out_def)
  moreover have mepc: "mepc_reg (csr_q (core_step i s)) = wb_pc (memwb_q s)"
    by (rule core_trap_csr(1) [OF assms(1) trig assms(2)])
  moreover have "trap_select (wb_trap_sigs (memwb_q t) (core_csr_illegal t)) (core_trap_env j t) = None"
    using assms(12-14)
    by (auto simp: trap_select_None_iff interrupt_cause_def core_trap_env_def sync_exception_def
        wb_trap_sigs_def wb_has_trap_def)
  then have "to_pc_sel (core_trap j t)" "to_next_pc (core_trap j t) = mepc_reg (csr_q t)"
    using assms(11)
    by (simp_all add: core_trap_def trap_ctrl_def wb_trap_sigs_def core_trap_env_def)
  then have "imem_addr (core_step j t) = mepc_reg (csr_q t)"
    using assms(9) by (simp add: imem_addr_def core_step_def Let_def if_stage_ff_def
        hazard_redirect_def core_hazard_in_def)
  ultimately show ?thesis using assms(10) by simp
qed

definition add_in_wb :: core_state where
  "add_in_wb = core_reset_state
     \<lparr>csr_q := csr_reset\<lparr>mstatus_reg := 8\<rparr>,
      memwb_q := mem_wb_reset\<lparr>wb_pc := 0x80000010, wb_alu_result := 7, wb_reg_write_en := True,
        wb_rd_addr := 1\<rparr>\<rparr>"

definition mret_in_wb :: core_state where
  "mret_in_wb = core_reset_state
     \<lparr>csr_q := csr_reset\<lparr>mepc_reg := 0x80000010\<rparr>,
      memwb_q := mem_wb_reset\<lparr>wb_pc := 0x40, wb_is_mret := True\<rparr>\<rparr>"

theorem interrupt_commits_and_returns_to_same_pc_witness:
  "rf_q (core_step (quiet_in\<lparr>in_ext_external := True\<rparr>) add_in_wb) 1 = 7 \<and>
   mepc_reg (csr_q (core_step (quiet_in\<lparr>in_ext_external := True\<rparr>) add_in_wb)) = 0x80000010 \<and>
   imem_addr (core_step quiet_in mret_in_wb) = 0x80000010"
proof -
  let ?i = "quiet_in\<lparr>in_ext_external := True\<rparr>"
  have a: "core_wb_wdata add_in_wb = 7" "\<not> core_csr_illegal add_in_wb"
    by (simp_all add: add_in_wb_def core_wb_wdata_def wb_rd_wdata_def mem_wb_reset_def
        core_csr_illegal_def csr_illegal_access_def wb_csr_in_def wb_csr_req_def)
  have "to_trigger (core_trap ?i add_in_wb)"
    unfolding core_trap_def trap_ctrl_trigger_iff trap_select_None_iff
    by (simp add: interrupt_cause_def core_trap_env_def quiet_in_def add_in_wb_def bit_simps)
  then have "mepc_reg (csr_q (core_step ?i add_in_wb)) = wb_pc (memwb_q add_in_wb)"
    by (intro core_trap_csr(1))
      (simp_all add: quiet_in_def add_in_wb_def core_reset_state_def csr_reset_def)
  moreover have "wb_pc (memwb_q add_in_wb) = 0x80000010" by (simp add: add_in_wb_def)
  moreover have "\<not> core_csr_illegal mret_in_wb"
    by (simp add: mret_in_wb_def mem_wb_reset_def core_csr_illegal_def csr_illegal_access_def
        wb_csr_in_def wb_csr_req_def)
  ultimately show ?thesis
    using interrupt_commits_and_returns_to_same_pc [of ?i add_in_wb quiet_in mret_in_wb] a
    by (simp add: quiet_in_def add_in_wb_def mret_in_wb_def core_reset_state_def csr_reset_def
        mem_wb_reset_def wb_has_trap_def bit_simps)
qed

text \<open>
  the machine interrupt-enable register \<open>mie\<close> has no influence on whether a trap is taken: an
  external, software or timer interrupt is masked by \<open>mstatus.MIE\<close> alone.
\<close>

theorem interrupt_ignores_mie:
  "core_trap i (s\<lparr>csr_q := (csr_q s)\<lparr>mie_reg := v\<rparr>\<rparr>) = core_trap i s"
  by (simp add: core_trap_def core_trap_env_def core_csr_illegal_def wb_csr_in_def)

end
