(* ===== verification/Rv_Encode.thy ===== *)
theory Rv_Encode
  imports Decoder
begin

text \<open>
  The instruction encoders of the core bench, \<^verbatim>\<open>src/tb/core/tb_core.cc\<close>: the six instruction
  formats, the shorthands built on them and the small code emitters; and the lemmas that take
  an encoded instruction apart again.
\<close>

section \<open>Definitions\<close>

definition rv_r_type :: "u32 \<Rightarrow> u32 \<Rightarrow> u32 \<Rightarrow> u32 \<Rightarrow> u32 \<Rightarrow> u32 \<Rightarrow> u32" where
  "rv_r_type funct7 rs2 rs1 funct3 rd opcode =
     push_bit 25 funct7 OR push_bit 20 rs2 OR push_bit 15 rs1 OR push_bit 12 funct3 OR
     push_bit 7 rd OR opcode"

definition rv_i_type :: "u32 \<Rightarrow> u32 \<Rightarrow> u32 \<Rightarrow> u32 \<Rightarrow> u32 \<Rightarrow> u32" where
  "rv_i_type imm12 rs1 funct3 rd opcode =
     push_bit 20 (imm12 AND 0xFFF) OR push_bit 15 rs1 OR push_bit 12 funct3 OR push_bit 7 rd OR
     opcode"

definition rv_s_type :: "u32 \<Rightarrow> u32 \<Rightarrow> u32 \<Rightarrow> u32 \<Rightarrow> u32 \<Rightarrow> u32" where
  "rv_s_type imm12 rs2 rs1 funct3 opcode =
     (let imm_hi = drop_bit 5 imm12 AND 0x7F; imm_lo = imm12 AND 0x1F in
      push_bit 25 imm_hi OR push_bit 20 rs2 OR push_bit 15 rs1 OR push_bit 12 funct3 OR
      push_bit 7 imm_lo OR opcode)"

definition rv_u_type :: "u32 \<Rightarrow> u32 \<Rightarrow> u32 \<Rightarrow> u32" where
  "rv_u_type imm20 rd opcode = push_bit 12 (imm20 AND 0xFFFFF) OR push_bit 7 rd OR opcode"

text \<open>The offsets are \<open>int32_t\<close> cast to \<open>uint32_t\<close>: the same 32 bits.\<close>

definition rv_j_type :: "u32 \<Rightarrow> u32 \<Rightarrow> u32 \<Rightarrow> u32" where
  "rv_j_type imm rd opcode =
     (let bit20 = drop_bit 20 imm AND 0x1;
          bit10_1 = drop_bit 1 imm AND 0x3FF;
          bit11 = drop_bit 11 imm AND 0x1;
          bit19_12 = drop_bit 12 imm AND 0xFF in
      push_bit 31 bit20 OR push_bit 21 bit10_1 OR push_bit 20 bit11 OR push_bit 12 bit19_12 OR
      push_bit 7 rd OR opcode)"

definition rv_b_type :: "u32 \<Rightarrow> u32 \<Rightarrow> u32 \<Rightarrow> u32 \<Rightarrow> u32 \<Rightarrow> u32" where
  "rv_b_type imm rs2 rs1 funct3 opcode =
     (let bit12 = drop_bit 12 imm AND 0x1;
          bit10_5 = drop_bit 5 imm AND 0x3F;
          bit4_1 = drop_bit 1 imm AND 0xF;
          bit11 = drop_bit 11 imm AND 0x1 in
      push_bit 31 bit12 OR push_bit 25 bit10_5 OR push_bit 20 rs2 OR push_bit 15 rs1 OR
      push_bit 12 funct3 OR push_bit 8 bit4_1 OR push_bit 7 bit11 OR opcode)"

subsection \<open>Shorthands\<close>

definition NOP :: u32 where "NOP = 0x00000013"

definition ILLEGAL :: u32 where "ILLEGAL = 0xFFFFFFFF"

definition ADDI :: "u32 \<Rightarrow> u32 \<Rightarrow> u32 \<Rightarrow> u32" where
  "ADDI rd rs1 imm = rv_i_type (imm AND 0xFFF) rs1 0x0 rd 0x13"

definition ADD :: "u32 \<Rightarrow> u32 \<Rightarrow> u32 \<Rightarrow> u32" where
  "ADD rd rs1 rs2 = rv_r_type 0x00 rs2 rs1 0x0 rd 0x33"

definition SUB :: "u32 \<Rightarrow> u32 \<Rightarrow> u32 \<Rightarrow> u32" where
  "SUB rd rs1 rs2 = rv_r_type 0x20 rs2 rs1 0x0 rd 0x33"

definition LD :: "u32 \<Rightarrow> u32 \<Rightarrow> u32 \<Rightarrow> u32" where
  "LD rd rs1 imm = rv_i_type (imm AND 0xFFF) rs1 0x3 rd 0x03"

definition SD :: "u32 \<Rightarrow> u32 \<Rightarrow> u32 \<Rightarrow> u32" where
  "SD rs2 rs1 imm = rv_s_type (imm AND 0xFFF) rs2 rs1 0x3 0x23"

definition BEQ :: "u32 \<Rightarrow> u32 \<Rightarrow> u32 \<Rightarrow> u32" where
  "BEQ rs1 rs2 offset = rv_b_type offset rs2 rs1 0x0 0x63"

definition BNE :: "u32 \<Rightarrow> u32 \<Rightarrow> u32 \<Rightarrow> u32" where
  "BNE rs1 rs2 offset = rv_b_type offset rs2 rs1 0x1 0x63"

definition LUI :: "u32 \<Rightarrow> u32 \<Rightarrow> u32" where
  "LUI rd imm = rv_u_type imm rd 0x37"

definition JAL :: "u32 \<Rightarrow> u32 \<Rightarrow> u32" where
  "JAL rd offset = rv_j_type offset rd 0x6f"

definition JALR :: "u32 \<Rightarrow> u32 \<Rightarrow> u32 \<Rightarrow> u32" where
  "JALR rd rs1 imm = rv_i_type (imm AND 0xFFF) rs1 0x0 rd 0x67"

definition SYSTEM :: "u32 \<Rightarrow> u32 \<Rightarrow> u32 \<Rightarrow> u32 \<Rightarrow> u32" where
  "SYSTEM funct12 rs1 funct3 rd =
     push_bit 20 (funct12 AND 0xFFF) OR push_bit 15 (rs1 AND 0x1F) OR
     push_bit 12 (funct3 AND 0x7) OR push_bit 7 (rd AND 0x1F) OR 0x73"

definition ECALL :: u32 where "ECALL = SYSTEM 0x000 0 0x0 0"
definition EBREAK :: u32 where "EBREAK = SYSTEM 0x001 0 0x0 0"
definition MRET :: u32 where "MRET = SYSTEM 0x302 0 0x0 0"
definition SRET :: u32 where "SRET = SYSTEM 0x102 0 0x0 0"

definition CSRInstrReg :: "u32 \<Rightarrow> u32 \<Rightarrow> u32 \<Rightarrow> u32 \<Rightarrow> u32" where
  "CSRInstrReg csr funct3 rd rs1 =
     push_bit 20 (csr AND 0xFFF) OR push_bit 15 (rs1 AND 0x1F) OR
     push_bit 12 (funct3 AND 0x7) OR push_bit 7 (rd AND 0x1F) OR 0x73"

definition CSRRW :: "u32 \<Rightarrow> u32 \<Rightarrow> u32 \<Rightarrow> u32" where
  "CSRRW rd csr rs1 = CSRInstrReg csr 0b001 rd rs1"

definition CSRRS :: "u32 \<Rightarrow> u32 \<Rightarrow> u32 \<Rightarrow> u32" where
  "CSRRS rd csr rs1 = CSRInstrReg csr 0b010 rd rs1"

definition CSRRWI :: "u32 \<Rightarrow> u32 \<Rightarrow> u32 \<Rightarrow> u32" where
  "CSRRWI rd csr zimm = CSRInstrReg csr 0b101 rd (zimm AND 0x1F)"

subsection \<open>Code emitters\<close>

text \<open>A program under construction is the list of its words; an emitter appends to it.\<close>

definition load_imm64_upper :: "u64 \<Rightarrow> u32" where
  "load_imm64_upper imm = ucast (drop_bit 12 (imm + 0x800))"

definition load_imm64_lower :: "u64 \<Rightarrow> u32" where
  "load_imm64_lower imm =
     (let lower = (ucast (imm AND 0xFFF) :: u32) in if 2048 \<le> lower then lower - 4096 else lower)"

definition emit_load_imm64 :: "u32 list \<Rightarrow> u32 \<Rightarrow> u64 \<Rightarrow> u32 list" where
  "emit_load_imm64 prog rd imm =
     prog @ [LUI rd (load_imm64_upper imm), ADDI rd rd (load_imm64_lower imm)]"

definition emit_nops :: "u32 list \<Rightarrow> nat \<Rightarrow> u32 list" where
  "emit_nops prog count = prog @ replicate count NOP"

definition emit_csrrw_imm64 :: "u32 list \<Rightarrow> u32 \<Rightarrow> u32 \<Rightarrow> u64 \<Rightarrow> u32 list" where
  "emit_csrrw_imm64 prog tmp_reg csr value =
     emit_nops (emit_load_imm64 prog tmp_reg value) 6 @ [CSRRW 0 csr tmp_reg]"

section \<open>Lemmas\<close>

lemmas rv_type_defs = rv_r_type_def rv_i_type_def rv_s_type_def rv_u_type_def rv_j_type_def
  rv_b_type_def

lemmas encode_defs = NOP_def ILLEGAL_def ADDI_def ADD_def SUB_def LD_def SD_def BEQ_def BNE_def
  LUI_def JAL_def JALR_def SYSTEM_def ECALL_def EBREAK_def MRET_def SRET_def CSRInstrReg_def
  CSRRW_def CSRRS_def CSRRWI_def

lemmas emit_defs = emit_load_imm64_def emit_nops_def emit_csrrw_imm64_def load_imm64_upper_def
  load_imm64_lower_def

declare rv_type_defs [rtl_eval] encode_defs [rtl_eval] emit_defs [rtl_eval]

text \<open>The literal masks as low-bit masks.\<close>

lemma and_mask32:
  fixes w :: u32
  shows "w AND 0x1 = take_bit 1 w" "w AND 0xF = take_bit 4 w" "w AND 0x1F = take_bit 5 w"
    "w AND 0x3F = take_bit 6 w" "w AND 0x7F = take_bit 7 w" "w AND 0x7 = take_bit 3 w"
    "w AND 0xFF = take_bit 8 w" "w AND 0x3FF = take_bit 10 w" "w AND 0xFFF = take_bit 12 w"
    "w AND 0xFFFFF = take_bit 20 w"
  by (simp_all add: take_bit_eq_mask mask_numeral)

text \<open>Fields of an encoded instruction whose arguments have the width of their fields.\<close>

lemma rv_r_type_fields:
  fixes f7 op :: "7 word" and rs1 rs2 rd :: reg_idx and f3 :: "3 word"
  defines "w \<equiv> rv_r_type (ucast f7) (ucast rs2) (ucast rs1) (ucast f3) (ucast rd) (ucast op)"
  shows "field 0 w = op" "field 7 w = rd" "field 12 w = f3" "field 15 w = rs1"
    "field 20 w = rs2" "field 25 w = f7"
  unfolding w_def rv_r_type_def
  by (rule bit_word_eqI; auto simp: bit_simps dest: bit_imp_le_length)+

lemma rv_i_type_fields:
  fixes op :: "7 word" and rs1 rd :: reg_idx and f3 :: "3 word" and imm :: u32
  defines "w \<equiv> rv_i_type imm (ucast rs1) (ucast f3) (ucast rd) (ucast op)"
  shows "field 0 w = op" "field 7 w = rd" "field 12 w = f3" "field 15 w = rs1"
    "field 20 w = (ucast imm :: 12 word)"
  unfolding w_def rv_i_type_def and_mask32
  by (rule bit_word_eqI; auto simp: bit_simps dest: bit_imp_le_length)+

lemma rv_s_type_fields:
  fixes op :: "7 word" and rs1 rs2 :: reg_idx and f3 :: "3 word" and imm :: u32
  defines "w \<equiv> rv_s_type imm (ucast rs2) (ucast rs1) (ucast f3) (ucast op)"
  shows "field 0 w = op" "field 7 w = (ucast imm :: 5 word)" "field 12 w = f3" "field 15 w = rs1"
    "field 20 w = rs2" "field 25 w = (field 5 imm :: 7 word)"
  unfolding w_def rv_s_type_def and_mask32 Let_def
  by (rule bit_word_eqI; auto simp: bit_simps dest: bit_imp_le_length)+

end
