(* ===== verification/Core_Sim.thy ===== *)
theory Core_Sim
  imports Core Rv_Encode
begin

text \<open>
  The simulation harness of the core bench, \<^verbatim>\<open>src/tb/core/tb_core.cc\<close>: the memory model
  that answers the core's ports, the two trap-handler programs, the wrapper class \<open>CoreSim\<close>
  with its \<open>reset\<close>, \<open>tick\<close> and \<open>run\<close>, and the assertion counters.

  A call of \<open>tick\<close> drives the input ports from the current outputs, makes one rising
  clock edge and then performs the store the output ports request \<^emph>\<open>after\<close> the edge.  The
  outputs of the core are functions of its registers, so the harness state is the register state
  together with the memory and the port levels the bench holds between two ticks.  The
  register contents of a freshly constructed \<open>Vrichard_core\<close> are not specified by the program:
  every test takes them as an argument.
\<close>

section \<open>Definitions\<close>

subsection \<open>Constants of the bench\<close>

abbreviation (input) LOG_ENTRY_STRIDE :: u64 where "LOG_ENTRY_STRIDE \<equiv> 24"
abbreviation (input) MACHINE_TRAP_VECTOR :: u64 where "MACHINE_TRAP_VECTOR \<equiv> 0x00000000"
abbreviation (input) SUPERVISOR_TRAP_VECTOR :: u64 where "SUPERVISOR_TRAP_VECTOR \<equiv> 0x00000100"
abbreviation (input) MACHINE_LOG_PTR_ADDR :: u64 where "MACHINE_LOG_PTR_ADDR \<equiv> 0xFFF0"
abbreviation (input) SUPERVISOR_LOG_PTR_ADDR :: u64 where "SUPERVISOR_LOG_PTR_ADDR \<equiv> 0xFFE0"

subsection \<open>Assertion counters\<close>

record counters =
  g_test_count :: nat
  g_pass_count :: nat

definition ASSERT_EQ :: "'a \<Rightarrow> 'a \<Rightarrow> counters \<Rightarrow> counters" where
  "ASSERT_EQ actual expected c =
     \<lparr>g_test_count = g_test_count c + 1,
      g_pass_count = (if actual \<noteq> expected then g_pass_count c else g_pass_count c + 1)\<rparr>"

text \<open>The tests that only check for survival count one passed assertion unconditionally.\<close>

definition count_pass :: "counters \<Rightarrow> counters" where
  "count_pass c = \<lparr>g_test_count = g_test_count c + 1, g_pass_count = g_pass_count c + 1\<rparr>"

subsection \<open>MemoryModel\<close>

record MemoryModel =
  imem :: "u64 \<rightharpoonup> u32"
  dmem :: "u64 \<rightharpoonup> u64"

definition empty_memory :: MemoryModel where
  "empty_memory = \<lparr>imem = Map.empty, dmem = Map.empty\<rparr>"

text \<open>The loop \<open>for (i = 0; i < program.size(); i++) imem[base_addr + i * 4] = program[i];\<close>.\<close>

primrec load_words :: "u64 \<Rightarrow> u32 list \<Rightarrow> (u64 \<rightharpoonup> u32) \<Rightarrow> (u64 \<rightharpoonup> u32)" where
  "load_words addr [] m = m"
| "load_words addr (w # ws) m = load_words (addr + 4) ws (m(addr \<mapsto> w))"

definition load_program :: "u64 \<Rightarrow> u32 list \<Rightarrow> MemoryModel \<Rightarrow> MemoryModel" where
  "load_program base_addr program m = m\<lparr>imem := load_words base_addr program (imem m)\<rparr>"

definition read_instr :: "MemoryModel \<Rightarrow> u64 \<Rightarrow> u32" where
  "read_instr m addr = (case imem m addr of Some w \<Rightarrow> w | None \<Rightarrow> NOP)"

definition read_data :: "MemoryModel \<Rightarrow> u64 \<Rightarrow> u64" where
  "read_data m addr =
     (let aligned = addr AND NOT 0x7 in case dmem m aligned of Some d \<Rightarrow> d | None \<Rightarrow> 0)"

definition write_data :: "u64 \<Rightarrow> u64 \<Rightarrow> MemoryModel \<Rightarrow> MemoryModel" where
  "write_data addr data m =
     (let aligned = addr AND NOT 0x7 in m\<lparr>dmem := (dmem m)(aligned \<mapsto> data)\<rparr>)"

subsection \<open>Trap handlers\<close>

definition make_machine_trap_handler_program :: "u32 list" where
  "make_machine_trap_handler_program =
     (let REG_PTR = 5; REG_MCAUSE = 6; REG_MEPC = 7; REG_MTVAL = 28; REG_TMP = 29;
          REG_SLOT_ADDR = 30;
          prog = emit_load_imm64 [] REG_SLOT_ADDR MACHINE_LOG_PTR_ADDR;
          prog = prog @ [LD REG_PTR REG_SLOT_ADDR 0];
          prog = emit_nops prog 12;
          prog = prog @ [CSRRS REG_MCAUSE (ucast CSR_MCAUSE) 0];
          prog = emit_nops prog 4;
          prog = prog @ [SD REG_MCAUSE REG_PTR 0];
          prog = prog @ [CSRRS REG_MEPC (ucast CSR_MEPC) 0];
          prog = emit_nops prog 4;
          prog = prog @ [SD REG_MEPC REG_PTR 8];
          prog = prog @ [CSRRS REG_MTVAL (ucast CSR_MTVAL) 0];
          prog = emit_nops prog 4;
          prog = prog @ [SD REG_MTVAL REG_PTR 16];
          prog = prog @ [ADDI REG_PTR REG_PTR (ucast LOG_ENTRY_STRIDE)];
          prog = prog @ [SD REG_PTR REG_SLOT_ADDR 0];
          prog = prog @ [CSRRS REG_TMP (ucast CSR_MEPC) 0];
          prog = prog @ [ADDI REG_TMP REG_TMP 4];
          prog = emit_nops prog 12;
          prog = prog @ [CSRRW 0 (ucast CSR_MEPC) REG_TMP];
          prog = prog @ [MRET];
          prog = prog @ [NOP]
      in prog @ [NOP])"

definition make_supervisor_trap_handler_program :: "u32 list" where
  "make_supervisor_trap_handler_program =
     (let REG_PTR = 5; REG_SCAUSE = 6; REG_SEPC = 7; REG_STVAL = 28; REG_TMP = 29;
          REG_SLOT_ADDR = 30;
          prog = emit_load_imm64 [] REG_SLOT_ADDR SUPERVISOR_LOG_PTR_ADDR;
          prog = prog @ [LD REG_PTR REG_SLOT_ADDR 0];
          prog = emit_nops prog 12;
          prog = prog @ [CSRRS REG_SCAUSE (ucast CSR_SCAUSE) 0];
          prog = emit_nops prog 4;
          prog = prog @ [SD REG_SCAUSE REG_PTR 0];
          prog = prog @ [CSRRS REG_SEPC (ucast CSR_SEPC) 0];
          prog = emit_nops prog 4;
          prog = prog @ [SD REG_SEPC REG_PTR 8];
          prog = prog @ [CSRRS REG_STVAL (ucast CSR_STVAL) 0];
          prog = emit_nops prog 4;
          prog = prog @ [SD REG_STVAL REG_PTR 16];
          prog = prog @ [ADDI REG_PTR REG_PTR (ucast LOG_ENTRY_STRIDE)];
          prog = prog @ [SD REG_PTR REG_SLOT_ADDR 0];
          prog = prog @ [CSRRS REG_TMP (ucast CSR_SEPC) 0];
          prog = prog @ [ADDI REG_TMP REG_TMP 4];
          prog = emit_nops prog 12;
          prog = prog @ [CSRRW 0 (ucast CSR_SEPC) REG_TMP];
          prog = prog @ [SRET];
          prog = prog @ [NOP]
      in prog @ [NOP])"

definition install_trap_handlers :: "MemoryModel \<Rightarrow> MemoryModel" where
  "install_trap_handlers m =
     load_program SUPERVISOR_TRAP_VECTOR make_supervisor_trap_handler_program
       (load_program MACHINE_TRAP_VECTOR make_machine_trap_handler_program m)"

record TrapRecord =
  rec_mcause :: u64
  rec_mepc :: u64
  rec_mtval :: u64

definition fetch_trap_record :: "MemoryModel \<Rightarrow> u64 \<Rightarrow> u64 \<Rightarrow> TrapRecord" where
  "fetch_trap_record m base index =
     (let addr = base + index * LOG_ENTRY_STRIDE in
      \<lparr>rec_mcause = read_data m (addr + 0),
       rec_mepc = read_data m (addr + 8),
       rec_mtval = read_data m (addr + 16)\<rparr>)"

subsection \<open>CoreSim\<close>

record CoreSim =
  top :: core_state
  top_rst :: bool
  mem :: MemoryModel
  ext_timer_interrupt_level :: bool
  ext_software_interrupt_level :: bool
  ext_external_interrupt_level :: bool

text \<open>The constructor; the register contents and the level of \<open>rst\<close> are those of a new
  \<open>Vrichard_core\<close>.\<close>

definition new_CoreSim :: "core_state \<Rightarrow> CoreSim" where
  "new_CoreSim power_up =
     \<lparr>top = power_up, top_rst = False, mem = empty_memory,
      ext_timer_interrupt_level = False, ext_software_interrupt_level = False,
      ext_external_interrupt_level = False\<rparr>"

definition set_interrupt_lines :: "bool \<Rightarrow> bool \<Rightarrow> bool \<Rightarrow> CoreSim \<Rightarrow> CoreSim" where
  "set_interrupt_lines timer software external sim =
     sim\<lparr>ext_timer_interrupt_level := timer,
         ext_software_interrupt_level := software,
         ext_external_interrupt_level := external\<rparr>"

definition clear_interrupts :: "CoreSim \<Rightarrow> CoreSim" where
  "clear_interrupts sim = set_interrupt_lines False False False sim"

text \<open>The values the bench drives on the input ports.\<close>

definition sim_inputs :: "CoreSim \<Rightarrow> core_in" where
  "sim_inputs sim =
     \<lparr>in_rst = top_rst sim,
      in_imem_rdata = read_instr (mem sim) (imem_addr (top sim)),
      in_dmem_rdata =
        (if dmem_read_en (top sim) then read_data (mem sim) (dmem_addr (top sim)) else 0),
      in_ext_timer = ext_timer_interrupt_level sim,
      in_ext_software = ext_software_interrupt_level sim,
      in_ext_external = ext_external_interrupt_level sim\<rparr>"

text \<open>The store the output ports request after the edge.\<close>

definition sim_store :: "core_state \<Rightarrow> MemoryModel \<Rightarrow> MemoryModel" where
  "sim_store t m = (if dmem_write_en t then write_data (dmem_addr t) (dmem_wdata_out t) m else m)"

definition tick :: "CoreSim \<Rightarrow> CoreSim" where
  "tick sim =
     (let t = core_step (sim_inputs sim) (top sim)
      in sim\<lparr>top := t, mem := sim_store t (mem sim)\<rparr>)"

definition run :: "nat \<Rightarrow> CoreSim \<Rightarrow> CoreSim" where
  "run n sim = iterate n tick sim"

text \<open>\<open>reset\<close> also drives \<open>imem_rdata\<close> and \<open>dmem_rdata\<close>, which the following \<open>tick\<close>
  overwrites before the core sees them.\<close>

definition reset :: "nat \<Rightarrow> CoreSim \<Rightarrow> CoreSim" where
  "reset cycles sim =
     (iterate cycles tick (clear_interrupts (sim\<lparr>top_rst := True\<rparr>)))\<lparr>top_rst := False\<rparr>"

primrec collect_pc_trace :: "nat \<Rightarrow> CoreSim \<Rightarrow> u64 list" where
  "collect_pc_trace 0 sim = []"
| "collect_pc_trace (Suc n) sim = imem_addr (top (tick sim)) # collect_pc_trace n (tick sim)"

section \<open>Lemmas\<close>

lemmas sim_defs = ASSERT_EQ_def count_pass_def empty_memory_def load_program_def read_instr_def
  read_data_def write_data_def fetch_trap_record_def new_CoreSim_def set_interrupt_lines_def
  clear_interrupts_def sim_inputs_def sim_store_def tick_def run_def

subsection \<open>Reset\<close>

text \<open>After one reset tick the core is in its reset state, whatever it held before, and the
  memory is untouched: the reset state requests no store.\<close>

lemma reset_state_quiet [simp]:
  "\<not> dmem_write_en core_reset_state" "\<not> dmem_read_en core_reset_state"
  "imem_addr core_reset_state = reset_vector"
  by (simp_all add: core_port_defs core_reset_state_def dmem_write_req_def dmem_read_req_def
      ex_mem_reset_def)

lemma tick_reset:
  assumes "top_rst sim"
  shows "tick sim = sim\<lparr>top := core_reset_state\<rparr>"
  using assms by (simp add: tick_def core_step_reset sim_inputs_def sim_store_def)

lemma iterate_tick_reset:
  assumes "top_rst sim"
  shows "iterate n tick (sim\<lparr>top := core_reset_state\<rparr>) = sim\<lparr>top := core_reset_state\<rparr>"
  using assms by (induction n) (simp_all add: tick_reset)

lemma reset_eq:
  assumes "0 < cycles"
  shows "reset cycles sim = (clear_interrupts sim)\<lparr>top := core_reset_state, top_rst := False\<rparr>"
proof -
  obtain n where n: "cycles = Suc n" using assms gr0_implies_Suc by blast
  let ?s = "clear_interrupts (sim\<lparr>top_rst := True\<rparr>)"
  have "iterate cycles tick ?s = ?s\<lparr>top := core_reset_state\<rparr>"
    by (simp add: n tick_reset iterate_tick_reset clear_interrupts_def set_interrupt_lines_def)
  then show ?thesis
    by (simp add: reset_def clear_interrupts_def set_interrupt_lines_def)
qed

end
