(* ===== verification/Stuttering.thy ===== *)
theory Stuttering
  imports Prelude
begin

text \<open>
  The interfaces between a clocked implementation and its specification.  Where the two move in
  lock step, a state of the one stands for a state of the other (\<open>functional_refinement\<close>).
  Against a sequential specification one tick of
  the implementation answers one step of the specification or none (\<open>stuttering_refinement\<close>);
  an implementation that also makes progress needs a bounded number of ticks for each step
  (\<open>progressing_refinement\<close>).  What a run of the implementation computes is proved here once,
  from these laws; the five-stage pipeline provides them.
\<close>

section \<open>Functional refinement\<close>

text \<open>
  An implementation that answers every input in one step: its states stand for states of the
  specification as long as the invariant holds.
\<close>

locale functional_refinement =
  fixes step :: "'i \<Rightarrow> 's \<Rightarrow> 's" and spec :: "'i \<Rightarrow> 'a \<Rightarrow> 'a"
    and abs :: "'s \<Rightarrow> 'a" and inv :: "'s \<Rightarrow> bool"
  assumes inv_step: "inv s \<Longrightarrow> inv (step i s)"
    and abs_step: "inv s \<Longrightarrow> abs (step i s) = spec i (abs s)"
begin

lemma inv_run: "inv s \<Longrightarrow> inv (fold step inputs s)"
  by (induction inputs arbitrary: s) (simp_all add: inv_step)

lemma abs_run: "inv s \<Longrightarrow> abs (fold step inputs s) = fold spec inputs (abs s)"
  by (induction inputs arbitrary: s) (simp_all add: inv_step abs_step)

end

section \<open>Safety\<close>

locale stuttering_refinement =
  fixes tick :: "'s \<Rightarrow> 's" and rel :: "'s \<Rightarrow> 'a \<Rightarrow> bool"
    and ok :: "'a \<Rightarrow> bool" and step :: "'a \<Rightarrow> 'a"
  assumes tick_rel: "rel s a \<Longrightarrow> ok a \<Longrightarrow> rel (tick s) a \<or> rel (tick s) (step a)"
begin

lemma ticks_rel:
  assumes "rel s a" "\<And>k. ok (iterate k step a)"
  shows "\<exists>n\<le>t. rel (iterate t tick s) (iterate n step a)"
  using assms
proof (induction t arbitrary: s a)
  case (Suc t)
  have "ok a" using Suc.prems(2) [of 0] by simp
  from tick_rel [OF Suc.prems(1) this] show ?case
  proof
    assume "rel (tick s) a"
    then obtain n where "n \<le> t" "rel (iterate t tick (tick s)) (iterate n step a)"
      using Suc.IH Suc.prems(2) by blast
    then show ?thesis by (auto intro: le_SucI)
  next
    assume r: "rel (tick s) (step a)"
    have "ok (iterate k step (step a))" for k using Suc.prems(2) [of "Suc k"] by simp
    then obtain n where "n \<le> t" "rel (iterate t tick (tick s)) (iterate n step (step a))"
      using Suc.IH [OF r] by blast
    then show ?thesis by (intro exI [of _ "Suc n"]) simp
  qed
qed simp

end

section \<open>Progress\<close>

text \<open>
  \<open>ready s a\<close>: the next tick completes the step at \<open>a\<close>.  \<open>fill\<close> bounds the ticks until the
  implementation is ready, \<open>cost a\<close> the ticks from one ready state to the next.
\<close>

locale progressing_refinement = stuttering_refinement tick rel ok step
  for tick :: "'s \<Rightarrow> 's" and rel :: "'s \<Rightarrow> 'a \<Rightarrow> bool"
    and ok :: "'a \<Rightarrow> bool" and step :: "'a \<Rightarrow> 'a" +
  fixes ready :: "'s \<Rightarrow> 'a \<Rightarrow> bool" and fill :: nat and cost :: "'a \<Rightarrow> nat"
  assumes ready_rel: "ready s a \<Longrightarrow> rel s a"
    and ready_fill: "rel s a \<Longrightarrow> \<exists>k\<le>fill. ready (iterate k tick s) a"
    and ready_step:
      "ready s a \<Longrightarrow> ok a \<Longrightarrow> \<exists>k. 1 \<le> k \<and> k \<le> cost a \<and> ready (iterate k tick s) (step a)"
begin

definition total_cost :: "nat \<Rightarrow> 'a \<Rightarrow> nat" where
  "total_cost n a = (\<Sum>k<n. cost (iterate k step a))"

lemma total_cost_0: "total_cost 0 a = 0"
  by (simp add: total_cost_def)

lemma total_cost_Suc: "total_cost (Suc n) a = cost a + total_cost n (step a)"
  unfolding total_cost_def by (subst sum.lessThan_Suc_shift) simp

lemma total_cost_le: "(\<And>a. cost a \<le> c) \<Longrightarrow> total_cost n a \<le> c * n"
  by (induction n arbitrary: a) (simp_all add: total_cost_0 total_cost_Suc add_mono)

lemma ready_run:
  assumes "ready s a" "\<forall>k<n. ok (iterate k step a)"
  shows "\<exists>t. n \<le> t \<and> t \<le> total_cost n a \<and> ready (iterate t tick s) (iterate n step a)"
  using assms
proof (induction n arbitrary: s a)
  case 0
  then show ?case by (intro exI [of _ 0]) simp
next
  case (Suc n)
  have "ok a" using Suc.prems(2) [rule_format, of 0] by simp
  then obtain k where k: "1 \<le> k" "k \<le> cost a" "ready (iterate k tick s) (step a)"
    using ready_step [OF Suc.prems(1)] by blast
  have "\<forall>k<n. ok (iterate k step (step a))"
    using Suc.prems(2) by (metis Suc_less_eq iterate.simps(2))
  then obtain t where t: "n \<le> t" "t \<le> total_cost n (step a)"
      "ready (iterate t tick (iterate k tick s)) (iterate n step (step a))"
    using Suc.IH [OF k(3)] by blast
  then show ?case
    using k by (intro exI [of _ "k + t"]) (simp add: total_cost_Suc iterate_add)
qed

lemma rel_run:
  assumes "rel s a" "\<forall>k<n. ok (iterate k step a)"
  shows "\<exists>t. n \<le> t \<and> t \<le> fill + total_cost n a \<and> ready (iterate t tick s) (iterate n step a)"
proof -
  obtain k where k: "k \<le> fill" "ready (iterate k tick s) a" using ready_fill [OF assms(1)] by blast
  obtain t where t: "n \<le> t" "t \<le> total_cost n a"
      "ready (iterate t tick (iterate k tick s)) (iterate n step a)"
    using ready_run [OF k(2) assms(2)] by blast
  then show ?thesis using k(1) by (intro exI [of _ "k + t"]) (simp add: iterate_add)
qed

text \<open>A program that ends in a self-loop: its result is there in every later tick.\<close>

lemma halted_run:
  assumes "rel s a" "\<forall>k<n. ok (iterate k step a)" "b = iterate n step a" "ok b" "step b = b"
    and "fill + total_cost n a \<le> T"
  shows "rel (iterate T tick s) b"
proof -
  obtain t where t: "t \<le> T" "ready (iterate t tick s) b"
    using rel_run [OF assms(1,2)] assms(3,6) by (metis order_trans)
  have fix_b: "iterate n step b = b" for n using assms(5) by (induction n) simp_all
  have "\<exists>n\<le>T - t. rel (iterate (T - t) tick (iterate t tick s)) (iterate n step b)"
    using assms(4) by (intro ticks_rel ready_rel t(2)) (simp add: fix_b)
  moreover have "iterate (T - t) tick (iterate t tick s) = iterate T tick s"
    using t(1) by (simp flip: iterate_add)
  ultimately show ?thesis by (simp add: fix_b)
qed

end

section \<open>Observations\<close>

text \<open>
  What an observer sees of the two machines after each step: \<open>obs\<close> of the implementation,
  \<open>spec_obs\<close> of the step at a state of the specification.  Filling shows nothing, and the tick
  that completes a step shows what the step shows.
\<close>

locale observed_refinement = progressing_refinement tick rel ok step ready fill cost
  for tick :: "'s \<Rightarrow> 's" and rel :: "'s \<Rightarrow> 'a \<Rightarrow> bool"
    and ok :: "'a \<Rightarrow> bool" and step :: "'a \<Rightarrow> 'a"
    and ready :: "'s \<Rightarrow> 'a \<Rightarrow> bool" and fill :: nat and cost :: "'a \<Rightarrow> nat" +
  fixes obs :: "'s \<Rightarrow> 'o option" and spec_obs :: "'a \<Rightarrow> 'o option"
  assumes obs_fill: "rel s a \<Longrightarrow> \<exists>k\<le>fill. ready (iterate k tick s) a \<and>
      (\<forall>j\<le>k. rel (iterate j tick s) a \<and> (0 < j \<longrightarrow> obs (iterate j tick s) = None))"
    and obs_step: "ready s a \<Longrightarrow> ok a \<Longrightarrow> rel (tick s) (step a) \<and> obs (tick s) = spec_obs a"
begin

text \<open>One step: nothing is seen before it completes.\<close>

lemma obs_next:
  assumes "rel s a" "ok a"
  shows "\<exists>k\<le>fill. rel (iterate (Suc k) tick s) (step a) \<and>
           obs (iterate (Suc k) tick s) = spec_obs a \<and>
           (\<forall>j\<le>k. rel (iterate j tick s) a \<and> (0 < j \<longrightarrow> obs (iterate j tick s) = None))"
proof -
  obtain k where k: "k \<le> fill" "ready (iterate k tick s) a"
    "\<forall>j\<le>k. rel (iterate j tick s) a \<and> (0 < j \<longrightarrow> obs (iterate j tick s) = None)"
    using obs_fill [OF assms(1)] by blast
  have "iterate (Suc k) tick s = tick (iterate k tick s)"
    using iterate_add [of k 1 tick s] by simp
  then show ?thesis using k obs_step [OF k(2) assms(2)] by auto
qed

text \<open>A run: every state on the way stands for a state of the specification.\<close>

lemma obs_run:
  assumes "rel s a" "\<forall>k<n. ok (iterate k step a)"
  shows "\<exists>t. n \<le> t \<and> t \<le> (fill + 1) * n \<and> rel (iterate t tick s) (iterate n step a) \<and>
           (\<forall>j<t. \<exists>k<n. rel (iterate j tick s) (iterate k step a)) \<and>
           ((\<forall>k<n. spec_obs (iterate k step a) = None) \<longrightarrow>
              (\<forall>j. 0 < j \<and> j \<le> t \<longrightarrow> obs (iterate j tick s) = None))"
  using assms(2)
proof (induction n)
  case 0
  then show ?case using assms(1) by (intro exI [of _ 0]) simp
next
  case (Suc n)
  define b where "b = iterate n step a"
  obtain t where t: "n \<le> t" "t \<le> (fill + 1) * n" "rel (iterate t tick s) b"
      "\<forall>j<t. \<exists>k<n. rel (iterate j tick s) (iterate k step a)"
      "(\<forall>k<n. spec_obs (iterate k step a) = None) \<longrightarrow>
        (\<forall>j. 0 < j \<and> j \<le> t \<longrightarrow> obs (iterate j tick s) = None)"
    using Suc by (auto simp: b_def)
  have "ok b" using Suc.prems by (simp add: b_def)
  then obtain k where k: "k \<le> fill" "rel (iterate (t + Suc k) tick s) (step b)"
      "obs (iterate (t + Suc k) tick s) = spec_obs b"
      "\<forall>j\<le>k. rel (iterate (t + j) tick s) b \<and> (0 < j \<longrightarrow> obs (iterate (t + j) tick s) = None)"
    using obs_next [OF t(3)] unfolding iterate_add by blast
  have b': "iterate (Suc n) step a = step b" using iterate_add [of n 1 step a] by (simp add: b_def)
  have split: "j < t \<or> (\<exists>i\<le>Suc k. j = t + i)" if "j \<le> t + Suc k" for j
    using that by (metis add_le_cancel_left le_Suc_ex not_le_imp_less)
  have "\<exists>k<Suc n. rel (iterate j tick s) (iterate k step a)" if "j < t + Suc k" for j
    using that split [of j] t(4) k(4) unfolding b_def by (metis add_less_cancel_left le_less_trans
        less_Suc_eq less_Suc_eq_le less_imp_le)
  moreover have "obs (iterate j tick s) = None"
    if "\<forall>k<Suc n. spec_obs (iterate k step a) = None" "0 < j" "j \<le> t + Suc k" for j
    using that split [of j] t(5) k(3,4) unfolding b_def
    by (metis add.right_neutral le_SucE less_Suc_eq less_imp_le not_gr_zero order.refl)
  moreover have "Suc n \<le> t + Suc k" "t + Suc k \<le> (fill + 1) * Suc n" using t(1,2) k(1) by auto
  ultimately show ?case using k(2) unfolding b' by (intro exI [of _ "t + Suc k"]) blast
qed

text \<open>
  The first observation of the implementation is the first of the specification: \<open>n\<close> silent
  steps, then one that shows \<open>v\<close>.
\<close>

lemma first_obs:
  assumes "rel s a" "\<forall>k\<le>n. ok (iterate k step a)" "\<forall>k<n. spec_obs (iterate k step a) = None"
    and "spec_obs (iterate n step a) = Some v"
  shows "\<exists>t. t < (fill + 1) * (n + 1) \<and> obs (iterate (Suc t) tick s) = Some v \<and>
           rel (iterate (Suc t) tick s) (iterate (Suc n) step a) \<and>
           (\<forall>j\<le>t. (\<exists>k\<le>n. rel (iterate j tick s) (iterate k step a)) \<and>
                  (0 < j \<longrightarrow> obs (iterate j tick s) = None))"
proof -
  define b where "b = iterate n step a"
  obtain t where t: "t \<le> (fill + 1) * n" "rel (iterate t tick s) b"
      "\<forall>j<t. \<exists>k<n. rel (iterate j tick s) (iterate k step a)"
      "\<forall>j. 0 < j \<and> j \<le> t \<longrightarrow> obs (iterate j tick s) = None"
    using obs_run [OF assms(1), of n] assms(2,3) by (auto simp: b_def)
  have "ok b" using assms(2) by (simp add: b_def)
  then obtain k where k: "k \<le> fill" "rel (iterate (t + Suc k) tick s) (step b)"
      "obs (iterate (t + Suc k) tick s) = spec_obs b"
      "\<forall>j\<le>k. rel (iterate (t + j) tick s) b \<and> (0 < j \<longrightarrow> obs (iterate (t + j) tick s) = None)"
    using obs_next [OF t(2)] unfolding iterate_add by blast
  have b': "iterate (Suc n) step a = step b" using iterate_add [of n 1 step a] by (simp add: b_def)
  have split: "j < t \<or> (\<exists>i\<le>k. j = t + i)" if "j \<le> t + k" for j
    using that by (metis add_le_cancel_left le_Suc_ex not_le_imp_less)
  have "(\<exists>k\<le>n. rel (iterate j tick s) (iterate k step a)) \<and>
        (0 < j \<longrightarrow> obs (iterate j tick s) = None)" if "j \<le> t + k" for j
    using split [OF that]
  proof
    assume "j < t"
    then show ?thesis using t(3,4) by (meson less_imp_le)
  next
    assume "\<exists>i\<le>k. j = t + i"
    then obtain i where i: "i \<le> k" "j = t + i" by blast
    then have "rel (iterate j tick s) (iterate n step a)" using k(4) by (simp add: b_def)
    moreover have "0 < j \<longrightarrow> obs (iterate j tick s) = None"
      using i k(4) t(4) by (cases "i = 0") simp_all
    ultimately show ?thesis by blast
  qed
  then have "\<forall>j\<le>t + k. (\<exists>k\<le>n. rel (iterate j tick s) (iterate k step a)) \<and>
               (0 < j \<longrightarrow> obs (iterate j tick s) = None)" by blast
  moreover have "t + k < (fill + 1) * (n + 1)" using t(1) k(1) by simp
  moreover have "obs (iterate (Suc (t + k)) tick s) = Some v"
    using k(3) assms(4) by (simp only: add_Suc_right b_def)
  moreover have "rel (iterate (Suc (t + k)) tick s) (iterate (Suc n) step a)"
    using k(2) by (simp only: add_Suc_right b')
  ultimately show ?thesis by (intro exI [of _ "t + k"] conjI)
qed

end

end
