(* ===== verification/Pipeline_Refinement.thy ===== *)
theory Pipeline_Refinement
  imports Core Stuttering
begin

text \<open>
  The pipeline refines a sequential machine.  The specification executes one instruction at a
  time: fetch, decode, read the registers, compute, access the memory, write the register, next
  PC.  The implementation is the five-stage core driven by a bench that answers its memory ports:
  it overlaps five instructions, forwards results, stalls on load-use hazards and squashes the
  two instructions behind a taken branch.

  What the memory is belongs to the bench.  The sequential machine and the refinement relation
  take its three operations as a parameter (\<open>memory_port\<close>), and the locale \<open>core_bench\<close> states
  what a bench promises: it drives neither reset nor interrupts, answers a fetch and a load from
  its memory and performs the store the core requests.  The simulation is proved there once;
  the core bench and the compliance runner provide the laws.

  The relation \<open>core_rel\<close> reads the architectural state off the pipeline: the memory is the
  bench's memory, the registers are the register file after the writes still pending in WB and
  MEM, and the architectural PC belongs to the oldest instruction that has not executed yet.
  It covers instructions that neither trap nor touch a CSR, without interrupts, in M mode.
\<close>

section \<open>Definitions\<close>

subsection \<open>The sequential machine\<close>

text \<open>The memory as the core sees it: a store may be undefined.\<close>

record 'm memory_port =
  mp_fetch :: "'m \<Rightarrow> u64 \<Rightarrow> u32"
  mp_load :: "'m \<Rightarrow> u64 \<Rightarrow> u64"
  mp_store :: "u64 \<Rightarrow> u64 \<Rightarrow> 3 word \<Rightarrow> 'm \<Rightarrow> 'm option"

record 'm arch_state =
  arch_pc :: u64
  arch_regs :: regs
  arch_mem :: 'm

definition isa_decode :: "'m memory_port \<Rightarrow> 'm arch_state \<Rightarrow> decoder_out" where
  "isa_decode P a = decoder (mp_fetch P (arch_mem a) (arch_pc a)) PRIV_M"

definition isa_ex :: "'m memory_port \<Rightarrow> 'm arch_state \<Rightarrow> ex_out" where
  "isa_ex P a =
     (let d = isa_decode P a in
      ex_stage
        \<lparr>exi_pc = arch_pc a,
         exi_rs1_rdata = rf_read (arch_regs a) (dec_rs1_addr d),
         exi_rs2_rdata = rf_read (arch_regs a) (dec_rs2_addr d),
         exi_imm = dec_imm d,
         exi_alu_op = dec_alu_op d,
         exi_alu_src1_sel = dec_alu_src1_sel d,
         exi_alu_src2_sel = dec_alu_src2_sel d,
         exi_is_branch = dec_is_branch d,
         exi_branch_op = dec_branch_op d,
         exi_is_jump = dec_is_jump d,
         exi_is_word_op = dec_is_word_op d\<rparr>)"

definition isa_result :: "'m memory_port \<Rightarrow> 'm arch_state \<Rightarrow> u64" where
  "isa_result P a =
     (let d = isa_decode P a; res = exo_alu_result (isa_ex P a) in
      if dec_wb_sel d = 0b00 then res
      else if dec_wb_sel d = 0b01 then
        load_data_aligned (dec_mem_size d) res (mp_load P (arch_mem a) res)
      else if dec_wb_sel d = 0b10 then arch_pc a + 4
      else 0)"

text \<open>The memory after the store of the instruction; \<open>None\<close> when the store is undefined.\<close>

definition isa_store :: "'m memory_port \<Rightarrow> 'm arch_state \<Rightarrow> 'm option" where
  "isa_store P a =
     (let d = isa_decode P a; res = exo_alu_result (isa_ex P a) in
      if dec_is_store d then
        mp_store P res
          (store_data_aligned (dec_mem_size d) res (rf_read (arch_regs a) (dec_rs2_addr d)))
          (dec_mem_size d) (arch_mem a)
      else Some (arch_mem a))"

definition isa_step :: "'m memory_port \<Rightarrow> 'm arch_state \<Rightarrow> 'm arch_state" where
  "isa_step P a =
     (let d = isa_decode P a; x = isa_ex P a in
      \<lparr>arch_pc = (if exo_branch_taken x then exo_branch_target x else arch_pc a + 4),
       arch_regs =
         (if dec_reg_write_en d then rf_write (arch_regs a) (dec_rd_addr d) (isa_result P a)
          else arch_regs a),
       arch_mem = (case isa_store P a of None \<Rightarrow> arch_mem a | Some m \<Rightarrow> m)\<rparr>)"

text \<open>
  The next instruction neither traps, nor returns from a trap, nor accesses a CSR.  Its store is
  defined and leaves the two instructions behind it alone, which the pipeline has fetched already
  (an instruction fetch sees a store only after a \<open>fence.i\<close>).
\<close>

definition isa_plain :: "'m memory_port \<Rightarrow> 'm arch_state \<Rightarrow> bool" where
  "isa_plain P a \<longleftrightarrow>
     (let d = isa_decode P a; pc = arch_pc a in
      \<not> dec_illegal_instr d \<and> \<not> dec_is_csr d \<and> \<not> dec_is_ecall d \<and> \<not> dec_is_ebreak d \<and>
      \<not> dec_is_mret d \<and> \<not> dec_is_sret d \<and>
      (dec_is_load d \<or> dec_is_store d \<longrightarrow>
         \<not> addr_misaligned (dec_mem_size d) (exo_alu_result (isa_ex P a))) \<and>
      (case isa_store P a of
         None \<Rightarrow> False
       | Some m \<Rightarrow>
           mp_fetch P m (pc + 4) = mp_fetch P (arch_mem a) (pc + 4) \<and>
           mp_fetch P m (pc + 8) = mp_fetch P (arch_mem a) (pc + 8)))"

text \<open>
  Cycles: one for an instruction, one more for a load (its possible stall), two more for a taken
  branch or a jump (the squashed slots).
\<close>

definition isa_cycles :: "'m memory_port \<Rightarrow> 'm arch_state \<Rightarrow> nat" where
  "isa_cycles P a =
     (if exo_branch_taken (isa_ex P a) then 3 else if dec_is_load (isa_decode P a) then 2 else 1)"

text \<open>The architectural state a reset leaves.\<close>

definition boot_state :: "'m \<Rightarrow> 'm arch_state" where
  "boot_state m = \<lparr>arch_pc = reset_vector, arch_regs = (\<lambda>r. 0), arch_mem = m\<rparr>"

subsection \<open>The refinement relation\<close>

definition mem_plain :: "ex_mem \<Rightarrow> bool" where
  "mem_plain m \<longleftrightarrow>
     \<not> mem_is_csr m \<and> \<not> mem_illegal_instr m \<and> \<not> mem_is_ecall m \<and> \<not> mem_is_ebreak m \<and>
     \<not> mem_is_mret m \<and> \<not> mem_is_sret m \<and>
     \<not> load_addr_misaligned m \<and> \<not> store_addr_misaligned m"

definition wb_plain :: "mem_wb \<Rightarrow> bool" where
  "wb_plain w \<longleftrightarrow> \<not> wb_has_trap w \<and> \<not> wb_is_csr w \<and> \<not> wb_is_mret w \<and> \<not> wb_is_sret w"

text \<open>The register write of a plain instruction in WB.\<close>

definition port_of :: "mem_wb \<Rightarrow> write_port" where
  "port_of w =
     \<lparr>wp_rd_addr = wb_rd_addr w, wp_rd_wdata = wb_rd_wdata w (wb_pc w + 4) 0,
      wp_reg_write_en = wb_reg_write_en w\<rparr>"

text \<open>
  The registers once WB and MEM have written; \<open>rdata\<close> is the word on the data port, which a load
  in MEM takes its value from.
\<close>

definition pending_regs :: "u64 \<Rightarrow> core_state \<Rightarrow> regs" where
  "pending_regs rdata t =
     regfile_ff False (port_of (mem_stage (exmem_q t) rdata))
       (regfile_ff False (port_of (memwb_q t)) (rf_q t))"

text \<open>What is past EX cannot trap.\<close>

definition core_quiet :: "core_state \<Rightarrow> bool" where
  "core_quiet t \<longleftrightarrow>
     wb_plain (memwb_q t) \<and> mem_plain (exmem_q t) \<and> priv_mode_q (csr_q t) = PRIV_MODE_M"

text \<open>An instruction in EX that has no effect: a flushed slot or a decoded NOP.\<close>

definition id_ex_idle :: "id_ex \<Rightarrow> bool" where
  "id_ex_idle q \<longleftrightarrow>
     \<not> ex_is_load q \<and> \<not> ex_is_store q \<and> \<not> ex_is_branch q \<and> \<not> ex_is_jump q \<and>
     \<not> ex_is_csr q \<and> \<not> ex_illegal_instr q \<and> \<not> ex_is_ecall q \<and> \<not> ex_is_ebreak q \<and>
     \<not> ex_is_mret q \<and> \<not> ex_is_sret q \<and> (ex_reg_write_en q \<longrightarrow> ex_rd_addr q = 0)"

text \<open>What MEM forwards is its result: MEM holds no load or jump that EX depends on.\<close>

definition forward_ok :: "core_state \<Rightarrow> bool" where
  "forward_ok t \<longleftrightarrow>
     (mem_reg_write_en (exmem_q t) \<and> mem_rd_addr (exmem_q t) \<noteq> 0 \<and>
      mem_rd_addr (exmem_q t) \<in> {ex_rs1_addr (idex_q t), ex_rs2_addr (idex_q t)} \<longrightarrow>
      mem_wb_sel (exmem_q t) = 0b00)"

definition fetched :: "(u64 \<Rightarrow> u32) \<Rightarrow> u64 \<Rightarrow> if_id" where
  "fetched code p = \<lparr>ifid_pc = p, ifid_instr = code p\<rparr>"

text \<open>
  The three shapes of the front end, \<open>p\<close> being the architectural PC: nothing fetched yet, the
  instruction at \<open>p\<close> in ID, the instruction at \<open>p\<close> in EX.
\<close>

definition front_empty :: "u64 \<Rightarrow> core_state \<Rightarrow> bool" where
  "front_empty p t \<longleftrightarrow>
     id_ex_idle (idex_q t) \<and> ifid_instr (ifid_q t) = NOP_INSTR \<and> pc_reg t = p"

definition front_id :: "(u64 \<Rightarrow> u32) \<Rightarrow> u64 \<Rightarrow> core_state \<Rightarrow> bool" where
  "front_id code p t \<longleftrightarrow> id_ex_idle (idex_q t) \<and> ifid_q t = fetched code p \<and> pc_reg t = p + 4"

definition front_ex :: "(u64 \<Rightarrow> u32) \<Rightarrow> u64 \<Rightarrow> core_state \<Rightarrow> bool" where
  "front_ex code p t \<longleftrightarrow>
     idex_q t = id_stage (decoder (code p) PRIV_M) (fetched code p) (rf_q t) idle_port \<and>
     ifid_q t = fetched code (p + 4) \<and> pc_reg t = p + 8 \<and> forward_ok t"

definition core_rel :: "(u64 \<Rightarrow> u32) \<Rightarrow> u64 \<Rightarrow> core_state \<Rightarrow> 'm arch_state \<Rightarrow> bool" where
  "core_rel code rdata t a \<longleftrightarrow>
     core_quiet t \<and> arch_regs a = pending_regs rdata t \<and>
     (front_empty (arch_pc a) t \<or> front_id code (arch_pc a) t \<or> front_ex code (arch_pc a) t)"

section \<open>Lemmas\<close>

subsection \<open>Plain instructions past EX\<close>

lemma mem_stage_plain: "mem_plain m \<Longrightarrow> wb_plain (mem_stage m d)"
  by (simp add: mem_plain_def wb_plain_def wb_has_trap_def mem_stage_def)

lemma mem_stage_port [simp]:
  "wb_reg_write_en (mem_stage m d) = mem_reg_write_en m"
  "wb_rd_addr (mem_stage m d) = mem_rd_addr m"
  "wb_pc (mem_stage m d) = mem_pc m"
  by (simp_all add: mem_stage_def)

lemma core_csr_illegal_plain: "wb_plain (memwb_q t) \<Longrightarrow> \<not> core_csr_illegal t"
  by (simp add: core_csr_illegal_def csr_illegal_access_def wb_csr_in_def wb_csr_req_def
      wb_plain_def)

lemma core_wb_port_plain: "wb_plain (memwb_q t) \<Longrightarrow> core_wb_port t = port_of (memwb_q t)"
  by (simp add: core_wb_port_def core_csr_illegal_plain port_of_def core_wb_wdata_def
      wb_reg_write_en_out_def wb_plain_def wb_rd_wdata_def)

lemma core_trap_plain:
  assumes "wb_plain (memwb_q t)" "\<not> in_ext_timer i" "\<not> in_ext_software i" "\<not> in_ext_external i"
  shows "\<not> to_flush_req (core_trap i t)" "\<not> to_pc_sel (core_trap i t)"
    "\<not> to_trigger (core_trap i t)" "\<not> to_mret_en (core_trap i t)" "\<not> to_sret_en (core_trap i t)"
  using assms core_csr_illegal_plain [OF assms(1)]
  by (simp_all add: core_trap_def trap_ctrl_def trap_select_def interrupt_cause_def
      core_trap_env_def sync_exception_def wb_trap_sigs_def wb_plain_def wb_has_trap_def)

subsection \<open>Idle slots\<close>

text \<open>The stall condition and the branch decision of the cycle.\<close>

definition core_stall :: "core_state \<Rightarrow> bool" where
  "core_stall t = load_use_stall (forward_in t)"

definition core_taken :: "core_state \<Rightarrow> bool" where
  "core_taken t = exo_branch_taken (core_ex t)"

lemma id_ex_idle_flush [simp]: "id_ex_idle (id_ex_flush q)"
  by (simp add: id_ex_idle_def id_ex_flush_def)

lemma id_ex_idle_NOP:
  "ifid_instr f = NOP_INSTR \<Longrightarrow> id_ex_idle (id_stage (decoder (ifid_instr f) p) f regs w)"
  by (simp add: id_ex_idle_def id_stage_def NOP_INSTR_def rtl_eval)

lemma idle_ex:
  assumes "id_ex_idle (idex_q t)"
  shows "\<not> core_taken t" "\<not> core_stall t" "mem_plain (core_ex_mem t)"
    "\<not> dmem_write_req (core_ex_mem t)"
    "regfile_ff False (port_of (mem_stage (core_ex_mem t) d)) regs = regs"
    "\<not> (mem_reg_write_en (core_ex_mem t) \<and> mem_rd_addr (core_ex_mem t) \<noteq> 0)"
  using assms
  by (auto simp: id_ex_idle_def core_taken_def core_ex_def core_ex_in_def ex_stage_def
      core_stall_def load_use_stall_def forward_in_def mem_plain_def core_ex_mem_def Let_def
      load_addr_misaligned_def store_addr_misaligned_def dmem_write_req_def port_of_def
      mem_stage_def regfile_ff_def)

subsection \<open>The sequential machine\<close>

lemma isa_plainD:
  assumes "isa_plain P a"
  shows "isa_store P a = Some (arch_mem (isa_step P a))"
    and "mp_fetch P (arch_mem (isa_step P a)) (arch_pc a + 4) = mp_fetch P (arch_mem a) (arch_pc a + 4)"
    and "mp_fetch P (arch_mem (isa_step P a)) (arch_pc a + 8) = mp_fetch P (arch_mem a) (arch_pc a + 8)"
  using assms by (auto simp: isa_plain_def isa_step_def Let_def split: option.splits)

lemma isa_store_None: "\<not> dec_is_store (isa_decode P a) \<Longrightarrow> arch_mem (isa_step P a) = arch_mem a"
  by (simp add: isa_step_def isa_store_def Let_def)

lemma isa_step_pc:
  "arch_pc (isa_step P a) =
     (if exo_branch_taken (isa_ex P a) then exo_branch_target (isa_ex P a) else arch_pc a + 4)"
  by (simp add: isa_step_def Let_def)

section \<open>The bench\<close>

locale core_bench =
  fixes P :: "'m memory_port" and tick :: "'s \<Rightarrow> 's"
    and core :: "'s \<Rightarrow> core_state" and memory :: "'s \<Rightarrow> 'm"
    and drive :: "'s \<Rightarrow> core_in" and live :: "'s \<Rightarrow> bool"
  assumes core_tick: "core (tick s) = core_step (drive s) (core s)"
    and live_tick: "live s \<Longrightarrow> live (tick s)"
    and drive_idle: "live s \<Longrightarrow> \<not> in_rst (drive s) \<and> \<not> in_ext_timer (drive s) \<and>
                       \<not> in_ext_software (drive s) \<and> \<not> in_ext_external (drive s)"
    and drive_fetch: "in_imem_rdata (drive s) = mp_fetch P (memory s) (imem_addr (core s))"
    and drive_load: "dmem_read_en (core s) \<Longrightarrow>
                       in_dmem_rdata (drive s) = mp_load P (memory s) (dmem_addr (core s))"
    and memory_idle: "\<not> dmem_write_en (core (tick s)) \<Longrightarrow> memory (tick s) = memory s"
    and memory_store: "dmem_write_en (core (tick s)) \<Longrightarrow>
       mp_store P (dmem_addr (core (tick s))) (dmem_wdata_out (core (tick s)))
         (dmem_size (core (tick s))) (memory s) = Some m \<Longrightarrow> memory (tick s) = m"
begin

text \<open>The bench does not interfere, and what is past EX cannot trap.\<close>

definition quiet :: "'s \<Rightarrow> bool" where
  "quiet s \<longleftrightarrow> live s \<and> core_quiet (core s)"

abbreviation code :: "'s \<Rightarrow> u64 \<Rightarrow> u32" where
  "code s \<equiv> mp_fetch P (memory s)"

abbreviation rdata :: "'s \<Rightarrow> u64" where
  "rdata s \<equiv> in_dmem_rdata (drive s)"

text \<open>The state of the bench stands for the architectural state \<open>a\<close>.\<close>

definition rel :: "'s \<Rightarrow> 'm arch_state \<Rightarrow> bool" where
  "rel s a \<longleftrightarrow> live s \<and> arch_mem a = memory s \<and> core_rel (code s) (rdata s) (core s) a"

text \<open>... and its next instruction is in EX.\<close>

definition in_ex :: "'s \<Rightarrow> 'm arch_state \<Rightarrow> bool" where
  "in_ex s a \<longleftrightarrow> rel s a \<and> front_ex (code s) (arch_pc a) (core s)"

lemma relD:
  assumes "rel s a"
  shows "quiet s" "arch_mem a = memory s" "arch_regs a = pending_regs (rdata s) (core s)"
    "front_empty (arch_pc a) (core s) \<or> front_id (code s) (arch_pc a) (core s) \<or>
     front_ex (code s) (arch_pc a) (core s)"
  using assms by (auto simp: rel_def core_rel_def quiet_def)

lemma relI:
  assumes "quiet s" "arch_mem a = memory s" "arch_regs a = pending_regs (rdata s) (core s)"
    "front_empty (arch_pc a) (core s) \<or> front_id (code s) (arch_pc a) (core s) \<or>
     front_ex (code s) (arch_pc a) (core s)"
  shows "rel s a"
  using assms by (simp add: rel_def core_rel_def quiet_def)

subsection \<open>One clock edge without traps\<close>

lemma quiet_inputs:
  assumes "quiet s"
  shows "\<not> in_rst (drive s)" "\<not> in_ext_timer (drive s)"
    "\<not> in_ext_software (drive s)" "\<not> in_ext_external (drive s)"
  using assms drive_idle [of s] by (simp_all add: quiet_def)

lemma quiet_trap:
  assumes "quiet s"
  shows "\<not> to_flush_req (core_trap (drive s) (core s))"
    "\<not> to_pc_sel (core_trap (drive s) (core s))"
    "\<not> to_trigger (core_trap (drive s) (core s))"
    "\<not> to_mret_en (core_trap (drive s) (core s))"
    "\<not> to_sret_en (core_trap (drive s) (core s))"
  using assms core_trap_plain [of "core s" "drive s"] quiet_inputs [OF assms]
  by (simp_all add: quiet_def core_quiet_def)

lemma tick_back_end:
  assumes "quiet s"
  shows "rf_q (core (tick s)) = regfile_ff False (port_of (memwb_q (core s))) (rf_q (core s))"
    and "memwb_q (core (tick s)) =
           mem_stage (exmem_q (core s)) (in_dmem_rdata (drive s))"
    and "exmem_q (core (tick s)) = core_ex_mem (core s)"
    and "priv_mode_q (csr_q (core (tick s))) = PRIV_MODE_M"
proof -
  note q = quiet_inputs [OF assms] quiet_trap [OF assms]
  have wb: "wb_plain (memwb_q (core s))" and priv: "priv_mode_q (csr_q (core s)) = PRIV_MODE_M"
    using assms by (simp_all add: quiet_def core_quiet_def)
  show "rf_q (core (tick s)) = regfile_ff False (port_of (memwb_q (core s))) (rf_q (core s))"
    using q by (simp add: core_tick core_step_def Let_def core_wb_port_plain [OF wb])
  show "memwb_q (core (tick s)) =
           mem_stage (exmem_q (core s)) (in_dmem_rdata (drive s))"
    using q by (simp add: core_tick core_step_def Let_def mem_wb_ff_def)
  show "exmem_q (core (tick s)) = core_ex_mem (core s)"
    using q by (simp add: core_tick core_exmem_advances)
  show "priv_mode_q (csr_q (core (tick s))) = PRIV_MODE_M"
    using q priv by (simp add: core_tick core_step_def Let_def csr_priv_frame core_csr_in_def)
qed

lemma tick_front_end:
  assumes "quiet s"
  shows "pc_reg (core (tick s)) =
           (if core_taken (core s) then exo_branch_target (core_ex (core s))
            else if core_stall (core s) then pc_reg (core s) else pc_reg (core s) + 4)"
    and "ifid_q (core (tick s)) =
           (if core_taken (core s) then if_id_bubble
            else if core_stall (core s) then ifid_q (core s)
            else fetched (code s) (pc_reg (core s)))"
    and "idex_q (core (tick s)) =
           (if core_taken (core s) \<or> core_stall (core s) then id_ex_flush (idex_q (core s))
            else core_id (core s))"
proof -
  note q = quiet_inputs [OF assms] quiet_trap [OF assms]
  have hz: "load_use_stall (core_hazard_in (drive s) (core s)) = core_stall (core s)"
    "hz_ex_branch_taken (core_hazard_in (drive s) (core s)) = core_taken (core s)"
    "hz_trap_flush_req (core_hazard_in (drive s) (core s)) = False"
    "hz_trap_pc_sel (core_hazard_in (drive s) (core s)) = False"
    "hz_ex_branch_target (core_hazard_in (drive s) (core s)) =
       exo_branch_target (core_ex (core s))"
    using q by (simp_all add: core_hazard_in_def load_use_stall_def core_stall_def core_taken_def)
  have fetch: "in_imem_rdata (drive s) = code s (pc_reg (core s))"
    by (simp add: drive_fetch imem_addr_def)
  show "pc_reg (core (tick s)) =
           (if core_taken (core s) then exo_branch_target (core_ex (core s))
            else if core_stall (core s) then pc_reg (core s) else pc_reg (core s) + 4)"
    using q by (simp add: core_tick core_step_def Let_def if_stage_ff_def hazard_controls_closed
        hazard_redirect_def hz)
  show "ifid_q (core (tick s)) =
           (if core_taken (core s) then if_id_bubble
            else if core_stall (core s) then ifid_q (core s)
            else fetched (code s) (pc_reg (core s)))"
    using q by (simp add: core_tick core_step_def Let_def if_id_ff_def hazard_controls_closed hz
        fetch fetched_def)
  show "idex_q (core (tick s)) =
           (if core_taken (core s) \<or> core_stall (core s) then id_ex_flush (idex_q (core s))
            else core_id (core s))"
    using q by (simp add: core_tick core_step_def Let_def id_ex_ff_def hazard_controls_closed hz)
qed

text \<open>Each tick applies the write of the instruction that leaves EX to the pending registers.\<close>

lemma pending_regs_tick:
  assumes "quiet s"
  shows "pending_regs (rdata (tick s)) (core (tick s)) =
    regfile_ff False
      (port_of (mem_stage (core_ex_mem (core s)) (in_dmem_rdata (drive (tick s)))))
      (pending_regs (rdata s) (core s))"
  by (simp add: pending_regs_def tick_back_end [OF assms])

lemma quiet_tick:
  assumes "quiet s" "mem_plain (core_ex_mem (core s))"
  shows "quiet (tick s)"
proof -
  have "wb_plain (memwb_q (core (tick s)))"
    using assms(1) by (simp add: tick_back_end [OF assms(1)] mem_stage_plain quiet_def core_quiet_def)
  moreover have "mem_plain (exmem_q (core (tick s)))"
    using assms by (simp add: tick_back_end)
  moreover have "live (tick s)"
    using assms(1) by (simp add: quiet_def live_tick)
  ultimately show ?thesis
    using tick_back_end(4) [OF assms(1)] by (simp add: quiet_def core_quiet_def)
qed

text \<open>The tick performs the store of the instruction that leaves EX.\<close>

lemma memory_tick:
  assumes "quiet s"
  shows "\<not> dmem_write_req (core_ex_mem (core s)) \<Longrightarrow> memory (tick s) = memory s"
    and "dmem_write_req (core_ex_mem (core s)) \<Longrightarrow>
         mp_store P (mem_alu_result (core_ex_mem (core s))) (dmem_wdata (core_ex_mem (core s)))
           (mem_mem_size (core_ex_mem (core s))) (memory s) = Some m \<Longrightarrow> memory (tick s) = m"
  using memory_idle [of s] memory_store [of s m]
  by (simp_all add: core_port_defs tick_back_end(3) [OF assms])

subsection \<open>Idle slots\<close>

text \<open>The value ID hands to EX, with the operands of the register file after the edge.\<close>

lemma core_decode_M:
  assumes "quiet s"
  shows "core_decode (core s) = decoder (ifid_instr (ifid_q (core s))) PRIV_M"
  using assms by (simp add: core_decode_def encode_priv_mode_def quiet_def core_quiet_def)

lemma core_id_eq:
  assumes "quiet s"
  shows "core_id (core s) =
    id_stage (decoder (ifid_instr (ifid_q (core s))) PRIV_M) (ifid_q (core s))
      (rf_q (core (tick s))) idle_port"
proof -
  have wb: "wb_plain (memwb_q (core s))" using assms by (simp add: quiet_def core_quiet_def)
  have "regfile_read (rf_q (core s)) (core_wb_port (core s)) r =
                 regfile_read (rf_q (core (tick s))) idle_port r" for r
    using regfile_bypass [of "rf_q (core s)" "core_wb_port (core s)" r]
    by (simp add: tick_back_end(1) [OF assms] core_wb_port_plain [OF wb] rf_read_def)
  then show ?thesis
    by (simp add: core_id_def id_stage_def core_decode_M [OF assms])
qed

lemma idle_tick:
  assumes q: "quiet s" and idle: "id_ex_idle (idex_q (core s))"
  shows "quiet (tick s)" "memory (tick s) = memory s"
    "pending_regs (rdata (tick s)) (core (tick s)) = pending_regs (rdata s) (core s)"
    "pc_reg (core (tick s)) = pc_reg (core s) + 4"
    "ifid_q (core (tick s)) = fetched (code s) (pc_reg (core s))"
    "idex_q (core (tick s)) =
       id_stage (decoder (ifid_instr (ifid_q (core s))) PRIV_M) (ifid_q (core s))
         (rf_q (core (tick s))) idle_port"
    "forward_ok (core (tick s))"
proof -
  note i = idle_ex [OF idle]
  show "quiet (tick s)" using quiet_tick [OF q i(3)] .
  show "memory (tick s) = memory s" using i(4) by (rule memory_tick(1) [OF q])
  show "pending_regs (rdata (tick s)) (core (tick s)) = pending_regs (rdata s) (core s)"
    using i(5) by (simp add: pending_regs_tick [OF q])
  show "pc_reg (core (tick s)) = pc_reg (core s) + 4"
    "ifid_q (core (tick s)) = fetched (code s) (pc_reg (core s))"
    using i(1,2) by (simp_all add: tick_front_end [OF q])
  show "idex_q (core (tick s)) =
       id_stage (decoder (ifid_instr (ifid_q (core s))) PRIV_M) (ifid_q (core s))
         (rf_q (core (tick s))) idle_port"
    using i(1,2) by (simp add: tick_front_end [OF q] core_id_eq [OF q])
  show "forward_ok (core (tick s))"
    using i(6) by (auto simp: forward_ok_def tick_back_end [OF q])
qed

subsection \<open>The two fill steps\<close>

lemma front_empty_tick:
  assumes "quiet s" "front_empty p (core s)"
  shows "front_id (code (tick s)) p (core (tick s))"
proof -
  have idle: "id_ex_idle (idex_q (core s))" and nop: "ifid_instr (ifid_q (core s)) = NOP_INSTR"
    and pc: "pc_reg (core s) = p"
    using assms(2) by (simp_all add: front_empty_def)
  show ?thesis
    using idle_tick [OF assms(1) idle] id_ex_idle_NOP [OF nop] pc
    by (simp add: front_id_def nop)
qed

lemma front_id_tick:
  assumes "quiet s" "front_id (code s) p (core s)"
  shows "front_ex (code (tick s)) p (core (tick s))"
proof -
  have idle: "id_ex_idle (idex_q (core s))" and f: "ifid_q (core s) = fetched (code s) p"
    and pc: "pc_reg (core s) = p + 4"
    using assms(2) by (simp_all add: front_id_def)
  have "p + 4 + 4 = p + 8" by (simp add: add.assoc)
  then show ?thesis
    using idle_tick [OF assms(1) idle] f pc by (simp add: front_ex_def fetched_def)
qed

subsection \<open>The execute step\<close>

text \<open>
  The forwarding multiplexer delivers the register as it is after the writes pending in WB and
  MEM.
\<close>

lemma forwarded_operand:
  assumes q: "quiet s"
    and fwd: "mem_reg_write_en (exmem_q (core s)) \<Longrightarrow> mem_rd_addr (exmem_q (core s)) \<noteq> 0 \<Longrightarrow>
              mem_rd_addr (exmem_q (core s)) = r \<Longrightarrow> mem_wb_sel (exmem_q (core s)) = 0b00"
  shows "forward_mux (forward_sel (forward_in (core s)) r) (mem_alu_result (exmem_q (core s)))
           (core_wb_wdata (core s)) (rf_read (rf_q (core s)) r) = rf_read (pending_regs (rdata s) (core s)) r"
proof -
  have wb: "wb_plain (memwb_q (core s))" and m: "mem_plain (exmem_q (core s))"
    using q by (simp_all add: quiet_def core_quiet_def)
  have wd: "core_wb_wdata (core s) =
      wb_rd_wdata (memwb_q (core s)) (wb_pc (memwb_q (core s)) + 4) 0"
    using core_wb_port_plain [OF wb] by (simp add: core_wb_port_def port_of_def)
  have hz: "hz_wb_reg_write_en (forward_in (core s)) = wb_reg_write_en (memwb_q (core s))"
    "hz_wb_rd_addr (forward_in (core s)) = wb_rd_addr (memwb_q (core s))"
    "hz_mem_reg_write_en (forward_in (core s)) = mem_reg_write_en (exmem_q (core s))"
    "hz_mem_rd_addr (forward_in (core s)) = mem_rd_addr (exmem_q (core s))"
    using core_wb_port_plain [OF wb] by (simp_all add: forward_in_def port_of_def)
  have md: "wb_rd_wdata (mem_stage (exmem_q (core s)) d) pc4 0 = mem_alu_result (exmem_q (core s))"
    if "mem_wb_sel (exmem_q (core s)) = 0b00" for d pc4
    using that m by (simp add: wb_rd_wdata_def mem_stage_def mem_plain_def)
  show ?thesis
    using fwd md
    by (auto simp: forward_mux_def forward_sel_def hz wd pending_regs_def regfile_defs port_of_def)
qed

lemma front_ex_exec:
  assumes q: "quiet s" and fr: "front_ex (code s) (arch_pc a) (core s)"
    and m: "arch_mem a = memory s" and r: "arch_regs a = pending_regs (rdata s) (core s)"
  shows "ex_rs1_rdata_fwd (core s) = rf_read (arch_regs a) (dec_rs1_addr (isa_decode P a))"
    and "ex_rs2_rdata_fwd (core s) = rf_read (arch_regs a) (dec_rs2_addr (isa_decode P a))"
    and "core_ex (core s) = isa_ex P a"
proof -
  have ix: "idex_q (core s) =
      id_stage (isa_decode P a) (fetched (code s) (arch_pc a)) (rf_q (core s)) idle_port"
    and fok: "forward_ok (core s)"
    using fr m by (simp_all add: front_ex_def isa_decode_def)
  have op: "forward_mux (forward_sel (forward_in (core s)) x) (mem_alu_result (exmem_q (core s)))
      (core_wb_wdata (core s)) (rf_read (rf_q (core s)) x) = rf_read (pending_regs (rdata s) (core s)) x"
    if "x = ex_rs1_addr (idex_q (core s)) \<or> x = ex_rs2_addr (idex_q (core s))" for x
    using fok that by (intro forwarded_operand [OF q]) (auto simp: forward_ok_def)
  show rs1: "ex_rs1_rdata_fwd (core s) = rf_read (arch_regs a) (dec_rs1_addr (isa_decode P a))"
    using op [of "ex_rs1_addr (idex_q (core s))"]
    by (simp add: ex_rs1_rdata_fwd_def forward_a_sel_def forward_in_def r ix id_stage_def
        rf_read_def)
  show rs2: "ex_rs2_rdata_fwd (core s) = rf_read (arch_regs a) (dec_rs2_addr (isa_decode P a))"
    using op [of "ex_rs2_addr (idex_q (core s))"]
    by (simp add: ex_rs2_rdata_fwd_def forward_b_sel_def forward_in_def r ix id_stage_def
        rf_read_def)
  show "core_ex (core s) = isa_ex P a"
    by (simp add: core_ex_def core_ex_in_def isa_ex_def Let_def rs1 rs2)
      (simp add: ix id_stage_def fetched_def)
qed

text \<open>The value EX hands to MEM, in terms of the sequential machine.\<close>

lemma front_ex_mem:
  assumes q: "quiet s" and fr: "front_ex (code s) (arch_pc a) (core s)"
    and m: "arch_mem a = memory s" and r: "arch_regs a = pending_regs (rdata s) (core s)"
  defines "e \<equiv> core_ex_mem (core s)" and "d \<equiv> isa_decode P a"
  shows "mem_alu_result e = exo_alu_result (isa_ex P a)" "mem_pc e = arch_pc a"
    "mem_rs2_rdata e = rf_read (arch_regs a) (dec_rs2_addr d)"
    "mem_is_load e = dec_is_load d" "mem_is_store e = dec_is_store d"
    "mem_mem_size e = dec_mem_size d" "mem_reg_write_en e = dec_reg_write_en d"
    "mem_rd_addr e = dec_rd_addr d" "mem_wb_sel e = dec_wb_sel d"
    "mem_is_csr e = dec_is_csr d" "mem_illegal_instr e = dec_illegal_instr d"
    "mem_is_ecall e = dec_is_ecall d" "mem_is_ebreak e = dec_is_ebreak d"
    "mem_is_mret e = dec_is_mret d" "mem_is_sret e = dec_is_sret d"
proof -
  have ix: "idex_q (core s) =
      id_stage d (fetched (code s) (arch_pc a)) (rf_q (core s)) idle_port"
    using fr m by (simp add: front_ex_def isa_decode_def d_def)
  note x = front_ex_exec [OF q fr m r]
  show "mem_alu_result e = exo_alu_result (isa_ex P a)" "mem_pc e = arch_pc a"
    "mem_rs2_rdata e = rf_read (arch_regs a) (dec_rs2_addr d)"
    "mem_is_load e = dec_is_load d" "mem_is_store e = dec_is_store d"
    "mem_mem_size e = dec_mem_size d" "mem_reg_write_en e = dec_reg_write_en d"
    "mem_rd_addr e = dec_rd_addr d" "mem_wb_sel e = dec_wb_sel d"
    "mem_is_csr e = dec_is_csr d" "mem_illegal_instr e = dec_illegal_instr d"
    "mem_is_ecall e = dec_is_ecall d" "mem_is_ebreak e = dec_is_ebreak d"
    "mem_is_mret e = dec_is_mret d" "mem_is_sret e = dec_is_sret d"
    by (simp_all add: e_def core_ex_mem_def Let_def x d_def [symmetric])
      (simp_all add: ix id_stage_def fetched_def)
qed

lemma front_ex_mem_plain:
  assumes q: "quiet s" and fr: "front_ex (code s) (arch_pc a) (core s)"
    and m: "arch_mem a = memory s" and r: "arch_regs a = pending_regs (rdata s) (core s)"
    and pl: "isa_plain P a"
  shows "mem_plain (core_ex_mem (core s))"
    and "dmem_write_req (core_ex_mem (core s)) = dec_is_store (isa_decode P a)"
    and "dmem_read_req (core_ex_mem (core s)) = dec_is_load (isa_decode P a)"
  using pl front_ex_mem [OF q fr m r]
  by (auto simp: isa_plain_def Let_def mem_plain_def load_addr_misaligned_def
      store_addr_misaligned_def dmem_write_req_def dmem_read_req_def)

text \<open>Memory and registers after the tick are those after the instruction.\<close>

lemma front_ex_arch:
  assumes q: "quiet s" and fr: "front_ex (code s) (arch_pc a) (core s)"
    and m: "arch_mem a = memory s" and r: "arch_regs a = pending_regs (rdata s) (core s)"
    and pl: "isa_plain P a"
  shows "memory (tick s) = arch_mem (isa_step P a)"
    and "pending_regs (rdata (tick s)) (core (tick s)) = arch_regs (isa_step P a)"
proof -
  let ?d = "isa_decode P a" and ?e = "core_ex_mem (core s)"
  note e = front_ex_mem [OF q fr m r] and p = front_ex_mem_plain [OF q fr m r pl]
  show mem: "memory (tick s) = arch_mem (isa_step P a)"
  proof (cases "dec_is_store ?d")
    case True
    then have "mp_store P (mem_alu_result ?e) (dmem_wdata ?e) (mem_mem_size ?e) (memory s) =
        Some (arch_mem (isa_step P a))"
      using isa_plainD(1) [OF pl] by (simp add: isa_store_def Let_def e m dmem_wdata_def)
    then show ?thesis using memory_tick(2) [OF q] True p(2) by blast
  next
    case False
    then show ?thesis
      using memory_tick(1) [OF q] p(2) m by (simp add: isa_store_None)
  qed
  have rd: "rdata (tick s) = mp_load P (arch_mem a) (exo_alu_result (isa_ex P a))"
    if "dec_is_load ?d"
  proof -
    have "\<not> dec_is_store ?d"
      using that decoder_load_not_store by (simp add: isa_decode_def)
    then have "memory (tick s) = arch_mem a" by (simp add: mem isa_store_None)
    then show ?thesis
      using that drive_load [of "tick s"]
      by (simp add: core_port_defs tick_back_end [OF q] p(3) e(1))
  qed
  have "\<not> mem_is_csr ?e" using p(1) by (simp add: mem_plain_def)
  then have wd: "wb_rd_wdata (mem_stage ?e (in_dmem_rdata (drive (tick s)))) (mem_pc ?e + 4) 0 =
      isa_result P a"
    using rd decoder_wb_sel [of "mp_fetch P (arch_mem a) (arch_pc a)" PRIV_M]
    by (simp add: wb_rd_wdata_def mem_stage_def isa_result_def Let_def e isa_decode_def [symmetric]
        split: if_splits)
  show "pending_regs (rdata (tick s)) (core (tick s)) = arch_regs (isa_step P a)"
    unfolding pending_regs_tick [OF q] regfile_ff_write port_of_def
    using wd by (simp add: e isa_step_def Let_def r)
qed

text \<open>The front end after the instruction at \<open>p\<close> has executed.\<close>

lemma front_ex_front:
  assumes q: "quiet s" and fr: "front_ex (code s) (arch_pc a) (core s)"
    and m: "arch_mem a = memory s" and r: "arch_regs a = pending_regs (rdata s) (core s)"
    and pl: "isa_plain P a"
  shows "front_empty (arch_pc (isa_step P a)) (core (tick s)) \<or>
         front_id (code (tick s)) (arch_pc (isa_step P a)) (core (tick s)) \<or>
         front_ex (code (tick s)) (arch_pc (isa_step P a)) (core (tick s))"
proof -
  let ?p = "arch_pc a" and ?t = "core s" and ?d = "isa_decode P a"
  have ifid: "ifid_q ?t = fetched (code s) (?p + 4)" and pc: "pc_reg ?t = ?p + 8"
    using fr by (simp_all add: front_ex_def)
  have taken: "core_taken ?t = exo_branch_taken (isa_ex P a)"
    by (simp add: core_taken_def front_ex_exec [OF q fr m r])
  have p8: "?p + 4 + 4 = ?p + 8" "?p + 4 + 8 = ?p + 8 + 4" by (simp_all add: add.assoc)
  have code: "code (tick s) (?p + 4) = code s (?p + 4)" "code (tick s) (?p + 8) = code s (?p + 8)"
    using isa_plainD(2,3) [OF pl] by (simp_all add: front_ex_arch(1) [OF q fr m r pl] m)
  note f = tick_front_end [OF q]
  consider (taken) "core_taken ?t" | (stall) "\<not> core_taken ?t" "core_stall ?t"
    | (advance) "\<not> core_taken ?t" "\<not> core_stall ?t" by blast
  then show ?thesis
  proof cases
    case taken
    then have "front_empty (arch_pc (isa_step P a)) (core (tick s))"
      by (simp add: front_empty_def f if_id_bubble_def front_ex_exec [OF q fr m r]
          isa_step_pc core_taken_def)
    then show ?thesis ..
  next
    case stall
    then have "front_id (code (tick s)) (arch_pc (isa_step P a)) (core (tick s))"
      using ifid pc taken by (simp add: front_id_def f isa_step_pc p8 code fetched_def)
    then show ?thesis by simp
  next
    case advance
    have id: "core_id ?t = id_stage (decoder (code s (?p + 4)) PRIV_M)
        (fetched (code s) (?p + 4)) (rf_q (core (tick s))) idle_port"
      by (simp add: core_id_eq [OF q] ifid fetched_def)
    note e = front_ex_mem [OF q fr m r]
    have ix: "ex_is_load (idex_q ?t) = dec_is_load ?d" "ex_rd_addr (idex_q ?t) = dec_rd_addr ?d"
      using fr m by (simp_all add: front_ex_def id_stage_def isa_decode_def)
    have no_jump: "\<not> dec_is_jump ?d"
      using advance(1) by (simp add: taken isa_ex_def ex_stage_def Let_def)
    have no_dep: "\<not> (dec_is_load ?d \<and> dec_rd_addr ?d \<noteq> 0 \<and>
        dec_rd_addr ?d \<in> {ex_rs1_addr (core_id ?t), ex_rs2_addr (core_id ?t)})"
      using advance(2) by (auto simp: core_stall_def load_use_stall_def forward_in_def ix
          core_id_def id_stage_def)
    have "forward_ok (core (tick s))"
      using no_jump no_dep advance decoder_wb_sel [of "mp_fetch P (arch_mem a) ?p" PRIV_M]
      by (auto simp: forward_ok_def tick_back_end [OF q] e f isa_decode_def)
    then have "front_ex (code (tick s)) (arch_pc (isa_step P a)) (core (tick s))"
      using advance taken by (simp add: front_ex_def f id pc isa_step_pc p8 code fetched_def)
    then show ?thesis by simp
  qed
qed

lemma front_ex_tick:
  assumes "rel s a" "front_ex (code s) (arch_pc a) (core s)" "isa_plain P a"
  shows "rel (tick s) (isa_step P a)"
proof -
  have q: "quiet s" and m: "arch_mem a = memory s" and r: "arch_regs a = pending_regs (rdata s) (core s)"
    using relD [OF assms(1)] by simp_all
  note fr = assms(2)
  show ?thesis
    using quiet_tick [OF q front_ex_mem_plain(1) [OF q fr m r assms(3)]]
      front_ex_arch [OF q fr m r assms(3)] front_ex_front [OF q fr m r assms(3)]
    by (intro relI) simp_all
qed

lemma front_fill_tick:
  assumes "rel s a"
  shows "front_empty (arch_pc a) (core s) \<Longrightarrow>
           rel (tick s) a \<and> front_id (code (tick s)) (arch_pc a) (core (tick s))"
    and "front_id (code s) (arch_pc a) (core s) \<Longrightarrow>
           rel (tick s) a \<and> front_ex (code (tick s)) (arch_pc a) (core (tick s))"
proof -
  note d = relD [OF assms] and q = relD(1) [OF assms]
  show "rel (tick s) a \<and> front_id (code (tick s)) (arch_pc a) (core (tick s))"
    if "front_empty (arch_pc a) (core s)"
    using d that front_empty_tick [OF q that] idle_tick [OF q]
    by (auto intro!: relI simp: front_empty_def)
  show "rel (tick s) a \<and> front_ex (code (tick s)) (arch_pc a) (core (tick s))"
    if "front_id (code s) (arch_pc a) (core s)"
    using d that front_id_tick [OF q that] idle_tick [OF q]
    by (auto intro!: relI simp: front_id_def)
qed

text \<open>One tick advances the sequential machine by one instruction or by none.\<close>

lemma tick_refines:
  assumes "rel s a" "isa_plain P a"
  shows "rel (tick s) a \<or> rel (tick s) (isa_step P a)"
  using relD(4) [OF assms(1)] front_fill_tick [OF assms(1)] front_ex_tick [OF assms(1) _ assms(2)]
  by blast

lemma in_ex_fill:
  assumes "rel s a"
  shows "\<exists>k\<le>2. in_ex (iterate k tick s) a"
proof -
  consider (ex) "front_ex (code s) (arch_pc a) (core s)"
    | (id) "front_id (code s) (arch_pc a) (core s)" | (e) "front_empty (arch_pc a) (core s)"
    using relD(4) [OF assms] by auto
  then show ?thesis
  proof cases
    case ex
    then show ?thesis using assms by (intro exI [of _ 0]) (simp add: in_ex_def)
  next
    case id
    then show ?thesis
      using front_fill_tick(2) [OF assms] by (intro exI [of _ 1]) (simp add: in_ex_def)
  next
    case e
    then have "rel (tick s) a" "front_id (code (tick s)) (arch_pc a) (core (tick s))"
      using front_fill_tick(1) [OF assms] by simp_all
    then have "in_ex (iterate 2 tick s) a"
      using front_fill_tick(2) [of "tick s" a] by (simp add: in_ex_def numeral_2_eq_2)
    then show ?thesis by auto
  qed
qed

lemma in_exD:
  assumes "in_ex s a"
  shows "rel s a" "front_ex (code s) (arch_pc a) (core s)" "quiet s"
    "arch_mem a = memory s" "arch_regs a = pending_regs (rdata s) (core s)"
  using assms relD [of s a] by (simp_all add: in_ex_def)

text \<open>After an instruction that does not jump: a stall only behind a load, else the next one.\<close>

lemma in_ex_sequential:
  assumes ex: "in_ex s a" and pl: "isa_plain P a" and nt: "\<not> exo_branch_taken (isa_ex P a)"
  shows "core_stall (core s) \<Longrightarrow>
           dec_is_load (isa_decode P a) \<and> in_ex (iterate 2 tick s) (isa_step P a)"
    and "\<not> core_stall (core s) \<Longrightarrow> in_ex (iterate 1 tick s) (isa_step P a)"
proof -
  note d = in_exD [OF ex] and q = in_exD(3) [OF ex]
  have rel': "rel (tick s) (isa_step P a)" by (rule front_ex_tick [OF d(1,2) pl])
  have nt': "\<not> core_taken (core s)"
    using nt by (simp add: core_taken_def front_ex_exec [OF q d(2,4,5)])
  have pc': "arch_pc (isa_step P a) = arch_pc a + 4" using nt by (simp add: isa_step_pc)
  have ix: "ex_is_load (idex_q (core s)) = dec_is_load (isa_decode P a)"
    using d(2,4) by (simp add: front_ex_def id_stage_def isa_decode_def)
  have code: "code (tick s) (arch_pc a + 4) = code s (arch_pc a + 4)"
    using isa_plainD(2) [OF pl] by (simp add: front_ex_arch(1) [OF q d(2,4,5) pl] d(4))
  show "dec_is_load (isa_decode P a) \<and> in_ex (iterate 2 tick s) (isa_step P a)" if "core_stall (core s)"
  proof -
    have "front_id (code (tick s)) (arch_pc (isa_step P a)) (core (tick s))"
      using nt' that d(2)
      by (simp add: front_id_def tick_front_end [OF q] pc' front_ex_def add.assoc fetched_def code)
    then have "in_ex (iterate 2 tick s) (isa_step P a)"
      using front_fill_tick(2) [OF rel'] by (simp add: in_ex_def numeral_2_eq_2)
    then show ?thesis
      using that ix by (simp add: core_stall_def load_use_stall_def forward_in_def)
  qed
  show "in_ex (iterate 1 tick s) (isa_step P a)" if "\<not> core_stall (core s)"
  proof -
    have "\<not> front_empty (arch_pc (isa_step P a)) (core (tick s))"
      "\<not> front_id (code (tick s)) (arch_pc (isa_step P a)) (core (tick s))"
      using nt' that d(2)
      by (simp_all add: front_empty_def front_id_def tick_front_end [OF q] pc' front_ex_def)
    then show ?thesis using rel' relD(4) [OF rel'] by (auto simp: in_ex_def)
  qed
qed

lemma in_ex_step:
  assumes "in_ex s a" "isa_plain P a"
  shows "\<exists>k. 1 \<le> k \<and> k \<le> isa_cycles P a \<and> in_ex (iterate k tick s) (isa_step P a)"
proof (cases "exo_branch_taken (isa_ex P a)")
  case True
  have "rel (tick s) (isa_step P a)"
    using front_ex_tick [OF in_exD(1,2) [OF assms(1)] assms(2)] .
  then obtain j where "j \<le> 2" "in_ex (iterate j tick (tick s)) (isa_step P a)"
    using in_ex_fill by blast
  then show ?thesis
    using True by (intro exI [of _ "Suc j"]) (simp add: isa_cycles_def)
next
  case False
  note s = in_ex_sequential [OF assms False]
  show ?thesis
  proof (cases "core_stall (core s)")
    case True
    then show ?thesis using s(1) False by (intro exI [of _ 2]) (simp add: isa_cycles_def)
  next
    case no_stall: False
    then show ?thesis using s(2) False by (intro exI [of _ 1]) (simp add: isa_cycles_def)
  qed
qed


end

text \<open>The interface: these facts are all that the runs of a program rest on.\<close>

sublocale core_bench \<subseteq> pipe: progressing_refinement
  tick rel "isa_plain P" "isa_step P" in_ex 2 "isa_cycles P"
proof unfold_locales
  show "rel (tick s) a \<or> rel (tick s) (isa_step P a)"
    if "rel s a" "isa_plain P a" for s a using that by (rule tick_refines)
  show "rel s a" if "in_ex s a" for s a using that by (rule in_exD)
  show "\<exists>k\<le>2. in_ex (iterate k tick s) a" if "rel s a" for s a using that by (rule in_ex_fill)
  show "\<exists>k. 1 \<le> k \<and> k \<le> isa_cycles P a \<and> in_ex (iterate k tick s) (isa_step P a)"
    if "in_ex s a" "isa_plain P a" for s a using that by (rule in_ex_step)
qed

text \<open>From reset: two cycles to fill the front end, then the program.\<close>

context core_bench
begin

lemma rel_reset:
  assumes "live s" "core s = core_reset_state"
  shows "rel s (boot_state (memory s))"
proof (rule relI)
  show "quiet s"
    using assms by (simp add: quiet_def core_quiet_def core_reset_state_def wb_plain_def
        wb_has_trap_def mem_plain_def load_addr_misaligned_def store_addr_misaligned_def
        mem_wb_reset_def ex_mem_reset_def csr_reset_def)
  show "arch_regs (boot_state (memory s)) = pending_regs (rdata s) (core s)"
    by (simp add: boot_state_def pending_regs_def assms(2) core_reset_state_def port_of_def
        mem_wb_reset_def ex_mem_reset_def regfile_ff_def)
  have "front_empty (arch_pc (boot_state (memory s))) (core s)"
    by (simp add: boot_state_def assms(2) front_empty_def core_reset_state_def id_ex_idle_def
        id_ex_reset_def if_id_bubble_def)
  then show "front_empty (arch_pc (boot_state (memory s))) (core s) \<or>
      front_id (code s) (arch_pc (boot_state (memory s))) (core s) \<or>
      front_ex (code s) (arch_pc (boot_state (memory s))) (core s)" ..
qed (simp add: boot_state_def)

text \<open>The store a tick requests is that of the instruction it completes, and it is defined.\<close>

lemma store_defined:
  assumes "rel s a" "isa_plain P a" "dmem_write_en (core (tick s))"
  shows "mp_store P (dmem_addr (core (tick s))) (dmem_wdata_out (core (tick s)))
           (dmem_size (core (tick s))) (memory s) = Some (arch_mem (isa_step P a))"
proof -
  note d = relD [OF assms(1)] and q = relD(1) [OF assms(1)]
  have fr: "front_ex (code s) (arch_pc a) (core s)"
    using d(4) assms(3)
    by (auto simp: core_port_defs tick_back_end(3) [OF q] front_empty_def front_id_def idle_ex)
  note e = front_ex_mem [OF q fr d(2,3)]
  have "dec_is_store (isa_decode P a)"
    using assms(3) front_ex_mem_plain(2) [OF q fr d(2,3) assms(2)]
    by (simp add: core_port_defs tick_back_end(3) [OF q])
  then show ?thesis
    using isa_plainD(1) [OF assms(2)]
    by (simp add: isa_store_def Let_def core_port_defs tick_back_end(3) [OF q] e dmem_wdata_def d(2))
qed

lemma total_cost_le: "pipe.total_cost n a \<le> 3 * n"
  by (rule pipe.total_cost_le) (simp add: isa_cycles_def)

lemma boot_run:
  assumes "live s" "core s = core_reset_state"
    and "\<forall>k<n. isa_plain P (iterate k (isa_step P) (boot_state (memory s)))"
  shows "\<exists>t. n \<le> t \<and> t \<le> 3 * n + 2 \<and>
             rel (iterate t tick s) (iterate n (isa_step P) (boot_state (memory s)))"
proof -
  let ?a = "boot_state (memory s)"
  obtain t where "n \<le> t" "t \<le> 2 + pipe.total_cost n ?a"
      "in_ex (iterate t tick s) (iterate n (isa_step P) ?a)"
    using pipe.rel_run [OF rel_reset [OF assms(1,2)] assms(3)] by blast
  then show ?thesis
    using total_cost_le [of n ?a] by (intro exI [of _ t]) (auto dest: in_exD(1))
qed

end

section \<open>Watching the stores\<close>

text \<open>
  A bench that looks at every store: \<open>watch addr m\<close> is what it makes of a store at \<open>addr\<close> that
  leaves the memory \<open>m\<close>.
\<close>

definition isa_watch ::
  "'m memory_port \<Rightarrow> (u64 \<Rightarrow> 'm \<Rightarrow> 'o option) \<Rightarrow> 'm arch_state \<Rightarrow> 'o option" where
  "isa_watch P watch a =
     (if dec_is_store (isa_decode P a)
      then watch (exo_alu_result (isa_ex P a)) (arch_mem (isa_step P a)) else None)"

definition core_watch :: "(u64 \<Rightarrow> 'm \<Rightarrow> 'o option) \<Rightarrow> core_state \<Rightarrow> 'm \<Rightarrow> 'o option" where
  "core_watch watch t m = (if dmem_write_en t then watch (dmem_addr t) m else None)"

locale watched_bench = core_bench P tick core memory drive live
  for P :: "'m memory_port" and tick :: "'s \<Rightarrow> 's"
    and core :: "'s \<Rightarrow> core_state" and memory :: "'s \<Rightarrow> 'm"
    and drive :: "'s \<Rightarrow> core_in" and live :: "'s \<Rightarrow> bool" +
  fixes watch :: "u64 \<Rightarrow> 'm \<Rightarrow> 'o option"
begin

abbreviation seen :: "'s \<Rightarrow> 'o option" where
  "seen s \<equiv> core_watch watch (core s) (memory s)"

lemma fill_unseen:
  assumes "rel s a" "front_empty (arch_pc a) (core s) \<or> front_id (code s) (arch_pc a) (core s)"
  shows "rel (tick s) a \<and> seen (tick s) = None"
proof -
  note q = relD(1) [OF assms(1)]
  have "\<not> dmem_write_en (core (tick s))"
    using assms(2) by (auto simp: core_port_defs tick_back_end(3) [OF q] front_empty_def
        front_id_def idle_ex)
  then show ?thesis
    using front_fill_tick [OF assms(1)] assms(2) by (auto simp: core_watch_def)
qed

lemma watch_fill:
  assumes "rel s a"
  shows "\<exists>k\<le>2. in_ex (iterate k tick s) a \<and>
      (\<forall>j\<le>k. rel (iterate j tick s) a \<and> (0 < j \<longrightarrow> seen (iterate j tick s) = None))"
proof -
  consider (ex) "front_ex (code s) (arch_pc a) (core s)"
    | (id) "front_id (code s) (arch_pc a) (core s)" | (e) "front_empty (arch_pc a) (core s)"
    using relD(4) [OF assms] by auto
  then show ?thesis
  proof cases
    case ex
    then show ?thesis using assms by (intro exI [of _ 0]) (simp add: in_ex_def)
  next
    case id
    then show ?thesis
      using front_fill_tick(2) [OF assms id] fill_unseen [OF assms] assms
      by (intro exI [of _ 1]) (auto simp: in_ex_def le_Suc_eq)
  next
    case e
    then have r: "rel (tick s) a" and f: "front_id (code (tick s)) (arch_pc a) (core (tick s))"
      using front_fill_tick(1) [OF assms] by simp_all
    then have "in_ex (iterate 2 tick s) a"
      using front_fill_tick(2) [OF r] by (simp add: in_ex_def numeral_2_eq_2)
    then show ?thesis
      using fill_unseen [OF assms] e fill_unseen [OF r] f assms
      by (intro exI [of _ 2]) (auto simp: numeral_2_eq_2 le_Suc_eq)
  qed
qed

lemma watch_step:
  assumes "in_ex s a" "isa_plain P a"
  shows "rel (tick s) (isa_step P a) \<and> seen (tick s) = isa_watch P watch a"
proof -
  note d = in_exD [OF assms(1)]
  have "dmem_write_en (core (tick s)) = dec_is_store (isa_decode P a)"
    "dmem_addr (core (tick s)) = exo_alu_result (isa_ex P a)"
    by (simp_all add: core_port_defs tick_back_end(3) [OF d(3)]
        front_ex_mem(1) [OF d(3,2,4,5)] front_ex_mem_plain(2) [OF d(3,2,4,5) assms(2)])
  moreover have "memory (tick s) = arch_mem (isa_step P a)"
    by (rule front_ex_arch(1) [OF d(3,2,4,5) assms(2)])
  ultimately show ?thesis
    using front_ex_tick [OF d(1,2) assms(2)] by (simp add: core_watch_def isa_watch_def)
qed

end

sublocale watched_bench \<subseteq> watched: observed_refinement
  tick rel "isa_plain P" "isa_step P" in_ex 2 "isa_cycles P" seen "isa_watch P watch"
  by unfold_locales (rule watch_fill, assumption, rule watch_step)

end
