(* ===== verification/Sim_Refinement.thy ===== *)
theory Sim_Refinement
  imports Core_Sim Pipeline_Refinement
begin

text \<open>
  The core bench provides the laws of \<open>core_bench\<close>: driven by \<open>tick\<close> of \<open>CoreSim\<close>, the pipeline
  refines the sequential machine over the bench's memory.  Instructions and data are separate
  there, so that a store never meets the code.
\<close>

section \<open>Definitions\<close>

definition sim_port :: "MemoryModel memory_port" where
  "sim_port =
     \<lparr>mp_fetch = read_instr, mp_load = read_data,
      mp_store = (\<lambda>addr data sz m. Some (write_data addr data m))\<rparr>"

text \<open>The bench drives neither reset nor interrupts.\<close>

definition sim_live :: "CoreSim \<Rightarrow> bool" where
  "sim_live sim \<longleftrightarrow>
     \<not> top_rst sim \<and> \<not> ext_timer_interrupt_level sim \<and> \<not> ext_software_interrupt_level sim \<and>
     \<not> ext_external_interrupt_level sim"

definition pipe_rel :: "CoreSim \<Rightarrow> MemoryModel arch_state \<Rightarrow> bool" where
  "pipe_rel sim a \<longleftrightarrow>
     sim_live sim \<and> arch_mem a = mem sim \<and>
     core_rel (read_instr (mem sim)) (in_dmem_rdata (sim_inputs sim)) (top sim) a"

abbreviation seq_decode :: "MemoryModel arch_state \<Rightarrow> decoder_out" where
  "seq_decode \<equiv> isa_decode sim_port"

abbreviation seq_ex :: "MemoryModel arch_state \<Rightarrow> ex_out" where
  "seq_ex \<equiv> isa_ex sim_port"

abbreviation seq_result :: "MemoryModel arch_state \<Rightarrow> u64" where
  "seq_result \<equiv> isa_result sim_port"

abbreviation seq_step :: "MemoryModel arch_state \<Rightarrow> MemoryModel arch_state" where
  "seq_step \<equiv> isa_step sim_port"

abbreviation seq_plain :: "MemoryModel arch_state \<Rightarrow> bool" where
  "seq_plain \<equiv> isa_plain sim_port"

abbreviation seq_cycles :: "MemoryModel arch_state \<Rightarrow> nat" where
  "seq_cycles \<equiv> isa_cycles sim_port"

section \<open>Lemmas\<close>

lemma sim_port_simps [simp]:
  "mp_fetch sim_port = read_instr" "mp_load sim_port = read_data"
  "mp_store sim_port addr data sz m = Some (write_data addr data m)"
  by (simp_all add: sim_port_def)

lemma read_instr_write_data [simp]: "read_instr (write_data a d m) p = read_instr m p"
  by (simp add: read_instr_def write_data_def Let_def)

interpretation sim: core_bench sim_port tick top mem sim_inputs sim_live
  by unfold_locales (auto simp: tick_def Let_def sim_live_def sim_inputs_def sim_store_def)

lemma sim_rel: "sim.rel = pipe_rel"
  by (simp add: fun_eq_iff sim.rel_def pipe_rel_def)

lemma tick_pipe_rel:
  assumes "pipe_rel sim a" "seq_plain a"
  shows "pipe_rel (tick sim) a \<or> pipe_rel (tick sim) (seq_step a)"
  using sim.pipe.tick_rel [of sim a] assms by (simp add: sim_rel)

subsection \<open>The sequential machine over this memory\<close>

lemmas seq_decode_eq = isa_decode_def [of sim_port, simplified sim_port_simps]

lemma seq_step_eq:
  "seq_step a =
     (let d = seq_decode a; x = seq_ex a; res = exo_alu_result x in
      \<lparr>arch_pc = (if exo_branch_taken x then exo_branch_target x else arch_pc a + 4),
       arch_regs =
         (if dec_reg_write_en d then rf_write (arch_regs a) (dec_rd_addr d) (seq_result a)
          else arch_regs a),
       arch_mem =
         (if dec_is_store d then
            write_data res
              (store_data_aligned (dec_mem_size d) res (rf_read (arch_regs a) (dec_rs2_addr d)))
              (arch_mem a)
          else arch_mem a)\<rparr>)"
  by (simp add: isa_step_def isa_store_def Let_def)

lemma seq_plain_eq:
  "seq_plain a \<longleftrightarrow>
     (let d = seq_decode a in
      \<not> dec_illegal_instr d \<and> \<not> dec_is_csr d \<and> \<not> dec_is_ecall d \<and> \<not> dec_is_ebreak d \<and>
      \<not> dec_is_mret d \<and> \<not> dec_is_sret d \<and>
      (dec_is_load d \<or> dec_is_store d \<longrightarrow>
         \<not> addr_misaligned (dec_mem_size d) (exo_alu_result (seq_ex a))))"
  by (simp add: isa_plain_def isa_store_def Let_def)

subsection \<open>Runs\<close>

text \<open>
  A checked run of the sequential machine: the state after \<open>n\<close> plain instructions and a bound on
  the cycles the pipeline spends on them.
\<close>

primrec seq_run :: "nat \<Rightarrow> MemoryModel arch_state \<Rightarrow> nat \<Rightarrow> (MemoryModel arch_state \<times> nat) option" where
  "seq_run 0 a c = Some (a, c)"
| "seq_run (Suc n) a c = (if seq_plain a then seq_run n (seq_step a) (c + seq_cycles a) else None)"

lemma seq_run_add:
  "seq_run (m + n) a c = Option.bind (seq_run m a c) (\<lambda>(b, c'). seq_run n b c')"
  by (induction m arbitrary: a c) simp_all

lemma seq_runD:
  assumes "seq_run n a c = Some (b, c')"
  shows "b = iterate n seq_step a" "c' = c + sim.pipe.total_cost n a"
    and "\<forall>k<n. seq_plain (iterate k seq_step a)"
proof -
  show "b = iterate n seq_step a"
    using assms by (induction n arbitrary: a c) (auto split: if_splits)
  show "c' = c + sim.pipe.total_cost n a"
    using assms
  proof (induction n arbitrary: a c)
    case (Suc n)
    then have "seq_run n (seq_step a) (c + seq_cycles a) = Some (b, c')"
      by (simp split: if_splits)
    from Suc.IH [OF this] show ?case by (simp add: sim.pipe.total_cost_Suc)
  qed (simp add: sim.pipe.total_cost_0)
  show "\<forall>k<n. seq_plain (iterate k seq_step a)"
    using assms
  proof (induction n arbitrary: a c)
    case (Suc n)
    then have "seq_plain a" "\<forall>k<n. seq_plain (iterate k seq_step (seq_step a))"
      by (auto split: if_splits)
    then show ?case by (auto simp: less_Suc_eq_0_disj)
  qed simp
qed

text \<open>From reset.\<close>

lemma reset_live:
  assumes "0 < cycles"
  shows "sim_live (reset cycles sim)" "top (reset cycles sim) = core_reset_state"
    "mem (reset cycles sim) = mem sim"
  by (simp_all add: reset_eq [OF assms] clear_interrupts_def set_interrupt_lines_def sim_live_def)

lemma reset_pipe_rel:
  assumes "0 < cycles"
  shows "pipe_rel (reset cycles sim) (boot_state (mem sim))"
  using sim.rel_reset [OF reset_live(1,2) [OF assms]]
  by (simp add: sim_rel reset_live(3) [OF assms])

lemma reset_run:
  assumes "0 < cycles" "\<forall>k<n. seq_plain (iterate k seq_step (boot_state (mem sim)))"
  shows "\<exists>t. n \<le> t \<and> t \<le> 3 * n + 2 \<and>
             pipe_rel (run t (reset cycles sim)) (iterate n seq_step (boot_state (mem sim)))"
  using sim.boot_run [OF reset_live(1,2) [OF assms(1)]] assms(2)
  by (simp add: sim_rel reset_live(3) [OF assms(1)] run_def)

lemma boot_run_halts:
  assumes "0 < cycles" "seq_run n (boot_state (mem sim)) 0 = Some (b, c)"
    and "seq_plain b" "seq_step b = b" "c + 2 \<le> T"
  shows "pipe_rel (run T (reset cycles sim)) b"
  unfolding run_def sim_rel [symmetric]
  using assms(3-5) seq_runD [OF assms(2)] reset_pipe_rel [OF assms(1), folded sim_rel]
  by (intro sim.pipe.halted_run) simp_all

end
