(* ===== verification/Isa_Semantics.thy ===== *)
theory Isa_Semantics
  imports Sim_Refinement
begin

text \<open>
  What the encoded instructions of the bench mean: for each shorthand of
  \<^verbatim>\<open>src/tb/core/tb_core.cc\<close>, the effect of the sequential machine on an instruction
  word built by the encoder, that is the round trip encoder, decoder, operand selection, ALU,
  memory access and register write.
\<close>

section \<open>Definitions\<close>

text \<open>The state after an instruction that writes \<open>v\<close> to \<open>rd\<close> and goes on at \<open>pc\<close>.\<close>

definition write_rd :: "reg_idx \<Rightarrow> u64 \<Rightarrow> u64 \<Rightarrow> 'm arch_state \<Rightarrow> 'm arch_state" where
  "write_rd rd v pc a = a\<lparr>arch_pc := pc, arch_regs := rf_write (arch_regs a) rd v\<rparr>"

definition reg :: "'m arch_state \<Rightarrow> reg_idx \<Rightarrow> u64" where
  "reg a r = rf_read (arch_regs a) r"

definition next_instr :: "MemoryModel arch_state \<Rightarrow> u32" where
  "next_instr a = read_instr (arch_mem a) (arch_pc a)"

text \<open>Sign extension of a 12-bit immediate and of the branch and jump offsets.\<close>

definition sext12 :: "u32 \<Rightarrow> u64" where "sext12 imm = scast (ucast imm :: 12 word)"
definition sext13 :: "u32 \<Rightarrow> u64" where "sext13 off = scast (ucast off :: 13 word)"
definition sext21 :: "u32 \<Rightarrow> u64" where "sext21 off = scast (ucast off :: 21 word)"

section \<open>Lemmas\<close>

subsection \<open>Registers and memory after a write\<close>

lemma reg_write_rd [simp]:
  "reg (write_rd rd v pc a) r = (if r = rd \<and> rd \<noteq> 0 then v else reg a r)"
  by (simp add: reg_def write_rd_def rf.rd_wr)

lemma write_rd_simps [simp]:
  "arch_pc (write_rd rd v pc a) = pc" "arch_mem (write_rd rd v pc a) = arch_mem a"
  by (simp_all add: write_rd_def)

lemma write_rd_write_rd: "write_rd rd v p (write_rd rd w q a) = write_rd rd v p a"
  by (simp add: write_rd_def rf_write_def regfile_ff_def)

lemma reg_zero [simp]: "reg a 0 = 0"
  by (simp add: reg_def rf.read_zero)

lemma reg_update [simp]:
  "reg (a\<lparr>arch_pc := p\<rparr>) r = reg a r" "reg (a\<lparr>arch_mem := m\<rparr>) r = reg a r"
  by (simp_all add: reg_def)

lemma write_rd_zero: "write_rd 0 v pc a = a\<lparr>arch_pc := pc\<rparr>"
  by (simp add: write_rd_def rf_write_def regfile_ff_def)

subsection \<open>Taking encoded instructions apart\<close>

lemma even_drop_bit: "even (drop_bit n w) \<longleftrightarrow> \<not> bit w n" for w :: "'a::len word"
  by (simp add: bit_iff_odd_drop_bit)

lemma rv_u_type_fields:
  fixes op :: "7 word" and rd :: reg_idx and imm :: u32
  defines "w \<equiv> rv_u_type imm (ucast rd) (ucast op)"
  shows "field 0 w = op" "field 7 w = rd" "field 12 w = (ucast imm :: 20 word)"
  unfolding w_def rv_u_type_def and_mask32
  by (rule bit_word_eqI; auto simp: bit_simps dest: bit_imp_le_length)+

lemma rv_j_type_fields:
  fixes op :: "7 word" and rd :: reg_idx and imm :: u32
  defines "w \<equiv> rv_j_type imm (ucast rd) (ucast op)"
  shows "field 0 w = op" "field 7 w = rd" "field 31 w = (field 20 imm :: 1 word)"
    "field 12 w = (field 12 imm :: 8 word)" "field 20 w = (field 11 imm :: 1 word)"
    "field 21 w = (field 1 imm :: 10 word)"
  unfolding w_def rv_j_type_def and_mask32 Let_def
  by (rule bit_word_eqI; auto simp: bit_simps even_drop_bit dest: bit_imp_le_length)+

lemma rv_b_type_fields:
  fixes op :: "7 word" and rs1 rs2 :: reg_idx and f3 :: "3 word" and imm :: u32
  defines "w \<equiv> rv_b_type imm (ucast rs2) (ucast rs1) (ucast f3) (ucast op)"
  shows "field 0 w = op" "field 12 w = f3" "field 15 w = rs1" "field 20 w = rs2"
    "field 31 w = (field 12 imm :: 1 word)" "field 7 w = (field 11 imm :: 1 word)"
    "field 25 w = (field 5 imm :: 6 word)" "field 8 w = (field 1 imm :: 4 word)"
  unfolding w_def rv_b_type_def and_mask32 Let_def
  by (rule bit_word_eqI; auto simp: bit_simps even_drop_bit dest: bit_imp_le_length)+

subsection \<open>Immediates\<close>

lemma imm_i_encode: "imm_i (rv_i_type imm (ucast rs1) (ucast f3) (ucast rd) (ucast op)) = sext12 imm"
  for rs1 rd :: reg_idx and f3 :: "3 word" and op :: "7 word"
  by (simp add: imm_i_def sext12_def rv_i_type_fields)

lemma imm_s_encode: "imm_s (rv_s_type imm (ucast rs2) (ucast rs1) (ucast f3) (ucast op)) = sext12 imm"
  for rs1 rs2 :: reg_idx and f3 :: "3 word" and op :: "7 word"
proof -
  have "(word_cat (field 5 imm :: 7 word) (ucast imm :: 5 word) :: 12 word) = ucast imm"
    by (rule bit_word_eqI) (auto simp: bit_simps)
  then show ?thesis by (simp add: imm_s_def sext12_def rv_s_type_fields)
qed

lemma imm_u_encode: "imm_u (rv_u_type imm (ucast rd) (ucast op)) = scast (push_bit 12 imm :: u32)"
  for rd :: reg_idx and op :: "7 word"
proof -
  have "(word_cat (ucast imm :: 20 word) (0 :: 12 word) :: 32 word) = push_bit 12 imm"
    by (rule bit_word_eqI) (auto simp: bit_simps dest: bit_imp_le_length)
  then show ?thesis by (simp add: imm_u_def rv_u_type_fields)
qed

text \<open>The lowest bit of an offset is not encoded: an even offset comes back.\<close>

lemma imm_j_encode:
  fixes rd :: reg_idx and op :: "7 word"
  assumes "\<not> bit off 0"
  shows "imm_j (rv_j_type off (ucast rd) (ucast op)) = sext21 off"
proof -
  have "(word_cat (word_cat (word_cat (word_cat (field 20 off :: 1 word) (field 12 off :: 8 word)
          :: 9 word) (field 11 off :: 1 word) :: 10 word) (field 1 off :: 10 word) :: 20 word)
          (0 :: 1 word) :: 21 word) = ucast off"
  proof (rule bit_word_eqI)
    fix n assume "n < LENGTH(21)"
    then consider "n = 0" | "0 < n" "n < 11" | "n = 11" | "11 < n" "n < 20" | "n = 20"
      by fastforce
    then show "bit (word_cat (word_cat (word_cat (word_cat (field 20 off :: 1 word)
          (field 12 off :: 8 word) :: 9 word) (field 11 off :: 1 word) :: 10 word)
          (field 1 off :: 10 word) :: 20 word) (0 :: 1 word) :: 21 word) n
        \<longleftrightarrow> bit (ucast off :: 21 word) n"
      using assms by cases (auto simp: bit_simps)
  qed
  then show ?thesis by (simp add: imm_j_def sext21_def rv_j_type_fields)
qed

lemma imm_b_encode:
  fixes rs1 rs2 :: reg_idx and f3 :: "3 word" and op :: "7 word"
  assumes "\<not> bit off 0"
  shows "imm_b (rv_b_type off (ucast rs2) (ucast rs1) (ucast f3) (ucast op)) = sext13 off"
proof -
  have "(word_cat (word_cat (word_cat (word_cat (field 12 off :: 1 word) (field 11 off :: 1 word)
          :: 2 word) (field 5 off :: 6 word) :: 8 word) (field 1 off :: 4 word) :: 12 word)
          (0 :: 1 word) :: 13 word) = ucast off"
  proof (rule bit_word_eqI)
    fix n assume "n < LENGTH(13)"
    then consider "n = 0" | "0 < n" "n < 5" | "5 \<le> n" "n < 11" | "n = 11" | "n = 12"
      by fastforce
    then show "bit (word_cat (word_cat (word_cat (word_cat (field 12 off :: 1 word)
          (field 11 off :: 1 word) :: 2 word) (field 5 off :: 6 word) :: 8 word)
          (field 1 off :: 4 word) :: 12 word) (0 :: 1 word) :: 13 word) n
        \<longleftrightarrow> bit (ucast off :: 13 word) n"
      using assms by cases (auto simp: bit_simps)
  qed
  then show ?thesis by (simp add: imm_b_def sext13_def rv_b_type_fields)
qed

subsection \<open>One instruction of the sequential machine\<close>

lemmas seq_defs = seq_step_eq isa_ex_def isa_result_def seq_plain_eq isa_cycles_def write_rd_def
  reg_def ex_stage_def ex_alu_raw_def alu_mux_a_def alu_mux_b_def alu_operand_a_def
  alu_operand_b_def decoder_defaults_def Let_def

lemma and_0xFFF_idem: "sext12 (imm AND 0xFFF) = sext12 imm"
proof -
  have "(ucast (imm AND 0xFFF :: u32) :: 12 word) = ucast imm"
    unfolding and_mask32 by (rule bit_word_eqI) (auto simp: bit_simps)
  then show ?thesis by (simp add: sext12_def)
qed

lemma seq_ADDI:
  fixes rd rs1 :: reg_idx
  assumes "next_instr a = ADDI (ucast rd) (ucast rs1) imm"
  shows "seq_step a = write_rd rd (reg a rs1 + sext12 imm) (arch_pc a + 4) a"
    and "seq_plain a" and "seq_cycles a = 1"
proof -
  let ?w = "rv_i_type (imm AND 0xFFF) (ucast rs1) 0 (ucast rd) 0x13"
  note f = rv_i_type_fields [of "imm AND 0xFFF" rs1 0 rd "0x13", simplified]
  have i: "imm_i ?w = sext12 imm"
    using imm_i_encode [of "imm AND 0xFFF" rs1 0 rd "0x13"] by (simp add: and_0xFFF_idem)
  have "seq_decode a = decoder ?w PRIV_M"
    using assms by (simp add: seq_decode_eq next_instr_def ADDI_def)
  then have d: "seq_decode a = (decoder_defaults ?w)\<lparr>dec_reg_write_en := True,
      dec_alu_src2_sel := True, dec_imm := sext12 imm, dec_alu_op := ALU_ADD\<rparr>"
    by (simp add: decoder_OP_IMM f i op_imm_alu_def)
  show "seq_step a = write_rd rd (reg a rs1 + sext12 imm) (arch_pc a + 4) a"
    "seq_plain a" "seq_cycles a = 1"
    by (simp_all add: seq_defs d f)
qed

lemma seq_ADD_SUB:
  fixes rd rs1 rs2 :: reg_idx
  shows "next_instr a = ADD (ucast rd) (ucast rs1) (ucast rs2) \<Longrightarrow>
           seq_step a = write_rd rd (reg a rs1 + reg a rs2) (arch_pc a + 4) a \<and>
           seq_plain a \<and> seq_cycles a = 1"
    and "next_instr a = SUB (ucast rd) (ucast rs1) (ucast rs2) \<Longrightarrow>
           seq_step a = write_rd rd (reg a rs1 - reg a rs2) (arch_pc a + 4) a \<and>
           seq_plain a \<and> seq_cycles a = 1"
proof -
  note f = rv_r_type_fields [of 0 rs2 rs1 0 rd "0x33", simplified]
    and g = rv_r_type_fields [of "0x20" rs2 rs1 0 rd "0x33", simplified]
  show "seq_step a = write_rd rd (reg a rs1 + reg a rs2) (arch_pc a + 4) a \<and>
           seq_plain a \<and> seq_cycles a = 1"
    if "next_instr a = ADD (ucast rd) (ucast rs1) (ucast rs2)"
  proof -
    let ?w = "rv_r_type 0 (ucast rs2) (ucast rs1) 0 (ucast rd) 0x33"
    have "seq_decode a = (decoder_defaults ?w)\<lparr>dec_reg_write_en := True, dec_alu_op := ALU_ADD\<rparr>"
      using that by (simp add: seq_decode_eq next_instr_def ADD_def decoder_OP f op_alu_def)
    then show ?thesis by (simp add: seq_defs f)
  qed
  show "seq_step a = write_rd rd (reg a rs1 - reg a rs2) (arch_pc a + 4) a \<and>
           seq_plain a \<and> seq_cycles a = 1"
    if "next_instr a = SUB (ucast rd) (ucast rs1) (ucast rs2)"
  proof -
    let ?w = "rv_r_type 0x20 (ucast rs2) (ucast rs1) 0 (ucast rd) 0x33"
    have "seq_decode a = (decoder_defaults ?w)\<lparr>dec_reg_write_en := True, dec_alu_op := ALU_SUB\<rparr>"
      using that by (simp add: seq_decode_eq next_instr_def SUB_def decoder_OP g op_alu_def)
    then show ?thesis by (simp add: seq_defs g)
  qed
qed

lemma seq_LUI:
  fixes rd :: reg_idx
  assumes "next_instr a = LUI (ucast rd) imm"
  shows "seq_step a = write_rd rd (scast (push_bit 12 imm :: u32)) (arch_pc a + 4) a"
    and "seq_plain a" and "seq_cycles a = 1"
proof -
  let ?w = "rv_u_type imm (ucast rd) 0x37"
  note f = rv_u_type_fields [of imm rd "0x37", simplified]
  have "imm_u ?w = scast (push_bit 12 imm :: u32)" using imm_u_encode [of imm rd "0x37"] by simp
  then have d: "seq_decode a = (decoder_defaults ?w)\<lparr>dec_reg_write_en := True,
      dec_alu_src2_sel := True, dec_imm := scast (push_bit 12 imm :: u32)\<rparr>"
    using assms by (simp add: seq_decode_eq next_instr_def LUI_def decoder_LUI f)
  have "rf_read regs 0 = 0" for regs by (rule rf.read_zero)
  then show "seq_step a = write_rd rd (scast (push_bit 12 imm :: u32)) (arch_pc a + 4) a"
    "seq_plain a" "seq_cycles a = 1"
    by (simp_all add: seq_defs d f)
qed

lemma seq_LD:
  fixes rd rs1 :: reg_idx
  assumes "next_instr a = LD (ucast rd) (ucast rs1) imm"
    and "align_offset (reg a rs1 + sext12 imm) = 0"
  shows "seq_step a = write_rd rd (read_data (arch_mem a) (reg a rs1 + sext12 imm)) (arch_pc a + 4) a"
    and "seq_plain a" and "seq_cycles a = 2"
proof -
  let ?w = "rv_i_type (imm AND 0xFFF) (ucast rs1) 3 (ucast rd) 0x03"
  note f = rv_i_type_fields [of "imm AND 0xFFF" rs1 3 rd "0x03", simplified]
  have "imm_i ?w = sext12 imm"
    using imm_i_encode [of "imm AND 0xFFF" rs1 3 rd "0x03"] by (simp add: and_0xFFF_idem)
  then have d: "seq_decode a = (decoder_defaults ?w)\<lparr>dec_reg_write_en := True,
      dec_is_load := True, dec_alu_src2_sel := True, dec_imm := sext12 imm, dec_mem_size := 3,
      dec_wb_sel := 0b01\<rparr>"
    using assms(1) by (simp add: seq_decode_eq next_instr_def LD_def decoder_LOAD f)
  have al: "(field 0 (reg a rs1 + sext12 imm) :: 3 word) = 0"
    using assms(2) by (simp add: align_offset_def unat_eq_zero)
  show "seq_step a = write_rd rd (read_data (arch_mem a) (reg a rs1 + sext12 imm)) (arch_pc a + 4) a"
    using assms(2) by (simp add: seq_defs d f load_data_aligned_def)
  show "seq_plain a" "seq_cycles a = 2"
    using al by (simp_all add: seq_defs d f addr_misaligned_def)
qed

lemma seq_SD:
  fixes rs1 rs2 :: reg_idx
  assumes "next_instr a = SD (ucast rs2) (ucast rs1) imm"
    and "align_offset (reg a rs1 + sext12 imm) = 0"
  shows "seq_step a = a\<lparr>arch_pc := arch_pc a + 4,
           arch_mem := write_data (reg a rs1 + sext12 imm) (reg a rs2) (arch_mem a)\<rparr>"
    and "seq_plain a" and "seq_cycles a = 1"
proof -
  let ?w = "rv_s_type (imm AND 0xFFF) (ucast rs2) (ucast rs1) 3 0x23"
  note f = rv_s_type_fields [of "imm AND 0xFFF" rs2 rs1 3 "0x23", simplified]
  have "imm_s ?w = sext12 imm"
    using imm_s_encode [of "imm AND 0xFFF" rs2 rs1 3 "0x23"] by (simp add: and_0xFFF_idem)
  then have d: "seq_decode a = (decoder_defaults ?w)\<lparr>dec_is_store := True,
      dec_alu_src2_sel := True, dec_imm := sext12 imm, dec_mem_size := 3\<rparr>"
    using assms(1) by (simp add: seq_decode_eq next_instr_def SD_def decoder_STORE f)
  have al: "(field 0 (reg a rs1 + sext12 imm) :: 3 word) = 0"
    using assms(2) by (simp add: align_offset_def unat_eq_zero)
  show "seq_step a = a\<lparr>arch_pc := arch_pc a + 4,
           arch_mem := write_data (reg a rs1 + sext12 imm) (reg a rs2) (arch_mem a)\<rparr>"
    by (simp add: seq_defs d f store_data_aligned_def)
  show "seq_plain a" "seq_cycles a = 1"
    using al by (simp_all add: seq_defs d f addr_misaligned_def)
qed

text \<open>A branch goes to \<open>pc + offset\<close> with the lowest bit cleared.\<close>

lemma seq_branch:
  fixes rs1 rs2 :: reg_idx
  assumes "next_instr a = rv_b_type off (ucast rs2) (ucast rs1) (ucast f3) 0x63" "\<not> bit off 0"
  shows "seq_step a = a\<lparr>arch_pc := (if branch_unit True f3 (reg a rs1) (reg a rs2)
           then (arch_pc a + sext13 off) AND NOT 1 else arch_pc a + 4)\<rparr>"
    and "seq_plain a"
    and "seq_cycles a = (if branch_unit True f3 (reg a rs1) (reg a rs2) then 3 else 1)"
proof -
  let ?w = "rv_b_type off (ucast rs2) (ucast rs1) (ucast f3) 0x63"
  note f = rv_b_type_fields [of off rs2 rs1 f3 "0x63", simplified]
  have "imm_b ?w = sext13 off"
    using imm_b_encode [OF assms(2), of rs2 rs1 f3 "0x63"] by simp
  then have d: "seq_decode a = (decoder_defaults ?w)\<lparr>dec_is_branch := True,
      dec_alu_src1_sel := True, dec_alu_src2_sel := True, dec_imm := sext13 off,
      dec_branch_op := f3\<rparr>"
    using assms(1) by (simp add: seq_decode_eq next_instr_def decoder_BRANCH f)
  show "seq_step a = a\<lparr>arch_pc := (if branch_unit True f3 (reg a rs1) (reg a rs2)
           then (arch_pc a + sext13 off) AND NOT 1 else arch_pc a + 4)\<rparr>"
    "seq_plain a"
    "seq_cycles a = (if branch_unit True f3 (reg a rs1) (reg a rs2) then 3 else 1)"
    by (simp_all add: seq_defs d f)
qed

lemma seq_BEQ:
  fixes rs1 rs2 :: reg_idx
  assumes "next_instr a = BEQ (ucast rs1) (ucast rs2) off" "\<not> bit off 0"
  shows "seq_step a = a\<lparr>arch_pc := (if reg a rs1 = reg a rs2
           then (arch_pc a + sext13 off) AND NOT 1 else arch_pc a + 4)\<rparr>"
    and "seq_plain a" and "seq_cycles a = (if reg a rs1 = reg a rs2 then 3 else 1)"
  using seq_branch [of a off rs2 rs1 0, OF _ assms(2)] assms(1)
  by (simp_all add: BEQ_def branch_unit_def)

lemma seq_BNE:
  fixes rs1 rs2 :: reg_idx
  assumes "next_instr a = BNE (ucast rs1) (ucast rs2) off" "\<not> bit off 0"
  shows "seq_step a = a\<lparr>arch_pc := (if reg a rs1 \<noteq> reg a rs2
           then (arch_pc a + sext13 off) AND NOT 1 else arch_pc a + 4)\<rparr>"
    and "seq_plain a" and "seq_cycles a = (if reg a rs1 \<noteq> reg a rs2 then 3 else 1)"
  using seq_branch [of a off rs2 rs1 1, OF _ assms(2)] assms(1)
  by (simp_all add: BNE_def branch_unit_def)

lemma seq_JAL:
  fixes rd :: reg_idx
  assumes "next_instr a = JAL (ucast rd) off" "\<not> bit off 0"
  shows "seq_step a = write_rd rd (arch_pc a + 4) ((arch_pc a + sext21 off) AND NOT 1) a"
    and "seq_plain a" and "seq_cycles a = 3"
proof -
  let ?w = "rv_j_type off (ucast rd) 0x6f"
  note f = rv_j_type_fields [of off rd "0x6f", simplified]
  have "imm_j ?w = sext21 off" using imm_j_encode [OF assms(2), of rd "0x6f"] by simp
  then have d: "seq_decode a = (decoder_defaults ?w)\<lparr>dec_reg_write_en := True,
      dec_is_jump := True, dec_alu_src1_sel := True, dec_alu_src2_sel := True,
      dec_imm := sext21 off, dec_wb_sel := 0b10\<rparr>"
    using assms(1) by (simp add: seq_decode_eq next_instr_def JAL_def decoder_JAL f)
  show "seq_step a = write_rd rd (arch_pc a + 4) ((arch_pc a + sext21 off) AND NOT 1) a"
    "seq_plain a" "seq_cycles a = 3"
    by (simp_all add: seq_defs d f)
qed

lemma seq_JALR:
  fixes rd rs1 :: reg_idx
  assumes "next_instr a = JALR (ucast rd) (ucast rs1) imm"
  shows "seq_step a = write_rd rd (arch_pc a + 4) ((reg a rs1 + sext12 imm) AND NOT 1) a"
    and "seq_plain a" and "seq_cycles a = 3"
proof -
  let ?w = "rv_i_type (imm AND 0xFFF) (ucast rs1) 0 (ucast rd) 0x67"
  note f = rv_i_type_fields [of "imm AND 0xFFF" rs1 0 rd "0x67", simplified]
  have "imm_i ?w = sext12 imm"
    using imm_i_encode [of "imm AND 0xFFF" rs1 0 rd "0x67"] by (simp add: and_0xFFF_idem)
  then have d: "seq_decode a = (decoder_defaults ?w)\<lparr>dec_reg_write_en := True,
      dec_is_jump := True, dec_alu_src2_sel := True, dec_imm := sext12 imm, dec_wb_sel := 0b10\<rparr>"
    using assms by (simp add: seq_decode_eq next_instr_def JALR_def decoder_JALR f)
  show "seq_step a = write_rd rd (arch_pc a + 4) ((reg a rs1 + sext12 imm) AND NOT 1) a"
    "seq_plain a" "seq_cycles a = 3"
    by (simp_all add: seq_defs d f)
qed

subsection \<open>Loading a constant\<close>

lemma sext12_lower:
  "sext12 (load_imm64_lower imm) = scast (ucast imm :: 12 word)"
proof -
  have "(ucast (load_imm64_lower imm) :: 12 word) = ucast imm"
  proof -
    have *: "(ucast (ucast (imm AND 0xFFF) :: u32) :: 12 word) = ucast imm"
    proof -
      have "imm AND 0xFFF = take_bit 12 imm" by (simp add: take_bit_eq_mask mask_numeral)
      then show ?thesis by (auto intro!: bit_word_eqI simp: bit_simps)
    qed
    have "(ucast (4096 :: u32) :: 12 word) = 0" by simp
    then show ?thesis
      by (simp add: load_imm64_lower_def Let_def * ucast_down_diff)
  qed
  then show ?thesis by (simp add: sext12_def)
qed

text \<open>Sign extension as an offset: the way the two halves cancel.\<close>

lemma scast12_offset: "(scast (x :: 12 word) :: u64) = ucast (x + 0x800) - 0x800"
  by transfer (simp add: signed_take_bit_eq_take_bit_shift)

lemma scast_upper:
  "(scast (push_bit 12 (ucast (drop_bit 12 y)) :: u32) :: u64) =
     scast (ucast y :: u32) AND NOT 0xFFF" for y :: u64
proof -
  have mask: "x AND NOT 0xFFF = x AND NOT (mask 12)" for x :: u64 by (simp add: mask_numeral)
  show ?thesis
    unfolding mask
    by (auto intro!: bit_word_eqI simp: bit_simps min_def split: if_splits)
qed

text \<open>What \<open>LUI rd, upper; ADDI rd, rd, lower\<close> leaves in \<open>rd\<close>.\<close>

lemma lui_addi_value:
  "scast (push_bit 12 (load_imm64_upper imm) :: u32) + sext12 (load_imm64_lower imm) =
     scast (ucast (imm + 0x800) :: u32) - 0x800"
proof -
  let ?y = "imm + 0x800" and ?s = "scast (ucast (imm + 0x800) :: u32) :: u64"
  have low: "(ucast (ucast imm + 0x800 :: 12 word) :: u64) = ?s AND 0xFFF"
  proof -
    have "(ucast imm + 0x800 :: 12 word) = ucast ?y" by (simp add: ucast_down_add)
    moreover have "?s AND 0xFFF = take_bit 12 ?s" by (simp add: take_bit_eq_mask mask_numeral)
    ultimately show ?thesis
      by (simp only:) (auto intro!: bit_word_eqI simp: bit_simps min_def)
  qed
  have "(?s AND NOT 0xFFF) + (?s AND 0xFFF) = ?s" by (rule and_not_add_and)
  then show ?thesis
    by (simp add: load_imm64_upper_def sext12_lower scast12_offset scast_upper low algebra_simps)
qed

lemma scast32_eq_iff:
  "(scast (ucast y :: u32) :: u64) = y \<longleftrightarrow> - (2 ^ 31) \<le> sint y \<and> sint y < 2 ^ 31" for y :: u64
proof -
  have "(scast (ucast y :: u32) :: u64) = y \<longleftrightarrow> sint (scast (ucast y :: u32) :: u64) = sint y"
    by (simp add: word_eq_iff_signed)
  also have "sint (scast (ucast y :: u32) :: u64) = signed_take_bit 31 (sint y)"
    by transfer (simp add: signed_take_bit_signed_take_bit signed_take_bit_take_bit)
  finally show ?thesis by (simp add: signed_take_bit_int_eq_self_iff)
qed

lemma seq_load_imm64:
  fixes rd :: reg_idx
  assumes "next_instr a = LUI (ucast rd) (load_imm64_upper imm)"
    and "next_instr (seq_step a) = ADDI (ucast rd) (ucast rd) (load_imm64_lower imm)"
    and "rd \<noteq> 0"
  shows "seq_step (seq_step a) =
           write_rd rd (scast (ucast (imm + 0x800) :: u32) - 0x800) (arch_pc a + 8) a"
    and "seq_plain a" "seq_plain (seq_step a)"
  using assms seq_LUI [OF assms(1)] seq_ADDI [OF assms(2)]
  by (simp_all add: lui_addi_value write_rd_write_rd add.assoc)

text \<open>A loaded program is fetched word by word, as long as it does not wrap around.\<close>

lemma load_words_before:
  assumes "\<And>j. j < length ws \<Longrightarrow> x \<noteq> base + 4 * of_nat j"
  shows "load_words base ws m x = m x"
  using assms
proof (induction ws arbitrary: base m)
  case (Cons w ws)
  have "x \<noteq> base + 4 + 4 * of_nat j" if "j < length ws" for j
    using Cons.prems [of "Suc j"] that by (simp add: algebra_simps)
  moreover have "x \<noteq> base" using Cons.prems [of 0] by simp
  ultimately show ?case by (simp add: Cons.IH)
qed simp

lemma load_words_nth:
  assumes "k < length ws" "4 * length ws \<le> 2 ^ 64"
  shows "load_words base ws m (base + 4 * of_nat k) = Some (ws ! k)"
  using assms
proof (induction ws arbitrary: base m k)
  case (Cons w ws)
  show ?case
  proof (cases k)
    case 0
    have "base \<noteq> base + 4 + 4 * of_nat j" if "j < length ws" for j
    proof
      assume "base = base + 4 + 4 * of_nat j"
      then have "(of_nat (4 * Suc j) :: u64) = 0" by (simp add: algebra_simps)
      then have "2 ^ 64 dvd 4 * Suc j" by (simp only: word_of_nat_eq_0_iff) simp
      then show False using dvd_imp_le [of "2 ^ 64" "4 * Suc j"] that Cons.prems by simp
    qed
    then show ?thesis using 0 by (simp add: load_words_before)
  next
    case (Suc i)
    then show ?thesis using Cons.IH [of i "base + 4"] Cons.prems by (simp add: algebra_simps)
  qed
qed simp

section \<open>Properties\<close>

text \<open>
  C21: the decoder recovers from an encoded instruction the immediate the encoder was given: 12
  bits of an I-type or S-type, the upper 20 bits of a U-type, and the even offset of a B-type or
  J-type, each sign-extended to 64 bits.
\<close>

theorem immediates_roundtrip:
  fixes rd rs1 rs2 :: reg_idx and f3 :: "3 word" and op :: "7 word"
  assumes "\<not> bit off 0"
  shows "imm_i (rv_i_type imm (ucast rs1) (ucast f3) (ucast rd) (ucast op)) =
           scast (ucast imm :: 12 word) \<and>
         imm_s (rv_s_type imm (ucast rs2) (ucast rs1) (ucast f3) (ucast op)) =
           scast (ucast imm :: 12 word) \<and>
         imm_u (rv_u_type imm (ucast rd) (ucast op)) = scast (push_bit 12 imm :: u32) \<and>
         imm_b (rv_b_type off (ucast rs2) (ucast rs1) (ucast f3) (ucast op)) =
           scast (ucast off :: 13 word) \<and>
         imm_j (rv_j_type off (ucast rd) (ucast op)) = scast (ucast off :: 21 word)"
  using imm_b_encode [OF assms] imm_j_encode [OF assms]
  by (simp add: imm_i_encode imm_s_encode imm_u_encode sext12_def sext13_def sext21_def)

theorem immediates_roundtrip_witness: "imm_j (rv_j_type (- 28) 0 0x6f) = - 28"
  using immediates_roundtrip [of "- 28" 0 0 0 0 "0x6f" 0]
  by simp

text \<open>
  C24: the two instructions \<open>emit_load_imm64\<close> appends to a program, executed where \<open>load_program\<close>
  put them, leave \<open>imm\<close> in \<open>rd\<close> exactly when \<open>imm + 0x800\<close> is a signed 32-bit number, and
  in general the sign extension of its low 32 bits less \<open>0x800\<close>; they change no other register and
  no memory and end 8 bytes further.  Both are plain instructions, so the pipeline does the same.
\<close>

theorem load_imm64_correct:
  fixes rd :: reg_idx
  assumes "rd \<noteq> 0" and "4 * (length prog + 2) \<le> 2 ^ 64"
    and "arch_mem a = load_program base (emit_load_imm64 prog (ucast rd) imm) m"
    and "arch_pc a = base + 4 * of_nat (length prog)"
  shows "seq_step (seq_step a) =
           write_rd rd (scast (ucast (imm + 0x800) :: u32) - 0x800) (arch_pc a + 8) a \<and>
         (reg (seq_step (seq_step a)) rd = imm \<longleftrightarrow>
            - (2 ^ 31) \<le> sint (imm + 0x800) \<and> sint (imm + 0x800) < 2 ^ 31) \<and>
         seq_plain a \<and> seq_plain (seq_step a)"
proof -
  let ?ws = "emit_load_imm64 prog (ucast rd) imm"
  have fetch: "read_instr (arch_mem a) (base + 4 * of_nat k) = ?ws ! k" if "k < length prog + 2" for k
    using load_words_nth [of k ?ws base] that assms(2)
    by (simp add: assms(3) read_instr_def load_program_def emit_load_imm64_def)
  have lui: "next_instr a = LUI (ucast rd) (load_imm64_upper imm)"
    using fetch [of "length prog"] by (simp add: next_instr_def assms(4) emit_load_imm64_def)
  have addi: "next_instr (seq_step a) = ADDI (ucast rd) (ucast rd) (load_imm64_lower imm)"
    using fetch [of "Suc (length prog)"]
    by (simp add: seq_LUI(1) [OF lui] next_instr_def assms(4) emit_load_imm64_def nth_append
        algebra_simps)
  note run = seq_load_imm64 [OF lui addi assms(1)]
  have "scast (ucast (imm + 0x800) :: u32) - 0x800 = imm \<longleftrightarrow>
        (scast (ucast (imm + 0x800) :: u32) :: u64) = imm + 0x800"
    by (simp add: diff_eq_eq)
  then show ?thesis
    using run(2,3) assms(1) by (simp add: run(1) scast32_eq_iff)
qed

text \<open>A constant with a rounded upper part, and one whose bit 31 is extended.\<close>

theorem load_imm64_correct_witness:
  "let run = (\<lambda>imm. seq_step (seq_step
       \<lparr>arch_pc = 0x80000004, arch_regs = (\<lambda>_. 0),
        arch_mem = load_program 0x80000000 (emit_load_imm64 [NOP] 5 imm) empty_memory\<rparr>)) in
   reg (run 0x12345FFF) 5 = 0x12345FFF \<and> reg (run 0xCAFECAFE) 5 = 0xFFFFFFFFCAFECAFE"
proof -
  let ?a = "\<lambda>imm. \<lparr>arch_pc = 0x80000004, arch_regs = (\<lambda>_. 0),
     arch_mem = load_program 0x80000000 (emit_load_imm64 [NOP] 5 imm) empty_memory\<rparr>"
  have "seq_step (seq_step (?a imm)) =
      write_rd 5 (scast (ucast (imm + 0x800) :: u32) - 0x800) 0x8000000C (?a imm)" for imm
    using load_imm64_correct [of 5 "[NOP]" "?a imm" "0x80000000" imm empty_memory] by simp
  then show ?thesis by simp
qed

text \<open>
  C22: a doubleword stored with \<open>SD\<close> is what \<open>LD\<close> reads back from the same aligned address,
  through encoder, decoder, address computation and memory stage.
\<close>

theorem isa_store_then_load:
  fixes rd rs1 rs2 :: reg_idx
  assumes "next_instr a = SD (ucast rs2) (ucast rs1) imm"
    and "next_instr (seq_step a) = LD (ucast rd) (ucast rs1) imm"
    and "align_offset (reg a rs1 + sext12 imm) = 0"
  shows "reg (seq_step (seq_step a)) rd = (if rd = 0 then 0 else reg a rs2) \<and>
         arch_pc (seq_step (seq_step a)) = arch_pc a + 8 \<and>
         seq_plain a \<and> seq_plain (seq_step a)"
proof -
  note sd = seq_SD [OF assms(1,3)]
  have al: "align_offset (reg (seq_step a) rs1 + sext12 imm) = 0"
    using assms(3) by (simp add: sd(1))
  note ld = seq_LD [OF assms(2) al]
  have "read_data (write_data x v m) x = v" for x v m
    by (simp add: read_data_def write_data_def Let_def)
  then show ?thesis
    using ld(2) sd(2) by (simp add: ld(1)) (simp add: sd(1))
qed

definition sd_ld_state :: "MemoryModel arch_state" where
  "sd_ld_state =
     \<lparr>arch_pc = 0x80000000, arch_regs = (\<lambda>_. 0)(1 := 0x200, 2 := 0x55),
      arch_mem = \<lparr>imem = [0x80000000 \<mapsto> SD 2 1 0, 0x80000004 \<mapsto> LD 3 1 0], dmem = Map.empty\<rparr>\<rparr>"

theorem isa_store_then_load_witness: "reg (seq_step (seq_step sd_ld_state)) 3 = 0x55"
proof -
  have r: "reg sd_ld_state 1 = 0x200" "reg sd_ld_state 2 = 0x55"
    by (simp_all add: sd_ld_state_def reg_def rf_read_def regfile_read_def idle_port_def)
  have i: "next_instr sd_ld_state = SD (ucast (2 :: reg_idx)) (ucast (1 :: reg_idx)) 0"
    by (simp add: sd_ld_state_def next_instr_def read_instr_def)
  have al: "align_offset (reg sd_ld_state 1 + sext12 0) = 0"
    by (simp add: r sext12_def align_offset_mod)
  have j: "next_instr (seq_step sd_ld_state) = LD (ucast (3 :: reg_idx)) (ucast (1 :: reg_idx)) 0"
    by (simp add: seq_SD(1) [OF i al] next_instr_def)
      (simp add: sd_ld_state_def read_instr_def)
  show ?thesis using isa_store_then_load [OF i j al] r by simp
qed

text \<open>
  C23: the control transfers.  \<open>BEQ\<close> and \<open>BNE\<close> go to \<open>pc + offset\<close> exactly when their registers
  are equal, respectively different, and to \<open>pc + 4\<close> otherwise, writing no register; \<open>JAL\<close>
  goes to \<open>pc + offset\<close> and \<open>JALR\<close> to \<open>rs1 + imm\<close> (each with the lowest bit cleared), saving
  \<open>pc + 4\<close>.
\<close>

theorem isa_control_transfer:
  fixes rd rs1 rs2 :: reg_idx
  assumes "\<not> bit off 0"
  shows "(next_instr a = BEQ (ucast rs1) (ucast rs2) off \<longrightarrow>
            seq_step a = a\<lparr>arch_pc := (if reg a rs1 = reg a rs2
              then (arch_pc a + sext13 off) AND NOT 1 else arch_pc a + 4)\<rparr>) \<and>
         (next_instr a = BNE (ucast rs1) (ucast rs2) off \<longrightarrow>
            seq_step a = a\<lparr>arch_pc := (if reg a rs1 \<noteq> reg a rs2
              then (arch_pc a + sext13 off) AND NOT 1 else arch_pc a + 4)\<rparr>) \<and>
         (next_instr a = JAL (ucast rd) off \<longrightarrow>
            seq_step a = write_rd rd (arch_pc a + 4) ((arch_pc a + sext21 off) AND NOT 1) a) \<and>
         (next_instr a = JALR (ucast rd) (ucast rs1) imm \<longrightarrow>
            seq_step a = write_rd rd (arch_pc a + 4) ((reg a rs1 + sext12 imm) AND NOT 1) a)"
  using assms seq_BEQ(1) seq_BNE(1) seq_JAL(1) seq_JALR(1) by blast

theorem isa_control_transfer_witness:
  "seq_step \<lparr>arch_pc = 0x80000000, arch_regs = (\<lambda>_. 0),
     arch_mem = \<lparr>imem = [0x80000000 \<mapsto> BEQ 1 2 8], dmem = Map.empty\<rparr>\<rparr> =
   \<lparr>arch_pc = 0x80000008, arch_regs = (\<lambda>_. 0),
     arch_mem = \<lparr>imem = [0x80000000 \<mapsto> BEQ 1 2 8], dmem = Map.empty\<rparr>\<rparr>"
proof -
  let ?a = "\<lparr>arch_pc = 0x80000000, arch_regs = (\<lambda>_. 0),
     arch_mem = \<lparr>imem = [0x80000000 \<mapsto> BEQ 1 2 8], dmem = Map.empty\<rparr>\<rparr>"
  have i: "next_instr ?a = BEQ (ucast (1 :: reg_idx)) (ucast (2 :: reg_idx)) 8"
    by (simp add: next_instr_def read_instr_def)
  have r: "reg ?a 1 = 0" "reg ?a 2 = 0"
    by (simp_all add: reg_def rf_read_def regfile_read_def idle_port_def)
  show ?thesis
    using isa_control_transfer [of 8 ?a 1 2 0 0] i
    by (simp add: r sext13_def)
qed

end
