(* ===== verification/Core_Tests.thy ===== *)
theory Core_Tests
  imports Isa_Semantics
begin

text \<open>
  The integration tests of the core bench, \<^verbatim>\<open>src/tb/core/tb_core.cc\<close>: thirteen
  directed tests, five trap and interrupt scenarios, the \<open>--case\<close> dispatch table and
  \<open>main\<close>.  A test is a function from the register contents of its fresh simulator and the
  assertion counters to the counters after it.
\<close>

section \<open>Definitions\<close>

abbreviation (input) boot_pc :: u64 where "boot_pc \<equiv> 0x80000000"

text \<open>\<open>sim.mem.load_program(a, p)\<close> and \<open>sim.mem.write_data(a, d)\<close>.\<close>

definition sim_load_program :: "u64 \<Rightarrow> u32 list \<Rightarrow> CoreSim \<Rightarrow> CoreSim" where
  "sim_load_program a p sim = sim\<lparr>mem := load_program a p (mem sim)\<rparr>"

definition sim_write_data :: "u64 \<Rightarrow> u64 \<Rightarrow> CoreSim \<Rightarrow> CoreSim" where
  "sim_write_data a d sim = sim\<lparr>mem := write_data a d (mem sim)\<rparr>"

definition sim_install_trap_handlers :: "CoreSim \<Rightarrow> CoreSim" where
  "sim_install_trap_handlers sim = sim\<lparr>mem := install_trap_handlers (mem sim)\<rparr>"

subsection \<open>Directed tests\<close>

definition test_reset :: "CoreSim \<Rightarrow> counters \<Rightarrow> counters" where
  "test_reset sim c =
     (let sim = tick (reset 3 sim);
          c = ASSERT_EQ (imem_addr (top sim)) 0x0000000080000004 c;
          c = ASSERT_EQ (dmem_read_en (top sim)) False c
      in ASSERT_EQ (dmem_write_en (top sim)) False c)"

definition test_nop_flow :: "CoreSim \<Rightarrow> counters \<Rightarrow> counters" where
  "test_nop_flow sim c =
     (let program = [NOP, NOP, NOP, NOP, NOP, NOP, NOP, NOP];
          sim = reset 3 (sim_load_program 0x80000000 program sim);
          sim = tick sim;
          c = ASSERT_EQ (imem_addr (top sim)) 0x80000004 c;
          sim = tick sim;
          c = ASSERT_EQ (imem_addr (top sim)) 0x80000008 c;
          sim = tick sim;
          c = ASSERT_EQ (imem_addr (top sim)) 0x8000000C c;
          sim = tick sim;
          c = ASSERT_EQ (imem_addr (top sim)) 0x80000010 c;
          c = ASSERT_EQ (dmem_read_en (top sim)) False c
      in ASSERT_EQ (dmem_write_en (top sim)) False c)"

definition test_addi :: "CoreSim \<Rightarrow> counters \<Rightarrow> counters" where
  "test_addi sim c =
     (let program = [ADDI 1 0 42, NOP, NOP, NOP, NOP, NOP];
          sim = reset 3 (sim_load_program 0x80000000 program sim);
          sim = run 7 sim;
          c = ASSERT_EQ (dmem_read_en (top sim)) False c;
          c = ASSERT_EQ (dmem_write_en (top sim)) False c
      in ASSERT_EQ (imem_addr (top sim)) 0x8000001C c)"

definition test_forwarding_wb :: "CoreSim \<Rightarrow> counters \<Rightarrow> counters" where
  "test_forwarding_wb sim c =
     (let program = [ADDI 1 0 10, NOP, NOP, ADDI 2 1 20, NOP, NOP, NOP, NOP, NOP];
          sim = reset 3 (sim_load_program 0x80000000 program sim);
          sim = run 10 sim;
          c = ASSERT_EQ (dmem_read_en (top sim)) False c
      in ASSERT_EQ (dmem_write_en (top sim)) False c)"

definition test_forwarding_mem :: "CoreSim \<Rightarrow> counters \<Rightarrow> counters" where
  "test_forwarding_mem sim c =
     (let program = [ADDI 1 0 10, NOP, ADDI 2 1 5, NOP, NOP, NOP, NOP, NOP];
          sim = reset 3 (sim_load_program 0x80000000 program sim);
          sim = run 10 sim;
          c = ASSERT_EQ (dmem_read_en (top sim)) False c
      in ASSERT_EQ (dmem_write_en (top sim)) False c)"

text \<open>Test 6 looks at nothing after its twelve ticks: it passes when it gets there.\<close>

definition test_load_use_program :: "u32 list" where
  "test_load_use_program =
     [ADDI 1 0 0x100, NOP, NOP, LD 2 1 0, ADD 3 2 0, NOP, NOP, NOP, NOP, NOP]"

definition test_load_use_sim :: "CoreSim \<Rightarrow> CoreSim" where
  "test_load_use_sim sim =
     (let sim = sim_write_data 0x100 0xDEADBEEFCAFEBABE sim
      in run 12 (reset 3 (sim_load_program 0x80000000 test_load_use_program sim)))"

definition test_load_use_stall :: "CoreSim \<Rightarrow> counters \<Rightarrow> counters" where
  "test_load_use_stall sim c = (let sim = test_load_use_sim sim in count_pass c)"

definition test_store :: "CoreSim \<Rightarrow> counters \<Rightarrow> counters" where
  "test_store sim c =
     (let program = [ADDI 1 0 0x200, ADDI 2 0 0x55, NOP, NOP, NOP, SD 2 1 0,
                     NOP, NOP, NOP, NOP, NOP];
          sim = reset 3 (sim_load_program 0x80000000 program sim);
          sim = run 14 sim;
          stored = read_data (mem sim) 0x200
      in ASSERT_EQ stored 0x55 c)"

text \<open>Tests 8 and 9 look at nothing after their ticks either.\<close>

definition test_branch_taken_sim :: "CoreSim \<Rightarrow> CoreSim" where
  "test_branch_taken_sim sim =
     (let program = [ADDI 1 0 5, ADDI 2 0 5, NOP, NOP, BEQ 1 2 8, ADDI 3 0 99, ADDI 4 0 77,
                     NOP, NOP, NOP, NOP, NOP]
      in run 12 (reset 3 (sim_load_program 0x80000000 program sim)))"

definition test_branch_taken :: "CoreSim \<Rightarrow> counters \<Rightarrow> counters" where
  "test_branch_taken sim c = (let sim = test_branch_taken_sim sim in count_pass c)"

definition test_branch_not_taken_sim :: "CoreSim \<Rightarrow> CoreSim" where
  "test_branch_not_taken_sim sim =
     (let program = [ADDI 1 0 5, ADDI 2 0 10, NOP, NOP, BEQ 1 2 8, ADDI 3 0 99, ADDI 4 0 77,
                     NOP, NOP, NOP, NOP, NOP]
      in run 15 (reset 3 (sim_load_program 0x80000000 program sim)))"

definition test_branch_not_taken :: "CoreSim \<Rightarrow> counters \<Rightarrow> counters" where
  "test_branch_not_taken sim c = (let sim = test_branch_not_taken_sim sim in count_pass c)"

text \<open>Test 10 prints the doubleword stored at \<open>0x308\<close> and checks nothing.\<close>

definition test_pipeline_stress_sim :: "CoreSim \<Rightarrow> CoreSim" where
  "test_pipeline_stress_sim sim =
     (let sim = sim_write_data 0x300 0x1234567890ABCDEF sim;
          program = [ADDI 1 0 100, ADDI 2 0 200, ADDI 3 0 0x300, NOP, ADD 4 1 2, SUB 5 2 1, NOP,
                     LD 6 3 0, NOP, ADD 7 6 1, SD 4 3 8, NOP, BNE 1 2 8, ADDI 8 0 0xFF,
                     ADDI 9 0 0x42, NOP, NOP, NOP, NOP, NOP]
      in run 25 (reset 3 (sim_load_program 0x80000000 program sim)))"

definition test_pipeline_stress :: "CoreSim \<Rightarrow> counters \<Rightarrow> counters" where
  "test_pipeline_stress sim c =
     (let sim = test_pipeline_stress_sim sim; stored = read_data (mem sim) 0x308
      in count_pass c)"

definition test_branch_flush_timing :: "CoreSim \<Rightarrow> counters \<Rightarrow> counters" where
  "test_branch_flush_timing sim c =
     (let program = [ADDI 1 0 0, NOP, NOP, NOP, BEQ 1 0 12, ADDI 10 0 1, ADDI 11 0 2,
                     ADDI 12 0 3, NOP, NOP, NOP, NOP];
          sim = reset 3 (sim_load_program 0x80000000 program sim);
          sim = run 15 sim;
          c = ASSERT_EQ (dmem_read_en (top sim)) False c
      in ASSERT_EQ (dmem_write_en (top sim)) False c)"

definition test_reset_mid_execution :: "CoreSim \<Rightarrow> counters \<Rightarrow> counters" where
  "test_reset_mid_execution sim c =
     (let program = [ADDI 1 0 42, ADDI 2 0 100, ADD 3 1 2, NOP, NOP, NOP, NOP, NOP];
          sim = reset 3 (sim_load_program 0x80000000 program sim);
          sim = run 3 sim;
          sim = reset 3 sim;
          sim = tick sim;
          c = ASSERT_EQ (imem_addr (top sim)) 0x80000004 c;
          c = ASSERT_EQ (dmem_read_en (top sim)) False c
      in ASSERT_EQ (dmem_write_en (top sim)) False c)"

definition fibonacci_program :: "u32 list" where
  "fibonacci_program =
     [ADDI 5 0 10, LUI 6 0x10000, ADDI 7 0 0, ADDI 8 0 1, BEQ 5 0 32, SD 7 6 0, ADD 9 7 8,
      ADDI 7 8 0, ADDI 8 9 0, ADDI 6 6 8, ADDI 5 5 (- 1), JAL 0 (- 28), JAL 0 0]"

definition expected_fib :: "u64 list" where
  "expected_fib = [0, 1, 1, 2, 3, 5, 8, 13, 21, 34]"

definition test_fibonacci :: "CoreSim \<Rightarrow> counters \<Rightarrow> counters" where
  "test_fibonacci sim c =
     (let sim = reset 3 (sim_load_program 0x80000000 fibonacci_program sim);
          sim = run 200 sim
      in fold (\<lambda>i. ASSERT_EQ (read_data (mem sim) (0x10000000 + of_nat (i * 8)))
                     (expected_fib ! i)) [0..<10] c)"

subsection \<open>Trap and interrupt scenarios\<close>

definition run_mem_fault_pipeline_case :: "core_state \<Rightarrow> counters \<Rightarrow> counters" where
  "run_mem_fault_pipeline_case power_up c =
     (let sim = sim_install_trap_handlers (new_CoreSim power_up);
          load_addr = 0x0000000000001003; store_addr = 0x0000000000002005;
          log_base = 0x0000000000009000;
          sim = sim_write_data MACHINE_LOG_PTR_ADDR log_base sim;
          c = ASSERT_EQ (read_data (mem sim) MACHINE_LOG_PTR_ADDR) log_base c;
          program = emit_nops [] 8;
          program = emit_csrrw_imm64 program 1 (ucast CSR_MTVEC) MACHINE_TRAP_VECTOR;
          program = emit_nops program 8;
          program = emit_load_imm64 program 3 load_addr;
          program = program @ [LD 5 3 0];
          program = program @ [JAL 0 (- 4)];
          sim = run 80 (reset 3 (sim_load_program boot_pc program sim));
          c = ASSERT_EQ (read_data (mem sim) MACHINE_LOG_PTR_ADDR) (log_base + LOG_ENTRY_STRIDE) c;
          load_trap = fetch_trap_record (mem sim) log_base 0;
          c = ASSERT_EQ (rec_mcause load_trap) EXC_LOAD_FAULT c;
          c = ASSERT_EQ (rec_mtval load_trap) load_addr c
      in ASSERT_EQ (read_data (mem sim) (store_addr AND NOT 0x7)) 0 c)"

definition run_double_exception_flush_case :: "core_state \<Rightarrow> counters \<Rightarrow> counters" where
  "run_double_exception_flush_case power_up c =
     (let sim = sim_install_trap_handlers (new_CoreSim power_up);
          log_base = 0x0000000000009100;
          sim = sim_write_data MACHINE_LOG_PTR_ADDR log_base sim;
          program = emit_nops [] 8;
          program = emit_csrrw_imm64 program 1 (ucast CSR_MTVEC) MACHINE_TRAP_VECTOR;
          program = emit_nops program 8;
          program = program @ [ILLEGAL];
          program = program @ [NOP];
          program = program @ [JAL 0 (- 4)];
          sim = run 80 (reset 3 (sim_load_program boot_pc program sim));
          illegal_trap = fetch_trap_record (mem sim) log_base 0;
          c = ASSERT_EQ (rec_mcause illegal_trap) EXC_INST_ILLEGAL c
      in ASSERT_EQ (read_data (mem sim) MACHINE_LOG_PTR_ADDR) (log_base + LOG_ENTRY_STRIDE) c)"

definition run_mret_sret_redirect_case :: "core_state \<Rightarrow> counters \<Rightarrow> counters" where
  "run_mret_sret_redirect_case power_up c =
     (let sim = sim_install_trap_handlers (new_CoreSim power_up);
          m_log_base = 0x0000000000009200; post_store_addr = 0x0000000000009400;
          post_trap_addr = 0x0000000000009408;
          sim = sim_write_data MACHINE_LOG_PTR_ADDR m_log_base sim;
          boot = emit_nops [] 8;
          boot = emit_csrrw_imm64 boot 1 (ucast CSR_MTVEC) MACHINE_TRAP_VECTOR;
          boot = emit_nops boot 8;
          boot = emit_load_imm64 boot 11 post_store_addr;
          boot = emit_load_imm64 boot 12 0xCAFECAFE;
          boot = boot @ [SD 12 11 0];
          boot = boot @ [ECALL];
          boot = emit_load_imm64 boot 13 post_trap_addr;
          boot = emit_load_imm64 boot 14 0xBEEFBEEF;
          boot = boot @ [SD 14 13 0];
          boot = boot @ [JAL 0 0];
          sim = run 300 (reset 3 (sim_load_program boot_pc boot sim));
          m_trap = fetch_trap_record (mem sim) m_log_base 0;
          c = ASSERT_EQ (rec_mcause m_trap) EXC_ECALL_FROM_M c
      in ASSERT_EQ (read_data (mem sim) post_store_addr) 0xFFFFFFFFCAFECAFE c)"

definition run_branch_interrupt_priority_case :: "core_state \<Rightarrow> counters \<Rightarrow> counters" where
  "run_branch_interrupt_priority_case power_up c =
     (let sim = sim_install_trap_handlers (new_CoreSim power_up);
          log_base = 0x0000000000009600;
          sim = sim_write_data MACHINE_LOG_PTR_ADDR log_base sim;
          boot = emit_nops [] 8;
          boot = emit_csrrw_imm64 boot 1 (ucast CSR_MTVEC) MACHINE_TRAP_VECTOR;
          boot = emit_csrrw_imm64 boot 2 (ucast CSR_MSTATUS) (push_bit MSTATUS_MIE_BIT 1);
          boot = emit_csrrw_imm64 boot 3 (ucast CSR_MIE) (push_bit 11 1);
          boot = boot @ [JAL 0 0];
          sim = reset 3 (sim_load_program boot_pc boot sim);
          sim = run 10 sim;
          sim = set_interrupt_lines False False True sim;
          sim = run 40 sim;
          sim = clear_interrupts sim;
          sim = run 20 sim;
          interrupt_trap = fetch_trap_record (mem sim) log_base 0;
          c = ASSERT_EQ (rec_mcause interrupt_trap) (INTERRUPT_BIT OR INTERRUPT_M_EXTERNAL) c
      in ASSERT_EQ (rec_mtval interrupt_trap) 0 c)"

definition run_mie_masking_case :: "core_state \<Rightarrow> counters \<Rightarrow> counters" where
  "run_mie_masking_case power_up c =
     (let sim = sim_install_trap_handlers (new_CoreSim power_up);
          log_base = 0x0000000000009700;
          sim = sim_write_data MACHINE_LOG_PTR_ADDR log_base sim;
          sim = fold (\<lambda>i. sim_write_data (log_base + of_nat i * 8) 0) [0..<3] sim;
          program = emit_nops [] 8;
          program = emit_csrrw_imm64 program 1 (ucast CSR_MTVEC) MACHINE_TRAP_VECTOR;
          program = emit_csrrw_imm64 program 2 (ucast CSR_MIE) (push_bit 11 1);
          program = program @ [CSRRW 0 (ucast CSR_MSTATUS) 0];
          program = emit_nops program 8;
          program = emit_nops program 48;
          program = emit_csrrw_imm64 program 4 (ucast CSR_MSTATUS) (push_bit MSTATUS_MIE_BIT 1);
          program = program @ [JAL 0 0];
          sim = reset 3 (sim_load_program boot_pc program sim);
          sim = set_interrupt_lines False False True sim;
          sim = run 20 sim;
          c = ASSERT_EQ (read_data (mem sim) log_base) 0 c;
          sim = run 100 sim;
          interrupt_trap = fetch_trap_record (mem sim) log_base 0
      in ASSERT_EQ (rec_mcause interrupt_trap) (INTERRUPT_BIT OR INTERRUPT_M_EXTERNAL) c)"

subsection \<open>Dispatch and main\<close>

definition kCaseDispatchTable :: "(string \<times> (core_state \<Rightarrow> counters \<Rightarrow> counters)) list" where
  "kCaseDispatchTable =
     [(''mem_fault_pipeline'', run_mem_fault_pipeline_case),
      (''double_exception_flush'', run_double_exception_flush_case),
      (''mret_sret_redirect'', run_mret_sret_redirect_case),
      (''branch_interrupt_priority'', run_branch_interrupt_priority_case),
      (''mie_masking_response'', run_mie_masking_case)]"

text \<open>The scan of \<open>argv[1..]\<close> for \<open>--case NAME\<close>; the last one wins.\<close>

fun requested_case :: "string list \<Rightarrow> string \<Rightarrow> string" where
  "requested_case (a # b # args) acc =
     (if a = ''--case'' then requested_case args b else requested_case (b # args) acc)"
| "requested_case args acc = acc"

definition exit_status :: "counters \<Rightarrow> int" where
  "exit_status c = (if g_pass_count c = g_test_count c then 0 else 1)"

definition no_counts :: counters where
  "no_counts = \<lparr>g_test_count = 0, g_pass_count = 0\<rparr>"

text \<open>The thirteen blocks \<open>{ CoreSim sim; test_...(sim); }\<close>, then the five cases; the \<open>n\<close>-th
  simulator constructed has the power-up state \<open>pu n\<close>.\<close>

definition all_tests :: "((core_state \<Rightarrow> counters \<Rightarrow> counters)) list" where
  "all_tests =
     map (\<lambda>t pu. t (new_CoreSim pu))
       [test_reset, test_nop_flow, test_addi, test_forwarding_wb, test_forwarding_mem,
        test_load_use_stall, test_store, test_branch_taken, test_branch_not_taken,
        test_pipeline_stress, test_branch_flush_timing, test_reset_mid_execution, test_fibonacci]
     @ [run_mem_fault_pipeline_case, run_double_exception_flush_case,
        run_mret_sret_redirect_case, run_branch_interrupt_priority_case, run_mie_masking_case]"

fun run_all :: "((core_state \<Rightarrow> counters \<Rightarrow> counters)) list \<Rightarrow> core_state list \<Rightarrow>
                  counters \<Rightarrow> counters" where
  "run_all (t # ts) (pu # pus) c = run_all ts pus (t pu c)"
| "run_all _ _ c = c"

definition tb_core_main :: "(nat \<Rightarrow> core_state) \<Rightarrow> string list \<Rightarrow> int" where
  "tb_core_main pu args =
     (let requested = requested_case args [] in
      if requested \<noteq> [] then
        (case find (\<lambda>item. requested = fst item) kCaseDispatchTable of
           None \<Rightarrow> 2
         | Some entry \<Rightarrow> exit_status (snd entry (pu 0) no_counts))
      else exit_status (run_all all_tests (map pu [0..<18]) no_counts))"

section \<open>Lemmas\<close>

subsection \<open>The Fibonacci program\<close>

abbreviation (input) fib_code :: "u64 \<rightharpoonup> u32" where
  "fib_code \<equiv> load_words 0x80000000 fibonacci_program Map.empty"

lemma fib_fetch:
  assumes "imem m = fib_code"
  shows "read_instr m 0x80000000 = ADDI 5 0 10" "read_instr m 0x80000004 = LUI 6 0x10000"
    "read_instr m 0x80000008 = ADDI 7 0 0" "read_instr m 0x8000000C = ADDI 8 0 1"
    "read_instr m 0x80000010 = BEQ 5 0 32" "read_instr m 0x80000014 = SD 7 6 0"
    "read_instr m 0x80000018 = ADD 9 7 8" "read_instr m 0x8000001C = ADDI 7 8 0"
    "read_instr m 0x80000020 = ADDI 8 9 0" "read_instr m 0x80000024 = ADDI 6 6 8"
    "read_instr m 0x80000028 = ADDI 5 5 (- 1)" "read_instr m 0x8000002C = JAL 0 (- 28)"
    "read_instr m 0x80000030 = JAL 0 0"
  by (simp_all add: read_instr_def assms fibonacci_program_def)

text \<open>The state at the head of the loop: counter, address, the next two numbers, the memory.\<close>

definition fib_head :: "u64 \<Rightarrow> u64 \<Rightarrow> u64 \<Rightarrow> u64 \<Rightarrow> (u64 \<rightharpoonup> u64) \<Rightarrow> MemoryModel arch_state \<Rightarrow> bool" where
  "fib_head k addr f g d a \<longleftrightarrow>
     arch_pc a = 0x80000010 \<and> arch_mem a = \<lparr>imem = fib_code, dmem = d\<rparr> \<and>
     reg a 5 = k \<and> reg a 6 = addr \<and> reg a 7 = f \<and> reg a 8 = g"

lemma sext_small [simp]:
  "sext12 0 = 0" "sext12 1 = 1" "sext12 8 = 8" "sext12 10 = 10" "sext13 32 = 32" "sext21 0 = 0"
  by (simp_all add: sext12_def sext13_def sext21_def)

lemma sext_negative [simp]: "sext12 (- 1) = - 1" "sext21 (- 28) = - 28"
  unfolding sext12_def sext21_def by (transfer; simp add: mask_eq_exp_minus_1)+

lemma align_offset_add_8: "align_offset (addr + 8) = align_offset addr"
proof -
  have "(field 0 (addr + 8) :: 3 word) = field 0 addr"
    by (simp add: field_def ucast_down_add)
  then show ?thesis by (simp add: align_offset_def)
qed

lemma seq_run_numeral:
  "seq_run (numeral k) a c =
     (if seq_plain a then seq_run (pred_numeral k) (seq_step a) (c + seq_cycles a) else None)"
  by (simp add: numeral_eq_Suc)

lemma fib_prologue:
  "\<exists>b. seq_run 4 (boot_state \<lparr>imem = fib_code, dmem = d\<rparr>) c = Some (b, c + 4) \<and>
       fib_head 10 0x10000000 0 1 d b"
proof -
  let ?m = "\<lparr>imem = fib_code, dmem = d\<rparr>"
  let ?a0 = "boot_state ?m"
  let ?a1 = "write_rd 5 10 0x80000004 ?a0"
  let ?a2 = "write_rd 6 0x10000000 0x80000008 ?a1"
  let ?a3 = "write_rd 7 0 0x8000000C ?a2"
  let ?a4 = "write_rd 8 1 0x80000010 ?a3"
  have m: "imem ?m = fib_code" by simp
  have b: "arch_mem ?a0 = ?m" "arch_pc ?a0 = 0x80000000"
    by (simp_all add: boot_state_def reset_vector_def)
  note [simp] = fib_fetch [OF m] b
  have s0: "seq_step ?a0 = ?a1 \<and> seq_plain ?a0 \<and> seq_cycles ?a0 = 1"
    using seq_ADDI [of ?a0 5 0 10] by (simp add: next_instr_def)
  have s1: "seq_step ?a1 = ?a2 \<and> seq_plain ?a1 \<and> seq_cycles ?a1 = 1"
    using seq_LUI [of ?a1 6 "0x10000"] by (simp add: next_instr_def)
  have s2: "seq_step ?a2 = ?a3 \<and> seq_plain ?a2 \<and> seq_cycles ?a2 = 1"
    using seq_ADDI [of ?a2 7 0 0] by (simp add: next_instr_def)
  have s3: "seq_step ?a3 = ?a4 \<and> seq_plain ?a3 \<and> seq_cycles ?a3 = 1"
    using seq_ADDI [of ?a3 8 0 1] by (simp add: next_instr_def)
  have "seq_run 4 ?a0 c = Some (?a4, c + 4)"
    by (simp add: seq_run_numeral s0 s1 s2 s3)
  moreover have "fib_head 10 0x10000000 0 1 d ?a4" by (simp add: fib_head_def)
  ultimately show ?thesis by blast
qed

text \<open>One turn of the loop: eight instructions, ten cycles, one number stored.\<close>

lemma fib_turn:
  assumes h: "fib_head k addr f g d a" and k: "k \<noteq> 0" and al: "align_offset addr = 0"
  shows "\<exists>b. seq_run 8 a c = Some (b, c + 10) \<and>
           fib_head (k - 1) (addr + 8) g (f + g) (d(addr \<mapsto> f)) b"
proof -
  have m: "arch_mem a = \<lparr>imem = fib_code, dmem = d\<rparr>" and pc: "arch_pc a = 0x80000010"
    and r: "reg a 5 = k" "reg a 6 = addr" "reg a 7 = f" "reg a 8 = g"
    using h by (simp_all add: fib_head_def)
  let ?m' = "write_data addr f (arch_mem a)"
  let ?a1 = "a\<lparr>arch_pc := 0x80000014\<rparr>"
  let ?a2 = "a\<lparr>arch_pc := 0x80000018, arch_mem := ?m'\<rparr>"
  let ?a3 = "write_rd 9 (f + g) 0x8000001C ?a2"
  let ?a4 = "write_rd 7 g 0x80000020 ?a3"
  let ?a5 = "write_rd 8 (f + g) 0x80000024 ?a4"
  let ?a6 = "write_rd 6 (addr + 8) 0x80000028 ?a5"
  let ?a7 = "write_rd 5 (k - 1) 0x8000002C ?a6"
  let ?a8 = "?a7\<lparr>arch_pc := 0x80000010\<rparr>"
  have im: "imem (arch_mem a) = fib_code" using m by simp
  note [simp] = fib_fetch [OF im] r pc
  have s0: "seq_step a = ?a1 \<and> seq_plain a \<and> seq_cycles a = 1"
    using seq_BEQ [of a 5 0 32] k by (simp add: next_instr_def)
  have s1: "seq_step ?a1 = ?a2 \<and> seq_plain ?a1 \<and> seq_cycles ?a1 = 1"
    using seq_SD [of ?a1 7 6 0] al by (simp add: next_instr_def)
  have s2: "seq_step ?a2 = ?a3 \<and> seq_plain ?a2 \<and> seq_cycles ?a2 = 1"
    using seq_ADD_SUB(1) [of ?a2 9 7 8] by (simp add: next_instr_def)
  have s3: "seq_step ?a3 = ?a4 \<and> seq_plain ?a3 \<and> seq_cycles ?a3 = 1"
    using seq_ADDI [of ?a3 7 8 0] by (simp add: next_instr_def)
  have s4: "seq_step ?a4 = ?a5 \<and> seq_plain ?a4 \<and> seq_cycles ?a4 = 1"
    using seq_ADDI [of ?a4 8 9 0] by (simp add: next_instr_def)
  have s5: "seq_step ?a5 = ?a6 \<and> seq_plain ?a5 \<and> seq_cycles ?a5 = 1"
    using seq_ADDI [of ?a5 6 6 8] by (simp add: next_instr_def)
  have s6: "seq_step ?a6 = ?a7 \<and> seq_plain ?a6 \<and> seq_cycles ?a6 = 1"
    using seq_ADDI [of ?a6 5 5 "- 1"] by (simp add: next_instr_def)
  have s7: "seq_step ?a7 = ?a8 \<and> seq_plain ?a7 \<and> seq_cycles ?a7 = 3"
    using seq_JAL [of ?a7 0 "- 28"] by (simp add: next_instr_def write_rd_zero)
  have "seq_run 8 a c = Some (?a8, c + 10)"
    by (simp add: seq_run_numeral s0 s1 s2 s3 s4 s5 s6 s7)
  moreover have "addr AND NOT 7 = addr"
    using al align_split [of addr] by simp
  then have "fib_head (k - 1) (addr + 8) g (f + g) (d(addr \<mapsto> f)) ?a8"
    by (simp add: fib_head_def write_data_def m Let_def)
  ultimately show ?thesis by blast
qed

text \<open>What the loop stores, and where.\<close>

primrec fib_stores :: "nat \<Rightarrow> u64 \<Rightarrow> u64 \<Rightarrow> u64 \<Rightarrow> (u64 \<rightharpoonup> u64) \<Rightarrow> (u64 \<rightharpoonup> u64)" where
  "fib_stores 0 addr f g d = d"
| "fib_stores (Suc n) addr f g d = fib_stores n (addr + 8) g (f + g) (d(addr \<mapsto> f))"

lemma fib_loop:
  assumes "fib_head (of_nat n) addr f g d a" "n < 2 ^ 64" "align_offset addr = 0"
  shows "\<exists>b addr' f' g'. seq_run (8 * n) a c = Some (b, c + 10 * n) \<and>
           fib_head 0 addr' f' g' (fib_stores n addr f g d) b"
  using assms
proof (induction n arbitrary: addr f g d a c)
  case 0
  then show ?case by auto
next
  case (Suc n)
  have ne: "(of_nat (Suc n) :: u64) \<noteq> 0"
    using Suc.prems(2) of_nat_lane_inj [of "Suc n" 0 0] by simp
  obtain b where b: "seq_run 8 a c = Some (b, c + 10)"
    "fib_head (of_nat (Suc n) - 1) (addr + 8) g (f + g) (d(addr \<mapsto> f)) b"
    using fib_turn [OF Suc.prems(1) ne Suc.prems(3)] by blast
  have h: "fib_head (of_nat n) (addr + 8) g (f + g) (d(addr \<mapsto> f)) b" using b(2) by simp
  have "\<exists>e addr' f' g'. seq_run (8 * n) b (c + 10) = Some (e, c + 10 + 10 * n) \<and>
      fib_head 0 addr' f' g' (fib_stores n (addr + 8) g (f + g) (d(addr \<mapsto> f))) e"
    using Suc.prems by (intro Suc.IH [OF h]) (simp_all add: align_offset_add_8)
  moreover have "seq_run (8 * Suc n) a c = seq_run (8 * n) b (c + 10)"
    using seq_run_add [of 8 "8 * n" a c] by (simp add: b(1))
  ultimately show ?case by (simp add: add.assoc)
qed

text \<open>From the end of the loop the program jumps to itself forever.\<close>

lemma fib_end:
  assumes h: "fib_head 0 addr f g d a"
  shows "\<exists>b. seq_run 1 a c = Some (b, c + 3) \<and> seq_plain b \<and> seq_step b = b \<and>
           arch_mem b = \<lparr>imem = fib_code, dmem = d\<rparr>"
proof -
  have m: "arch_mem a = \<lparr>imem = fib_code, dmem = d\<rparr>" and pc: "arch_pc a = 0x80000010"
    and r: "reg a 5 = 0" using h by (simp_all add: fib_head_def)
  let ?b = "a\<lparr>arch_pc := 0x80000030\<rparr>"
  have im: "imem (arch_mem a) = fib_code" using m by simp
  note [simp] = fib_fetch [OF im] r pc
  have s0: "seq_step a = ?b \<and> seq_plain a \<and> seq_cycles a = 3"
    using seq_BEQ [of a 5 0 32] by (simp add: next_instr_def)
  have s1: "seq_step ?b = ?b \<and> seq_plain ?b"
    using seq_JAL [of ?b 0 0] by (simp add: next_instr_def write_rd_zero)
  have "seq_run 1 a c = Some (?b, c + 3)" by (simp add: s0)
  then show ?thesis using s1 m by (intro exI [of _ ?b]) simp
qed

text \<open>
  The whole program: 85 instructions, at most 107 cycles, and then the memory holds what the loop
  stored.
\<close>

lemma fib_run:
  "\<exists>b. seq_run 85 (boot_state \<lparr>imem = fib_code, dmem = d\<rparr>) 0 = Some (b, 107) \<and>
       seq_plain b \<and> seq_step b = b \<and>
       arch_mem b = \<lparr>imem = fib_code, dmem = fib_stores 10 0x10000000 0 1 d\<rparr>"
proof -
  let ?a = "boot_state \<lparr>imem = fib_code, dmem = d\<rparr>"
  obtain b1 where b1: "seq_run 4 ?a 0 = Some (b1, 4)" "fib_head 10 0x10000000 0 1 d b1"
    using fib_prologue [of d 0] by auto
  have "align_offset 0x10000000 = 0" by (simp add: align_offset_mod)
  then obtain b2 addr f g where b2: "seq_run 80 b1 4 = Some (b2, 104)"
    "fib_head 0 addr f g (fib_stores 10 0x10000000 0 1 d) b2"
    using fib_loop [of 10 "0x10000000" 0 1 d b1 4] b1(2) by auto
  obtain b3 where b3: "seq_run 1 b2 104 = Some (b3, 107)" "seq_plain b3 \<and> seq_step b3 = b3 \<and>
      arch_mem b3 = \<lparr>imem = fib_code, dmem = fib_stores 10 0x10000000 0 1 d\<rparr>"
    using fib_end [OF b2(2), of 104] by auto
  have "seq_run (4 + (80 + 1)) ?a 0 = Some (b3, 107)"
    by (simp only: seq_run_add b1(1) b2(1) b3(1) bind.bind_lunit prod.case)
  then show ?thesis using b3(2) by auto
qed

lemma fib_stores_numeral:
  "fib_stores (numeral k) addr f g d = fib_stores (pred_numeral k) (addr + 8) g (f + g) (d(addr \<mapsto> f))"
  by (simp add: numeral_eq_Suc)

lemma fib_stores_10:
  "fib_stores 10 0x10000000 0 1 Map.empty =
     [0x10000000 \<mapsto> 0, 0x10000008 \<mapsto> 1, 0x10000010 \<mapsto> 1, 0x10000018 \<mapsto> 2, 0x10000020 \<mapsto> 3,
      0x10000028 \<mapsto> 5, 0x10000030 \<mapsto> 8, 0x10000038 \<mapsto> 13, 0x10000040 \<mapsto> 21, 0x10000048 \<mapsto> 34]"
  by (simp add: fib_stores_numeral)

subsection \<open>Power-up\<close>

text \<open>The reset of a test discards the power-up state; everything before it is memory set-up.\<close>

lemma reset_new_CoreSim:
  "reset 3 (new_CoreSim pu) = reset 3 (new_CoreSim pu')"
  "reset 3 (sim_load_program a p sim) = sim_load_program a p (reset 3 sim)"
  "reset 3 (sim_write_data b d sim) = sim_write_data b d (reset 3 sim)"
  "reset 3 (sim_install_trap_handlers sim) = sim_install_trap_handlers (reset 3 sim)"
  by (simp_all add: reset_eq new_CoreSim_def clear_interrupts_def set_interrupt_lines_def
      sim_load_program_def sim_write_data_def sim_install_trap_handlers_def)

lemma setup_mem:
  "mem (sim_load_program a p sim) = load_program a p (mem sim)"
  "mem (sim_write_data b d sim) = write_data b d (mem sim)"
  "mem (sim_install_trap_handlers sim) = install_trap_handlers (mem sim)"
  "mem (new_CoreSim pu) = empty_memory"
  by (simp_all add: sim_load_program_def sim_write_data_def sim_install_trap_handlers_def
      new_CoreSim_def)

lemma fold_write_data:
  "reset 3 (fold (\<lambda>i. sim_write_data (f i) 0) is sim) =
     fold (\<lambda>i. sim_write_data (f i) 0) is (reset 3 sim)"
  by (induction "is" arbitrary: sim) (simp_all add: reset_new_CoreSim)

lemmas power_up_simps = reset_new_CoreSim(2-4) setup_mem fold_write_data

lemma case_power_up:
  "run_mem_fault_pipeline_case pu c = run_mem_fault_pipeline_case pu' c"
  "run_double_exception_flush_case pu c = run_double_exception_flush_case pu' c"
  "run_mret_sret_redirect_case pu c = run_mret_sret_redirect_case pu' c"
  "run_branch_interrupt_priority_case pu c = run_branch_interrupt_priority_case pu' c"
  "run_mie_masking_case pu c = run_mie_masking_case pu' c"
  unfolding run_mem_fault_pipeline_case_def run_double_exception_flush_case_def
    run_mret_sret_redirect_case_def run_branch_interrupt_priority_case_def run_mie_masking_case_def
    Let_def power_up_simps reset_new_CoreSim(1) [of pu pu'] by (rule refl)+

lemma test_power_up:
  "test_reset (new_CoreSim pu) c = test_reset (new_CoreSim pu') c"
  "test_nop_flow (new_CoreSim pu) c = test_nop_flow (new_CoreSim pu') c"
  "test_addi (new_CoreSim pu) c = test_addi (new_CoreSim pu') c"
  "test_forwarding_wb (new_CoreSim pu) c = test_forwarding_wb (new_CoreSim pu') c"
  "test_forwarding_mem (new_CoreSim pu) c = test_forwarding_mem (new_CoreSim pu') c"
  "test_load_use_stall (new_CoreSim pu) c = test_load_use_stall (new_CoreSim pu') c"
  "test_store (new_CoreSim pu) c = test_store (new_CoreSim pu') c"
  "test_branch_taken (new_CoreSim pu) c = test_branch_taken (new_CoreSim pu') c"
  "test_branch_not_taken (new_CoreSim pu) c = test_branch_not_taken (new_CoreSim pu') c"
  "test_pipeline_stress (new_CoreSim pu) c = test_pipeline_stress (new_CoreSim pu') c"
  "test_branch_flush_timing (new_CoreSim pu) c = test_branch_flush_timing (new_CoreSim pu') c"
  "test_reset_mid_execution (new_CoreSim pu) c = test_reset_mid_execution (new_CoreSim pu') c"
  "test_fibonacci (new_CoreSim pu) c = test_fibonacci (new_CoreSim pu') c"
  unfolding test_reset_def test_nop_flow_def test_addi_def test_forwarding_wb_def
    test_forwarding_mem_def test_load_use_stall_def test_store_def test_branch_taken_def
    test_branch_not_taken_def test_pipeline_stress_def test_branch_flush_timing_def
    test_reset_mid_execution_def test_fibonacci_def
    Let_def power_up_simps reset_new_CoreSim(1) [of pu pu'] by (rule refl)+

lemma all_tests_power_up: "t \<in> set all_tests \<Longrightarrow> t pu c = t pu' c"
  unfolding all_tests_def using case_power_up [of pu c pu'] test_power_up [of pu c pu'] by auto

lemma run_all_power_up:
  assumes "\<And>t pu pu' c. t \<in> set ts \<Longrightarrow> t pu c = t pu' c" "length pus = length pus'"
  shows "run_all ts pus c = run_all ts pus' c"
  using assms
proof (induction ts arbitrary: pus pus' c)
  case (Cons t ts)
  show ?case
  proof (cases pus)
    case p: (Cons pu pus1)
    then obtain pu' pus2 where p': "pus' = pu' # pus2" using Cons.prems(2) by (cases pus') auto
    have e: "t pu c = t pu' c" using Cons.prems(1) by simp
    have "run_all ts pus1 (t pu c) = run_all ts pus2 (t pu c)"
      using Cons.prems p p' by (intro Cons.IH) simp_all
    then show ?thesis using e p p' by simp
  qed (use Cons.prems(2) in simp)
qed simp

section \<open>Properties\<close>

text \<open>
  C4: test 13 passes on the modelled core, whatever its registers hold at power-up: after reset
  and 200 ticks the memory holds the first ten Fibonacci numbers, so all ten assertions count as
  passed.
\<close>

theorem test_fibonacci_passes:
  "test_fibonacci (new_CoreSim power_up) c =
     \<lparr>g_test_count = g_test_count c + 10, g_pass_count = g_pass_count c + 10\<rparr>"
proof -
  let ?sim = "sim_load_program 0x80000000 fibonacci_program (new_CoreSim power_up)"
  let ?r = "run 200 (reset 3 ?sim)"
  have m: "mem ?sim = \<lparr>imem = fib_code, dmem = Map.empty\<rparr>"
    by (simp add: sim_load_program_def new_CoreSim_def load_program_def empty_memory_def)
  obtain b where b: "seq_run 85 (boot_state (mem ?sim)) 0 = Some (b, 107)" "seq_plain b"
    "seq_step b = b" "dmem (arch_mem b) = fib_stores 10 0x10000000 0 1 Map.empty"
    using fib_run [of Map.empty] m by auto
  have "pipe_rel ?r b" using b by (intro boot_run_halts [where c = 107]) simp_all
  then have d: "dmem (mem ?r) = fib_stores 10 0x10000000 0 1 Map.empty"
    using b(4) by (simp add: pipe_rel_def)
  have up: "[0..<10] = [0, 1, 2, 3, 4, 5, 6, 7, 8, 9 :: nat]" by (simp add: upt_rec)
  show ?thesis
    by (simp add: test_fibonacci_def Let_def up ASSERT_EQ_def read_data_def d fib_stores_10
        expected_fib_def)
qed

text \<open>
  the outcome of the bench does not depend on what the registers of its simulators hold at
  power-up, whichever tests the command line selects: every test resets before it looks.
\<close>

theorem tb_core_power_up_irrelevant: "tb_core_main pu args = tb_core_main pu' args"
proof -
  have "run_all all_tests (map pu [0..<18]) no_counts =
        run_all all_tests (map pu' [0..<18]) no_counts"
    by (intro run_all_power_up) (simp_all add: all_tests_power_up)
  moreover have "snd entry (pu 0) no_counts = snd entry (pu' 0) no_counts"
    if "entry \<in> set kCaseDispatchTable" for entry
    using that by (auto simp: kCaseDispatchTable_def intro!: case_power_up)
  moreover have "entry \<in> set kCaseDispatchTable"
    if "find P kCaseDispatchTable = Some entry" for P entry
    using that by (auto simp: find_Some_iff)
  ultimately show ?thesis
    by (simp add: tb_core_main_def Let_def split: option.split)
qed

text \<open>
  \<open>--case\<close> with a name that is not in the dispatch table is refused with exit status 2, before
  any simulator is built.
\<close>

theorem tb_core_unknown_case:
  assumes "name \<noteq> []" "name \<notin> fst ` set kCaseDispatchTable"
  shows "tb_core_main pu [''--case'', name] = 2"
proof -
  have "find (\<lambda>item. name = fst item) kCaseDispatchTable = None"
    using assms(2) by (force simp: find_None_iff)
  then show ?thesis using assms(1) by (simp add: tb_core_main_def Let_def)
qed

theorem tb_core_unknown_case_witness:
  "tb_core_main (\<lambda>_. core_reset_state) [''--case'', ''typo''] = 2"
  by (rule tb_core_unknown_case) (simp_all add: kCaseDispatchTable_def)

end
