(* ===== verification/Byte_Memory.thy ===== *)
theory Byte_Memory
  imports Mem_Stage
begin

text \<open>
  The byte-addressed memory of the compliance runner, class \<open>ByteMemory\<close> of
  \<^verbatim>\<open>src/tb/compliance/compliance_runner.cc\<close>, and its agreement with the byte lanes of
  the core's memory stage: what the core stores it loads back, and a store touches exactly the
  lanes its write strobe names.

  A shift by 64 or more is undefined in C++; \<open>write_store\<close> is \<open>None\<close> when it would make one.
\<close>

section \<open>Definitions\<close>

type_synonym byte_mem = "u64 \<rightharpoonup> u8"

definition write_byte :: "u64 \<Rightarrow> u8 \<Rightarrow> byte_mem \<Rightarrow> byte_mem" where
  "write_byte addr value m = m(addr \<mapsto> value)"

definition read_byte :: "byte_mem \<Rightarrow> u64 \<Rightarrow> u8" where
  "read_byte m addr = (case m addr of None \<Rightarrow> 0 | Some b \<Rightarrow> b)"

text \<open>The loops \<open>for (i = 0; i < n; ++i) value |= read_byte(addr + i) << (8 * i)\<close>.\<close>

primrec or_bytes :: "nat \<Rightarrow> (nat \<Rightarrow> u8) \<Rightarrow> 'a::len word" where
  "or_bytes 0 f = 0"
| "or_bytes (Suc n) f = or_bytes n f OR push_bit (8 * n) (ucast (f n))"

definition read_u32 :: "byte_mem \<Rightarrow> u64 \<Rightarrow> u32" where
  "read_u32 m addr = or_bytes 4 (\<lambda>i. read_byte m (addr + of_nat i))"

definition read_u64 :: "byte_mem \<Rightarrow> u64 \<Rightarrow> u64" where
  "read_u64 m addr = or_bytes 8 (\<lambda>i. read_byte m (addr + of_nat i))"

text \<open>The \<open>switch\<close> on the size code.\<close>

definition store_bytes :: "u8 \<Rightarrow> nat" where
  "store_bytes size_code =
     (if size_code = 0b000 \<or> size_code = 0b100 then 1
      else if size_code = 0b001 \<or> size_code = 0b101 then 2
      else if size_code = 0b010 \<or> size_code = 0b110 then 4
      else 8)"

text \<open>One pass of the loop: lane \<open>offset + i\<close> of the doubleword at \<open>aligned\<close>.\<close>

definition store_lane :: "u64 \<Rightarrow> u64 \<Rightarrow> nat \<Rightarrow> byte_mem \<Rightarrow> byte_mem option" where
  "store_lane aligned wdata lane m =
     (if lane * 8 < 64
      then Some (write_byte (aligned + of_nat lane) (ucast (drop_bit (lane * 8) wdata AND 0xFF)) m)
      else None)"

primrec store_lanes :: "nat \<Rightarrow> u64 \<Rightarrow> u64 \<Rightarrow> nat \<Rightarrow> byte_mem \<Rightarrow> byte_mem option" where
  "store_lanes 0 aligned wdata lane m = Some m"
| "store_lanes (Suc n) aligned wdata lane m =
     (case store_lane aligned wdata lane m of
        None \<Rightarrow> None
      | Some m' \<Rightarrow> store_lanes n aligned wdata (Suc lane) m')"

definition write_store :: "u64 \<Rightarrow> u64 \<Rightarrow> u8 \<Rightarrow> byte_mem \<Rightarrow> byte_mem option" where
  "write_store addr wdata size_code m =
     (let offset = addr AND 0x7; aligned = addr AND NOT 0x7
      in store_lanes (store_bytes size_code) aligned wdata (unat offset) m)"

section \<open>Lemmas\<close>

lemmas byte_memory_defs = write_byte_def read_byte_def read_u32_def read_u64_def store_bytes_def
  store_lane_def write_store_def

subsection \<open>Reading\<close>

lemma read_write_byte: "read_byte (write_byte a v m) b = (if b = a then v else read_byte m b)"
  by (simp add: read_byte_def write_byte_def)

lemma bit_or_bytes:
  "bit (or_bytes n f :: 'a::len word) k \<longleftrightarrow>
     k < LENGTH('a) \<and> k < 8 * n \<and> bit (f (k div 8)) (k mod 8)"
proof (induction n)
  case 0
  then show ?case by simp
next
  case (Suc n)
  have "bit (push_bit (8 * n) (ucast (f n) :: 'a word)) k \<longleftrightarrow>
          k < LENGTH('a) \<and> 8 * n \<le> k \<and> k < 8 * Suc n \<and> bit (f n) (k - 8 * n)"
    by (auto simp: bit_simps dest: bit_imp_le_length)
  moreover have "k div 8 = n \<and> k mod 8 = k - 8 * n" if "8 * n \<le> k" "k < 8 * Suc n"
    using that by (simp add: div_nat_eqI modulo_nat_def mult.commute)
  ultimately show ?case
    using Suc.IH by (auto simp: bit_or_iff)
qed

lemma bit_read_u64:
  "bit (read_u64 m addr) k \<longleftrightarrow>
     k < 64 \<and> bit (read_byte m (addr + of_nat (k div 8))) (k mod 8)"
  by (simp add: read_u64_def bit_or_bytes)

lemma bit_read_u32:
  "bit (read_u32 m addr) k \<longleftrightarrow>
     k < 32 \<and> bit (read_byte m (addr + of_nat (k div 8))) (k mod 8)"
  by (simp add: read_u32_def bit_or_bytes)

subsection \<open>Writing\<close>

lemma lane_byte: "(ucast (drop_bit k w AND 0xFF :: u64) :: u8) = field k w"
  unfolding and_mask_u64 by (rule bit_word_eqI) (auto simp: bit_simps)

text \<open>Consecutive byte writes, the common shape of the loops of the runner.\<close>

primrec write_range :: "u64 \<Rightarrow> (nat \<Rightarrow> u8) \<Rightarrow> nat \<Rightarrow> nat \<Rightarrow> byte_mem \<Rightarrow> byte_mem" where
  "write_range base g j 0 m = m"
| "write_range base g j (Suc n) m =
     write_range base g (Suc j) n (write_byte (base + of_nat j) (g j) m)"

lemma read_write_range_out:
  assumes "\<forall>i. j \<le> i \<and> i < j + n \<longrightarrow> x \<noteq> base + of_nat i"
  shows "read_byte (write_range base g j n m) x = read_byte m x"
  using assms
proof (induction n arbitrary: j m)
  case (Suc n)
  from Suc.prems have "x \<noteq> base + of_nat j" by simp
  with Suc show ?case by (simp add: read_write_byte)
qed simp

lemma read_write_range_in:
  assumes "j \<le> i" "i < j + n" "j + n \<le> 2 ^ 64"
  shows "read_byte (write_range base g j n m) (base + of_nat i) = g i"
  using assms
proof (induction n arbitrary: j m)
  case (Suc n)
  show ?case
  proof (cases "i = j")
    case True
    have "base + of_nat i \<noteq> base + of_nat k" if "Suc j \<le> k" "k < Suc j + n" for k
      using that Suc.prems True of_nat_lane_inj [of i k base] by simp
    then have "read_byte (write_range base g (Suc j) n (write_byte (base + of_nat j) (g j) m))
                 (base + of_nat i) = g j"
      using True by (subst read_write_range_out) (auto simp: read_write_byte)
    then show ?thesis using True by simp
  next
    case False
    then show ?thesis using Suc.prems by (simp add: Suc.IH)
  qed
qed simp

lemma store_lanes_range:
  assumes "l + n \<le> 8"
  shows "store_lanes n a w l m = Some (write_range a (\<lambda>i. field (8 * i) w) l n m)"
  using assms
  by (induction n arbitrary: l m) (simp_all add: store_lane_def lane_byte mult.commute)

text \<open>
  A store that does not cross its doubleword is defined, and afterwards a lane of the doubleword
  holds the byte of \<open>wdata\<close> at that lane exactly when it lies in the accessed range.
\<close>

definition in_access :: "u64 \<Rightarrow> u8 \<Rightarrow> nat \<Rightarrow> bool" where
  "in_access addr size_code lane \<longleftrightarrow>
     align_offset addr \<le> lane \<and> lane < align_offset addr + store_bytes size_code"

lemma write_store_lanes:
  assumes "align_offset addr + store_bytes size_code \<le> 8"
  obtains m' where "write_store addr wdata size_code m = Some m'"
    and "\<And>lane. lane < 8 \<Longrightarrow>
           read_byte m' ((addr AND NOT 0x7) + of_nat lane) =
             (if in_access addr size_code lane then field (8 * lane) wdata
              else read_byte m ((addr AND NOT 0x7) + of_nat lane))"
    and "\<And>x. \<forall>lane<8. x \<noteq> (addr AND NOT 0x7) + of_nat lane \<Longrightarrow> read_byte m' x = read_byte m x"
proof -
  let ?a = "addr AND NOT 0x7" and ?l = "align_offset addr" and ?n = "store_bytes size_code"
  let ?m = "write_range ?a (\<lambda>i. field (8 * i) wdata) ?l ?n m"
  have ws: "write_store addr wdata size_code m = Some ?m"
    using assms unfolding write_store_def Let_def align_offset_and by (rule store_lanes_range)
  have in_lane: "read_byte ?m (?a + of_nat lane) =
      (if in_access addr size_code lane then field (8 * lane) wdata
       else read_byte m (?a + of_nat lane))" if "lane < 8" for lane
  proof (cases "in_access addr size_code lane")
    case True
    then show ?thesis
      using assms by (simp add: in_access_def read_write_range_in)
  next
    case False
    have "?a + of_nat lane \<noteq> ?a + of_nat i" if "?l \<le> i" "i < ?l + ?n" for i
      using that \<open>lane < 8\<close> False assms of_nat_lane_inj [of lane i ?a]
      by (auto simp: in_access_def)
    then show ?thesis
      using False by (simp add: read_write_range_out)
  qed
  have out: "read_byte ?m x = read_byte m x" if "\<forall>lane<8. x \<noteq> ?a + of_nat lane" for x
  proof (rule read_write_range_out, intro allI impI)
    fix i assume "?l \<le> i \<and> i < ?l + ?n"
    then have "i < 8" using assms by linarith
    then show "x \<noteq> ?a + of_nat i" using that by blast
  qed
  show ?thesis by (rule that [OF ws in_lane out])
qed

subsection \<open>Agreement with the core's byte lanes\<close>

text \<open>What the ISA says a load of each size makes of the accessed bytes.\<close>

definition extend_access :: "3 word \<Rightarrow> u64 \<Rightarrow> u64" where
  "extend_access sz v =
     (if sz = 0b000 then scast (ucast v :: u8)
      else if sz = 0b001 then scast (ucast v :: u16)
      else if sz = 0b010 then scast (ucast v :: u32)
      else if sz = 0b011 then v
      else if sz = 0b100 then ucast (ucast v :: u8)
      else if sz = 0b101 then ucast (ucast v :: u16)
      else ucast (ucast v :: u32))"

lemma store_bytes_access: "store_bytes (ucast sz) = access_bytes sz"
  using word3_cases [of sz] by (elim disjE) (simp_all add: store_bytes_def access_bytes_def)

lemma access_bytes_le: "access_bytes sz \<le> 8"
  by (simp add: access_bytes_def)

lemma access_in_dword:
  assumes "\<not> addr_misaligned sz addr" "sz \<noteq> 0b111"
  shows "align_offset addr + access_bytes sz \<le> 8"
proof -
  have "unat addr mod access_bytes sz = 0"
    using assms addr_misaligned_iff [of sz addr] by simp
  moreover have "access_bytes sz \<in> {1, 2, 4, 8}" by (simp add: access_bytes_def)
  ultimately show ?thesis
    unfolding align_offset_mod by (elim insertE emptyE; simp only: ; presburger)
qed

text \<open>The bits of the store data the memory stage puts on the write bus.\<close>

lemma bit_store_data:
  assumes "sz \<in> {0b000, 0b001, 0b010, 0b011}" "\<not> addr_misaligned sz addr"
    and "k < 8 * access_bytes sz"
  shows "bit (store_data_aligned sz addr v) (8 * align_offset addr + k) \<longleftrightarrow> bit v k"
proof -
  have le: "align_offset addr + access_bytes sz \<le> 8"
    using assms(1) by (intro access_in_dword assms(2)) auto
  show ?thesis
    using assms(1,3) le
    by (auto simp: store_data_aligned_def access_bytes_def bit_simps mult.commute)
qed

lemma load_data_extend:
  assumes "\<And>k. k < 8 * access_bytes sz \<Longrightarrow> bit d (8 * align_offset addr + k) \<longleftrightarrow> bit v k"
    and "align_offset addr + access_bytes sz \<le> 8" "sz \<noteq> 0b111"
  shows "load_data_aligned sz addr d = extend_access sz v"
proof -
  let ?d = "drop_bit (align_offset addr * 8) d"
  have b: "bit ?d k \<longleftrightarrow> bit v k" if "k < 8 * access_bytes sz" for k
    using assms(1) [OF that] by (simp add: bit_simps mult.commute add.commute)
  have f8: "(field 0 ?d :: u8) = ucast v" if "access_bytes sz = 1"
    using b that by (intro bit_word_eqI) (simp add: bit_simps)
  have f16: "(field 0 ?d :: u16) = ucast v" if "access_bytes sz = 2"
    using b that by (intro bit_word_eqI) (simp add: bit_simps)
  have f32: "(field 0 ?d :: u32) = ucast v" if "access_bytes sz = 4"
    using b that by (intro bit_word_eqI) (simp add: bit_simps)
  have f64: "?d = v" if "access_bytes sz = 8"
    using b that by (intro bit_word_eqI) (simp add: bit_simps)
  show ?thesis
    using word3_cases [of sz] assms(3) f8 f16 f32 f64
    by (elim disjE) (simp_all add: load_data_aligned_def extend_access_def access_bytes_def Let_def)
qed

text \<open>
  A store followed by a load of the same width at the same address, through the byte lanes of the
  memory stage and the memory of the runner.
\<close>

lemma store_then_load:
  assumes st: "st \<in> {0b000, 0b001, 0b010, 0b011}" "\<not> addr_misaligned st addr"
    and ld: "ld \<noteq> 0b111" "access_bytes ld = access_bytes st"
  obtains m' where
    "write_store addr (store_data_aligned st addr v) (ucast st) m = Some m'"
    "load_data_aligned ld addr (read_u64 m' (addr AND NOT 0x7)) = extend_access ld v"
    "\<And>x. \<forall>i<access_bytes st. x \<noteq> addr + of_nat i \<Longrightarrow> read_byte m' x = read_byte m x"
proof -
  let ?a = "addr AND NOT 0x7" and ?l = "align_offset addr" and ?n = "access_bytes st"
  let ?w = "store_data_aligned st addr v"
  have le: "?l + ?n \<le> 8"
    using st(1) by (intro access_in_dword st(2)) auto
  then have le': "?l + store_bytes (ucast st) \<le> 8" by (simp add: store_bytes_access)
  obtain m' where m': "write_store addr ?w (ucast st) m = Some m'"
    and lane: "\<And>lane. lane < 8 \<Longrightarrow> read_byte m' (?a + of_nat lane) =
            (if in_access addr (ucast st) lane then field (8 * lane) ?w
             else read_byte m (?a + of_nat lane))"
    and out: "\<And>x. \<forall>lane<8. x \<noteq> ?a + of_nat lane \<Longrightarrow> read_byte m' x = read_byte m x"
    using write_store_lanes [OF le', of ?w m] by blast
  have "bit (read_u64 m' ?a) (8 * ?l + k) \<longleftrightarrow> bit v k" if k: "k < 8 * ?n" for k
  proof -
    have d: "(8 * ?l + k) div 8 = ?l + k div 8" "(8 * ?l + k) mod 8 = k mod 8"
      by simp_all
    have in_acc: "?l + k div 8 < 8" "in_access addr (ucast st) (?l + k div 8)"
      using k le by (auto simp: in_access_def store_bytes_access less_mult_imp_div_less mult.commute)
    have "bit (read_u64 m' ?a) (8 * ?l + k) \<longleftrightarrow>
            bit (field (8 * (?l + k div 8)) ?w :: u8) (k mod 8)"
      using k le lane [OF in_acc(1)] in_acc(2) by (simp add: bit_read_u64 d)
    also have "\<dots> \<longleftrightarrow> bit ?w (8 * ?l + k)"
      using mod_less_divisor [of 8 k] by (simp add: bit_unfold distrib_left add.assoc)
    also have "\<dots> \<longleftrightarrow> bit v k"
      by (rule bit_store_data [OF st k])
    finally show ?thesis .
  qed
  then have "load_data_aligned ld addr (read_u64 m' ?a) = extend_access ld v"
    using le ld by (intro load_data_extend) simp_all
  moreover have "read_byte m' x = read_byte m x" if x: "\<forall>i<?n. x \<noteq> addr + of_nat i" for x
  proof (cases "\<exists>lane<8. x = ?a + of_nat lane")
    case True
    then obtain l where l: "l < 8" "x = ?a + of_nat l" by blast
    have "\<not> in_access addr (ucast st) l"
    proof
      assume acc: "in_access addr (ucast st) l"
      have "x = addr + of_nat (l - ?l)"
        using acc l(2) align_split [of addr] by (simp add: in_access_def of_nat_diff eq_diff_eq)
      moreover have "l - ?l < ?n" using acc by (auto simp: in_access_def store_bytes_access)
      ultimately show False using x by blast
    qed
    then show ?thesis using lane [OF l(1)] l(2) by simp
  next
    case False
    then show ?thesis using out by blast
  qed
  ultimately show ?thesis by (rule that [OF m'])
qed

lemma write_strobe_mask:
  assumes "st \<in> {0b000, 0b001, 0b010, 0b011}" "align_offset addr + access_bytes st \<le> 8"
  shows "write_strobe st addr = push_bit (align_offset addr) (mask (access_bytes st))"
proof -
  consider "st = 0" | "st = 1" | "st = 2" | "st = 3" using assms(1) by auto
  then show ?thesis
    using assms(2) by cases (simp_all add: write_strobe_def access_bytes_def mask_numeral)
qed

lemma strobe_bits:
  assumes "st \<in> {0b000, 0b001, 0b010, 0b011}" "\<not> addr_misaligned st addr" "lane < 8"
  shows "bit (write_strobe st addr) lane \<longleftrightarrow> in_access addr (ucast st) lane"
proof -
  have "align_offset addr + access_bytes st \<le> 8"
    using assms(1) by (intro access_in_dword assms(2)) auto
  then show ?thesis
    using assms(3)
    by (auto simp: write_strobe_mask [OF assms(1)] in_access_def store_bytes_access
        bit_push_bit_iff bit_mask_iff)
qed

section \<open>Properties\<close>

text \<open>
  C27: a store followed by a load of the same width at the same aligned address, through the byte
  lanes of the memory stage and the memory of the runner, gives the stored value back, sign or
  zero extended as the load says; no byte outside the accessed ones changes.
\<close>

theorem store_load_roundtrip:
  assumes "st \<in> {0b000, 0b001, 0b010, 0b011}" "\<not> addr_misaligned st addr"
    and "ld \<noteq> 0b111" "access_bytes ld = access_bytes st"
  shows "\<exists>m'. write_store addr (store_data_aligned st addr v) (ucast st) m = Some m' \<and>
    load_data_aligned ld addr (read_u64 m' (addr AND NOT 0x7)) = extend_access ld v \<and>
    (\<forall>x. (\<forall>i<access_bytes st. x \<noteq> addr + of_nat i) \<longrightarrow> read_byte m' x = read_byte m x)"
  using store_then_load [OF assms, of v m] by metis

theorem store_load_roundtrip_witness:
  "\<exists>m'. write_store 0x1002 (store_data_aligned 1 0x1002 0xBEEF) 1 Map.empty = Some m' \<and>
        load_data_aligned 5 0x1002 (read_u64 m' 0x1000) = 0xBEEF"
  using store_load_roundtrip [of 1 "0x1002" 5 "0xBEEF" Map.empty]
  by (auto simp: addr_misaligned_def access_bytes_def extend_access_def field_def)

text \<open>
  the runner writes exactly the byte lanes the core's write strobe names: for an aligned store
  of a legal size a lane of the doubleword is overwritten, with the byte of the write bus at that
  lane, just when its strobe bit is set.
\<close>

theorem write_store_follows_strobe:
  assumes "st \<in> {0b000, 0b001, 0b010, 0b011}" "\<not> addr_misaligned st addr"
  shows "\<exists>m'. write_store addr wdata (ucast st) m = Some m' \<and>
    (\<forall>lane<8. read_byte m' ((addr AND NOT 0x7) + of_nat lane) =
       (if bit (write_strobe st addr) lane then field (8 * lane) wdata
        else read_byte m ((addr AND NOT 0x7) + of_nat lane)))"
proof -
  have le: "align_offset addr + store_bytes (ucast st) \<le> 8"
    using assms(1) access_in_dword [OF assms(2)] by (auto simp: store_bytes_access)
  have strobe: "bit (write_strobe st addr) lane \<longleftrightarrow> in_access addr (ucast st) lane"
    if "lane < 8" for lane
    using strobe_bits [OF assms that] .
  obtain m' where "write_store addr wdata (ucast st) m = Some m'"
    "\<And>lane. lane < 8 \<Longrightarrow> read_byte m' ((addr AND NOT 0x7) + of_nat lane) =
       (if in_access addr (ucast st) lane then field (8 * lane) wdata
        else read_byte m ((addr AND NOT 0x7) + of_nat lane))"
    using write_store_lanes [OF le, of wdata m] by blast
  then show ?thesis using strobe by auto
qed

theorem write_store_follows_strobe_witness:
  "\<exists>m'. write_store 0x1002 0xBEEF0000 1 Map.empty = Some m' \<and> read_byte m' 0x1003 = 0xBE"
proof -
  obtain m' where m': "write_store 0x1002 0xBEEF0000 1 Map.empty = Some m'"
    and l: "\<forall>lane<8. read_byte m' (0x1000 + of_nat lane) =
       (if bit (write_strobe 1 0x1002) lane then field (8 * lane) (0xBEEF0000 :: u64)
        else read_byte Map.empty (0x1000 + of_nat lane))"
    using write_store_follows_strobe [of 1 "0x1002" "0xBEEF0000" Map.empty]
    by (auto simp: addr_misaligned_def field_def)
  have "read_byte m' (0x1000 + of_nat 3) = 0xBE"
    using l [rule_format, of 3] by (simp add: write_strobe_def align_offset_def field_def bit_simps)
  then show ?thesis using m' by simp
qed

end
