(* ===== verification/Elf_Loader.thy ===== *)
theory Elf_Loader
  imports Byte_Memory "HOL-Library.Monad_Syntax"
begin

text \<open>
  The ELF64 loader of the compliance runner, \<open>load_elf64\<close> of
  \<^verbatim>\<open>src/tb/compliance/compliance_runner.cc\<close>.  The file is the list of its bytes.  The
  loader casts pointers into that buffer to packed structs; a field access is a little-endian
  read at a byte position, and an access outside the buffer, undefined in C++, is \<open>None\<close>.
  So the result is \<open>None\<close> for undefined behaviour and otherwise the returned flag with the
  memory and the symbols the call leaves.
\<close>

section \<open>Definitions\<close>

record Symbols =
  begin_signature :: u64
  end_signature :: u64
  tohost :: u64

definition no_symbols :: Symbols where
  "no_symbols = \<lparr>begin_signature = 0, end_signature = 0, tohost = 0\<rparr>"

abbreviation (input) PT_LOAD :: u32 where "PT_LOAD \<equiv> 1"
abbreviation (input) SHT_SYMTAB :: u32 where "SHT_SYMTAB \<equiv> 2"

subsection \<open>Struct fields\<close>

text \<open>The \<open>n\<close>-byte field at offset \<open>k\<close> of the struct at byte \<open>off\<close> of the buffer.\<close>

definition rd :: "u8 list \<Rightarrow> u64 \<Rightarrow> nat \<Rightarrow> nat \<Rightarrow> 'a::len word option" where
  "rd data off k n =
     (if unat off + k + n \<le> length data then Some (or_bytes n (\<lambda>i. data ! (unat off + k + i)))
      else None)"

definition e_ident :: "u8 list \<Rightarrow> nat \<Rightarrow> u8" where
  "e_ident data i = data ! i"

text \<open>The file header is read only after the size check, at offset 0.\<close>

definition hdr :: "u8 list \<Rightarrow> nat \<Rightarrow> nat \<Rightarrow> 'a::len word" where
  "hdr data k n = or_bytes n (\<lambda>i. data ! (k + i))"

record Elf64Ehdr =
  e_phoff :: u64
  e_shoff :: u64
  e_phentsize :: u16
  e_phnum :: u16
  e_shentsize :: u16
  e_shnum :: u16

definition ehdr_of :: "u8 list \<Rightarrow> Elf64Ehdr" where
  "ehdr_of data =
     \<lparr>e_phoff = hdr data 32 8, e_shoff = hdr data 40 8, e_phentsize = hdr data 54 2,
      e_phnum = hdr data 56 2, e_shentsize = hdr data 58 2, e_shnum = hdr data 60 2\<rparr>"

definition p_type :: "u8 list \<Rightarrow> u64 \<Rightarrow> u32 option" where "p_type data off = rd data off 0 4"
definition p_offset :: "u8 list \<Rightarrow> u64 \<Rightarrow> u64 option" where "p_offset data off = rd data off 8 8"
definition p_vaddr :: "u8 list \<Rightarrow> u64 \<Rightarrow> u64 option" where "p_vaddr data off = rd data off 16 8"
definition p_paddr :: "u8 list \<Rightarrow> u64 \<Rightarrow> u64 option" where "p_paddr data off = rd data off 24 8"
definition p_filesz :: "u8 list \<Rightarrow> u64 \<Rightarrow> u64 option" where "p_filesz data off = rd data off 32 8"
definition p_memsz :: "u8 list \<Rightarrow> u64 \<Rightarrow> u64 option" where "p_memsz data off = rd data off 40 8"

definition sh_type :: "u8 list \<Rightarrow> u64 \<Rightarrow> u32 option" where "sh_type data off = rd data off 4 4"
definition sh_offset :: "u8 list \<Rightarrow> u64 \<Rightarrow> u64 option" where "sh_offset data off = rd data off 24 8"
definition sh_size :: "u8 list \<Rightarrow> u64 \<Rightarrow> u64 option" where "sh_size data off = rd data off 32 8"
definition sh_link :: "u8 list \<Rightarrow> u64 \<Rightarrow> u32 option" where "sh_link data off = rd data off 40 4"
definition sh_entsize :: "u8 list \<Rightarrow> u64 \<Rightarrow> u64 option" where
  "sh_entsize data off = rd data off 56 8"

definition st_name :: "u8 list \<Rightarrow> u64 \<Rightarrow> u32 option" where "st_name data off = rd data off 0 4"
definition st_value :: "u8 list \<Rightarrow> u64 \<Rightarrow> u64 option" where "st_value data off = rd data off 8 8"

text \<open>\<open>data.size()\<close> as the unsigned 64-bit value the checks compare with.\<close>

definition data_size :: "u8 list \<Rightarrow> u64" where
  "data_size data = of_nat (length data)"

subsection \<open>Program headers\<close>

text \<open>\<open>for (j = 0; j < p_filesz; ++j) memory->write_byte(base + j, data[p_offset + j]);\<close>\<close>

primrec copy_bytes :: "u8 list \<Rightarrow> u64 \<Rightarrow> u64 \<Rightarrow> nat \<Rightarrow> nat \<Rightarrow> byte_mem \<Rightarrow> byte_mem option" where
  "copy_bytes data src base j 0 m = Some m"
| "copy_bytes data src base j (Suc n) m =
     (let k = unat (src + of_nat j) in
      if k < length data
      then copy_bytes data src base (Suc j) n (write_byte (base + of_nat j) (data ! k) m)
      else None)"

text \<open>\<open>for (j = p_filesz; j < p_memsz; ++j) memory->write_byte(base + j, 0);\<close>\<close>

primrec zero_bytes :: "u64 \<Rightarrow> nat \<Rightarrow> nat \<Rightarrow> byte_mem \<Rightarrow> byte_mem" where
  "zero_bytes base j 0 m = m"
| "zero_bytes base j (Suc n) m = zero_bytes base (Suc j) n (write_byte (base + of_nat j) 0 m)"

text \<open>One program header; the flag is \<open>False\<close> where the loader returns false.\<close>

definition load_segment :: "u8 list \<Rightarrow> u64 \<Rightarrow> byte_mem \<Rightarrow> (bool \<times> byte_mem) option" where
  "load_segment data off m =
     do {
       ty \<leftarrow> p_type data off;
       if ty \<noteq> PT_LOAD then Some (True, m)
       else do {
         po \<leftarrow> p_offset data off;
         fs \<leftarrow> p_filesz data off;
         if po + fs > data_size data then Some (False, m)
         else do {
           pa \<leftarrow> p_paddr data off;
           base \<leftarrow> (if pa \<noteq> 0 then Some pa else p_vaddr data off);
           m' \<leftarrow> copy_bytes data po base 0 (unat fs) m;
           ms \<leftarrow> p_memsz data off;
           Some (True, zero_bytes base (unat fs) (unat ms - unat fs) m')
         }
       }
     }"

primrec load_segments :: "u8 list \<Rightarrow> Elf64Ehdr \<Rightarrow> nat \<Rightarrow> nat \<Rightarrow> byte_mem \<Rightarrow>
                            (bool \<times> byte_mem) option" where
  "load_segments data e i 0 m = Some (True, m)"
| "load_segments data e i (Suc n) m =
     do {
       (ok, m') \<leftarrow> load_segment data (e_phoff e + of_nat i * ucast (e_phentsize e)) m;
       if ok then load_segments data e (Suc i) n m' else Some (False, m')
     }"

subsection \<open>Section headers and symbols\<close>

text \<open>\<open>std::string name(strtab + st_name)\<close>: the bytes up to the next NUL.\<close>

definition c_string :: "u8 list \<Rightarrow> nat \<Rightarrow> u8 list option" where
  "c_string data pos =
     (let bs = drop pos data in if 0 \<in> set bs then Some (takeWhile (\<lambda>b. b \<noteq> 0) bs) else None)"

definition bytes_of :: "string \<Rightarrow> u8 list" where
  "bytes_of s = map of_char s"

definition set_symbol :: "u8 list \<Rightarrow> u64 \<Rightarrow> Symbols \<Rightarrow> Symbols" where
  "set_symbol name v syms =
     (if name = bytes_of ''begin_signature'' then syms\<lparr>begin_signature := v\<rparr>
      else if name = bytes_of ''end_signature'' then syms\<lparr>end_signature := v\<rparr>
      else if name = bytes_of ''tohost'' then syms\<lparr>tohost := v\<rparr>
      else syms)"

definition known_symbol :: "u8 list \<Rightarrow> bool" where
  "known_symbol name \<longleftrightarrow>
     name \<in> {bytes_of ''begin_signature'', bytes_of ''end_signature'', bytes_of ''tohost''}"

text \<open>One symbol-table entry: \<open>str\<close> and \<open>strsz\<close> are offset and size of the string table.\<close>

definition load_symbol :: "u8 list \<Rightarrow> u64 \<Rightarrow> u64 \<Rightarrow> u64 \<Rightarrow> Symbols \<Rightarrow> Symbols option" where
  "load_symbol data str strsz sym_off syms =
     do {
       nm \<leftarrow> st_name data sym_off;
       if ucast nm \<ge> strsz then Some syms
       else do {
         name \<leftarrow> c_string data (unat str + unat nm);
         if known_symbol name then do {
           v \<leftarrow> st_value data sym_off;
           Some (set_symbol name v syms)
         } else Some syms
       }
     }"

primrec load_symbols :: "u8 list \<Rightarrow> u64 \<Rightarrow> u64 \<Rightarrow> u64 \<Rightarrow> u64 \<Rightarrow> nat \<Rightarrow> nat \<Rightarrow> Symbols \<Rightarrow>
                           Symbols option" where
  "load_symbols data str strsz so es s 0 syms = Some syms"
| "load_symbols data str strsz so es s (Suc n) syms =
     do {
       syms' \<leftarrow> load_symbol data str strsz (so + of_nat s * es) syms;
       load_symbols data str strsz so es (Suc s) n syms'
     }"

definition load_section :: "u8 list \<Rightarrow> Elf64Ehdr \<Rightarrow> u64 \<Rightarrow> Symbols \<Rightarrow> Symbols option" where
  "load_section data e off syms =
     do {
       ty \<leftarrow> sh_type data off;
       if ty \<noteq> SHT_SYMTAB then Some syms
       else do {
         es \<leftarrow> sh_entsize data off;
         if es = 0 then Some syms
         else do {
           so \<leftarrow> sh_offset data off;
           ss \<leftarrow> sh_size data off;
           if so + ss > data_size data then Some syms
           else do {
             lk \<leftarrow> sh_link data off;
             if lk \<ge> ucast (e_shnum e) then Some syms
             else do {
               let str_off = e_shoff e + ucast lk * ucast (e_shentsize e);
               str \<leftarrow> sh_offset data str_off;
               strsz \<leftarrow> sh_size data str_off;
               if str + strsz > data_size data then Some syms
               else load_symbols data str strsz so es 0 (unat (ss div es)) syms
             }
           }
         }
       }
     }"

primrec load_sections :: "u8 list \<Rightarrow> Elf64Ehdr \<Rightarrow> nat \<Rightarrow> nat \<Rightarrow> Symbols \<Rightarrow> Symbols option" where
  "load_sections data e i 0 syms = Some syms"
| "load_sections data e i (Suc n) syms =
     do {
       syms' \<leftarrow> load_section data e (e_shoff e + of_nat i * ucast (e_shentsize e)) syms;
       load_sections data e (Suc i) n syms'
     }"

subsection \<open>The loader\<close>

text \<open>What opening and reading the file gives.\<close>

datatype elf_file = CannotOpen | ReadFails | Contents "u8 list"

definition magic_ok :: "u8 list \<Rightarrow> bool" where
  "magic_ok data \<longleftrightarrow>
     e_ident data 0 = 0x7F \<and> e_ident data 1 = of_char CHR ''E'' \<and>
     e_ident data 2 = of_char CHR ''L'' \<and> e_ident data 3 = of_char CHR ''F''"

definition load_elf64 :: "elf_file \<Rightarrow> byte_mem \<Rightarrow> Symbols \<Rightarrow>
                            (bool \<times> byte_mem \<times> Symbols) option" where
  "load_elf64 f m syms =
     (case f of
        CannotOpen \<Rightarrow> Some (False, m, syms)
      | ReadFails \<Rightarrow> Some (False, m, syms)
      | Contents data \<Rightarrow>
          if data = [] then Some (False, m, syms)
          else if length data < 64 then Some (False, m, syms)
          else if \<not> magic_ok data then Some (False, m, syms)
          else if e_ident data 4 \<noteq> 2 \<or> e_ident data 5 \<noteq> 1 then Some (False, m, syms)
          else
            (let e = ehdr_of data;
                 ph_end = e_phoff e + ucast (e_phnum e) * ucast (e_phentsize e) in
             if ph_end > data_size data then Some (False, m, syms)
             else do {
               (ok, m') \<leftarrow> load_segments data e 0 (unat (e_phnum e)) m;
               if \<not> ok then Some (False, m', syms)
               else
                 (let sh_end = e_shoff e + ucast (e_shnum e) * ucast (e_shentsize e) in
                  if e_shoff e = 0 \<or> e_shnum e = 0 \<or> sh_end > data_size data
                  then Some (True, m', syms)
                  else do {
                    syms' \<leftarrow> load_sections data e 0 (unat (e_shnum e)) syms;
                    Some (True, m', syms')
                  })
             }))"

section \<open>Lemmas\<close>

lemmas elf_field_defs = p_type_def p_offset_def p_vaddr_def p_paddr_def p_filesz_def p_memsz_def
  sh_type_def sh_offset_def sh_size_def sh_link_def sh_entsize_def st_name_def st_value_def rd_def

lemma zero_bytes_range: "zero_bytes base j n m = write_range base (\<lambda>_. 0) j n m"
  by (induction n arbitrary: j m) simp_all

lemma unat_add_of_nat:
  fixes w :: u64
  assumes "unat w + j < 2 ^ 64"
  shows "unat (w + of_nat j) = unat w + j"
proof -
  have "unat (of_nat j :: u64) = j"
    using assms by (simp add: unat_of_nat take_bit_nat_eq_self)
  then show ?thesis
    using assms by (simp add: unat_word_ariths)
qed

text \<open>A segment inside the file is copied without leaving the buffer.\<close>

lemma copy_bytes_range:
  assumes "unat src + j + n \<le> length data" "length data < 2 ^ 64"
  shows "copy_bytes data src base j n m =
           Some (write_range base (\<lambda>i. data ! (unat src + i)) j n m)"
  using assms
  by (induction n arbitrary: j m) (simp_all add: unat_add_of_nat)

text \<open>
  Well-formedness of a program header: it lies in the file, and the file range of a \<open>PT_LOAD\<close>
  segment does not wrap around the 64-bit address space (the check of the loader computes
  \<open>p_offset + p_filesz\<close> modulo \<open>2 ^ 64\<close>).
\<close>

definition phdr_ok :: "u8 list \<Rightarrow> u64 \<Rightarrow> bool" where
  "phdr_ok data off \<longleftrightarrow>
     unat off + 56 \<le> length data \<and>
     unat (the (p_offset data off)) + unat (the (p_filesz data off)) < 2 ^ 64"

text \<open>The effect of one header: rejected, skipped, or copied and padded with zeros.\<close>

lemma load_segment_cases:
  assumes "phdr_ok data off" "length data < 2 ^ 64"
  obtains (skip) "load_segment data off m = Some (True, m)" "p_type data off \<noteq> Some PT_LOAD"
  | (reject) "load_segment data off m = Some (False, m)" "p_type data off = Some PT_LOAD"
      "length data < unat (the (p_offset data off)) + unat (the (p_filesz data off))"
  | (load) po fs ms base where
      "p_offset data off = Some po" "p_filesz data off = Some fs" "p_memsz data off = Some ms"
      "p_type data off = Some PT_LOAD"
      "base = (if the (p_paddr data off) \<noteq> 0 then the (p_paddr data off)
               else the (p_vaddr data off))"
      "unat po + unat fs \<le> length data"
      "load_segment data off m =
         Some (True, write_range base (\<lambda>_. 0) (unat fs) (unat ms - unat fs)
                 (write_range base (\<lambda>i. data ! (unat po + i)) 0 (unat fs) m))"
proof -
  have fields: "\<exists>v. (rd data off k n :: 'a::len word option) = Some v" if "k + n \<le> 56" for k n
    using that assms(1) by (simp add: phdr_ok_def rd_def)
  obtain ty po fs pa va ms where f: "p_type data off = Some ty" "p_offset data off = Some po"
    "p_filesz data off = Some fs" "p_paddr data off = Some pa" "p_vaddr data off = Some va"
    "p_memsz data off = Some ms"
    using fields [of 0 4] fields [of 8 8] fields [of 32 8] fields [of 24 8] fields [of 16 8]
      fields [of 40 8] by (force simp: elf_field_defs)
  have sum: "unat (po + fs) = unat po + unat fs"
    using assms(1) f by (simp add: phdr_ok_def unat_word_ariths)
  have size: "unat (data_size data) = length data"
    using assms(2) by (simp add: data_size_def unat_of_nat take_bit_nat_eq_self)
  have in_range: "data_size data < po + fs \<longleftrightarrow> length data < unat po + unat fs"
    by (simp add: word_less_nat_alt sum size)
  consider "ty \<noteq> PT_LOAD" | "ty = PT_LOAD" "length data < unat po + unat fs"
    | "ty = PT_LOAD" "unat po + unat fs \<le> length data" by fastforce
  then show ?thesis
  proof cases
    case 1
    then show ?thesis by (intro skip) (simp_all add: load_segment_def f)
  next
    case 2
    then show ?thesis by (intro reject) (simp_all add: load_segment_def f in_range)
  next
    case 3
    let ?base = "if pa \<noteq> 0 then pa else va"
    have "copy_bytes data po b 0 (unat fs) m =
            Some (write_range b (\<lambda>i. data ! (unat po + i)) 0 (unat fs) m)" for b
      using 3 assms(2) by (intro copy_bytes_range) simp_all
    then show ?thesis
      using 3 by (intro load [of po fs ms ?base])
        (simp_all add: load_segment_def f in_range zero_bytes_range)
  qed
qed

lemma load_segments_defined:
  assumes "\<forall>k<n. phdr_ok data (e_phoff e + of_nat (i + k) * ucast (e_phentsize e))"
    and "length data < 2 ^ 64"
  shows "\<exists>ok m'. load_segments data e i n m = Some (ok, m')"
  using assms(1)
proof (induction n arbitrary: i m)
  case (Suc n)
  let ?off = "e_phoff e + of_nat i * ucast (e_phentsize e)"
  have ok: "phdr_ok data ?off" using Suc.prems by force
  have rest: "\<forall>k<n. phdr_ok data (e_phoff e + of_nat (Suc i + k) * ucast (e_phentsize e))"
  proof (intro allI impI)
    fix k assume "k < n"
    then show "phdr_ok data (e_phoff e + of_nat (Suc i + k) * ucast (e_phentsize e))"
      using Suc.prems [rule_format, of "Suc k"] by simp
  qed
  obtain b m' where "load_segment data ?off m = Some (b, m')"
    by (rule load_segment_cases [OF ok assms(2), of m]) auto
  then show ?case using Suc.IH [OF rest] by (cases b) auto
qed auto

subsection \<open>Evaluation on small files\<close>

lemma or_bytes_numeral:
  "(or_bytes (numeral k) f :: 'a::len word) =
     or_bytes (pred_numeral k) f OR push_bit (8 * pred_numeral k) (ucast (f (pred_numeral k)))"
  by (simp add: numeral_eq_Suc)

text \<open>The identification bytes of an ELF64 little-endian file.\<close>

definition elf_ident :: "u8 list" where
  "elf_ident = [0x7F, 0x45, 0x4C, 0x46, 2, 1, 1, 0, 0, 0, 0, 0, 0, 0, 0, 0]"

text \<open>A file header with \<open>phnum\<close> program headers of 56 bytes after it and no sections.\<close>

definition elf_header :: "u8 \<Rightarrow> u8 list" where
  "elf_header phnum =
     elf_ident @ [2, 0, 0xF3, 0, 1, 0, 0, 0] @ replicate 8 0 @ [64, 0, 0, 0, 0, 0, 0, 0]
     @ replicate 8 0 @ replicate 4 0 @ [64, 0, 56, 0, phnum, 0] @ replicate 6 0"

text \<open>A \<open>PT_LOAD\<close> header with the given low offset byte, address byte and sizes.\<close>

definition elf_phdr :: "u8 list \<Rightarrow> u8 \<Rightarrow> u8 \<Rightarrow> u8 \<Rightarrow> u8 list" where
  "elf_phdr po pa fs ms =
     [1, 0, 0, 0, 0, 0, 0, 0] @ po @ replicate 8 0 @ [pa, 0, 0, 0, 0, 0, 0, 0]
     @ [fs, 0, 0, 0, 0, 0, 0, 0] @ [ms, 0, 0, 0, 0, 0, 0, 0] @ replicate 8 0"

text \<open>A file whose segment range wraps around: \<open>p_offset = 2 ^ 64 - 1\<close>, \<open>p_filesz = 1\<close>.\<close>

definition wrapping_elf :: "u8 list" where
  "wrapping_elf = elf_header 1 @ elf_phdr (replicate 8 0xFF) 0x80 1 1"

text \<open>A file with one segment: the two bytes at 120, and a memory size of 3, at 0x80.\<close>

definition one_segment_elf :: "u8 list" where
  "one_segment_elf = elf_header 1 @ elf_phdr [120, 0, 0, 0, 0, 0, 0, 0] 0x80 2 3 @ [0xAB, 0xCD]"

lemmas small_elf_defs = one_segment_elf_def wrapping_elf_def elf_ident_def elf_header_def elf_phdr_def replicate_numeral

lemma one_segment_elf_facts:
  "length one_segment_elf = 122"
  "ehdr_of one_segment_elf =
     \<lparr>e_phoff = 64, e_shoff = 0, e_phentsize = 56, e_phnum = 1, e_shentsize = 0, e_shnum = 0\<rparr>"
  "p_type one_segment_elf 64 = Some 1" "p_offset one_segment_elf 64 = Some 120"
  "p_filesz one_segment_elf 64 = Some 2" "p_memsz one_segment_elf 64 = Some 3"
  "p_paddr one_segment_elf 64 = Some 0x80" "p_vaddr one_segment_elf 64 = Some 0"
  "one_segment_elf ! 120 = 0xAB" "one_segment_elf ! 121 = 0xCD"
  by (simp_all add: ehdr_of_def hdr_def elf_field_defs or_bytes_numeral small_elf_defs)

lemma one_segment_phdr_ok: "phdr_ok one_segment_elf 64"
  by (simp add: phdr_ok_def one_segment_elf_facts)

lemma one_segment_loads:
  "\<exists>m'. load_elf64 (Contents one_segment_elf) m syms = Some (True, m', syms)"
proof -
  have "\<exists>m'. load_segment one_segment_elf 64 m = Some (True, m')"
    by (cases rule: load_segment_cases [OF one_segment_phdr_ok, of m])
      (simp_all add: one_segment_elf_facts)
  moreover have "magic_ok one_segment_elf" "e_ident one_segment_elf 4 = 2"
    "e_ident one_segment_elf 5 = 1" "one_segment_elf \<noteq> []"
    by (simp_all add: magic_ok_def e_ident_def small_elf_defs)
  ultimately show ?thesis
    by (auto simp: load_elf64_def one_segment_elf_facts data_size_def)
qed

section \<open>Properties\<close>

text \<open>
  C29: a file that cannot be opened or read, is empty, is shorter than the header, has the wrong
  magic number, or is not ELF64 little-endian is rejected, and neither the memory nor the symbols
  change.
\<close>

theorem load_elf64_rejects:
  assumes "f = CannotOpen \<or> f = ReadFails \<or>
           (\<exists>data. f = Contents data \<and>
              (length data < 64 \<or> \<not> magic_ok data \<or> e_ident data 4 \<noteq> 2 \<or> e_ident data 5 \<noteq> 1))"
  shows "load_elf64 f m syms = Some (False, m, syms)"
  using assms by (auto simp: load_elf64_def)

theorem load_elf64_rejects_witness:
  "load_elf64 (Contents [0x7F, 0x45]) Map.empty no_symbols = Some (False, Map.empty, no_symbols)"
  using load_elf64_rejects [of "Contents [0x7F, 0x45]"] by simp

text \<open>
  C28: a \<open>PT_LOAD\<close> segment that lies in the file is in the memory afterwards: its file bytes at
  its physical address (its virtual one when that is 0), zeros up to its memory size, and every
  other byte as before.
\<close>

theorem load_segment_contents:
  assumes "phdr_ok data off" "length data < 2 ^ 64"
    and "p_type data off = Some PT_LOAD"
    and "p_offset data off = Some po" "p_filesz data off = Some fs" "p_memsz data off = Some ms"
    and "p_paddr data off = Some pa" "p_vaddr data off = Some va"
    and "unat po + unat fs \<le> length data"
  shows "\<exists>m'. load_segment data off m = Some (True, m') \<and>
    (let base = (if pa \<noteq> 0 then pa else va) in
     (\<forall>j < unat fs. read_byte m' (base + of_nat j) = data ! (unat po + j)) \<and>
     (\<forall>j. unat fs \<le> j \<and> j < unat ms \<longrightarrow> read_byte m' (base + of_nat j) = 0) \<and>
     (\<forall>x. (\<forall>j < max (unat fs) (unat ms). x \<noteq> base + of_nat j) \<longrightarrow>
            read_byte m' x = read_byte m x))"
proof -
  define base where "base = (if pa \<noteq> 0 then pa else va)"
  let ?copied = "write_range base (\<lambda>i. data ! (unat po + i)) 0 (unat fs) m"
  let ?m = "write_range base (\<lambda>_. 0) (unat fs) (unat ms - unat fs) ?copied"
  have loaded: "load_segment data off m = Some (True, ?m)"
    using assms
    by (cases rule: load_segment_cases [of data off m, OF assms(1,2)]) (simp_all add: base_def)
  have lt: "unat fs < 2 ^ 64" "unat ms < 2 ^ 64"
    using unsigned_less [of fs] unsigned_less [of ms] by simp_all
  have copy: "read_byte ?m (base + of_nat j) = data ! (unat po + j)" if "j < unat fs" for j
  proof -
    have "base + of_nat j \<noteq> base + of_nat i" if "unat fs \<le> i" "i < unat fs + (unat ms - unat fs)" for i
      using that \<open>j < unat fs\<close> lt of_nat_lane_inj [of j i base] by simp
    then have "read_byte ?m (base + of_nat j) = read_byte ?copied (base + of_nat j)"
      by (intro read_write_range_out) blast
    then show ?thesis using that lt by (simp only: read_write_range_in)
  qed
  moreover have zero: "read_byte ?m (base + of_nat j) = 0" if "unat fs \<le> j" "j < unat ms" for j
    using that lt by (subst read_write_range_in) simp_all
  moreover have other: "read_byte ?m x = read_byte m x"
    if "\<forall>j < max (unat fs) (unat ms). x \<noteq> base + of_nat j" for x
  proof -
    have ne: "x \<noteq> base + of_nat i" if "i < unat fs \<or> i < unat ms" for i
      using that \<open>\<forall>j < max _ _. _\<close> by (metis less_max_iff_disj)
    have "read_byte ?m x = read_byte ?copied x"
    proof (rule read_write_range_out, intro allI impI)
      fix i assume "unat fs \<le> i \<and> i < unat fs + (unat ms - unat fs)"
      then have "i < unat ms" by linarith
      then show "x \<noteq> base + of_nat i" by (intro ne) simp
    qed
    also have "\<dots> = read_byte m x"
      by (rule read_write_range_out) (simp add: ne)
    finally show ?thesis .
  qed
  ultimately show ?thesis
    using loaded unfolding base_def [symmetric] Let_def by blast
qed

theorem load_segment_contents_witness:
  "\<exists>m'. load_segment one_segment_elf 64 Map.empty = Some (True, m') \<and>
        read_byte m' 0x80 = 0xAB \<and> read_byte m' 0x81 = 0xCD \<and> read_byte m' 0x82 = 0"
proof -
  obtain m' where m': "load_segment one_segment_elf 64 Map.empty = Some (True, m')"
    and copy: "\<forall>j<2. read_byte m' (0x80 + of_nat j) = one_segment_elf ! (120 + j)"
    and zero: "\<forall>j. 2 \<le> j \<and> j < 3 \<longrightarrow> read_byte m' (0x80 + of_nat j) = 0"
    using load_segment_contents [of one_segment_elf 64 120 2 3 "0x80" 0 Map.empty]
    by (auto simp: one_segment_phdr_ok one_segment_elf_facts Let_def)
  then show ?thesis
    using copy [rule_format, of 0] copy [rule_format, of 1] zero [rule_format, of 2]
    by (simp add: one_segment_elf_facts)
qed

text \<open>
  C30: when every program header lies in the file and no segment range wraps around, and the file
  has no section table, loading never leaves the buffer: it returns a flag and a memory.
\<close>

theorem load_elf64_defined:
  assumes "length data < 2 ^ 64"
    and "\<forall>k < unat (e_phnum (ehdr_of data)).
           phdr_ok data (e_phoff (ehdr_of data) + of_nat k * ucast (e_phentsize (ehdr_of data)))"
    and "e_shoff (ehdr_of data) = 0"
  shows "\<exists>ok m'. load_elf64 (Contents data) m syms = Some (ok, m', syms)"
proof -
  have "\<exists>ok m'. load_segments data (ehdr_of data) 0 (unat (e_phnum (ehdr_of data))) m = Some (ok, m')"
    using assms(1,2) by (intro load_segments_defined) simp_all
  then show ?thesis
    using assms(3) by (auto simp: load_elf64_def Let_def)
qed

theorem load_elf64_defined_witness:
  "\<exists>ok m'. load_elf64 (Contents one_segment_elf) Map.empty no_symbols = Some (ok, m', no_symbols)"
  using load_elf64_defined [of one_segment_elf Map.empty no_symbols]
  by (simp add: one_segment_elf_facts one_segment_phdr_ok)

text \<open>
  C31: the range check of a segment is defeated by wrap-around: with \<open>p_offset = 2 ^ 64 - 1\<close> and
  \<open>p_filesz = 1\<close> their sum is 0, the check passes, and the copy reads outside the file.
\<close>

theorem load_elf64_wraparound_undefined:
  "load_elf64 (Contents wrapping_elf) m syms = None"
proof -
  let ?d = wrapping_elf
  have len: "length ?d = 120" by (simp add: small_elf_defs)
  have e: "ehdr_of ?d = \<lparr>e_phoff = 64, e_shoff = 0, e_phentsize = 56, e_phnum = 1,
                         e_shentsize = 0, e_shnum = 0\<rparr>"
    by (simp add: ehdr_of_def hdr_def or_bytes_numeral small_elf_defs)
  have ph: "p_type ?d 64 = Some 1" "p_offset ?d 64 = Some 0xFFFFFFFFFFFFFFFF"
    "p_filesz ?d 64 = Some 1" "p_paddr ?d 64 = Some 0x80"
    by (simp_all add: elf_field_defs or_bytes_numeral small_elf_defs)
  have "load_segment ?d 64 m = None"
    by (simp add: load_segment_def ph data_size_def len)
  moreover have "magic_ok ?d" "e_ident ?d 4 = 2" "e_ident ?d 5 = 1" "?d \<noteq> []"
    by (simp_all add: magic_ok_def e_ident_def small_elf_defs)
  ultimately show ?thesis
    by (simp add: load_elf64_def len e data_size_def)
qed

end
