(* ===== verification/Compliance_Runner.thy ===== *)
theory Compliance_Runner
  imports Core Elf_Loader
begin

text \<open>
  The compliance runner, \<^verbatim>\<open>src/tb/compliance/compliance_runner.cc\<close>: command line, one
  clock tick of the core against the byte memory, the run loop that watches \<open>tohost\<close>, the
  signature dump and \<open>main\<close>.

  Opening a file is a parameter of \<open>main\<close> (path to what reading it gives, and whether the
  signature file can be written), and so are the register contents of a new \<open>Vrichard_core\<close>.
\<close>

section \<open>Definitions\<close>

subsection \<open>Command line\<close>

record Options =
  max_cycles :: u64
  elf_path :: string
  signature_path :: string
  show_help :: bool

definition default_options :: Options where
  "default_options = \<lparr>max_cycles = 2000, elf_path = [], signature_path = [], show_help = False\<rparr>"

text \<open>
  \<open>std::stoull(s)\<close> in base 10: white space, an optional sign, then the longest run of digits;
  it throws \<open>invalid_argument\<close> without a digit and \<open>out_of_range\<close> beyond 64 bits, and
  negates modulo \<open>2 ^ 64\<close> after a minus sign.
\<close>

definition is_space :: "char \<Rightarrow> bool" where
  "is_space c \<longleftrightarrow> c \<in> {CHR '' '', CHR 0x09, CHR 0x0A, CHR 0x0B, CHR 0x0C, CHR 0x0D}"

definition is_digit :: "char \<Rightarrow> bool" where
  "is_digit c \<longleftrightarrow> 48 \<le> (of_char c :: nat) \<and> (of_char c :: nat) \<le> 57"

definition digits_value :: "string \<Rightarrow> nat" where
  "digits_value ds = foldl (\<lambda>v c. v * 10 + (of_char c - 48)) 0 ds"

definition stoull_digits :: "string \<Rightarrow> nat option" where
  "stoull_digits s =
     (let ds = takeWhile is_digit s; v = digits_value ds
      in if ds = [] \<or> v \<ge> 2 ^ 64 then None else Some v)"

definition stoull :: "string \<Rightarrow> u64 option" where
  "stoull s =
     (case dropWhile is_space s of
        c # cs \<Rightarrow>
          if c = CHR ''-'' then map_option (\<lambda>v. - of_nat v) (stoull_digits cs)
          else if c = CHR ''+'' then map_option of_nat (stoull_digits cs)
          else map_option of_nat (stoull_digits (c # cs))
      | [] \<Rightarrow> None)"

text \<open>The loop over \<open>argv[1..]\<close>; \<open>None\<close> is an exception of \<open>stoull\<close>.\<close>

function parse_args_loop :: "string list \<Rightarrow> Options \<Rightarrow> Options option" where
  "parse_args_loop [] opts = Some opts"
| "parse_args_loop (a # rest) opts =
     (if a = ''--help'' \<or> a = ''-h'' then parse_args_loop rest (opts\<lparr>show_help := True\<rparr>)
      else if a = ''--max-cycles'' \<and> rest \<noteq> [] then
        (case stoull (hd rest) of
           None \<Rightarrow> None
         | Some n \<Rightarrow> parse_args_loop (tl rest) (opts\<lparr>max_cycles := n\<rparr>))
      else if a = ''--elf'' \<and> rest \<noteq> [] then
        parse_args_loop (tl rest) (opts\<lparr>elf_path := hd rest\<rparr>)
      else if a = ''--signature'' \<and> rest \<noteq> [] then
        parse_args_loop (tl rest) (opts\<lparr>signature_path := hd rest\<rparr>)
      else parse_args_loop rest opts)"
  by pat_completeness auto
termination by (relation "measure (\<lambda>(args, opts). length args)") auto

definition parse_args :: "string list \<Rightarrow> Options option" where
  "parse_args args = parse_args_loop args default_options"

subsection \<open>One clock tick\<close>

definition runner_inputs :: "bool \<Rightarrow> core_state \<Rightarrow> byte_mem \<Rightarrow> core_in" where
  "runner_inputs rst t memory =
     \<lparr>in_rst = rst,
      in_imem_rdata = read_u32 memory (imem_addr t),
      in_dmem_rdata = (if dmem_read_en t then read_u64 memory (dmem_addr t AND NOT 0x7) else 0),
      in_ext_timer = False,
      in_ext_software = False,
      in_ext_external = False\<rparr>"

text \<open>\<open>None\<close> when \<open>write_store\<close> is undefined.\<close>

definition runner_tick :: "bool \<Rightarrow> core_state \<times> byte_mem \<Rightarrow> (core_state \<times> byte_mem) option" where
  "runner_tick rst s =
     (let t = core_step (runner_inputs rst (fst s) (snd s)) (fst s) in
      if dmem_write_en t then
        map_option (Pair t)
          (write_store (dmem_addr t) (dmem_wdata_out t) (ucast (dmem_size t)) (snd s))
      else Some (t, snd s))"

text \<open>\<open>for (i = 0; i < n; ++i) tick(top, &memory);\<close>\<close>

primrec runner_ticks :: "nat \<Rightarrow> bool \<Rightarrow> core_state \<times> byte_mem \<Rightarrow>
                           (core_state \<times> byte_mem) option" where
  "runner_ticks 0 rst s = Some s"
| "runner_ticks (Suc n) rst s = Option.bind (runner_tick rst s) (runner_ticks n rst)"

subsection \<open>The run loop\<close>

definition overlaps_tohost :: "u64 \<Rightarrow> u64 \<Rightarrow> bool" where
  "overlaps_tohost addr th \<longleftrightarrow> addr \<le> th + 3 \<and> addr + 7 \<ge> th"

text \<open>What one iteration sees after its tick: a verdict when the test reported one.\<close>

definition tohost_verdict :: "Symbols \<Rightarrow> core_state \<times> byte_mem \<Rightarrow> bool option" where
  "tohost_verdict symbols s =
     (if dmem_write_en (fst s) \<and> tohost symbols \<noteq> 0 \<and>
         overlaps_tohost (dmem_addr (fst s)) (tohost symbols) then
        (let status = (ucast (read_u64 (snd s) (tohost symbols) AND 0xFFFFFFFF) :: u32) in
         if status = 1 then Some True
         else if status = 3 then Some False
         else None)
      else None)"

text \<open>The loop of \<open>max_cycles\<close> iterations: the verdict, if any, and the final memory.\<close>

primrec run_loop :: "nat \<Rightarrow> Symbols \<Rightarrow> core_state \<times> byte_mem \<Rightarrow>
                       (bool option \<times> byte_mem) option" where
  "run_loop 0 symbols s = Some (None, snd s)"
| "run_loop (Suc n) symbols s =
     Option.bind (runner_tick False s)
       (\<lambda>s'. case tohost_verdict symbols s' of
               Some v \<Rightarrow> Some (Some v, snd s')
             | None \<Rightarrow> run_loop n symbols s')"

subsection \<open>Signature\<close>

definition hex_digit :: "4 word \<Rightarrow> char" where
  "hex_digit d = ''0123456789abcdef'' ! unat d"

text \<open>\<open>std::hex << std::setfill('0') << std::setw(16) << value\<close>\<close>

definition hex16 :: "u64 \<Rightarrow> string" where
  "hex16 v = map (\<lambda>i. hex_digit (field (4 * (15 - i)) v)) [0..<16]"

text \<open>
  \<open>for (off = 0; off + 8 <= bytes; off += 8) sig << ...\<close>: the sum is modulo \<open>2 ^ 64\<close>, so the
  loop need not end; \<open>None\<close> is a loop that does not return.
\<close>

partial_function (option) dump_loop :: "byte_mem \<Rightarrow> u64 \<Rightarrow> u64 \<Rightarrow> u64 \<Rightarrow> string option" where
  "dump_loop memory begin bytes off =
     (if off + 8 \<le> bytes then
        Option.bind (dump_loop memory begin bytes (off + 8))
          (\<lambda>rest. Some (hex16 (read_u64 memory (begin + off)) @ [CHR 0x0A] @ rest))
      else Some [])"

text \<open>The contents written to the signature file: \<open>Some None\<close> when no file is written.\<close>

definition dump_signature :: "(string \<Rightarrow> bool) \<Rightarrow> byte_mem \<Rightarrow> Symbols \<Rightarrow> string \<Rightarrow>
                                string option option" where
  "dump_signature writable memory symbols path =
     (if path = [] then Some None
      else if \<not> writable path then Some None
      else if begin_signature symbols = 0 \<or> end_signature symbols \<le> begin_signature symbols
      then Some (Some (''00000000'' @ [CHR 0x0A]))
      else map_option Some
             (dump_loop memory (begin_signature symbols)
                (end_signature symbols - begin_signature symbols) 0))"

subsection \<open>Main\<close>

text \<open>
  The outcome of \<open>main\<close>: an exit status with what was written to the signature file, an uncaught
  exception, undefined behaviour, or a run that does not end.
\<close>

datatype outcome = Returned int "string option" | Uncaught | Undefined | Diverges

definition finish :: "(string \<Rightarrow> bool) \<Rightarrow> Options \<Rightarrow> Symbols \<Rightarrow> bool option \<times> byte_mem \<Rightarrow> outcome"
  where
  "finish writable opts symbols r =
     (case dump_signature writable (snd r) symbols (signature_path opts) of
        None \<Rightarrow> Diverges
      | Some sig \<Rightarrow>
          Returned (case fst r of None \<Rightarrow> 3 | Some True \<Rightarrow> 0 | Some False \<Rightarrow> 1) sig)"

definition runner_main :: "(string \<Rightarrow> elf_file) \<Rightarrow> (string \<Rightarrow> bool) \<Rightarrow> core_state \<Rightarrow> string list \<Rightarrow>
                             outcome" where
  "runner_main files writable power_up args =
     (case parse_args args of
        None \<Rightarrow> Uncaught
      | Some opts \<Rightarrow>
          if show_help opts then Returned 0 None
          else if elf_path opts = [] then Returned 0 None
          else
            (case load_elf64 (files (elf_path opts)) Map.empty no_symbols of
               None \<Rightarrow> Undefined
             | Some (ok, memory, symbols) \<Rightarrow>
                 if \<not> ok then Returned 2 None
                 else
                   (case Option.bind (runner_ticks 5 True (power_up, memory))
                           (run_loop (unat (max_cycles opts)) symbols) of
                      None \<Rightarrow> Undefined
                    | Some r \<Rightarrow> finish writable opts symbols r)))"

section \<open>Lemmas\<close>

subsection \<open>Reset\<close>

lemma runner_tick_reset: "runner_tick True s = Some (core_reset_state, snd s)"
proof -
  have "\<not> dmem_write_en core_reset_state"
    by (simp add: dmem_write_en_def core_reset_state_def dmem_write_req_def ex_mem_reset_def)
  then show ?thesis
    by (simp add: runner_tick_def runner_inputs_def core_step_reset)
qed

lemma runner_ticks_reset: "runner_ticks (Suc n) True s = Some (core_reset_state, snd s)"
  by (induction n arbitrary: s) (simp_all add: runner_tick_reset)

text \<open>\<open>main\<close> from the reset on, with the power-up state gone.\<close>

lemma runner_reset: "runner_ticks 5 True (power_up, memory) = Some (core_reset_state, memory)"
  using runner_ticks_reset [of 4] by (simp add: numeral_eq_Suc)

subsection \<open>The run loop\<close>

text \<open>
  The protocol of the test programs, stated without reference to the loop: after a tick the
  program has just reported \<open>w\<close> if the access on the bus is a store whose eight bytes meet the
  four bytes at \<open>tohost\<close> (that symbol being present), and the low word at \<open>tohost\<close> is \<open>w\<close>.
  \<open>first_report symbols s k w\<close> says that tick \<open>k\<close> reports \<open>w\<close>, and no earlier tick reports 1 or 3.
\<close>

definition reports :: "Symbols \<Rightarrow> core_state \<times> byte_mem \<Rightarrow> u64 \<Rightarrow> bool" where
  "reports symbols s w \<longleftrightarrow>
     dmem_write_en (fst s) \<and> tohost symbols \<noteq> 0 \<and>
     dmem_addr (fst s) \<le> tohost symbols + 3 \<and> tohost symbols \<le> dmem_addr (fst s) + 7 \<and>
     take_bit 32 (read_u64 (snd s) (tohost symbols)) = w"

definition first_report :: "Symbols \<Rightarrow> core_state \<times> byte_mem \<Rightarrow> nat \<Rightarrow> u64 \<Rightarrow> bool" where
  "first_report symbols s k w \<longleftrightarrow>
     (\<exists>s'. runner_ticks (Suc k) False s = Some s' \<and> reports symbols s' w) \<and>
     (\<forall>j<k. \<forall>t. runner_ticks (Suc j) False s = Some t \<longrightarrow>
        \<not> reports symbols t 1 \<and> \<not> reports symbols t 3)"

text \<open>
  The loop stops at the first tick with a verdict: \<open>first_verdict symbols s k v m\<close> says that
  tick \<open>k\<close> gives the verdict \<open>v\<close> and the memory \<open>m\<close>, and no earlier tick gives one.
\<close>

definition first_verdict :: "Symbols \<Rightarrow> core_state \<times> byte_mem \<Rightarrow> nat \<Rightarrow> bool \<Rightarrow> byte_mem \<Rightarrow> bool" where
  "first_verdict symbols s k v m \<longleftrightarrow>
     (\<exists>s'. runner_ticks (Suc k) False s = Some s' \<and> tohost_verdict symbols s' = Some v \<and> m = snd s') \<and>
     (\<forall>j<k. \<forall>t. runner_ticks (Suc j) False s = Some t \<longrightarrow> tohost_verdict symbols t = None)"

lemma first_verdict_0:
  "runner_tick False s = Some s1 \<Longrightarrow>
     first_verdict symbols s 0 v m \<longleftrightarrow> tohost_verdict symbols s1 = Some v \<and> m = snd s1"
  by (auto simp: first_verdict_def)

lemma first_verdict_Suc:
  "runner_tick False s = Some s1 \<Longrightarrow>
     first_verdict symbols s (Suc k) v m \<longleftrightarrow>
       tohost_verdict symbols s1 = None \<and> first_verdict symbols s1 k v m"
  by (cases s1) (auto simp: first_verdict_def All_less_Suc2)

lemma run_loop_verdict_iff:
  "run_loop n symbols s = Some (Some v, m) \<longleftrightarrow> (\<exists>k<n. first_verdict symbols s k v m)"
proof (induction n arbitrary: s)
  case (Suc n)
  show ?case
  proof (cases "runner_tick False s")
    case None
    then show ?thesis by (auto simp: first_verdict_def)
  next
    case (Some s1)
    then show ?thesis
      using Suc.IH by (auto simp: Ex_less_Suc2 first_verdict_0 first_verdict_Suc split: option.splits)
  qed
qed simp

lemma tohost_verdict_reports:
  "tohost_verdict symbols s = Some v \<longleftrightarrow> reports symbols s (if v then 1 else 3)"
proof -
  have *: "(ucast (x AND 0xFFFFFFFF) :: u32) = c \<longleftrightarrow> take_bit 32 x = ucast c" for x :: u64 and c
  proof -
    have "x AND 0xFFFFFFFF = take_bit 32 x" by (simp add: take_bit_eq_mask mask_numeral)
    moreover have "take_bit 32 x = ucast (ucast (take_bit 32 x) :: u32)"
      by (rule bit_word_eqI) (auto simp: bit_simps)
    moreover have "(ucast (ucast c :: u64) :: u32) = c"
      by (rule bit_word_eqI) (auto simp: bit_simps)
    ultimately show ?thesis by metis
  qed
  show ?thesis
    by (auto simp: tohost_verdict_def reports_def overlaps_tohost_def Let_def * split: if_splits)
qed

lemma tohost_verdict_None_reports:
  "tohost_verdict symbols s = None \<longleftrightarrow> \<not> reports symbols s 1 \<and> \<not> reports symbols s 3"
  using tohost_verdict_reports [of symbols s True] tohost_verdict_reports [of symbols s False]
  by (cases "tohost_verdict symbols s") auto

lemma first_verdict_report:
  "(\<exists>m. first_verdict symbols s k v m) \<longleftrightarrow> first_report symbols s k (if v then 1 else 3)"
  unfolding first_verdict_def first_report_def tohost_verdict_None_reports tohost_verdict_reports
  by auto

text \<open>The outcome after the file is loaded.\<close>

lemma runner_main_loaded:
  assumes "parse_args args = Some opts" "\<not> show_help opts" "elf_path opts \<noteq> []"
    and "load_elf64 (files (elf_path opts)) Map.empty no_symbols = Some (True, memory, symbols)"
  shows "runner_main files writable power_up args =
    (case run_loop (unat (max_cycles opts)) symbols (core_reset_state, memory) of
       None \<Rightarrow> Undefined | Some r \<Rightarrow> finish writable opts symbols r)"
  using assms by (simp add: runner_main_def runner_reset)

subsection \<open>The signature loop\<close>

declare dump_loop.simps [code]

text \<open>The lines the loop writes from \<open>off\<close> on.\<close>

definition sig_lines :: "byte_mem \<Rightarrow> u64 \<Rightarrow> nat \<Rightarrow> nat \<Rightarrow> string" where
  "sig_lines memory begin i n =
     concat (map (\<lambda>k. hex16 (read_u64 memory (begin + of_nat (8 * k))) @ [CHR 0x0A]) [i..<n])"

lemma dump_loop_returns:
  assumes "unat bytes < 2 ^ 64 - 8" "i \<le> unat bytes div 8"
  shows "dump_loop memory begin bytes (of_nat (8 * i)) =
           Some (sig_lines memory begin i (unat bytes div 8))"
  using assms(2)
proof (induction "unat bytes div 8 - i" arbitrary: i)
  case 0
  then have i: "i = unat bytes div 8" by simp
  have "\<not> of_nat (8 * i) + 8 \<le> bytes"
  proof -
    have "unat bytes < 8 * i + 8" "8 * i + 8 < 2 ^ 64" using assms(1) unfolding i by auto
    moreover have "unat (of_nat (8 * i + 8) :: u64) = 8 * i + 8"
      using calculation(2) by (simp only: unat_of_nat) (simp add: take_bit_nat_eq_self)
    ultimately show ?thesis by (simp add: word_le_nat_alt)
  qed
  then show ?case
    by (subst dump_loop.simps) (simp add: sig_lines_def i)
next
  case (Suc d)
  then have lt: "Suc i \<le> unat bytes div 8" by simp
  have "unat (of_nat (8 * i + 8) :: u64) = 8 * i + 8"
    using lt assms(1) by (simp only: unat_of_nat) (simp add: take_bit_nat_eq_self)
  then have "of_nat (8 * i) + 8 \<le> bytes"
    using lt by (simp add: word_le_nat_alt)
  moreover have "dump_loop memory begin bytes (of_nat (8 * i) + 8) =
      Some (sig_lines memory begin (Suc i) (unat bytes div 8))"
    using Suc.hyps(1) [of "Suc i"] Suc.hyps(2) lt by (simp add: algebra_simps)
  moreover have "[i..<unat bytes div 8] = i # [Suc i..<unat bytes div 8]"
    using lt by (simp add: upt_conv_Cons)
  ultimately show ?case
    by (subst dump_loop.simps) (simp add: sig_lines_def)
qed

text \<open>
  With at least \<open>2 ^ 64 - 8\<close> bytes the sum \<open>off + 8\<close> wraps to 0 before it exceeds \<open>bytes\<close>.
\<close>

lemma dump_loop_no_result:
  assumes "dump_loop memory begin bytes off = Some text"
  shows "8 dvd unat off \<longrightarrow> unat bytes < 2 ^ 64 - 8"
proof (rule dump_loop.raw_induct [OF _ assms, where P = "\<lambda>memory begin bytes off text.
    8 dvd unat off \<longrightarrow> unat bytes < 2 ^ 64 - 8"])
  fix dump_loop' :: "byte_mem \<Rightarrow> u64 \<Rightarrow> u64 \<Rightarrow> u64 \<Rightarrow> string option"
    and mm :: byte_mem and bg bytes off :: u64 and res :: string
  assume IH: "\<And>memory begin bytes off text.
      dump_loop' memory begin bytes off = Some text \<Longrightarrow>
      8 dvd unat off \<longrightarrow> unat bytes < 2 ^ 64 - 8"
    and step: "(if off + 8 \<le> bytes
       then dump_loop' mm bg bytes (off + 8) \<bind>
            (\<lambda>rest. Some (hex16 (read_u64 mm (bg + off)) @ [CHR 0x0A] @ rest))
       else Some []) = Some res"
  have next_off: "unat (off + 8) = (unat off + 8) mod 2 ^ 64"
    by (simp add: unat_word_ariths)
  show "8 dvd unat off \<longrightarrow> unat bytes < 2 ^ 64 - 8"
  proof
    assume dvd: "8 dvd unat off"
    then have dvd': "8 dvd unat (off + 8)"
      unfolding next_off by (simp add: dvd_mod)
    show "unat bytes < 2 ^ 64 - 8"
    proof (cases "off + 8 \<le> bytes")
      case True
      then show ?thesis using step IH dvd' by (auto split: bind_splits)
    next
      case False
      moreover have "unat (off + 8) \<le> 2 ^ 64 - 8"
      proof -
        have "unat (off + 8) < 2 ^ 64" unfolding next_off by simp
        then have "unat (off + 8) < 18446744073709551616" by simp
        with dvd' have "unat (off + 8) \<le> 18446744073709551608" by presburger
        then show ?thesis by simp
      qed
      ultimately show ?thesis by (simp add: word_le_nat_alt)
    qed
  qed
qed

subsection \<open>Hexadecimal lines\<close>

lemma hex_digit_inj: "hex_digit d = hex_digit e \<longleftrightarrow> d = e"
proof -
  have "distinct ''0123456789abcdef''" by simp
  moreover have "unat x < length ''0123456789abcdef''" for x :: "4 word"
  proof -
    have "unat x < 2 ^ LENGTH(4)" by (rule unsigned_less)
    then show ?thesis by simp
  qed
  ultimately have "hex_digit d = hex_digit e \<longleftrightarrow> unat d = unat e"
    unfolding hex_digit_def by (intro nth_eq_iff_index_eq)
  then show ?thesis by (auto intro: unsigned_word_eqI)
qed

lemma hex16_nibble:
  assumes "hex16 v = hex16 w" "i < 16"
  shows "(field (4 * i) v :: 4 word) = field (4 * i) w"
proof -
  have "hex16 v ! (15 - i) = hex16 w ! (15 - i)" using assms(1) by simp
  moreover have "[0..<16] ! (15 - i) = 15 - i" by (subst nth_upt) auto
  ultimately show ?thesis using assms(2) by (simp add: hex16_def hex_digit_inj)
qed

text \<open>
  The text of a signature, from the bytes of memory: the most significant byte of a doubleword
  first, two digits each.
\<close>

definition byte_hex :: "u8 \<Rightarrow> string" where
  "byte_hex b = [''0123456789abcdef'' ! (unat b div 16), ''0123456789abcdef'' ! (unat b mod 16)]"

definition dword_line :: "byte_mem \<Rightarrow> u64 \<Rightarrow> string" where
  "dword_line memory addr =
     concat (map (\<lambda>j. byte_hex (read_byte memory (addr + of_nat j))) [7, 6, 5, 4, 3, 2, 1, 0]) @
     [CHR 0x0A]"

lemma nibbles_read_u64:
  fixes memory :: byte_mem and addr :: u64
  assumes "j < 8"
  defines "b \<equiv> read_byte memory (addr + of_nat j)"
  shows "unat (field (8 * j) (read_u64 memory addr) :: 4 word) = unat b mod 16"
    and "unat (field (8 * j + 4) (read_u64 memory addr) :: 4 word) = unat b div 16"
proof -
  have low: "(field (8 * j) (read_u64 memory addr) :: 4 word) = ucast b"
    and high: "(field (8 * j + 4) (read_u64 memory addr) :: 4 word) = ucast (drop_bit 4 b)"
    using assms(1)
    by (auto intro!: bit_word_eqI simp: b_def bit_simps bit_unfold bit_read_u64 add.assoc)
  show "unat (field (8 * j) (read_u64 memory addr) :: 4 word) = unat b mod 16"
    by (simp add: low unsigned_ucast_eq take_bit_eq_mod)
  have "unat b < 2 ^ LENGTH(8)" by (rule unsigned_less)
  then show "unat (field (8 * j + 4) (read_u64 memory addr) :: 4 word) = unat b div 16"
    by (simp add: high unsigned_ucast_eq take_bit_eq_mod unat_drop_bit_eq drop_bit_eq_div unat_div)
qed

lemma hex16_read_u64: "hex16 (read_u64 memory addr) @ [CHR 0x0A] = dword_line memory addr"
proof -
  have nib: "''0123456789abcdef'' ! unat (field (8 * j + 4) (read_u64 memory addr) :: 4 word) =
      ''0123456789abcdef'' ! (unat (read_byte memory (addr + of_nat j)) div 16)"
    "''0123456789abcdef'' ! unat (field (8 * j) (read_u64 memory addr) :: 4 word) =
      ''0123456789abcdef'' ! (unat (read_byte memory (addr + of_nat j)) mod 16)" if "j < 8" for j
    using nibbles_read_u64 [OF that, of memory addr] by (simp_all only:)
  note n = nib [of 7] nib [of 6] nib [of 5] nib [of 4] nib [of 3] nib [of 2] nib [of 1] nib [of 0]
  show ?thesis
    using n by (simp add: hex16_def hex_digit_def dword_line_def byte_hex_def upt_rec
        del: nth_Cons_numeral)
qed

lemma sig_lines_dwords:
  "sig_lines memory begin 0 n = concat (map (\<lambda>k. dword_line memory (begin + of_nat (8 * k))) [0..<n])"
  by (simp add: sig_lines_def hex16_read_u64)

subsection \<open>Definedness of a tick\<close>

lemma store_lanes_None_iff:
  assumes "l < 8"
  shows "store_lanes n a w l m = None \<longleftrightarrow> 8 < l + n"
  using assms
proof (induction n arbitrary: l m)
  case (Suc n)
  show ?case
  proof (cases "Suc l < 8")
    case True
    then show ?thesis using Suc by (simp add: store_lane_def)
  next
    case False
    then have "l = 7" using Suc.prems by simp
    then show ?thesis by (cases n) (simp_all add: store_lane_def)
  qed
qed simp

lemma write_store_None_iff:
  "write_store addr wdata size_code m = None \<longleftrightarrow> 8 < align_offset addr + store_bytes size_code"
  by (simp add: write_store_def align_offset_and store_lanes_None_iff align_offset_bound)

section \<open>Properties\<close>

text \<open>
  whatever the registers of the core hold before the reset, the runner does the same: its
  five reset ticks leave one state and no store.
\<close>

theorem runner_power_up_irrelevant:
  "runner_main files writable power_up args = runner_main files writable power_up' args"
  by (simp only: runner_main_def runner_reset)

text \<open>
  C32: when the file loads and the runner returns, its exit status is the report of the program
  under test: 0 exactly when, within \<open>max_cycles\<close> ticks, the first store to \<open>tohost\<close> that leaves
  1 or 3 there leaves 1, 1 exactly when it leaves 3, and 3 when there is none.  As in
  the runner, every store to an address from 7 bytes below to 3 bytes above \<open>tohost\<close> counts, of any
  width, and the word at \<open>tohost\<close> after it is what is reported.
\<close>

theorem runner_exit_is_verdict:
  assumes "parse_args args = Some opts" "\<not> show_help opts" "elf_path opts \<noteq> []"
    and "load_elf64 (files (elf_path opts)) Map.empty no_symbols = Some (True, memory, symbols)"
    and "runner_main files writable power_up args = Returned c sig"
  shows "(c = 0 \<longleftrightarrow> (\<exists>k<unat (max_cycles opts).
                     first_report symbols (core_reset_state, memory) k 1)) \<and>
         (c = 1 \<longleftrightarrow> (\<exists>k<unat (max_cycles opts).
                     first_report symbols (core_reset_state, memory) k 3)) \<and>
         c \<in> {0, 1, 3}"
proof -
  let ?loop = "run_loop (unat (max_cycles opts)) symbols (core_reset_state, memory)"
  obtain v m where loop: "?loop = Some (v, m)" "finish writable opts symbols (v, m) = Returned c sig"
    using assms(5) unfolding runner_main_loaded [of args opts files memory symbols writable power_up, OF assms(1-4)]
    by (auto split: option.splits)
  have verdict: "(\<exists>k<unat (max_cycles opts). \<exists>m. first_verdict symbols (core_reset_state, memory) k b m)
                   \<longleftrightarrow> v = Some b" for b
    using run_loop_verdict_iff [of "unat (max_cycles opts)" symbols "(core_reset_state, memory)" b]
      loop(1) by (metis option.inject prod.inject)
  have c: "c = (case v of None \<Rightarrow> 3 | Some True \<Rightarrow> 0 | Some False \<Rightarrow> 1)"
    using loop(2) by (auto simp: finish_def split: option.splits bool.splits)
  show ?thesis
    using verdict [of True] verdict [of False]
    by (auto simp: first_verdict_report c split: option.splits bool.splits)
qed

text \<open>
  C34: the loop that writes the signature returns exactly when there are fewer than
  \<open>2 ^ 64 - 8\<close> bytes; beyond that its bound \<open>off + 8\<close> wraps and it runs forever.
\<close>

theorem dump_loop_returns_iff:
  "dump_loop memory begin bytes 0 \<noteq> None \<longleftrightarrow> unat bytes < 2 ^ 64 - 8"
  using dump_loop_returns [of bytes 0 memory "begin"]
    dump_loop_no_result [of memory "begin" bytes 0]
  by auto

text \<open>
  C33: a signature region with both symbols present is written as one line for every doubleword it
  holds, in address order: the doubleword's bytes in memory, the highest address first, each as
  two lower-case hex digits, and a newline.  A last partial doubleword is not written.
\<close>

theorem signature_file_contents:
  assumes "path \<noteq> []" "writable path"
    and "begin_signature symbols \<noteq> 0" "begin_signature symbols < end_signature symbols"
    and "unat (end_signature symbols - begin_signature symbols) < 2 ^ 64 - 8"
  shows "dump_signature writable memory symbols path =
    Some (Some (concat (map (\<lambda>k.
        concat (map (\<lambda>j. let b = read_byte memory (begin_signature symbols + of_nat (8 * k) + of_nat j) in
          [''0123456789abcdef'' ! (unat b div 16), ''0123456789abcdef'' ! (unat b mod 16)])
          [7, 6, 5, 4, 3, 2, 1, 0]) @ [CHR 0x0A])
      [0..<unat (end_signature symbols - begin_signature symbols) div 8])))"
proof -
  have "\<not> end_signature symbols \<le> begin_signature symbols" using assms(4) by (simp add: not_le)
  then show ?thesis
    using assms(1-3) dump_loop_returns [OF assms(5), of 0 memory "begin_signature symbols"]
    unfolding sig_lines_dwords dword_line_def byte_hex_def Let_def
    by (simp add: dump_signature_def)
qed

theorem signature_file_contents_witness:
  "dump_signature (\<lambda>_. True) [0x1000 \<mapsto> 0xAB, 0x1007 \<mapsto> 0x12]
     \<lparr>begin_signature = 0x1000, end_signature = 0x100C, tohost = 0\<rparr> ''sig'' =
   Some (Some (''12000000000000ab'' @ [CHR 0x0A]))"
  using signature_file_contents [of "''sig''" "\<lambda>_. True"
      "\<lparr>begin_signature = 0x1000, end_signature = 0x100C, tohost = 0\<rparr>"
      "[0x1000 \<mapsto> 0xAB, 0x1007 \<mapsto> 0x12]"]
  by (simp add: read_byte_def)

text \<open>a line of the signature determines the doubleword it was printed from.\<close>

theorem hex16_injective: "hex16 v = hex16 w \<longleftrightarrow> v = w"
proof
  assume eq: "hex16 v = hex16 w"
  show "v = w"
  proof (rule bit_word_eqI)
    fix n assume n: "n < LENGTH(64)"
    have "(field (4 * (n div 4)) v :: 4 word) = field (4 * (n div 4)) w"
      using n by (intro hex16_nibble [OF eq]) simp
    then have "bit (field (4 * (n div 4)) v :: 4 word) (n mod 4) =
               bit (field (4 * (n div 4)) w :: 4 word) (n mod 4)" by simp
    then show "bit v n \<longleftrightarrow> bit w n" using mod_less_divisor [of 4 n] by (simp add: bit_unfold)
  qed
qed simp

text \<open>
  C35: the only undefined behaviour of a tick is the store of a \<open>size\<close> code 7 to an address that
  is not a multiple of 8: there the runner shifts the store data by 64 or more.
\<close>

theorem runner_tick_undefined_iff:
  "runner_tick rst s = None \<longleftrightarrow>
     (let t = core_step (runner_inputs rst (fst s) (snd s)) (fst s)
      in dmem_write_en t \<and> dmem_size t = 0b111 \<and> align_offset (dmem_addr t) \<noteq> 0)"
proof -
  let ?t = "core_step (runner_inputs rst (fst s) (snd s)) (fst s)"
  have "8 < align_offset (dmem_addr ?t) + access_bytes (dmem_size ?t) \<longleftrightarrow>
          dmem_size ?t = 0b111 \<and> align_offset (dmem_addr ?t) \<noteq> 0" if "dmem_write_en ?t"
  proof (cases "dmem_size ?t = 0b111")
    case True
    then show ?thesis by (auto simp: access_bytes_def)
  next
    case False
    have "\<not> addr_misaligned (dmem_size ?t) (dmem_addr ?t)"
      using that by (simp add: dmem_write_en_def dmem_write_req_def store_addr_misaligned_def
          dmem_size_def dmem_addr_def)
    then show ?thesis using False access_in_dword [of "dmem_size ?t" "dmem_addr ?t"] by simp
  qed
  then show ?thesis
    by (simp add: runner_tick_def Let_def write_store_None_iff store_bytes_access)
qed

end
