(* ===== verification/Runner_Refinement.thy ===== *)
theory Runner_Refinement
  imports Compliance_Runner Pipeline_Refinement
begin

text \<open>
  The compliance runner provides the laws of \<open>watched_bench\<close>: clocked against the byte memory,
  the pipeline refines the sequential machine over that memory, and the loop of \<open>main\<close>, which
  looks at \<open>tohost\<close> after every store, sees what the instructions write there.  Code and data
  share the memory: an instruction may overwrite the program, but not the two instructions
  behind it (\<open>isa_plain\<close>).
\<close>

section \<open>Definitions\<close>

definition runner_port :: "byte_mem memory_port" where
  "runner_port =
     \<lparr>mp_fetch = read_u32, mp_load = (\<lambda>m addr. read_u64 m (addr AND NOT 0x7)),
      mp_store = (\<lambda>addr data sz. write_store addr data (ucast sz))\<rparr>"

text \<open>A tick of the runner; where the store is undefined, the clock edge alone.\<close>

definition runner_advance :: "core_state \<times> byte_mem \<Rightarrow> core_state \<times> byte_mem" where
  "runner_advance s =
     (case runner_tick False s of
        Some s' \<Rightarrow> s'
      | None \<Rightarrow> (core_step (runner_inputs False (fst s) (snd s)) (fst s), snd s))"

text \<open>The runner stands for the architectural state \<open>a\<close>.\<close>

definition runner_rel :: "core_state \<times> byte_mem \<Rightarrow> byte_mem arch_state \<Rightarrow> bool" where
  "runner_rel s a \<longleftrightarrow>
     arch_mem a = snd s \<and>
     core_rel (read_u32 (snd s)) (in_dmem_rdata (runner_inputs False (fst s) (snd s))) (fst s) a"

text \<open>
  The report protocol of the test programs: a store to an address from 7 bytes below to 3 bytes
  above \<open>tohost\<close>, after which the word at \<open>tohost\<close> is 1 (pass) or 3 (fail).
\<close>

definition tohost_watch :: "Symbols \<Rightarrow> u64 \<Rightarrow> byte_mem \<Rightarrow> bool option" where
  "tohost_watch symbols addr m =
     (if tohost symbols \<noteq> 0 \<and> addr \<le> tohost symbols + 3 \<and> tohost symbols \<le> addr + 7 then
        if take_bit 32 (read_u64 m (tohost symbols)) = 1 then Some True
        else if take_bit 32 (read_u64 m (tohost symbols)) = 3 then Some False
        else None
      else None)"

text \<open>What the next instruction of the sequential machine reports.\<close>

definition isa_verdict :: "Symbols \<Rightarrow> byte_mem arch_state \<Rightarrow> bool option" where
  "isa_verdict symbols = isa_watch runner_port (tohost_watch symbols)"

abbreviation runner_step :: "byte_mem arch_state \<Rightarrow> byte_mem arch_state" where
  "runner_step \<equiv> isa_step runner_port"

abbreviation runner_plain :: "byte_mem arch_state \<Rightarrow> bool" where
  "runner_plain \<equiv> isa_plain runner_port"

text \<open>The state after \<open>k\<close> instructions of a program loaded into \<open>memory\<close>.\<close>

definition runner_state :: "byte_mem \<Rightarrow> nat \<Rightarrow> byte_mem arch_state" where
  "runner_state memory k = iterate k runner_step (boot_state memory)"

section \<open>Lemmas\<close>

lemma runner_port_simps [simp]:
  "mp_fetch runner_port = read_u32"
  "mp_load runner_port m addr = read_u64 m (addr AND NOT 0x7)"
  "mp_store runner_port addr data sz m = write_store addr data (ucast sz) m"
  by (simp_all add: runner_port_def)

lemma runner_advance_eq:
  "fst (runner_advance s) = core_step (runner_inputs False (fst s) (snd s)) (fst s)"
  "\<not> dmem_write_en (fst (runner_advance s)) \<Longrightarrow> snd (runner_advance s) = snd s"
  "dmem_write_en (fst (runner_advance s)) \<Longrightarrow>
     write_store (dmem_addr (fst (runner_advance s))) (dmem_wdata_out (fst (runner_advance s)))
       (ucast (dmem_size (fst (runner_advance s)))) (snd s) = Some m \<Longrightarrow>
     snd (runner_advance s) = m"
  by (auto simp: runner_advance_def runner_tick_def Let_def split: option.splits if_splits)

interpretation runner: watched_bench runner_port runner_advance fst snd
  "\<lambda>s. runner_inputs False (fst s) (snd s)" "\<lambda>_. True" "tohost_watch symbols" for symbols
  by unfold_locales
    (simp_all add: runner_advance_eq(1) [symmetric] runner_advance_eq(2,3), simp_all add: runner_inputs_def)

lemma runner_rel_eq: "runner.rel = runner_rel"
  by (simp add: fun_eq_iff runner.rel_def runner_rel_def)

lemma tohost_verdict_watch: "tohost_verdict symbols s = core_watch (tohost_watch symbols) (fst s) (snd s)"
proof -
  have "core_watch (tohost_watch symbols) (fst s) (snd s) = Some v \<longleftrightarrow>
        reports symbols s (if v then 1 else 3)" for v
    by (auto simp: core_watch_def tohost_watch_def reports_def)
  then show ?thesis
    by (metis not_None_eq tohost_verdict_reports)
qed

text \<open>While the program is plain, every tick is defined.\<close>

lemma runner_tick_defined:
  assumes "runner_rel s a" "runner_plain a"
  shows "runner_tick False s = Some (runner_advance s)"
proof (cases "dmem_write_en (fst (runner_advance s))")
  case True
  with runner.store_defined [of s a] assms show ?thesis
    by (auto simp: runner_rel_eq runner_advance_def runner_tick_def Let_def split: option.splits)
next
  case False
  then show ?thesis
    by (auto simp: runner_advance_def runner_tick_def Let_def split: option.splits if_splits)
qed

lemma runner_ticks_defined:
  assumes "\<forall>j<t. \<exists>a. runner_rel (iterate j runner_advance s) a \<and> runner_plain a"
  shows "runner_ticks t False s = Some (iterate t runner_advance s)"
  using assms
proof (induction t arbitrary: s)
  case (Suc t)
  have "runner_tick False s = Some (runner_advance s)"
    using Suc.prems runner_tick_defined by (metis iterate.simps(1) zero_less_Suc)
  moreover have "\<forall>j<t. \<exists>a. runner_rel (iterate j runner_advance (runner_advance s)) a \<and> runner_plain a"
    using Suc.prems by (metis Suc_less_eq iterate.simps(2))
  ultimately show ?case using Suc.IH by simp
qed simp

lemma boot_runner_rel: "runner_rel (core_reset_state, memory) (boot_state memory)"
  using runner.rel_reset [of "(core_reset_state, memory)"] by (simp add: runner_rel_eq)

text \<open>The run loop ends with the verdict of the sequential machine.\<close>

lemma run_loop_isa_verdict:
  assumes "\<forall>k\<le>n. runner_plain (iterate k runner_step (boot_state memory))"
    and "\<forall>k<n. isa_verdict symbols (iterate k runner_step (boot_state memory)) = None"
    and "isa_verdict symbols (iterate n runner_step (boot_state memory)) = Some v"
    and "3 * (n + 1) \<le> N"
  shows "run_loop N symbols (core_reset_state, memory) =
           Some (Some v, arch_mem (iterate (Suc n) runner_step (boot_state memory)))"
proof -
  let ?s = "(core_reset_state, memory)" and ?a = "boot_state memory"
  obtain t where t: "t < 3 * (n + 1)"
    and obs: "tohost_verdict symbols (iterate (Suc t) runner_advance ?s) = Some v"
    and rel: "runner_rel (iterate (Suc t) runner_advance ?s) (iterate (Suc n) runner_step ?a)"
    and before: "\<forall>j\<le>t. (\<exists>k\<le>n. runner_rel (iterate j runner_advance ?s) (iterate k runner_step ?a)) \<and>
                  (0 < j \<longrightarrow> tohost_verdict symbols (iterate j runner_advance ?s) = None)"
    using runner.watched.first_obs [of ?s ?a n symbols v] assms(1-3) boot_runner_rel [of memory]
    by (auto simp: runner_rel_eq tohost_verdict_watch isa_verdict_def)
  have plain: "\<exists>a. runner_rel (iterate i runner_advance ?s) a \<and> runner_plain a" if "i \<le> t" for i
    using before assms(1) that by blast
  have ticks: "runner_ticks j False ?s = Some (iterate j runner_advance ?s)" if "j \<le> Suc t" for j
    using that plain by (intro runner_ticks_defined) simp
  have "first_verdict symbols ?s t v (snd (iterate (Suc t) runner_advance ?s))"
    unfolding first_verdict_def
  proof (intro conjI exI allI impI)
    show "runner_ticks (Suc t) False ?s = Some (iterate (Suc t) runner_advance ?s)"
      by (rule ticks) simp
    show "tohost_verdict symbols s' = None"
      if "j < t" "runner_ticks (Suc j) False ?s = Some s'" for j s'
      using that before [rule_format, of "Suc j"] ticks [of "Suc j"] by simp
  qed (use obs in simp_all)
  moreover have "snd (iterate (Suc t) runner_advance ?s) = arch_mem (iterate (Suc n) runner_step ?a)"
    using rel by (simp add: runner_rel_def)
  ultimately show ?thesis
    using t assms(4) unfolding run_loop_verdict_iff by (metis less_le_trans)
qed

subsection \<open>A test program\<close>

text \<open>
  A test program that reports a pass: \<open>addi x2, x0, 1; sw x2, 0x100(x0)\<close> at the reset vector, with
  the symbol \<open>tohost\<close> at 0x100.  The one section is a symbol table of one entry, which is its own
  string table: the name stands in the size field.
\<close>

definition pass_elf :: "u8 list" where
  "pass_elf =
     elf_ident @ [2, 0, 0xF3, 0, 1, 0, 0, 0] @ replicate 8 0 @ [64, 0, 0, 0, 0, 0, 0, 0]
     @ [152, 0, 0, 0, 0, 0, 0, 0] @ replicate 4 0 @ [64, 0, 56, 0, 1, 0, 64, 0, 1, 0, 0, 0]
     @ [1, 0, 0, 0, 5, 0, 0, 0] @ [120, 0, 0, 0, 0, 0, 0, 0] @ replicate 8 0
     @ [0, 0, 0, 0x80, 0, 0, 0, 0] @ [8, 0, 0, 0, 0, 0, 0, 0] @ [8, 0, 0, 0, 0, 0, 0, 0] @ replicate 8 0
     @ [0x13, 0x01, 0x10, 0x00, 0x23, 0x20, 0x20, 0x10]
     @ [16, 0, 0, 0, 0, 0, 0, 0] @ [0, 1, 0, 0, 0, 0, 0, 0] @ bytes_of ''tohost'' @ [0, 0]
     @ [0, 0, 0, 0, 2, 0, 0, 0] @ replicate 16 0 @ [128, 0, 0, 0, 0, 0, 0, 0]
     @ [24, 0, 0, 0, 0, 0, 0, 0] @ replicate 16 0 @ [24, 0, 0, 0, 0, 0, 0, 0]"

definition pass_mem :: byte_mem where
  "pass_mem =
     [0x80000000 \<mapsto> 0x13, 0x80000001 \<mapsto> 0x01, 0x80000002 \<mapsto> 0x10, 0x80000003 \<mapsto> 0x00,
      0x80000004 \<mapsto> 0x23, 0x80000005 \<mapsto> 0x20, 0x80000006 \<mapsto> 0x20, 0x80000007 \<mapsto> 0x10]"

definition pass_symbols :: Symbols where
  "pass_symbols = no_symbols\<lparr>tohost := 0x100\<rparr>"

lemmas pass_elf_defs = pass_elf_def elf_ident_def replicate_numeral bytes_of_def

lemma pass_elf_facts:
  "length pass_elf = 216"
  "ehdr_of pass_elf =
     \<lparr>e_phoff = 64, e_shoff = 152, e_phentsize = 56, e_phnum = 1, e_shentsize = 64, e_shnum = 1\<rparr>"
  "p_type pass_elf 64 = Some 1" "p_offset pass_elf 64 = Some 120"
  "p_filesz pass_elf 64 = Some 8" "p_memsz pass_elf 64 = Some 8" "p_paddr pass_elf 64 = Some 0x80000000"
  "sh_type pass_elf 152 = Some 2" "sh_offset pass_elf 152 = Some 128" "sh_size pass_elf 152 = Some 24"
  "sh_link pass_elf 152 = Some 0" "sh_entsize pass_elf 152 = Some 24"
  "st_name pass_elf 128 = Some 16" "st_value pass_elf 128 = Some 0x100"
  "magic_ok pass_elf" "e_ident pass_elf 4 = 2" "e_ident pass_elf 5 = 1" "pass_elf \<noteq> []"
  by (simp_all add: ehdr_of_def hdr_def elf_field_defs or_bytes_numeral magic_ok_def e_ident_def pass_elf_defs)

lemma pass_elf_code:
  "map (\<lambda>i. pass_elf ! i) [120, 121, 122, 123, 124, 125, 126, 127] =
     [0x13, 0x01, 0x10, 0x00, 0x23, 0x20, 0x20, 0x10]"
  by (simp add: pass_elf_defs)

lemma pass_elf_name: "c_string pass_elf 144 = Some (bytes_of ''tohost'')"
  by (simp add: c_string_def pass_elf_defs Let_def)

lemma copy_bytes_numeral:
  "copy_bytes data src base j (numeral k) m =
     (let i = unat (src + of_nat j) in
      if i < length data
      then copy_bytes data src base (Suc j) (pred_numeral k)
             (write_byte (base + of_nat j) (data ! i) m)
      else None)"
  by (simp add: numeral_eq_Suc)

lemma pass_elf_segment: "load_segment pass_elf 64 Map.empty = Some (True, pass_mem)"
  using pass_elf_code
  by (simp add: load_segment_def pass_elf_facts data_size_def copy_bytes_numeral write_byte_def
      pass_mem_def)

lemma pass_elf_loads:
  "load_elf64 (Contents pass_elf) Map.empty no_symbols = Some (True, pass_mem, pass_symbols)"
  by (simp add: load_elf64_def pass_elf_facts pass_elf_segment data_size_def Let_def load_section_def
      load_symbol_def pass_elf_name known_symbol_def set_symbol_def pass_symbols_def bytes_of_def)

lemma pass_code:
  "read_u32 pass_mem 0x80000000 = 0x00100113" "read_u32 pass_mem 0x80000004 = 0x10202023"
  "read_u32 pass_mem 0x80000008 = 0" "read_u32 pass_mem 0x8000000C = 0"
  by (simp_all add: read_u32_def or_bytes_numeral read_byte_def pass_mem_def)

abbreviation (input) pass_state :: "byte_mem arch_state" where
  "pass_state \<equiv> \<lparr>arch_pc = 0x80000004, arch_regs = (\<lambda>r. 0)(2 := 1), arch_mem = pass_mem\<rparr>"

lemma pass_decode_0:
  "isa_decode runner_port (boot_state pass_mem) =
     (decoder_defaults 0x00100113)\<lparr>dec_reg_write_en := True, dec_alu_src2_sel := True, dec_imm := 1,
        dec_alu_op := ALU_ADD, dec_rd_addr := 2, dec_rs1_addr := 0\<rparr>"
  by (simp add: isa_decode_def boot_state_def reset_vector_def pass_code decoder_OP_IMM field_def
      imm_defs op_imm_alu_def decoder_defaults_def)

lemma pass_decode_1:
  "isa_decode runner_port pass_state =
     (decoder_defaults 0x10202023)\<lparr>dec_is_store := True, dec_alu_src2_sel := True, dec_imm := 0x100,
        dec_mem_size := 0b010, dec_rs1_addr := 0, dec_rs2_addr := 2\<rparr>"
  by (simp add: isa_decode_def pass_code decoder_STORE field_def
      imm_defs decoder_defaults_def word_cat_eq)

lemma boot_state_simps:
  "arch_pc (boot_state m) = 0x80000000" "arch_regs (boot_state m) = (\<lambda>r. 0)" "arch_mem (boot_state m) = m"
  by (simp_all add: boot_state_def reset_vector_def)

lemmas pass_ex_defs = isa_ex_def Let_def ex_stage_defs alu_def rf_read_def regfile_read_def idle_port_def
  boot_state_simps

lemma pass_step_0:
  "runner_step (boot_state pass_mem) = pass_state" "runner_plain (boot_state pass_mem)"
  "isa_verdict symbols (boot_state pass_mem) = None"
proof -
  note d = pass_decode_0 [simplified decoder_defaults_def, simplified]
  have x: "exo_alu_result (isa_ex runner_port (boot_state pass_mem)) = 1"
    "\<not> exo_branch_taken (isa_ex runner_port (boot_state pass_mem))"
    by (simp_all add: d pass_ex_defs)
  show "runner_step (boot_state pass_mem) = pass_state"
    by (simp add: isa_step_def isa_result_def isa_store_def d x boot_state_simps rf_write_def
        regfile_ff_def Let_def)
  show "runner_plain (boot_state pass_mem)" "isa_verdict symbols (boot_state pass_mem) = None"
    by (simp_all add: isa_plain_def isa_store_def isa_verdict_def isa_watch_def d Let_def)
qed

lemma store_lanes_numeral:
  "store_lanes (numeral k) aligned wdata lane m =
     (case store_lane aligned wdata lane m of
        None \<Rightarrow> None
      | Some m' \<Rightarrow> store_lanes (pred_numeral k) aligned wdata (Suc lane) m')"
  by (simp add: numeral_eq_Suc)

lemma pass_step_1:
  "runner_plain pass_state" "isa_verdict pass_symbols pass_state = Some True"
proof -
  note d = pass_decode_1 [simplified decoder_defaults_def, simplified]
  have x: "exo_alu_result (isa_ex runner_port pass_state) = 0x100"
    by (simp add: d pass_ex_defs)
  have st: "isa_store runner_port pass_state =
      Some (pass_mem(0x100 \<mapsto> 1, 0x101 \<mapsto> 0, 0x102 \<mapsto> 0, 0x103 \<mapsto> 0))"
    by (simp add: isa_store_def d x Let_def rf_read_def regfile_read_def idle_port_def
        byte_memory_defs store_data_aligned_def align_offset_def field_def store_lanes_numeral)
  let ?m = "pass_mem(0x100 \<mapsto> 1, 0x101 \<mapsto> 0, 0x102 \<mapsto> 0, 0x103 \<mapsto> 0)"
  have code: "read_u32 ?m 0x80000008 = read_u32 pass_mem 0x80000008"
    "read_u32 ?m 0x8000000C = read_u32 pass_mem 0x8000000C" "read_u64 ?m 0x100 = 1"
    by (simp_all add: byte_memory_defs or_bytes_numeral pass_mem_def)
  show "runner_plain pass_state"
    by (simp add: isa_plain_def st d x Let_def addr_misaligned_def align_offset_def field_def code)
  show "isa_verdict pass_symbols pass_state = Some True"
    by (simp add: isa_verdict_def isa_watch_def isa_step_def st d x Let_def tohost_watch_def
        pass_symbols_def code)
qed

abbreviation (input) pass_args :: "string list" where
  "pass_args \<equiv> [''--elf'', ''t'', ''--max-cycles'', ''6'']"

abbreviation (input) pass_opts :: Options where
  "pass_opts \<equiv> \<lparr>max_cycles = 6, elf_path = ''t'', signature_path = [], show_help = False\<rparr>"

lemma pass_parse: "parse_args pass_args = Some pass_opts"
  by (simp add: parse_args_def default_options_def stoull_def stoull_digits_def digits_value_def
      is_space_def is_digit_def)

lemma pass_run_loop:
  "run_loop 6 pass_symbols (core_reset_state, pass_mem) =
     Some (Some True, arch_mem (runner_step pass_state))"
  using run_loop_isa_verdict [of 1 pass_mem pass_symbols True 6] pass_step_0 pass_step_1
  by (simp add: le_Suc_eq less_Suc_eq)

section \<open>Properties\<close>

text \<open>
  C3: the compliance runner judges a program by what its instructions do.  Let the file load, and
  let the sequential machine, started at the reset vector on the loaded memory, execute \<open>n + 1\<close>
  instructions that neither trap nor touch a CSR and whose stores spare the two instructions
  behind them; let instruction \<open>n\<close> be the first that reports to \<open>tohost\<close>.  If the cycle limit is
  at least \<open>3 (n + 1)\<close>, the runner stops with exit status 0 or 1 as that instruction reports
  a pass or a failure, and dumps the signature from the memory that instruction leaves: the
  pipeline, the tick and the polling of \<open>tohost\<close> add nothing and lose nothing.
\<close>

theorem runner_runs_program:
  assumes "parse_args args = Some opts" "\<not> show_help opts" "elf_path opts \<noteq> []"
    and "load_elf64 (files (elf_path opts)) Map.empty no_symbols = Some (True, memory, symbols)"
    and "\<forall>k\<le>n. runner_plain (runner_state memory k)"
    and "\<forall>k<n. isa_verdict symbols (runner_state memory k) = None"
    and "isa_verdict symbols (runner_state memory n) = Some pass"
    and "3 * (n + 1) \<le> unat (max_cycles opts)"
  shows "runner_main files writable power_up args =
    (case dump_signature writable (arch_mem (runner_state memory (Suc n))) symbols (signature_path opts) of
       None \<Rightarrow> Diverges
     | Some sig \<Rightarrow> Returned (if pass then 0 else 1) sig)"
proof -
  have "run_loop (unat (max_cycles opts)) symbols (core_reset_state, memory) =
      Some (Some pass, arch_mem (runner_state memory (Suc n)))"
    using run_loop_isa_verdict [OF assms(5-8) [unfolded runner_state_def]]
    by (simp add: runner_state_def)
  then show ?thesis
    unfolding runner_main_loaded [of args opts files memory symbols writable power_up, OF assms(1-4)]
    by (simp add: finish_def split: option.split)
qed

theorem runner_runs_program_witness:
  "runner_main (\<lambda>_. Contents pass_elf) (\<lambda>_. False) core_reset_state pass_args = Returned 0 None"
  using runner_runs_program [of pass_args pass_opts "\<lambda>_. Contents pass_elf" pass_mem pass_symbols 1
      True "\<lambda>_. False" core_reset_state] pass_parse pass_elf_loads pass_step_0 pass_step_1
  by (simp add: le_Suc_eq less_Suc_eq dump_signature_def runner_state_def)

text \<open>The report of that run, for the theorem on the exit status.\<close>

theorem runner_exit_is_verdict_witness:
  "\<exists>k<6. first_report pass_symbols (core_reset_state, pass_mem) k 1"
proof -
  have "runner_main (\<lambda>_. Contents pass_elf) (\<lambda>_. False) core_reset_state pass_args = Returned 0 None"
    using runner_main_loaded [of pass_args pass_opts "\<lambda>_. Contents pass_elf" pass_mem pass_symbols
        "\<lambda>_. False" core_reset_state] pass_parse pass_elf_loads pass_run_loop
    by (simp add: finish_def dump_signature_def)
  then show ?thesis
    using runner_exit_is_verdict [of pass_args pass_opts "\<lambda>_. Contents pass_elf" pass_mem pass_symbols
        "\<lambda>_. False" core_reset_state 0 None] pass_parse pass_elf_loads by simp
qed

end
