(* ===== verification/Bench.thy ===== *)
theory Bench
  imports Prelude
begin

text \<open>
  The common form of the unit benches under \<^verbatim>\<open>src/tb/unit\<close>.  A bench is a script of two kinds
  of steps on the device under test: it drives the device (assigns input ports, evaluates or
  clocks it) and it checks an output.  In most benches a failed check ends in \<open>assert(false)\<close>;
  the decoder bench counts its failures and reports them in its exit status.
\<close>

section \<open>Definitions\<close>

datatype 'd bench_step = Drive "'d \<Rightarrow> 'd" | Check "'d \<Rightarrow> bool"

text \<open>
  The exit of a bench that asserts, with the number of checks passed (\<open>pass_count\<close>), and the
  state the script leaves.
\<close>

primrec run_bench :: "'d bench_step list \<Rightarrow> 'd \<Rightarrow> nat \<Rightarrow> tb_exit \<times> nat" where
  "run_bench [] d pass_count = (Exit 0, pass_count)"
| "run_bench (s # steps) d pass_count =
     (case s of
        Drive f \<Rightarrow> run_bench steps (f d) pass_count
      | Check p \<Rightarrow>
          if p d then run_bench steps d (Suc pass_count) else (AssertAbort, pass_count))"

text \<open>The failures of a bench that counts them.\<close>

primrec count_failures :: "'d bench_step list \<Rightarrow> 'd \<Rightarrow> nat \<Rightarrow> nat" where
  "count_failures [] d fail_count = fail_count"
| "count_failures (s # steps) d fail_count =
     (case s of
        Drive f \<Rightarrow> count_failures steps (f d) fail_count
      | Check p \<Rightarrow> count_failures steps d (if p d then fail_count else Suc fail_count))"

section \<open>Lemmas\<close>

text \<open>What a script checks, and the device it leaves, without the counting.\<close>

primrec drives :: "'d bench_step list \<Rightarrow> 'd \<Rightarrow> 'd" where
  "drives [] d = d"
| "drives (s # steps) d = drives steps (case s of Drive f \<Rightarrow> f d | Check p \<Rightarrow> d)"

primrec passes :: "'d bench_step list \<Rightarrow> 'd \<Rightarrow> bool" where
  "passes [] d = True"
| "passes (s # steps) d =
     (case s of Drive f \<Rightarrow> passes steps (f d) | Check p \<Rightarrow> p d \<and> passes steps d)"

primrec checks :: "'d bench_step list \<Rightarrow> nat" where
  "checks [] = 0"
| "checks (s # steps) = (case s of Drive f \<Rightarrow> checks steps | Check p \<Rightarrow> Suc (checks steps))"

lemma run_bench_passes: "passes steps d \<Longrightarrow> run_bench steps d n = (Exit 0, n + checks steps)"
  by (induction steps arbitrary: d n) (auto split: bench_step.splits)

lemma run_bench_exit_iff: "fst (run_bench steps d n) = Exit 0 \<longleftrightarrow> passes steps d"
  by (induction steps arbitrary: d n) (auto split: bench_step.splits)

lemma count_failures_passes: "passes steps d \<Longrightarrow> count_failures steps d n = n"
  by (induction steps arbitrary: d n) (auto split: bench_step.splits)

text \<open>To evaluate a script, the simplifier works on the device and leaves the script alone.\<close>

lemma passes_cong: "d = d' \<Longrightarrow> passes steps d = passes steps d'"
  by simp

lemma passes_append: "passes (xs @ ys) d \<longleftrightarrow> passes xs d \<and> passes ys (drives xs d)"
  by (induction xs arbitrary: d) (simp_all split: bench_step.splits)

lemma checks_append: "checks (xs @ ys) = checks xs + checks ys"
  by (induction xs) (simp_all split: bench_step.splits)

lemma drives_append: "drives (xs @ ys) d = drives ys (drives xs d)"
  by (induction xs arbitrary: d) simp_all

end
