(* ===== verification/Stage_Benches.thy ===== *)
theory Stage_Benches
  imports Bench Decoder Ex_Stage Hazard_Unit Trap_Ctrl
begin

text \<open>
  The benches of the combinational modules: \<^verbatim>\<open>tb_hazard_unit.cc\<close>, \<^verbatim>\<open>tb_trap_ctrl.cc\<close>,
  \<^verbatim>\<open>tb_ex_stage.cc\<close>, \<^verbatim>\<open>tb_mem_stage.cc\<close>, \<^verbatim>\<open>tb_wb_stage.cc\<close> and \<^verbatim>\<open>tb_decoder.cc\<close>.  The device
  under test is the record of its input ports; an output is the module's function of them.
  Assignments to ports up to the next \<open>eval\<close> are one \<open>Drive\<close> step, and a port that is not
  assigned keeps its value.  Before its first assignment a port holds an arbitrary value.
\<close>

section \<open>Definitions\<close>

subsection \<open>Hazard unit\<close>

text \<open>\<open>reset(dut)\<close> clears every input.\<close>

definition tb_hazard_reset :: "hazard_in \<Rightarrow> hazard_in" where
  "tb_hazard_reset d = d\<lparr>
     hz_id_rs1_addr := 0, hz_id_rs2_addr := 0, hz_ex_rs1_addr := 0, hz_ex_rs2_addr := 0,
     hz_ex_rd_addr := 0, hz_ex_reg_write_en := False, hz_ex_is_load := False,
     hz_ex_branch_taken := False, hz_ex_branch_target := 0, hz_mem_rd_addr := 0,
     hz_mem_reg_write_en := False, hz_mem_stall_req := False, hz_trap_flush_req := False,
     hz_trap_pc_sel := False, hz_trap_target_pc := 0, hz_wb_rd_addr := 0,
     hz_wb_reg_write_en := False\<rparr>"

text \<open>Tests 1 to 9: no hazard, and the forwarding selects.\<close>

definition tb_hazard_forwarding :: "hazard_in bench_step list" where
  "tb_hazard_forwarding =
    [Drive tb_hazard_reset,
     Check (\<lambda>d. forward_a_sel d = 0),
     Check (\<lambda>d. forward_b_sel d = 0),
     Check (\<lambda>d. \<not> if_stall_en (hazard_controls d)),
     Check (\<lambda>d. \<not> if_id_flush_en (hazard_controls d)),
     Check (\<lambda>d. \<not> id_ex_flush_en (hazard_controls d)),
     Check (\<lambda>d. \<not> id_ex_stall_en (hazard_controls d)),
     Check (\<lambda>d. \<not> ex_mem_stall_en (hazard_controls d)),
     Check (\<lambda>d. \<not> pc_redirect_sel (hazard_redirect d)),
     Check (\<lambda>d. \<not> pc_redirect_is_trap (hazard_redirect d)),
     Drive tb_hazard_reset,
     Drive (\<lambda>d. d\<lparr>hz_ex_rs1_addr := 5, hz_mem_rd_addr := 5,
       hz_mem_reg_write_en := True\<rparr>),
     Check (\<lambda>d. forward_a_sel d = 1),
     Check (\<lambda>d. forward_b_sel d = 0),
     Drive tb_hazard_reset,
     Drive (\<lambda>d. d\<lparr>hz_ex_rs1_addr := 7, hz_wb_rd_addr := 7,
       hz_wb_reg_write_en := True\<rparr>),
     Check (\<lambda>d. forward_a_sel d = 2),
     Drive tb_hazard_reset,
     Drive (\<lambda>d. d\<lparr>hz_ex_rs2_addr := 10, hz_mem_rd_addr := 10,
       hz_mem_reg_write_en := True\<rparr>),
     Check (\<lambda>d. forward_b_sel d = 1),
     Check (\<lambda>d. forward_a_sel d = 0),
     Drive tb_hazard_reset,
     Drive (\<lambda>d. d\<lparr>hz_ex_rs2_addr := 12, hz_wb_rd_addr := 12,
       hz_wb_reg_write_en := True\<rparr>),
     Check (\<lambda>d. forward_b_sel d = 2),
     Drive tb_hazard_reset,
     Drive (\<lambda>d. d\<lparr>hz_ex_rs1_addr := 3, hz_mem_rd_addr := 3,
       hz_mem_reg_write_en := True, hz_wb_rd_addr := 3, hz_wb_reg_write_en := True\<rparr>),
     Check (\<lambda>d. forward_a_sel d = 1),
     Drive tb_hazard_reset,
     Drive (\<lambda>d. d\<lparr>hz_ex_rs2_addr := 3, hz_mem_rd_addr := 3,
       hz_mem_reg_write_en := True, hz_wb_rd_addr := 3, hz_wb_reg_write_en := True\<rparr>),
     Check (\<lambda>d. forward_b_sel d = 1),
     Drive tb_hazard_reset,
     Drive (\<lambda>d. d\<lparr>hz_ex_rs1_addr := 0, hz_mem_rd_addr := 0,
       hz_mem_reg_write_en := True\<rparr>),
     Check (\<lambda>d. forward_a_sel d = 0),
     Drive tb_hazard_reset,
     Drive (\<lambda>d. d\<lparr>hz_ex_rs2_addr := 0, hz_wb_rd_addr := 0,
       hz_wb_reg_write_en := True\<rparr>),
     Check (\<lambda>d. forward_b_sel d = 0),
     Drive tb_hazard_reset,
     Drive (\<lambda>d. d\<lparr>hz_ex_rs1_addr := 5, hz_mem_rd_addr := 5,
       hz_mem_reg_write_en := False\<rparr>),
     Check (\<lambda>d. forward_a_sel d = 0),
     Drive tb_hazard_reset,
     Drive (\<lambda>d. d\<lparr>hz_ex_rs2_addr := 5, hz_wb_rd_addr := 5,
       hz_wb_reg_write_en := False\<rparr>),
     Check (\<lambda>d. forward_b_sel d = 0),
     Drive tb_hazard_reset,
     Drive (\<lambda>d. d\<lparr>hz_ex_rs1_addr := 8, hz_ex_rs2_addr := 9, hz_mem_rd_addr := 8,
       hz_mem_reg_write_en := True, hz_wb_rd_addr := 9, hz_wb_reg_write_en := True\<rparr>),
     Check (\<lambda>d. forward_a_sel d = 1),
     Check (\<lambda>d. forward_b_sel d = 2)]"

text \<open>Tests 10 to 20: load-use stalls, branches, memory stalls, traps.\<close>

definition tb_hazard_control :: "hazard_in bench_step list" where
  "tb_hazard_control =
    [Drive tb_hazard_reset,
     Drive (\<lambda>d. d\<lparr>hz_ex_is_load := True, hz_ex_rd_addr := 4,
       hz_id_rs1_addr := 4\<rparr>),
     Check (\<lambda>d. if_stall_en (hazard_controls d)),
     Check (\<lambda>d. if_id_stall_en (hazard_controls d)),
     Check (\<lambda>d. id_ex_flush_en (hazard_controls d)),
     Check (\<lambda>d. \<not> id_ex_stall_en (hazard_controls d)),
     Drive tb_hazard_reset,
     Drive (\<lambda>d. d\<lparr>hz_ex_is_load := True, hz_ex_rd_addr := 6,
       hz_id_rs2_addr := 6\<rparr>),
     Check (\<lambda>d. if_stall_en (hazard_controls d)),
     Check (\<lambda>d. if_id_stall_en (hazard_controls d)),
     Check (\<lambda>d. id_ex_flush_en (hazard_controls d)),
     Drive tb_hazard_reset,
     Drive (\<lambda>d. d\<lparr>hz_ex_is_load := True, hz_ex_rd_addr := 0,
       hz_id_rs1_addr := 0\<rparr>),
     Check (\<lambda>d. \<not> if_stall_en (hazard_controls d)),
     Drive tb_hazard_reset,
     Drive (\<lambda>d. d\<lparr>hz_ex_is_load := False, hz_ex_rd_addr := 4,
       hz_id_rs1_addr := 4\<rparr>),
     Check (\<lambda>d. \<not> if_stall_en (hazard_controls d)),
     Drive tb_hazard_reset,
     Drive (\<lambda>d. d\<lparr>hz_ex_branch_taken := True, hz_ex_branch_target := 0x400\<rparr>),
     Check (\<lambda>d. if_id_flush_en (hazard_controls d)),
     Check (\<lambda>d. id_ex_flush_en (hazard_controls d)),
     Check (\<lambda>d. \<not> if_stall_en (hazard_controls d)),
     Check (\<lambda>d. \<not> if_id_stall_en (hazard_controls d)),
     Check (\<lambda>d. pc_redirect_sel (hazard_redirect d)),
     Check (\<lambda>d. \<not> pc_redirect_is_trap (hazard_redirect d)),
     Check (\<lambda>d. pc_redirect_target (hazard_redirect d) = 0x400),
     Drive tb_hazard_reset,
     Drive (\<lambda>d. d\<lparr>hz_ex_branch_taken := True, hz_ex_is_load := True,
       hz_ex_rd_addr := 4, hz_id_rs1_addr := 4\<rparr>),
     Check (\<lambda>d. if_id_flush_en (hazard_controls d)),
     Check (\<lambda>d. id_ex_flush_en (hazard_controls d)),
     Check (\<lambda>d. \<not> if_stall_en (hazard_controls d)),
     Check (\<lambda>d. \<not> if_id_stall_en (hazard_controls d)),
     Drive tb_hazard_reset,
     Drive (\<lambda>d. d\<lparr>hz_mem_stall_req := True\<rparr>),
     Check (\<lambda>d. if_stall_en (hazard_controls d)),
     Check (\<lambda>d. if_id_stall_en (hazard_controls d)),
     Check (\<lambda>d. id_ex_stall_en (hazard_controls d)),
     Check (\<lambda>d. ex_mem_stall_en (hazard_controls d)),
     Check (\<lambda>d. \<not> if_id_flush_en (hazard_controls d)),
     Check (\<lambda>d. \<not> id_ex_flush_en (hazard_controls d)),
     Drive tb_hazard_reset,
     Drive (\<lambda>d. d\<lparr>hz_mem_stall_req := True, hz_ex_is_load := True,
       hz_ex_rd_addr := 4, hz_id_rs1_addr := 4\<rparr>),
     Check (\<lambda>d. if_stall_en (hazard_controls d)),
     Check (\<lambda>d. id_ex_stall_en (hazard_controls d)),
     Check (\<lambda>d. \<not> id_ex_flush_en (hazard_controls d)),
     Drive tb_hazard_reset,
     Drive (\<lambda>d. d\<lparr>hz_ex_branch_taken := True, hz_ex_branch_target := 0x410,
       hz_mem_stall_req := True\<rparr>),
     Check (\<lambda>d. if_id_flush_en (hazard_controls d)),
     Check (\<lambda>d. id_ex_flush_en (hazard_controls d)),
     Check (\<lambda>d. \<not> if_stall_en (hazard_controls d)),
     Drive tb_hazard_reset,
     Drive (\<lambda>d. d\<lparr>hz_trap_pc_sel := True, hz_trap_flush_req := True,
       hz_trap_target_pc := 0x800, hz_ex_branch_taken := True, hz_ex_branch_target := 0x900,
       hz_mem_stall_req := True\<rparr>),
     Check (\<lambda>d. pc_redirect_sel (hazard_redirect d)),
     Check (\<lambda>d. pc_redirect_is_trap (hazard_redirect d)),
     Check (\<lambda>d. pc_redirect_target (hazard_redirect d) = 0x800),
     Check (\<lambda>d. if_id_flush_en (hazard_controls d)),
     Check (\<lambda>d. id_ex_flush_en (hazard_controls d)),
     Check (\<lambda>d. \<not> if_stall_en (hazard_controls d)),
     Check (\<lambda>d. \<not> if_id_stall_en (hazard_controls d)),
     Check (\<lambda>d. \<not> id_ex_stall_en (hazard_controls d)),
     Check (\<lambda>d. \<not> ex_mem_stall_en (hazard_controls d)),
     Drive tb_hazard_reset,
     Drive (\<lambda>d. d\<lparr>hz_trap_flush_req := True, hz_ex_is_load := True,
       hz_ex_rd_addr := 4, hz_id_rs1_addr := 4\<rparr>),
     Check (\<lambda>d. if_id_flush_en (hazard_controls d)),
     Check (\<lambda>d. id_ex_flush_en (hazard_controls d)),
     Check (\<lambda>d. \<not> if_stall_en (hazard_controls d)),
     Check (\<lambda>d. \<not> if_id_stall_en (hazard_controls d))]"

definition tb_hazard_unit_main :: "hazard_in \<Rightarrow> tb_exit \<times> nat" where
  "tb_hazard_unit_main dut = run_bench (tb_hazard_forwarding @ tb_hazard_control) dut 0"

subsection \<open>Trap controller\<close>

record Vtrap_ctrl =
  vt_sigs :: trap_sigs
  vt_env :: trap_env

definition vt_out :: "Vtrap_ctrl \<Rightarrow> trap_out" where
  "vt_out d = trap_ctrl (vt_sigs d) (vt_env d)"

definition tb_trap_defaults :: "Vtrap_ctrl \<Rightarrow> Vtrap_ctrl" where
  "tb_trap_defaults d =
     \<lparr>vt_sigs =
        \<lparr>trap_illegal_instr = False, trap_is_ecall = False, trap_is_ebreak = False,
         trap_is_mret = False, trap_is_sret = False, trap_load_fault = False,
         trap_store_fault = False, trap_instr_page_fault = False, trap_load_page_fault = False,
         trap_store_page_fault = False, trap_epc = 0, trap_bad_addr = 0, trap_bad_instr = 0\<rparr>,
      vt_env =
        \<lparr>te_ext_timer = False, te_ext_software = False, te_ext_external = False,
         te_mstatus_mie = False, te_mtvec = 0x800, te_stvec = 0x400, te_mepc = 0x1000,
         te_sepc = 0x2000, te_medeleg = 0, te_mideleg = 0, te_priv_mode = PRIV_M\<rparr>\<rparr>"

definition tb_trap_ctrl_steps :: "Vtrap_ctrl bench_step list" where
  "tb_trap_ctrl_steps =
    [Drive tb_trap_defaults,
     Drive (\<lambda>d. d\<lparr>vt_env := (vt_env d)\<lparr>te_priv_mode := PRIV_M,
       te_mtvec := 0x880\<rparr>, vt_sigs := (vt_sigs d)\<lparr>trap_epc := 0x1234,
       trap_bad_instr := 0xDEADBEEF, trap_illegal_instr := True\<rparr>\<rparr>),
     Check (\<lambda>d. to_trigger (vt_out d)),
     Check (\<lambda>d. to_mcause (vt_out d) = EXC_INST_ILLEGAL),
     Check (\<lambda>d. to_mtval (vt_out d) = 0xDEADBEEF),
     Check (\<lambda>d. to_mepc (vt_out d) = 0x1234),
     Check (\<lambda>d. \<not> to_to_s_mode (vt_out d)),
     Check (\<lambda>d. to_next_pc (vt_out d) = 0x880),
     Drive tb_trap_defaults,
     Drive (\<lambda>d. d\<lparr>vt_env := (vt_env d)\<lparr>te_priv_mode := PRIV_S,
       te_mtvec := 0x440\<rparr>, vt_sigs := (vt_sigs d)\<lparr>trap_epc := 0x5678,
       trap_is_ecall := True\<rparr>\<rparr>),
     Check (\<lambda>d. to_trigger (vt_out d)),
     Check (\<lambda>d. to_mcause (vt_out d) = EXC_ECALL_FROM_S),
     Check (\<lambda>d. to_mtval (vt_out d) = 0),
     Check (\<lambda>d. to_next_pc (vt_out d) = 0x440),
     Drive tb_trap_defaults,
     Drive (\<lambda>d. d\<lparr>vt_sigs := (vt_sigs d)\<lparr>trap_load_page_fault := True,
       trap_bad_addr := 0xBADC0FFEE0\<rparr>\<rparr>),
     Check (\<lambda>d. to_mcause (vt_out d) = EXC_LOAD_PAGE_FAULT),
     Check (\<lambda>d. to_mtval (vt_out d) = 0xBADC0FFEE0),
     Drive tb_trap_defaults,
     Drive (\<lambda>d. d\<lparr>vt_sigs := (vt_sigs d)\<lparr>trap_store_page_fault := True,
       trap_bad_addr := 0xDEADBEEF00\<rparr>\<rparr>),
     Check (\<lambda>d. to_mcause (vt_out d) = EXC_STORE_PAGE_FAULT),
     Check (\<lambda>d. to_mtval (vt_out d) = 0xDEADBEEF00),
     Drive tb_trap_defaults,
     Drive (\<lambda>d. d\<lparr>vt_sigs := (vt_sigs d)\<lparr>trap_load_fault := True,
       trap_bad_addr := 0xABCDEF0010\<rparr>\<rparr>),
     Check (\<lambda>d. to_mcause (vt_out d) = EXC_LOAD_FAULT),
     Check (\<lambda>d. to_mtval (vt_out d) = 0xABCDEF0010),
     Drive tb_trap_defaults,
     Drive (\<lambda>d. d\<lparr>vt_sigs := (vt_sigs d)\<lparr>trap_store_fault := True,
       trap_bad_addr := 0xABCDEF0020\<rparr>\<rparr>),
     Check (\<lambda>d. to_mcause (vt_out d) = EXC_STORE_FAULT),
     Check (\<lambda>d. to_mtval (vt_out d) = 0xABCDEF0020),
     Drive tb_trap_defaults,
     Drive (\<lambda>d. d\<lparr>vt_env := (vt_env d)\<lparr>te_mstatus_mie := True,
       te_priv_mode := PRIV_M, te_mtvec := 0x300 OR 0x1, te_ext_timer := True,
       te_ext_software := True, te_ext_external := True\<rparr>, vt_sigs := (vt_sigs
       d)\<lparr>trap_epc := 0x4000\<rparr>\<rparr>),
     Check (\<lambda>d. to_trigger (vt_out d)),
     Check (\<lambda>d. to_mcause (vt_out d) = (INTERRUPT_BIT OR INTERRUPT_M_EXTERNAL)),
     Check (\<lambda>d. to_mtval (vt_out d) = 0),
     Check (\<lambda>d. to_next_pc (vt_out d) = (0x300 + push_bit 2 INTERRUPT_M_EXTERNAL)),
     Drive tb_trap_defaults,
     Drive (\<lambda>d. d\<lparr>vt_env := (vt_env d)\<lparr>te_mstatus_mie := False,
       te_ext_external := True\<rparr>\<rparr>),
     Check (\<lambda>d. \<not> to_trigger (vt_out d)),
     Drive tb_trap_defaults,
     Drive (\<lambda>d. d\<lparr>vt_env := (vt_env d)\<lparr>te_priv_mode := PRIV_S,
       te_mstatus_mie := True, te_stvec := 0x880 OR 0x1, te_mideleg := push_bit (unat
       (INTERRUPT_M_TIMER)) 1, te_ext_timer := True\<rparr>, vt_sigs := (vt_sigs
       d)\<lparr>trap_epc := 0xABCD\<rparr>\<rparr>),
     Check (\<lambda>d. to_to_s_mode (vt_out d)),
     Check (\<lambda>d. to_next_pc (vt_out d) = (0x880 + push_bit 2 INTERRUPT_M_TIMER)),
     Check (\<lambda>d. to_mcause (vt_out d) = (INTERRUPT_BIT OR INTERRUPT_M_TIMER)),
     Drive tb_trap_defaults,
     Drive (\<lambda>d. d\<lparr>vt_env := (vt_env d)\<lparr>te_mepc := 0xCAFEBABE\<rparr>,
       vt_sigs := (vt_sigs d)\<lparr>trap_is_mret := True\<rparr>\<rparr>),
     Check (\<lambda>d. to_mret_en (vt_out d)),
     Check (\<lambda>d. to_next_pc (vt_out d) = 0xCAFEBABE),
     Check (\<lambda>d. to_flush_req (vt_out d) \<and> to_pc_sel (vt_out d)),
     Check (\<lambda>d. \<not> to_trigger (vt_out d)),
     Drive tb_trap_defaults,
     Drive (\<lambda>d. d\<lparr>vt_env := (vt_env d)\<lparr>te_priv_mode := PRIV_S,
       te_sepc := 0x13579BDF\<rparr>, vt_sigs := (vt_sigs
       d)\<lparr>trap_is_sret := True\<rparr>\<rparr>),
     Check (\<lambda>d. to_sret_en (vt_out d)),
     Check (\<lambda>d. to_next_pc (vt_out d) = 0x13579BDF),
     Check (\<lambda>d. to_flush_req (vt_out d) \<and> to_pc_sel (vt_out d))]"

definition tb_trap_ctrl_main :: "Vtrap_ctrl \<Rightarrow> tb_exit \<times> nat" where
  "tb_trap_ctrl_main dut = run_bench tb_trap_ctrl_steps dut 0"

subsection \<open>Execute stage\<close>

definition tb_ex_stage_steps :: "ex_in bench_step list" where
  "tb_ex_stage_steps =
    [Drive (\<lambda>d. d\<lparr>exi_pc := 0, exi_imm := 0, exi_is_branch := False,
       exi_branch_op := 0, exi_is_jump := False, exi_is_word_op := False, exi_rs1_rdata := 50,
       exi_rs2_rdata := 25, exi_alu_src1_sel := False, exi_alu_src2_sel := False,
       exi_alu_op := ALU_ADD\<rparr>),
     Check (\<lambda>d. exo_alu_result (ex_stage d) = 75),
     Check (\<lambda>d. \<not> exo_branch_taken (ex_stage d)),
     Drive (\<lambda>d. d\<lparr>exi_rs1_rdata := 100, exi_imm := 42, exi_alu_src1_sel := False,
       exi_alu_src2_sel := True, exi_alu_op := ALU_ADD\<rparr>),
     Check (\<lambda>d. exo_alu_result (ex_stage d) = 142),
     Drive (\<lambda>d. d\<lparr>exi_is_branch := True, exi_branch_op := BRANCH_EQ,
       exi_rs1_rdata := 88, exi_rs2_rdata := 88, exi_pc := 0x80001000, exi_imm := 0x10,
       exi_alu_src1_sel := True, exi_alu_src2_sel := True, exi_alu_op := ALU_ADD\<rparr>),
     Check (\<lambda>d. exo_branch_taken (ex_stage d)),
     Check (\<lambda>d. exo_branch_target (ex_stage d) = 0x80001010),
     Drive (\<lambda>d. d\<lparr>exi_rs1_rdata := 88, exi_rs2_rdata := 99\<rparr>),
     Check (\<lambda>d. \<not> exo_branch_taken (ex_stage d)),
     Drive (\<lambda>d. d\<lparr>exi_is_branch := False, exi_is_jump := True,
       exi_pc := 0x80002000, exi_imm := 0x24, exi_alu_src1_sel := True, exi_alu_src2_sel := True,
       exi_alu_op := ALU_ADD\<rparr>),
     Check (\<lambda>d. exo_branch_taken (ex_stage d)),
     Check (\<lambda>d. exo_branch_target (ex_stage d) = 0x80002024),
     Drive (\<lambda>d. d\<lparr>exi_is_jump := True, exi_rs1_rdata := 0x80003001, exi_imm := 4,
       exi_alu_src1_sel := False, exi_alu_src2_sel := True, exi_alu_op := ALU_ADD\<rparr>),
     Check (\<lambda>d. exo_branch_taken (ex_stage d)),
     Check (\<lambda>d. exo_branch_target (ex_stage d) = 0x80003004),
     Check (\<lambda>d. exo_alu_result (ex_stage d) = 0x80003005),
     Drive (\<lambda>d. d\<lparr>exi_is_jump := False, exi_is_word_op := True,
       exi_rs1_rdata := 0x000000007FFFFFFF, exi_rs2_rdata := 0x0000000000000001,
       exi_alu_src1_sel := False, exi_alu_src2_sel := False, exi_alu_op := ALU_ADD\<rparr>),
     Check (\<lambda>d. exo_alu_result (ex_stage d) = 0xFFFFFFFF80000000),
     Drive (\<lambda>d. d\<lparr>exi_is_word_op := False, exi_rs1_rdata := 0x8000A000,
       exi_imm := 0xFFFFFFFFFFFFFFF0, exi_alu_src1_sel := False, exi_alu_src2_sel := True,
       exi_alu_op := ALU_ADD\<rparr>),
     Check (\<lambda>d. exo_alu_result (ex_stage d) = 0x80009FF0),
     Drive (\<lambda>d. d\<lparr>exi_is_word_op := False, exi_rs1_rdata := 0x000000000000FFFF,
       exi_rs2_rdata := 16, exi_alu_src1_sel := False, exi_alu_src2_sel := False,
       exi_alu_op := ALU_SLL\<rparr>),
     Check (\<lambda>d. exo_alu_result (ex_stage d) = 0x00000000FFFF0000),
     Drive (\<lambda>d. d\<lparr>exi_rs1_rdata := 0xFFFFFFFF00000000, exi_rs2_rdata := 16,
       exi_alu_op := ALU_SRA\<rparr>),
     Check (\<lambda>d. exo_alu_result (ex_stage d) = 0xFFFFFFFFFFFF0000),
     Drive (\<lambda>d. d\<lparr>exi_is_word_op := True, exi_rs1_rdata := 0xFFFFFFFF80000000,
       exi_rs2_rdata := 4, exi_alu_op := ALU_SRA\<rparr>),
     Check (\<lambda>d. exo_alu_result (ex_stage d) = 0xFFFFFFFFF8000000),
     Drive (\<lambda>d. d\<lparr>exi_rs1_rdata := 0x000000000000FFFF, exi_rs2_rdata := 0x24,
       exi_alu_op := ALU_SLL\<rparr>),
     Check (\<lambda>d. exo_alu_result (ex_stage d) = 0x00000000000FFFF0),
     Drive (\<lambda>d. d\<lparr>exi_rs1_rdata := 0xFFFFFFFF80000000, exi_rs2_rdata := 4,
       exi_alu_op := ALU_SRL\<rparr>),
     Check (\<lambda>d. exo_alu_result (ex_stage d) = 0x0000000008000000)]"

definition tb_ex_stage_main :: "ex_in \<Rightarrow> tb_exit \<times> nat" where
  "tb_ex_stage_main dut = run_bench tb_ex_stage_steps dut 0"

subsection \<open>Memory stage\<close>

record Vmem_stage =
  vm_in :: ex_mem
  vm_req_ready :: bool
  vm_rsp_valid :: bool
  vm_rdata :: u64

text \<open>Tests 1 to 3: defaults, pass-through, the byte lanes of stores.\<close>

definition tb_mem_stage_stores :: "Vmem_stage bench_step list" where
  "tb_mem_stage_stores =
    [Drive (\<lambda>d. d\<lparr>vm_in := (vm_in d)\<lparr>mem_alu_result := 0,
       mem_rs2_rdata := 0, mem_is_load := False, mem_is_store := False, mem_mem_size := 0\<rparr>,
       vm_req_ready := True, vm_rsp_valid := True, vm_rdata := 0\<rparr>),
     Check (\<lambda>d. \<not> dmem_read_req (vm_in d)),
     Check (\<lambda>d. \<not> dmem_write_req (vm_in d)),
     Check (\<lambda>d. \<not> mem_stall_req (vm_in d) (vm_req_ready d) (vm_rsp_valid d)),
     Drive (\<lambda>d. d\<lparr>vm_in := (vm_in d)\<lparr>mem_reg_write_en := True,
       mem_rd_addr := 15, mem_wb_sel := 2, mem_pc := 0x80001000, mem_is_csr := True,
       mem_csr_op := 2, mem_rs1_rdata := 0x1234, mem_rs1_addr := 5,
       mem_imm := 0x777\<rparr>\<rparr>),
     Check (\<lambda>d. wb_reg_write_en (mem_stage (vm_in d) (vm_rdata d))),
     Check (\<lambda>d. wb_rd_addr (mem_stage (vm_in d) (vm_rdata d)) = 15),
     Check (\<lambda>d. wb_wb_sel (mem_stage (vm_in d) (vm_rdata d)) = 2),
     Check (\<lambda>d. wb_pc (mem_stage (vm_in d) (vm_rdata d)) = 0x80001000),
     Check (\<lambda>d. wb_is_csr (mem_stage (vm_in d) (vm_rdata d))),
     Check (\<lambda>d. wb_csr_op (mem_stage (vm_in d) (vm_rdata d)) = 2),
     Check (\<lambda>d. wb_rs1_rdata (mem_stage (vm_in d) (vm_rdata d)) = 0x1234),
     Check (\<lambda>d. wb_rs1_addr (mem_stage (vm_in d) (vm_rdata d)) = 5),
     Check (\<lambda>d. wb_imm (mem_stage (vm_in d) (vm_rdata d)) = 0x777),
     Drive (\<lambda>d. d\<lparr>vm_in := (vm_in d)\<lparr>mem_is_store := True,
       mem_rs2_rdata := 0x1122334455667788, mem_mem_size := 0, mem_alu_result := 0x1000\<rparr>,
       vm_req_ready := True\<rparr>),
     Check (\<lambda>d. dmem_write_req (vm_in d)),
     Check (\<lambda>d. mem_alu_result (vm_in d) = 0x1000),
     Check (\<lambda>d. dmem_wdata (vm_in d) = 0x88),
     Check (\<lambda>d. dmem_wstrb (vm_in d) = 0x01),
     Drive (\<lambda>d. d\<lparr>vm_in := (vm_in
       d)\<lparr>mem_alu_result := 0x1003\<rparr>\<rparr>),
     Check (\<lambda>d. dmem_wdata (vm_in d) = 0x88000000),
     Check (\<lambda>d. dmem_wstrb (vm_in d) = 0x08),
     Drive (\<lambda>d. d\<lparr>vm_in := (vm_in d)\<lparr>mem_mem_size := 1,
       mem_alu_result := 0x1002\<rparr>\<rparr>),
     Check (\<lambda>d. dmem_wdata (vm_in d) = 0x77880000),
     Check (\<lambda>d. dmem_wstrb (vm_in d) = 0x0C),
     Drive (\<lambda>d. d\<lparr>vm_in := (vm_in d)\<lparr>mem_mem_size := 2,
       mem_alu_result := 0x1004\<rparr>\<rparr>),
     Check (\<lambda>d. dmem_wdata (vm_in d) = 0x5566778800000000),
     Check (\<lambda>d. dmem_wstrb (vm_in d) = 0xF0),
     Drive (\<lambda>d. d\<lparr>vm_in := (vm_in d)\<lparr>mem_mem_size := 3,
       mem_alu_result := 0x1000\<rparr>\<rparr>),
     Check (\<lambda>d. dmem_wdata (vm_in d) = 0x1122334455667788),
     Check (\<lambda>d. dmem_wstrb (vm_in d) = 0xFF),
     Drive (\<lambda>d. d\<lparr>vm_in := (vm_in d)\<lparr>mem_is_store := False\<rparr>\<rparr>)]"

text \<open>Tests 4 and 5: the extension of loads, the stall request.\<close>

definition tb_mem_stage_loads :: "Vmem_stage bench_step list" where
  "tb_mem_stage_loads =
    [Drive (\<lambda>d. d\<lparr>vm_in := (vm_in d)\<lparr>mem_is_load := True, mem_mem_size := 0,
       mem_alu_result := 0x2000\<rparr>, vm_rdata := 0xAABBCCDDEEFF0011,
       vm_rsp_valid := True\<rparr>),
     Check (\<lambda>d. dmem_read_req (vm_in d)),
     Check (\<lambda>d. wb_mem_rdata (mem_stage (vm_in d) (vm_rdata d)) = 0x11),
     Drive (\<lambda>d. d\<lparr>vm_in := (vm_in
       d)\<lparr>mem_alu_result := 0x2001\<rparr>\<rparr>),
     Check (\<lambda>d. wb_mem_rdata (mem_stage (vm_in d) (vm_rdata d)) = 0x0),
     Drive (\<lambda>d. d\<lparr>vm_in := (vm_in
       d)\<lparr>mem_alu_result := 0x2007\<rparr>\<rparr>),
     Check (\<lambda>d. wb_mem_rdata (mem_stage (vm_in d) (vm_rdata d)) = 0xFFFFFFFFFFFFFFAA),
     Drive (\<lambda>d. d\<lparr>vm_in := (vm_in d)\<lparr>mem_mem_size := 4,
       mem_alu_result := 0x2007\<rparr>\<rparr>),
     Check (\<lambda>d. wb_mem_rdata (mem_stage (vm_in d) (vm_rdata d)) = 0xAA),
     Drive (\<lambda>d. d\<lparr>vm_in := (vm_in d)\<lparr>mem_mem_size := 1,
       mem_alu_result := 0x2002\<rparr>\<rparr>),
     Check (\<lambda>d. wb_mem_rdata (mem_stage (vm_in d) (vm_rdata d)) = 0xFFFFFFFFFFFFEEFF),
     Drive (\<lambda>d. d\<lparr>vm_in := (vm_in d)\<lparr>mem_mem_size := 5,
       mem_alu_result := 0x2002\<rparr>\<rparr>),
     Check (\<lambda>d. wb_mem_rdata (mem_stage (vm_in d) (vm_rdata d)) = 0xEEFF),
     Drive (\<lambda>d. d\<lparr>vm_in := (vm_in d)\<lparr>mem_mem_size := 2,
       mem_alu_result := 0x2004\<rparr>\<rparr>),
     Check (\<lambda>d. wb_mem_rdata (mem_stage (vm_in d) (vm_rdata d)) = 0xFFFFFFFFAABBCCDD),
     Drive (\<lambda>d. d\<lparr>vm_in := (vm_in d)\<lparr>mem_mem_size := 6,
       mem_alu_result := 0x2004\<rparr>\<rparr>),
     Check (\<lambda>d. wb_mem_rdata (mem_stage (vm_in d) (vm_rdata d)) = 0xAABBCCDD),
     Drive (\<lambda>d. d\<lparr>vm_in := (vm_in d)\<lparr>mem_mem_size := 3,
       mem_alu_result := 0x2000\<rparr>\<rparr>),
     Check (\<lambda>d. wb_mem_rdata (mem_stage (vm_in d) (vm_rdata d)) = 0xAABBCCDDEEFF0011),
     Drive (\<lambda>d. d\<lparr>vm_req_ready := False, vm_rsp_valid := False\<rparr>),
     Check (\<lambda>d. mem_stall_req (vm_in d) (vm_req_ready d) (vm_rsp_valid d)),
     Drive (\<lambda>d. d\<lparr>vm_req_ready := True, vm_rsp_valid := False\<rparr>),
     Check (\<lambda>d. mem_stall_req (vm_in d) (vm_req_ready d) (vm_rsp_valid d)),
     Drive (\<lambda>d. d\<lparr>vm_rsp_valid := True\<rparr>),
     Check (\<lambda>d. \<not> mem_stall_req (vm_in d) (vm_req_ready d) (vm_rsp_valid d))]"

definition tb_mem_stage_main :: "Vmem_stage \<Rightarrow> tb_exit \<times> nat" where
  "tb_mem_stage_main dut = run_bench (tb_mem_stage_stores @ tb_mem_stage_loads) dut 0"

subsection \<open>Write-back stage\<close>

record Vwb_stage =
  vw_in :: mem_wb
  vw_pc_plus_4 :: u64
  vw_csr_rdata :: u64
  vw_csr_illegal_access :: bool

definition tb_wb_stage_steps :: "Vwb_stage bench_step list" where
  "tb_wb_stage_steps =
    [Drive (\<lambda>d. d\<lparr>vw_in := (vw_in d)\<lparr>wb_alu_result := 0xAA55AA55,
       wb_mem_rdata := 0x11223344, wb_pc := 0x80000000, wb_reg_write_en := True, wb_rd_addr := 5,
       wb_wb_sel := 0, wb_is_csr := False, wb_csr_op := 0, wb_rs1_rdata := 0x99, wb_rs1_addr := 1,
       wb_imm := 0x123, wb_instr := 0xDEADBEEF, wb_illegal_instr := False, wb_is_ecall := False,
       wb_is_ebreak := False, wb_is_mret := False, wb_is_sret := False, wb_load_fault := False,
       wb_store_fault := False, wb_fault_addr := 0\<rparr>, vw_pc_plus_4 := 0x80000004,
       vw_csr_rdata := 0x0, vw_csr_illegal_access := False\<rparr>),
     Check (\<lambda>d. wb_rd_wdata (vw_in d) (vw_pc_plus_4 d) (vw_csr_rdata d) = 0xAA55AA55),
     Check (\<lambda>d. wb_rd_addr (vw_in d) = 5),
     Check (\<lambda>d. wb_reg_write_en_out (vw_in d) (vw_csr_illegal_access d)),
     Check (\<lambda>d. \<not> wb_csr_req (vw_in d)),
     Drive (\<lambda>d. d\<lparr>vw_in := (vw_in d)\<lparr>wb_wb_sel := 1\<rparr>\<rparr>),
     Check (\<lambda>d. wb_rd_wdata (vw_in d) (vw_pc_plus_4 d) (vw_csr_rdata d) = 0x11223344),
     Drive (\<lambda>d. d\<lparr>vw_in := (vw_in d)\<lparr>wb_wb_sel := 2\<rparr>\<rparr>),
     Check (\<lambda>d. wb_rd_wdata (vw_in d) (vw_pc_plus_4 d) (vw_csr_rdata d) = 0x80000004),
     Drive (\<lambda>d. d\<lparr>vw_in := (vw_in d)\<lparr>wb_is_csr := True, wb_wb_sel := 0,
       wb_csr_op := 2, wb_imm := 0x300, wb_rs1_rdata := 0x00000008, wb_rs1_addr := 10\<rparr>,
       vw_csr_rdata := 0x00001800\<rparr>),
     Check (\<lambda>d. wb_rd_wdata (vw_in d) (vw_pc_plus_4 d) (vw_csr_rdata d) = 0x00001800),
     Check (\<lambda>d. wb_csr_req (vw_in d)),
     Check (\<lambda>d. wb_csr_op (vw_in d) = 2),
     Check (\<lambda>d. wb_csr_addr (vw_in d) = 0x300),
     Check (\<lambda>d. wb_csr_rs1_data (vw_in d) = 0x00000008),
     Drive (\<lambda>d. d\<lparr>vw_in := (vw_in d)\<lparr>wb_csr_op := 6\<rparr>\<rparr>),
     Check (\<lambda>d. wb_csr_rs1_data (vw_in d) = 10),
     Drive (\<lambda>d. d\<lparr>vw_in := (vw_in d)\<lparr>wb_illegal_instr := True,
       wb_is_ecall := True, wb_is_ebreak := True, wb_is_mret := True,
       wb_is_sret := True\<rparr>\<rparr>),
     Check (\<lambda>d. trap_illegal_instr (wb_trap_sigs (vw_in d) (vw_csr_illegal_access d))),
     Check (\<lambda>d. trap_is_ecall (wb_trap_sigs (vw_in d) (vw_csr_illegal_access d))),
     Check (\<lambda>d. trap_is_ebreak (wb_trap_sigs (vw_in d) (vw_csr_illegal_access d))),
     Check (\<lambda>d. trap_is_mret (wb_trap_sigs (vw_in d) (vw_csr_illegal_access d))),
     Check (\<lambda>d. trap_is_sret (wb_trap_sigs (vw_in d) (vw_csr_illegal_access d))),
     Check (\<lambda>d. trap_epc (wb_trap_sigs (vw_in d) (vw_csr_illegal_access d)) = 0x80000000),
     Check (\<lambda>d. trap_bad_instr (wb_trap_sigs (vw_in d) (vw_csr_illegal_access d)) =
       0xDEADBEEF),
     Check (\<lambda>d. \<not> wb_reg_write_en_out (vw_in d) (vw_csr_illegal_access d)),
     Check (\<lambda>d. \<not> wb_csr_req (vw_in d)),
     Drive (\<lambda>d. d\<lparr>vw_in := (vw_in d)\<lparr>wb_illegal_instr := False,
       wb_is_ecall := False, wb_is_ebreak := False\<rparr>, vw_csr_illegal_access := True\<rparr>),
     Check (\<lambda>d. trap_illegal_instr (wb_trap_sigs (vw_in d) (vw_csr_illegal_access d))),
     Check (\<lambda>d. \<not> wb_reg_write_en_out (vw_in d) (vw_csr_illegal_access d)),
     Drive (\<lambda>d. d\<lparr>vw_csr_illegal_access := False, vw_in := (vw_in
       d)\<lparr>wb_load_fault := True, wb_fault_addr := 0x80000010\<rparr>\<rparr>),
     Check (\<lambda>d. trap_load_fault (wb_trap_sigs (vw_in d) (vw_csr_illegal_access d))),
     Check (\<lambda>d. trap_bad_addr (wb_trap_sigs (vw_in d) (vw_csr_illegal_access d)) =
       0x80000010),
     Check (\<lambda>d. \<not> wb_reg_write_en_out (vw_in d) (vw_csr_illegal_access d)),
     Drive (\<lambda>d. d\<lparr>vw_in := (vw_in d)\<lparr>wb_load_fault := False,
       wb_store_fault := True, wb_fault_addr := 0x80000020\<rparr>\<rparr>),
     Check (\<lambda>d. trap_store_fault (wb_trap_sigs (vw_in d) (vw_csr_illegal_access d))),
     Check (\<lambda>d. trap_bad_addr (wb_trap_sigs (vw_in d) (vw_csr_illegal_access d)) =
       0x80000020),
     Drive (\<lambda>d. d\<lparr>vw_in := (vw_in
       d)\<lparr>wb_store_fault := False\<rparr>\<rparr>)]"

definition tb_wb_stage_main :: "Vwb_stage \<Rightarrow> tb_exit \<times> nat" where
  "tb_wb_stage_main dut = run_bench tb_wb_stage_steps dut 0"

subsection \<open>Decoder\<close>

record Vdecoder =
  vd_instr :: u32
  vd_priv_mode :: "2 word"

definition vd_out :: "Vdecoder \<Rightarrow> decoder_out" where
  "vd_out d = decoder (vd_instr d) (vd_priv_mode d)"

text \<open>\<open>decode\<close> drives the instruction and the two low bits of the mode.\<close>

definition tb_decode :: "u32 \<Rightarrow> u8 \<Rightarrow> Vdecoder \<Rightarrow> Vdecoder" where
  "tb_decode instr priv_mode d =
     d\<lparr>vd_priv_mode := ucast (priv_mode AND 0x3), vd_instr := instr\<rparr>"

text \<open>Instructions 1 to 13: register and immediate operations, loads, stores, branches.\<close>

definition tb_decoder_computation :: "Vdecoder bench_step list" where
  "tb_decoder_computation =
    [Drive (tb_decode 0x003100B3 3),
     Check (\<lambda>d. dec_rs1_addr (vd_out d) = 2),
     Check (\<lambda>d. dec_rs2_addr (vd_out d) = 3),
     Check (\<lambda>d. dec_rd_addr (vd_out d) = 1),
     Check (\<lambda>d. dec_reg_write_en (vd_out d)),
     Check (\<lambda>d. dec_alu_op (vd_out d) = 0),
     Check (\<lambda>d. \<not> dec_alu_src1_sel (vd_out d)),
     Check (\<lambda>d. \<not> dec_alu_src2_sel (vd_out d)),
     Check (\<lambda>d. dec_wb_sel (vd_out d) = 0),
     Check (\<lambda>d. \<not> dec_illegal_instr (vd_out d)),
     Drive (tb_decode 0x402081B3 3),
     Check (\<lambda>d. dec_alu_op (vd_out d) = 8),
     Check (\<lambda>d. dec_reg_write_en (vd_out d)),
     Check (\<lambda>d. \<not> dec_alu_src2_sel (vd_out d)),
     Drive (tb_decode 0x403150B3 3),
     Check (\<lambda>d. dec_alu_op (vd_out d) = 13),
     Drive (tb_decode 0x003150B3 3),
     Check (\<lambda>d. dec_alu_op (vd_out d) = 5),
     Drive (tb_decode 0x02A00093 3),
     Check (\<lambda>d. dec_reg_write_en (vd_out d)),
     Check (\<lambda>d. dec_alu_op (vd_out d) = 0),
     Check (\<lambda>d. \<not> dec_alu_src1_sel (vd_out d)),
     Check (\<lambda>d. dec_alu_src2_sel (vd_out d)),
     Check (\<lambda>d. dec_imm (vd_out d) = 42),
     Check (\<lambda>d. dec_rd_addr (vd_out d) = 1),
     Check (\<lambda>d. dec_rs1_addr (vd_out d) = 0),
     Drive (tb_decode 0xFFF00093 3),
     Check (\<lambda>d. dec_imm (vd_out d) = (- 1)),
     Drive (tb_decode 0x40315093 3),
     Check (\<lambda>d. dec_alu_op (vd_out d) = 13),
     Check (\<lambda>d. dec_alu_src2_sel (vd_out d)),
     Drive (tb_decode 0x00853283 3),
     Check (\<lambda>d. dec_is_load (vd_out d)),
     Check (\<lambda>d. dec_reg_write_en (vd_out d)),
     Check (\<lambda>d. dec_alu_src2_sel (vd_out d)),
     Check (\<lambda>d. dec_imm (vd_out d) = 8),
     Check (\<lambda>d. dec_mem_size (vd_out d) = 3),
     Check (\<lambda>d. dec_wb_sel (vd_out d) = 1),
     Check (\<lambda>d. dec_alu_op (vd_out d) = 0),
     Drive (tb_decode 0x00553823 3),
     Check (\<lambda>d. dec_is_store (vd_out d)),
     Check (\<lambda>d. \<not> dec_reg_write_en (vd_out d)),
     Check (\<lambda>d. dec_alu_src2_sel (vd_out d)),
     Check (\<lambda>d. dec_imm (vd_out d) = 16),
     Check (\<lambda>d. dec_mem_size (vd_out d) = 3),
     Check (\<lambda>d. dec_rs1_addr (vd_out d) = 10),
     Check (\<lambda>d. dec_rs2_addr (vd_out d) = 5),
     Drive (tb_decode 0xFE208EE3 3),
     Check (\<lambda>d. dec_is_branch (vd_out d)),
     Check (\<lambda>d. \<not> dec_reg_write_en (vd_out d)),
     Check (\<lambda>d. dec_alu_src1_sel (vd_out d)),
     Check (\<lambda>d. dec_branch_op (vd_out d) = 0),
     Check (\<lambda>d. dec_imm (vd_out d) = (- 4)),
     Drive (tb_decode 0x00209463 3),
     Check (\<lambda>d. dec_is_branch (vd_out d)),
     Check (\<lambda>d. dec_branch_op (vd_out d) = 1),
     Check (\<lambda>d. dec_imm (vd_out d) = 8),
     Drive (tb_decode 0x123450B7 3),
     Check (\<lambda>d. dec_reg_write_en (vd_out d)),
     Check (\<lambda>d. dec_alu_src2_sel (vd_out d)),
     Check (\<lambda>d. dec_imm (vd_out d) = 0x12345000),
     Check (\<lambda>d. dec_wb_sel (vd_out d) = 0),
     Check (\<lambda>d. dec_rd_addr (vd_out d) = 1),
     Drive (tb_decode 0x00001117 3),
     Check (\<lambda>d. dec_reg_write_en (vd_out d)),
     Check (\<lambda>d. dec_alu_src1_sel (vd_out d)),
     Check (\<lambda>d. dec_alu_src2_sel (vd_out d)),
     Check (\<lambda>d. dec_imm (vd_out d) = 0x1000)]"

text \<open>Instructions 14 to 27: jumps, word operations, SYSTEM, fences, an illegal word.\<close>

definition tb_decoder_system :: "Vdecoder bench_step list" where
  "tb_decoder_system =
    [Drive (tb_decode 0x008000EF 3),
     Check (\<lambda>d. dec_is_jump (vd_out d)),
     Check (\<lambda>d. dec_reg_write_en (vd_out d)),
     Check (\<lambda>d. dec_alu_src1_sel (vd_out d)),
     Check (\<lambda>d. dec_alu_src2_sel (vd_out d)),
     Check (\<lambda>d. dec_wb_sel (vd_out d) = 2),
     Check (\<lambda>d. dec_imm (vd_out d) = 8),
     Drive (tb_decode 0x004280E7 3),
     Check (\<lambda>d. dec_is_jump (vd_out d)),
     Check (\<lambda>d. dec_reg_write_en (vd_out d)),
     Check (\<lambda>d. \<not> dec_alu_src1_sel (vd_out d)),
     Check (\<lambda>d. dec_alu_src2_sel (vd_out d)),
     Check (\<lambda>d. dec_wb_sel (vd_out d) = 2),
     Check (\<lambda>d. dec_imm (vd_out d) = 4),
     Check (\<lambda>d. dec_rs1_addr (vd_out d) = 5),
     Drive (tb_decode 0x00A1009B 3),
     Check (\<lambda>d. dec_reg_write_en (vd_out d)),
     Check (\<lambda>d. dec_is_word_op (vd_out d)),
     Check (\<lambda>d. dec_alu_op (vd_out d) = 0),
     Check (\<lambda>d. dec_alu_src2_sel (vd_out d)),
     Check (\<lambda>d. dec_imm (vd_out d) = 10),
     Drive (tb_decode 0x002081BB 3),
     Check (\<lambda>d. dec_reg_write_en (vd_out d)),
     Check (\<lambda>d. dec_is_word_op (vd_out d)),
     Check (\<lambda>d. dec_alu_op (vd_out d) = 0),
     Check (\<lambda>d. \<not> dec_alu_src2_sel (vd_out d)),
     Drive (tb_decode 0x402081BB 3),
     Check (\<lambda>d. dec_alu_op (vd_out d) = 8),
     Check (\<lambda>d. dec_is_word_op (vd_out d)),
     Drive (tb_decode 0x300110F3 3),
     Check (\<lambda>d. dec_is_csr (vd_out d)),
     Check (\<lambda>d. dec_csr_op (vd_out d) = 1),
     Check (\<lambda>d. dec_reg_write_en (vd_out d)),
     Check (\<lambda>d. \<not> dec_illegal_instr (vd_out d)),
     Drive (tb_decode 0x300110F3 0),
     Check (\<lambda>d. dec_illegal_instr (vd_out d)),
     Check (\<lambda>d. \<not> dec_is_csr (vd_out d)),
     Drive (tb_decode 0x00000073 3),
     Check (\<lambda>d. dec_is_ecall (vd_out d)),
     Check (\<lambda>d. \<not> dec_reg_write_en (vd_out d)),
     Check (\<lambda>d. \<not> dec_illegal_instr (vd_out d)),
     Drive (tb_decode 0x00100073 3),
     Check (\<lambda>d. dec_is_ebreak (vd_out d)),
     Check (\<lambda>d. \<not> dec_reg_write_en (vd_out d)),
     Drive (tb_decode 0x30200073 3),
     Check (\<lambda>d. dec_is_mret (vd_out d)),
     Check (\<lambda>d. \<not> dec_reg_write_en (vd_out d)),
     Check (\<lambda>d. \<not> dec_illegal_instr (vd_out d)),
     Drive (tb_decode 0x10200073 1),
     Check (\<lambda>d. dec_is_sret (vd_out d)),
     Check (\<lambda>d. \<not> dec_reg_write_en (vd_out d)),
     Drive (tb_decode 0x10500073 3),
     Check (\<lambda>d. dec_is_wfi (vd_out d)),
     Drive (tb_decode 0x0FF0000F 3),
     Check (\<lambda>d. dec_is_fence (vd_out d)),
     Check (\<lambda>d. \<not> dec_illegal_instr (vd_out d)),
     Drive (tb_decode 0x0000100F 3),
     Check (\<lambda>d. dec_is_fence_i (vd_out d)),
     Drive (tb_decode 0x00000000 3),
     Check (\<lambda>d. dec_illegal_instr (vd_out d)),
     Check (\<lambda>d. \<not> dec_reg_write_en (vd_out d))]"

definition tb_decoder_main :: "Vdecoder \<Rightarrow> tb_exit" where
  "tb_decoder_main dut =
     Exit (if count_failures (tb_decoder_computation @ tb_decoder_system) dut 0 > 0 then 1 else 0)"

section \<open>Lemmas\<close>

lemma tb_hazard_passes: "passes (tb_hazard_forwarding @ tb_hazard_control) d"
  unfolding tb_hazard_forwarding_def tb_hazard_control_def
  by (simp add: tb_hazard_reset_def rtl_eval)

lemma tb_trap_ctrl_passes: "passes tb_trap_ctrl_steps d"
  unfolding tb_trap_ctrl_steps_def
  by (simp add: tb_trap_defaults_def vt_out_def rtl_eval word_cat_eq)

lemma tb_ex_stage_passes: "passes tb_ex_stage_steps d"
  unfolding tb_ex_stage_steps_def
  by (simp add: rtl_eval)

lemma tb_mem_stage_passes: "passes (tb_mem_stage_stores @ tb_mem_stage_loads) d"
  unfolding tb_mem_stage_stores_def tb_mem_stage_loads_def
  by (simp add: rtl_eval)

lemma tb_wb_stage_passes: "passes tb_wb_stage_steps d"
  unfolding tb_wb_stage_steps_def
  by (simp add: rtl_eval)

lemmas decoder_concrete = decoder_opcodes decoder_parts imm_defs field_eval word_cat_eq

lemma tb_decoder_computation_passes: "passes tb_decoder_computation d"
  unfolding tb_decoder_computation_def
  by (simp add: tb_decode_def vd_out_def decoder_concrete)

lemma tb_decoder_system_passes: "passes tb_decoder_system d"
  unfolding tb_decoder_system_def
  by (simp add: tb_decode_def vd_out_def decoder_concrete)

lemma tb_decoder_passes: "passes (tb_decoder_computation @ tb_decoder_system) d"
  by (simp add: passes_append tb_decoder_computation_passes tb_decoder_system_passes)

lemma stage_bench_checks:
  "checks (tb_hazard_forwarding @ tb_hazard_control) = 68" "checks tb_trap_ctrl_steps = 33"
  "checks tb_ex_stage_steps = 18" "checks (tb_mem_stage_stores @ tb_mem_stage_loads) = 37"
  "checks tb_wb_stage_steps = 28"
  by (simp_all add: tb_hazard_forwarding_def tb_hazard_control_def tb_trap_ctrl_steps_def
      tb_ex_stage_steps_def tb_mem_stage_stores_def tb_mem_stage_loads_def tb_wb_stage_steps_def)

section \<open>Properties\<close>

text \<open>
  C37: the eight benches of the combinational modules pass on the modelled modules, whatever the
  input ports hold before they are first driven: all 68, 33, 18, 37 and 28 checks of the benches for
  the hazard unit, the trap controller and the execute, memory and write-back stages hold, and
  the benches for the ALU, the branch unit and the decoder end with status 0.
\<close>

theorem stage_benches_pass:
  "tb_alu_main alu = Exit 0 \<and>
   tb_branch_main branch_unit = Exit 0 \<and>
   tb_hazard_unit_main hz = (Exit 0, 68) \<and>
   tb_trap_ctrl_main tc = (Exit 0, 33) \<and>
   tb_ex_stage_main ex = (Exit 0, 18) \<and>
   tb_mem_stage_main me = (Exit 0, 37) \<and>
   tb_wb_stage_main wb = (Exit 0, 28) \<and>
   tb_decoder_main de = Exit 0"
  unfolding tb_hazard_unit_main_def tb_trap_ctrl_main_def tb_ex_stage_main_def
    tb_mem_stage_main_def tb_wb_stage_main_def tb_decoder_main_def
    run_bench_passes [OF tb_hazard_passes] run_bench_passes [OF tb_trap_ctrl_passes]
    run_bench_passes [OF tb_ex_stage_passes] run_bench_passes [OF tb_mem_stage_passes]
    run_bench_passes [OF tb_wb_stage_passes] count_failures_passes [OF tb_decoder_passes]
  by (simp add: stage_bench_checks tb_alu_passes tb_branch_passes)

end
