(* ===== verification/Register_Benches.thy ===== *)
theory Register_Benches
  imports Stage_Benches Core
begin

text \<open>
  The benches of the clocked parts of the pipeline: \<^verbatim>\<open>tb_if_stage.cc\<close>, \<^verbatim>\<open>tb_if_id_reg.cc\<close>,
  \<^verbatim>\<open>tb_id_ex_reg.cc\<close>, \<^verbatim>\<open>tb_ex_mem_reg.cc\<close>, \<^verbatim>\<open>tb_mem_wb_reg.cc\<close> and \<^verbatim>\<open>tb_id_stage.cc\<close>.  A
  device under test is the record of its input ports and registers; \<open>tick\<close> is one rising clock
  edge.  The outputs of the pipeline registers are the registers themselves.
\<close>

section \<open>Definitions\<close>

subsection \<open>The fetch stage\<close>

record Vif_stage =
  vi_rst :: bool
  vi_stall_en :: bool
  vi_redirect :: redirect
  vi_pc_reg :: u64

definition tick_if_stage :: "Vif_stage \<Rightarrow> Vif_stage" where
  "tick_if_stage d =
     d\<lparr>vi_pc_reg := if_stage_ff (vi_rst d) (vi_stall_en d) (vi_redirect d) (vi_pc_reg d)\<rparr>"

definition tb_if_stage_steps :: "Vif_stage bench_step list" where
  "tb_if_stage_steps =
    [Drive (\<lambda>d. d\<lparr>vi_stall_en := False, vi_rst := True, vi_redirect := (vi_redirect
       d)\<lparr>pc_redirect_sel := False, pc_redirect_target := 0,
       pc_redirect_is_trap := False\<rparr>\<rparr>),
     Drive tick_if_stage,
     Drive (\<lambda>d. d\<lparr>vi_rst := False\<rparr>),
     Check (\<lambda>d. 0x80000000 = vi_pc_reg d),
     Drive tick_if_stage,
     Check (\<lambda>d. 0x80000004 = vi_pc_reg d),
     Drive tick_if_stage,
     Check (\<lambda>d. 0x80000008 = vi_pc_reg d),
     Drive (\<lambda>d. d\<lparr>vi_stall_en := True\<rparr>),
     Drive tick_if_stage,
     Check (\<lambda>d. 0x80000008 = vi_pc_reg d),
     Drive tick_if_stage,
     Check (\<lambda>d. 0x80000008 = vi_pc_reg d),
     Drive (\<lambda>d. d\<lparr>vi_stall_en := False\<rparr>),
     Drive tick_if_stage,
     Check (\<lambda>d. 0x8000000C = vi_pc_reg d),
     Drive (\<lambda>d. d\<lparr>vi_redirect := (vi_redirect d)\<lparr>pc_redirect_sel := True,
       pc_redirect_is_trap := False, pc_redirect_target := 0x80000100\<rparr>\<rparr>),
     Drive tick_if_stage,
     Check (\<lambda>d. 0x80000100 = vi_pc_reg d),
     Drive (\<lambda>d. d\<lparr>vi_redirect := (vi_redirect
       d)\<lparr>pc_redirect_sel := False\<rparr>\<rparr>),
     Drive tick_if_stage,
     Check (\<lambda>d. 0x80000104 = vi_pc_reg d),
     Drive (\<lambda>d. d\<lparr>vi_redirect := (vi_redirect d)\<lparr>pc_redirect_sel := True,
       pc_redirect_is_trap := False, pc_redirect_target := 0x80000200\<rparr>,
       vi_stall_en := True\<rparr>),
     Drive tick_if_stage,
     Check (\<lambda>d. 0x80000104 = vi_pc_reg d),
     Drive (\<lambda>d. d\<lparr>vi_stall_en := False\<rparr>),
     Drive tick_if_stage,
     Check (\<lambda>d. 0x80000200 = vi_pc_reg d),
     Drive (\<lambda>d. d\<lparr>vi_redirect := (vi_redirect d)\<lparr>pc_redirect_sel := True,
       pc_redirect_is_trap := True, pc_redirect_target := 0x80000300\<rparr>,
       vi_stall_en := True\<rparr>),
     Drive tick_if_stage,
     Check (\<lambda>d. 0x80000300 = vi_pc_reg d),
     Drive (\<lambda>d. d\<lparr>vi_stall_en := False, vi_redirect := (vi_redirect
       d)\<lparr>pc_redirect_sel := False, pc_redirect_is_trap := False\<rparr>\<rparr>),
     Drive tick_if_stage,
     Check (\<lambda>d. 0x80000304 = vi_pc_reg d)]"

definition tb_if_stage_main :: "Vif_stage \<Rightarrow> tb_exit" where
  "tb_if_stage_main dut = fst (run_bench tb_if_stage_steps dut 0)"

subsection \<open>The pipeline registers\<close>

text \<open>The ports the four registers share: control, the value to latch, the value held.\<close>

record 'r Vpipe_reg =
  vr_rst :: bool
  vr_stall_en :: bool
  vr_flush_en :: bool
  vr_d :: 'r
  vr_q :: 'r

definition tick_reg ::
  "(bool \<Rightarrow> bool \<Rightarrow> bool \<Rightarrow> 'r \<Rightarrow> 'r \<Rightarrow> 'r) \<Rightarrow> 'r Vpipe_reg \<Rightarrow> 'r Vpipe_reg" where
  "tick_reg ff d = d\<lparr>vr_q := ff (vr_rst d) (vr_stall_en d) (vr_flush_en d) (vr_d d) (vr_q d)\<rparr>"

definition tb_if_id_steps :: "if_id Vpipe_reg bench_step list" where
  "tb_if_id_steps =
    [Drive (\<lambda>d. d\<lparr>vr_stall_en := False, vr_flush_en := False, vr_rst := True,
       vr_d := (vr_d d)\<lparr>ifid_pc := 0x80000000, ifid_instr := 0xDEADBEEF\<rparr>\<rparr>),
     Drive (tick_reg if_id_ff),
     Drive (\<lambda>d. d\<lparr>vr_rst := False\<rparr>),
     Check (\<lambda>d. 0 = ifid_pc (vr_q d) \<and> 0x00000013 = ifid_instr (vr_q d)),
     Drive (\<lambda>d. d\<lparr>vr_d := (vr_d d)\<lparr>ifid_pc := 0x80001000,
       ifid_instr := 0x02A00093\<rparr>\<rparr>),
     Drive (tick_reg if_id_ff),
     Check (\<lambda>d. 0x80001000 = ifid_pc (vr_q d) \<and> 0x02A00093 = ifid_instr (vr_q d)),
     Drive (\<lambda>d. d\<lparr>vr_d := (vr_d d)\<lparr>ifid_pc := 0x80001004,
       ifid_instr := 0x000280B3\<rparr>, vr_stall_en := True\<rparr>),
     Drive (tick_reg if_id_ff),
     Check (\<lambda>d. 0x80001000 = ifid_pc (vr_q d) \<and> 0x02A00093 = ifid_instr (vr_q d)),
     Drive (\<lambda>d. d\<lparr>vr_d := (vr_d d)\<lparr>ifid_pc := 0x80001008,
       ifid_instr := 0x008000EF\<rparr>\<rparr>),
     Drive (tick_reg if_id_ff),
     Check (\<lambda>d. 0x80001000 = ifid_pc (vr_q d) \<and> 0x02A00093 = ifid_instr (vr_q d)),
     Drive (\<lambda>d. d\<lparr>vr_stall_en := False\<rparr>),
     Drive (tick_reg if_id_ff),
     Check (\<lambda>d. 0x80001008 = ifid_pc (vr_q d) \<and> 0x008000EF = ifid_instr (vr_q d)),
     Drive (\<lambda>d. d\<lparr>vr_d := (vr_d d)\<lparr>ifid_pc := 0x8000100C,
       ifid_instr := 0xDEADBEEF\<rparr>, vr_flush_en := True\<rparr>),
     Drive (tick_reg if_id_ff),
     Check (\<lambda>d. 0 = ifid_pc (vr_q d) \<and> 0x00000013 = ifid_instr (vr_q d)),
     Drive (\<lambda>d. d\<lparr>vr_flush_en := False, vr_d := (vr_d
       d)\<lparr>ifid_pc := 0x80002000, ifid_instr := 0x12345678\<rparr>\<rparr>),
     Drive (tick_reg if_id_ff),
     Check (\<lambda>d. 0x80002000 = ifid_pc (vr_q d) \<and> 0x12345678 = ifid_instr (vr_q d)),
     Drive (\<lambda>d. d\<lparr>vr_flush_en := True, vr_stall_en := True\<rparr>),
     Drive (tick_reg if_id_ff),
     Check (\<lambda>d. 0 = ifid_pc (vr_q d) \<and> 0x00000013 = ifid_instr (vr_q d))]"

definition tb_if_id_reg_main :: "if_id Vpipe_reg \<Rightarrow> tb_exit \<times> nat" where
  "tb_if_id_reg_main dut = run_bench tb_if_id_steps dut 0"

definition tb_id_ex_steps :: "id_ex Vpipe_reg bench_step list" where
  "tb_id_ex_steps =
    [Drive (\<lambda>d. d\<lparr>vr_stall_en := False, vr_flush_en := False, vr_rst := True,
       vr_d := (vr_d d)\<lparr>ex_pc := 0x80001000, ex_rs1_rdata := 0x11111111,
       ex_rs2_rdata := 0x22222222, ex_rs1_addr := 31, ex_rs2_addr := 15, ex_imm := 0x1A2B3C,
       ex_alu_op := ALU_XOR, ex_reg_write_en := True, ex_is_store := True, ex_is_load := True,
       ex_is_branch := True, ex_is_jump := True, ex_is_csr := True,
       ex_illegal_instr := True\<rparr>\<rparr>),
     Drive (tick_reg id_ex_ff),
     Drive (\<lambda>d. d\<lparr>vr_rst := False\<rparr>),
     Check (\<lambda>d. ex_pc (vr_q d) = 0),
     Check (\<lambda>d. \<not> ex_reg_write_en (vr_q d)),
     Check (\<lambda>d. \<not> ex_is_store (vr_q d)),
     Check (\<lambda>d. \<not> ex_is_load (vr_q d)),
     Check (\<lambda>d. \<not> ex_is_branch (vr_q d)),
     Check (\<lambda>d. \<not> ex_is_jump (vr_q d)),
     Check (\<lambda>d. \<not> ex_is_csr (vr_q d)),
     Check (\<lambda>d. \<not> ex_illegal_instr (vr_q d)),
     Drive (\<lambda>d. d\<lparr>vr_d := (vr_d d)\<lparr>ex_pc := 0x80002000,
       ex_rs1_rdata := 0xAAAAAAAA, ex_rs2_rdata := 0xBBBBBBBB, ex_rs1_addr := 10, ex_rs2_addr := 11,
       ex_imm := 42, ex_alu_op := ALU_ADD, ex_reg_write_en := True, ex_rd_addr := 5,
       ex_is_load := True, ex_is_branch := False\<rparr>\<rparr>),
     Drive (tick_reg id_ex_ff),
     Check (\<lambda>d. ex_pc (vr_q d) = 0x80002000),
     Check (\<lambda>d. ex_rs1_rdata (vr_q d) = 0xAAAAAAAA),
     Check (\<lambda>d. ex_rs2_rdata (vr_q d) = 0xBBBBBBBB),
     Check (\<lambda>d. ex_rs1_addr (vr_q d) = 10),
     Check (\<lambda>d. ex_rs2_addr (vr_q d) = 11),
     Check (\<lambda>d. ex_imm (vr_q d) = 42),
     Check (\<lambda>d. ex_alu_op (vr_q d) = ALU_ADD),
     Check (\<lambda>d. ex_reg_write_en (vr_q d)),
     Check (\<lambda>d. ex_rd_addr (vr_q d) = 5),
     Check (\<lambda>d. ex_is_load (vr_q d)),
     Drive (\<lambda>d. d\<lparr>vr_stall_en := True, vr_d := (vr_d d)\<lparr>ex_pc := 0x80003000,
       ex_rd_addr := 10, ex_reg_write_en := False, ex_is_load := False\<rparr>\<rparr>),
     Drive (tick_reg id_ex_ff),
     Check (\<lambda>d. ex_pc (vr_q d) = 0x80002000),
     Check (\<lambda>d. ex_rd_addr (vr_q d) = 5),
     Check (\<lambda>d. ex_reg_write_en (vr_q d)),
     Check (\<lambda>d. ex_is_load (vr_q d)),
     Drive (\<lambda>d. d\<lparr>vr_stall_en := False\<rparr>),
     Drive (tick_reg id_ex_ff),
     Check (\<lambda>d. ex_pc (vr_q d) = 0x80003000),
     Check (\<lambda>d. ex_rd_addr (vr_q d) = 10),
     Check (\<lambda>d. \<not> ex_reg_write_en (vr_q d)),
     Drive (\<lambda>d. d\<lparr>vr_flush_en := True, vr_d := (vr_d d)\<lparr>ex_pc := 0x80004000,
       ex_reg_write_en := True, ex_is_store := True, ex_is_branch := True\<rparr>\<rparr>),
     Drive (tick_reg id_ex_ff),
     Check (\<lambda>d. ex_pc (vr_q d) = 0x80003000),
     Check (\<lambda>d. \<not> ex_reg_write_en (vr_q d)),
     Check (\<lambda>d. \<not> ex_is_store (vr_q d)),
     Check (\<lambda>d. \<not> ex_is_branch (vr_q d)),
     Drive (\<lambda>d. d\<lparr>vr_flush_en := False, vr_d := (vr_d
       d)\<lparr>ex_pc := 0x80005000, ex_reg_write_en := True\<rparr>\<rparr>),
     Drive (tick_reg id_ex_ff),
     Check (\<lambda>d. ex_pc (vr_q d) = 0x80005000),
     Drive (\<lambda>d. d\<lparr>vr_flush_en := True, vr_stall_en := True, vr_d := (vr_d
       d)\<lparr>ex_pc := 0x80006000\<rparr>\<rparr>),
     Drive (tick_reg id_ex_ff),
     Check (\<lambda>d. ex_pc (vr_q d) = 0x80005000),
     Check (\<lambda>d. \<not> ex_reg_write_en (vr_q d))]"

definition tb_id_ex_reg_main :: "id_ex Vpipe_reg \<Rightarrow> tb_exit \<times> nat" where
  "tb_id_ex_reg_main dut = run_bench tb_id_ex_steps dut 0"

definition tb_ex_mem_steps :: "ex_mem Vpipe_reg bench_step list" where
  "tb_ex_mem_steps =
    [Drive (\<lambda>d. d\<lparr>vr_stall_en := False, vr_flush_en := False, vr_rst := True,
       vr_d := (vr_d d)\<lparr>mem_pc := 0x80001000, mem_rs1_rdata := 0x11111111,
       mem_rs2_rdata := 0x22222222, mem_rs1_addr := 31, mem_alu_result := 0x88888888,
       mem_branch_taken := True, mem_branch_target := 0x80001020, mem_is_store := True,
       mem_is_load := True, mem_reg_write_en := True, mem_is_csr := True,
       mem_illegal_instr := True\<rparr>\<rparr>),
     Drive (tick_reg ex_mem_ff),
     Drive (\<lambda>d. d\<lparr>vr_rst := False\<rparr>),
     Check (\<lambda>d. mem_pc (vr_q d) = 0),
     Check (\<lambda>d. \<not> mem_branch_taken (vr_q d)),
     Check (\<lambda>d. \<not> mem_reg_write_en (vr_q d)),
     Check (\<lambda>d. \<not> mem_is_store (vr_q d)),
     Check (\<lambda>d. \<not> mem_is_load (vr_q d)),
     Check (\<lambda>d. \<not> mem_is_csr (vr_q d)),
     Check (\<lambda>d. \<not> mem_illegal_instr (vr_q d)),
     Drive (\<lambda>d. d\<lparr>vr_d := (vr_d d)\<lparr>mem_pc := 0x80002000,
       mem_rs1_rdata := 0xAAAAAAAA, mem_rs2_rdata := 0xBBBBBBBB, mem_rs1_addr := 15,
       mem_alu_result := 0xCAFEBABE, mem_branch_taken := True, mem_branch_target := 0x80002008,
       mem_is_store := False, mem_is_load := True, mem_reg_write_en := True, mem_rd_addr := 15,
       mem_wb_sel := 1\<rparr>\<rparr>),
     Drive (tick_reg ex_mem_ff),
     Check (\<lambda>d. mem_pc (vr_q d) = 0x80002000),
     Check (\<lambda>d. mem_rs1_rdata (vr_q d) = 0xAAAAAAAA),
     Check (\<lambda>d. mem_rs2_rdata (vr_q d) = 0xBBBBBBBB),
     Check (\<lambda>d. mem_rs1_addr (vr_q d) = 15),
     Check (\<lambda>d. mem_alu_result (vr_q d) = 0xCAFEBABE),
     Check (\<lambda>d. mem_branch_taken (vr_q d)),
     Check (\<lambda>d. mem_branch_target (vr_q d) = 0x80002008),
     Check (\<lambda>d. mem_is_load (vr_q d)),
     Check (\<lambda>d. mem_reg_write_en (vr_q d)),
     Check (\<lambda>d. mem_rd_addr (vr_q d) = 15),
     Check (\<lambda>d. mem_wb_sel (vr_q d) = 1),
     Drive (\<lambda>d. d\<lparr>vr_stall_en := True, vr_d := (vr_d
       d)\<lparr>mem_pc := 0x80003000, mem_rs1_rdata := 0xCCCCCCCC, mem_rs1_addr := 20,
       mem_branch_taken := False, mem_rd_addr := 20, mem_reg_write_en := False,
       mem_is_load := False\<rparr>\<rparr>),
     Drive (tick_reg ex_mem_ff),
     Check (\<lambda>d. mem_pc (vr_q d) = 0x80002000),
     Check (\<lambda>d. mem_rs1_rdata (vr_q d) = 0xAAAAAAAA),
     Check (\<lambda>d. mem_rs1_addr (vr_q d) = 15),
     Check (\<lambda>d. mem_branch_taken (vr_q d)),
     Check (\<lambda>d. mem_rd_addr (vr_q d) = 15),
     Check (\<lambda>d. mem_reg_write_en (vr_q d)),
     Check (\<lambda>d. mem_is_load (vr_q d)),
     Drive (\<lambda>d. d\<lparr>vr_stall_en := False\<rparr>),
     Drive (tick_reg ex_mem_ff),
     Check (\<lambda>d. mem_pc (vr_q d) = 0x80003000),
     Check (\<lambda>d. mem_rs1_rdata (vr_q d) = 0xCCCCCCCC),
     Check (\<lambda>d. mem_rs1_addr (vr_q d) = 20),
     Check (\<lambda>d. \<not> mem_branch_taken (vr_q d)),
     Check (\<lambda>d. mem_rd_addr (vr_q d) = 20),
     Check (\<lambda>d. \<not> mem_reg_write_en (vr_q d)),
     Drive (\<lambda>d. d\<lparr>vr_flush_en := True, vr_d := (vr_d
       d)\<lparr>mem_pc := 0x80004000, mem_branch_taken := True, mem_reg_write_en := True,
       mem_is_store := True\<rparr>\<rparr>),
     Drive (tick_reg ex_mem_ff),
     Check (\<lambda>d. mem_pc (vr_q d) = 0x80003000),
     Check (\<lambda>d. \<not> mem_branch_taken (vr_q d)),
     Check (\<lambda>d. \<not> mem_reg_write_en (vr_q d)),
     Check (\<lambda>d. \<not> mem_is_store (vr_q d)),
     Drive (\<lambda>d. d\<lparr>vr_flush_en := False, vr_d := (vr_d
       d)\<lparr>mem_pc := 0x80005000, mem_reg_write_en := True\<rparr>\<rparr>),
     Drive (tick_reg ex_mem_ff),
     Check (\<lambda>d. mem_pc (vr_q d) = 0x80005000),
     Drive (\<lambda>d. d\<lparr>vr_flush_en := True, vr_stall_en := True, vr_d := (vr_d
       d)\<lparr>mem_pc := 0x80006000, mem_branch_taken := True\<rparr>\<rparr>),
     Drive (tick_reg ex_mem_ff),
     Check (\<lambda>d. mem_pc (vr_q d) = 0x80005000),
     Check (\<lambda>d. \<not> mem_branch_taken (vr_q d)),
     Check (\<lambda>d. \<not> mem_reg_write_en (vr_q d)),
     Check (\<lambda>d. \<not> mem_is_store (vr_q d))]"

definition tb_ex_mem_reg_main :: "ex_mem Vpipe_reg \<Rightarrow> tb_exit \<times> nat" where
  "tb_ex_mem_reg_main dut = run_bench tb_ex_mem_steps dut 0"

definition tb_mem_wb_steps :: "mem_wb Vpipe_reg bench_step list" where
  "tb_mem_wb_steps =
    [Drive (\<lambda>d. d\<lparr>vr_stall_en := False, vr_flush_en := False, vr_rst := True,
       vr_d := (vr_d d)\<lparr>wb_pc := 0x80001000, wb_alu_result := 0x11111111,
       wb_mem_rdata := 0x22222222, wb_reg_write_en := True, wb_rd_addr := 31, wb_wb_sel := 1,
       wb_is_csr := True, wb_csr_op := 2, wb_rs1_rdata := 0x999, wb_rs1_addr := 5, wb_imm := 0x333,
       wb_is_ecall := True, wb_illegal_instr := True, wb_is_sret := True\<rparr>\<rparr>),
     Drive (tick_reg mem_wb_ff),
     Drive (\<lambda>d. d\<lparr>vr_rst := False\<rparr>),
     Check (\<lambda>d. wb_pc (vr_q d) = 0),
     Check (\<lambda>d. wb_alu_result (vr_q d) = 0),
     Check (\<lambda>d. \<not> wb_reg_write_en (vr_q d)),
     Check (\<lambda>d. \<not> wb_is_csr (vr_q d)),
     Check (\<lambda>d. \<not> wb_illegal_instr (vr_q d)),
     Drive (\<lambda>d. d\<lparr>vr_d := (vr_d d)\<lparr>wb_pc := 0x80002000,
       wb_alu_result := 0xAAAAAAAA, wb_mem_rdata := 0xBBBBBBBB, wb_rd_addr := 15,
       wb_reg_write_en := True, wb_wb_sel := 1, wb_is_csr := True, wb_csr_op := 3,
       wb_rs1_rdata := 0x777, wb_rs1_addr := 6, wb_imm := 0x888,
       wb_is_ecall := False\<rparr>\<rparr>),
     Drive (tick_reg mem_wb_ff),
     Check (\<lambda>d. wb_pc (vr_q d) = 0x80002000),
     Check (\<lambda>d. wb_alu_result (vr_q d) = 0xAAAAAAAA),
     Check (\<lambda>d. wb_mem_rdata (vr_q d) = 0xBBBBBBBB),
     Check (\<lambda>d. wb_rd_addr (vr_q d) = 15),
     Check (\<lambda>d. wb_reg_write_en (vr_q d)),
     Check (\<lambda>d. wb_wb_sel (vr_q d) = 1),
     Check (\<lambda>d. wb_is_csr (vr_q d)),
     Check (\<lambda>d. wb_csr_op (vr_q d) = 3),
     Check (\<lambda>d. wb_rs1_rdata (vr_q d) = 0x777),
     Check (\<lambda>d. wb_rs1_addr (vr_q d) = 6),
     Check (\<lambda>d. wb_imm (vr_q d) = 0x888),
     Drive (\<lambda>d. d\<lparr>vr_stall_en := True, vr_d := (vr_d d)\<lparr>wb_pc := 0x80003000,
       wb_rd_addr := 20, wb_reg_write_en := False\<rparr>\<rparr>),
     Drive (tick_reg mem_wb_ff),
     Check (\<lambda>d. wb_pc (vr_q d) = 0x80002000),
     Check (\<lambda>d. wb_rd_addr (vr_q d) = 15),
     Check (\<lambda>d. wb_reg_write_en (vr_q d)),
     Drive (\<lambda>d. d\<lparr>vr_stall_en := False\<rparr>),
     Drive (tick_reg mem_wb_ff),
     Check (\<lambda>d. wb_pc (vr_q d) = 0x80003000),
     Check (\<lambda>d. wb_rd_addr (vr_q d) = 20),
     Check (\<lambda>d. \<not> wb_reg_write_en (vr_q d)),
     Drive (\<lambda>d. d\<lparr>vr_flush_en := True, vr_d := (vr_d d)\<lparr>wb_pc := 0x80004000,
       wb_alu_result := 0xCCCCCCCC, wb_reg_write_en := True, wb_is_csr := True\<rparr>\<rparr>),
     Drive (tick_reg mem_wb_ff),
     Check (\<lambda>d. wb_pc (vr_q d) = 0x80003000),
     Check (\<lambda>d. wb_alu_result (vr_q d) = 0xAAAAAAAA),
     Check (\<lambda>d. \<not> wb_reg_write_en (vr_q d)),
     Check (\<lambda>d. \<not> wb_is_csr (vr_q d)),
     Drive (\<lambda>d. d\<lparr>vr_flush_en := False, vr_d := (vr_d
       d)\<lparr>wb_pc := 0x80005000, wb_reg_write_en := True\<rparr>\<rparr>),
     Drive (tick_reg mem_wb_ff),
     Check (\<lambda>d. wb_pc (vr_q d) = 0x80005000),
     Drive (\<lambda>d. d\<lparr>vr_flush_en := True, vr_stall_en := True, vr_d := (vr_d
       d)\<lparr>wb_pc := 0x80006000\<rparr>\<rparr>),
     Drive (tick_reg mem_wb_ff),
     Check (\<lambda>d. wb_pc (vr_q d) = 0x80005000),
     Check (\<lambda>d. \<not> wb_reg_write_en (vr_q d))]"

definition tb_mem_wb_reg_main :: "mem_wb Vpipe_reg \<Rightarrow> tb_exit \<times> nat" where
  "tb_mem_wb_reg_main dut = run_bench tb_mem_wb_steps dut 0"

subsection \<open>The decode stage\<close>

text \<open>The bench never drives the privilege mode of the stage: it keeps its power-up value.\<close>

record Vid_stage =
  vs_rst :: bool
  vs_if_id :: if_id
  vs_priv_mode :: "2 word"
  vs_wb :: write_port
  vs_regs :: regs

definition vs_out :: "Vid_stage \<Rightarrow> id_ex" where
  "vs_out d =
     id_stage (decoder (ifid_instr (vs_if_id d)) (vs_priv_mode d)) (vs_if_id d) (vs_regs d)
       (vs_wb d)"

definition tick_id_stage :: "Vid_stage \<Rightarrow> Vid_stage" where
  "tick_id_stage d = d\<lparr>vs_regs := regfile_ff (vs_rst d) (vs_wb d) (vs_regs d)\<rparr>"

definition tb_id_stage_steps :: "Vid_stage bench_step list" where
  "tb_id_stage_steps =
    [Drive (\<lambda>d. d\<lparr>vs_rst := True, vs_wb := (vs_wb
       d)\<lparr>wp_reg_write_en := False, wp_rd_addr := 0, wp_rd_wdata := 0\<rparr>,
       vs_if_id := (vs_if_id d)\<lparr>ifid_pc := 0, ifid_instr := 0\<rparr>\<rparr>),
     Drive tick_id_stage,
     Drive (\<lambda>d. d\<lparr>vs_rst := False, vs_if_id := (vs_if_id
       d)\<lparr>ifid_pc := 0x80001000, ifid_instr := 0x00000013\<rparr>\<rparr>),
     Check (\<lambda>d. ex_pc (vs_out d) = 0x80001000),
     Drive (\<lambda>d. d\<lparr>vs_if_id := (vs_if_id
       d)\<lparr>ifid_instr := 0x02A00093\<rparr>\<rparr>),
     Check (\<lambda>d. ex_rd_addr (vs_out d) = 1),
     Check (\<lambda>d. ex_alu_op (vs_out d) = ALU_ADD),
     Check (\<lambda>d. ex_alu_src2_sel (vs_out d)),
     Check (\<lambda>d. ex_imm (vs_out d) = 42),
     Check (\<lambda>d. ex_reg_write_en (vs_out d)),
     Check (\<lambda>d. \<not> ex_is_branch (vs_out d)),
     Check (\<lambda>d. \<not> ex_is_jump (vs_out d)),
     Check (\<lambda>d. \<not> ex_illegal_instr (vs_out d)),
     Drive (\<lambda>d. d\<lparr>vs_wb := (vs_wb d)\<lparr>wp_reg_write_en := True,
       wp_rd_addr := 5, wp_rd_wdata := 0xDEADBEEF\<rparr>\<rparr>),
     Drive tick_id_stage,
     Drive (\<lambda>d. d\<lparr>vs_wb := (vs_wb d)\<lparr>wp_reg_write_en := False\<rparr>,
       vs_if_id := (vs_if_id d)\<lparr>ifid_instr := 0x000280B3\<rparr>\<rparr>),
     Check (\<lambda>d. ex_rs1_addr (vs_out d) = 5),
     Check (\<lambda>d. ex_rs2_addr (vs_out d) = 0),
     Check (\<lambda>d. ex_rs1_rdata (vs_out d) = 0xDEADBEEF),
     Check (\<lambda>d. ex_rs2_rdata (vs_out d) = 0),
     Check (\<lambda>d. \<not> ex_alu_src2_sel (vs_out d)),
     Drive (\<lambda>d. d\<lparr>vs_wb := (vs_wb d)\<lparr>wp_reg_write_en := True,
       wp_rd_addr := 10, wp_rd_wdata := 0x11111111\<rparr>\<rparr>),
     Drive tick_id_stage,
     Drive (\<lambda>d. d\<lparr>vs_wb := (vs_wb d)\<lparr>wp_reg_write_en := False\<rparr>,
       vs_if_id := (vs_if_id d)\<lparr>ifid_instr := 0x00A280B3\<rparr>\<rparr>),
     Check (\<lambda>d. ex_rs1_rdata (vs_out d) = 0xDEADBEEF),
     Check (\<lambda>d. ex_rs2_rdata (vs_out d) = 0x11111111),
     Drive (\<lambda>d. d\<lparr>vs_if_id := (vs_if_id
       d)\<lparr>ifid_instr := 0xFE208EE3\<rparr>\<rparr>),
     Check (\<lambda>d. ex_is_branch (vs_out d)),
     Check (\<lambda>d. \<not> ex_reg_write_en (vs_out d)),
     Check (\<lambda>d. ex_branch_op (vs_out d) = 0),
     Check (\<lambda>d. ex_imm (vs_out d) = (- 4)),
     Drive (\<lambda>d. d\<lparr>vs_if_id := (vs_if_id
       d)\<lparr>ifid_instr := 0x008000EF\<rparr>\<rparr>),
     Check (\<lambda>d. ex_is_jump (vs_out d)),
     Check (\<lambda>d. ex_reg_write_en (vs_out d)),
     Check (\<lambda>d. ex_wb_sel (vs_out d) = 2),
     Check (\<lambda>d. ex_imm (vs_out d) = 8),
     Drive (\<lambda>d. d\<lparr>vs_if_id := (vs_if_id
       d)\<lparr>ifid_instr := 0x00853283\<rparr>\<rparr>),
     Check (\<lambda>d. ex_is_load (vs_out d)),
     Check (\<lambda>d. ex_reg_write_en (vs_out d)),
     Check (\<lambda>d. ex_wb_sel (vs_out d) = 1),
     Check (\<lambda>d. ex_imm (vs_out d) = 8),
     Check (\<lambda>d. ex_mem_size (vs_out d) = 3),
     Drive (\<lambda>d. d\<lparr>vs_if_id := (vs_if_id
       d)\<lparr>ifid_instr := 0x00553823\<rparr>\<rparr>),
     Check (\<lambda>d. ex_is_store (vs_out d)),
     Check (\<lambda>d. \<not> ex_reg_write_en (vs_out d)),
     Check (\<lambda>d. ex_imm (vs_out d) = 16),
     Drive (\<lambda>d. d\<lparr>vs_if_id := (vs_if_id
       d)\<lparr>ifid_instr := 0x00000000\<rparr>\<rparr>),
     Check (\<lambda>d. ex_illegal_instr (vs_out d)),
     Drive (\<lambda>d. d\<lparr>vs_if_id := (vs_if_id
       d)\<lparr>ifid_instr := 0x00000073\<rparr>\<rparr>),
     Check (\<lambda>d. ex_is_ecall (vs_out d)),
     Drive (\<lambda>d. d\<lparr>vs_if_id := (vs_if_id
       d)\<lparr>ifid_instr := 0x123450B7\<rparr>\<rparr>),
     Check (\<lambda>d. ex_reg_write_en (vs_out d)),
     Check (\<lambda>d. ex_imm (vs_out d) = 0x12345000)]"

definition tb_id_stage_main :: "Vid_stage \<Rightarrow> tb_exit \<times> nat" where
  "tb_id_stage_main dut = run_bench tb_id_stage_steps dut 0"

section \<open>Lemmas\<close>

lemma tb_if_stage_passes: "passes tb_if_stage_steps d"
  unfolding tb_if_stage_steps_def
  by (simp add: tick_if_stage_def rtl_eval cong: passes_cong)

lemma tb_if_id_passes: "passes tb_if_id_steps d"
  unfolding tb_if_id_steps_def
  by (simp add: tick_reg_def if_id_bubble_def rtl_eval cong: passes_cong)

lemma tb_id_ex_passes: "passes tb_id_ex_steps d"
  unfolding tb_id_ex_steps_def
  by (simp add: tick_reg_def id_ex_reset_def rtl_eval cong: passes_cong)

lemma tb_ex_mem_passes: "passes tb_ex_mem_steps d"
  unfolding tb_ex_mem_steps_def
  by (simp add: tick_reg_def ex_mem_reset_def rtl_eval cong: passes_cong)

lemma tb_mem_wb_passes: "passes tb_mem_wb_steps d"
  unfolding tb_mem_wb_steps_def
  by (simp add: tick_reg_def mem_wb_reset_def rtl_eval cong: passes_cong)

lemma tb_id_stage_passes: "passes tb_id_stage_steps d"
  unfolding tb_id_stage_steps_def
  by (simp add: tick_id_stage_def vs_out_def id_stage_def regfile_read_def regfile_ff_def
      decoder_concrete cong: passes_cong)

lemma register_bench_checks:
  "checks tb_if_id_steps = 8" "checks tb_id_ex_steps = 32"
  "checks tb_ex_mem_steps = 40" "checks tb_mem_wb_steps = 29"
  "checks tb_id_stage_steps = 36"
  by (simp_all add: tb_if_id_steps_def tb_id_ex_steps_def tb_ex_mem_steps_def
      tb_mem_wb_steps_def tb_id_stage_steps_def)

section \<open>Properties\<close>

text \<open>
  C38: the benches of the register file, the fetch stage, the four pipeline registers and the decode
  stage pass on the modelled modules, whatever ports and registers hold at power-up: reset, latching, stalls,
  flushes, the priority of flush over stall and of trap redirects over stall, write-back before
  decode.
\<close>

theorem register_benches_pass:
  "tb_regfile_main rf = Exit 0 \<and>
   tb_if_stage_main fe = Exit 0 \<and>
   tb_if_id_reg_main fd = (Exit 0, 8) \<and>
   tb_id_ex_reg_main de = (Exit 0, 32) \<and>
   tb_ex_mem_reg_main em = (Exit 0, 40) \<and>
   tb_mem_wb_reg_main mw = (Exit 0, 29) \<and>
   tb_id_stage_main ds = (Exit 0, 36)"
  unfolding tb_if_stage_main_def tb_if_id_reg_main_def tb_id_ex_reg_main_def
    tb_ex_mem_reg_main_def tb_mem_wb_reg_main_def tb_id_stage_main_def
    run_bench_passes [OF tb_if_stage_passes] run_bench_passes [OF tb_if_id_passes]
    run_bench_passes [OF tb_id_ex_passes] run_bench_passes [OF tb_ex_mem_passes]
    run_bench_passes [OF tb_mem_wb_passes] run_bench_passes [OF tb_id_stage_passes]
  by (simp add: register_bench_checks tb_regfile_passes)

end
