(* ===== verification/Csr_Bench.thy ===== *)
theory Csr_Bench
  imports Bench Csr_Unit Trap_Ctrl
begin

text \<open>
  The bench \<^verbatim>\<open>tb/unit/tb_csr.cc\<close> of the CSR unit.  The device under test keeps the registers, the
  input ports as last assigned, and the input ports as they were at the last \<open>eval\<close>: an output
  port shows the latter, so that \<open>csr_illegal_access\<close> still stands after the bench has withdrawn
  the request.  The local variable that receives a value read from the device is part of the
  state of the script.
\<close>

section \<open>Definitions\<close>

record Vcsr_unit =
  vc_in :: csr_in
  vc_seen :: csr_in
  vc_state :: csr_state
  vc_local :: u64

abbreviation CSR_OP_WRITE :: "3 word" where "CSR_OP_WRITE \<equiv> 0b001"
abbreviation CSR_OP_SET :: "3 word" where "CSR_OP_SET \<equiv> 0b010"
abbreviation CSR_OP_CLEAR :: "3 word" where "CSR_OP_CLEAR \<equiv> 0b011"
abbreviation PRIV_ENCODE_U :: u64 where "PRIV_ENCODE_U \<equiv> 0"
abbreviation PRIV_ENCODE_S :: u64 where "PRIV_ENCODE_S \<equiv> 1"
abbreviation PRIV_ENCODE_M :: u64 where "PRIV_ENCODE_M \<equiv> 3"

text \<open>Output ports.\<close>

definition vc_rdata :: "Vcsr_unit \<Rightarrow> u64" where
  "vc_rdata d = csr_rdata (vc_seen d) (vc_state d)"

definition vc_illegal_access :: "Vcsr_unit \<Rightarrow> bool" where
  "vc_illegal_access d = csr_illegal_access (vc_seen d)"

definition vc_trap_vector_next :: "Vcsr_unit \<Rightarrow> u64" where
  "vc_trap_vector_next d = csr_trap_vector_next (vc_seen d) (vc_state d)"

definition vc_trap_vector :: "Vcsr_unit \<Rightarrow> u64" where
  "vc_trap_vector d = trap_vector_q (vc_state d)"

definition vc_trap_to_s_mode :: "Vcsr_unit \<Rightarrow> bool" where
  "vc_trap_to_s_mode d = trap_to_s_q (vc_state d)"

definition vc_priv_mode :: "Vcsr_unit \<Rightarrow> u64" where
  "vc_priv_mode d = ucast (encode_priv_mode (priv_mode_q (vc_state d)))"

text \<open>\<open>eval\<close> without a clock edge, and \<open>tick\<close>.\<close>

definition csr_eval :: "Vcsr_unit \<Rightarrow> Vcsr_unit" where
  "csr_eval d = d\<lparr>vc_seen := vc_in d\<rparr>"

definition csr_tick :: "Vcsr_unit \<Rightarrow> Vcsr_unit" where
  "csr_tick d = d\<lparr>vc_seen := vc_in d, vc_state := csr_unit_ff (vc_in d) (vc_state d)\<rparr>"

definition drive_defaults :: "Vcsr_unit \<Rightarrow> Vcsr_unit" where
  "drive_defaults d = d\<lparr>vc_in :=
     \<lparr>ci_rst = False, ci_csr_req = False, ci_csr_op = 0, ci_csr_addr = 0, ci_csr_rs1_data = 0,
      ci_trap_trigger = False, ci_trap_to_s_mode = False, ci_trap_mepc = 0, ci_trap_mcause = 0,
      ci_trap_mtval = 0, ci_mret_en = False, ci_sret_en = False\<rparr>\<rparr>"

definition apply_reset :: "Vcsr_unit \<Rightarrow> Vcsr_unit" where
  "apply_reset d =
     (let d = csr_tick (d\<lparr>vc_in := (vc_in d)\<lparr>ci_rst := True\<rparr>\<rparr>) in
      csr_tick (d\<lparr>vc_in := (vc_in d)\<lparr>ci_rst := False\<rparr>\<rparr>))"

definition clear_trap_lines :: "Vcsr_unit \<Rightarrow> Vcsr_unit" where
  "clear_trap_lines d = d\<lparr>vc_in := (vc_in d)
     \<lparr>ci_trap_trigger := False, ci_trap_to_s_mode := False, ci_trap_mepc := 0,
      ci_trap_mcause := 0, ci_trap_mtval := 0, ci_mret_en := False, ci_sret_en := False\<rparr>\<rparr>"

definition trigger_trap :: "u64 \<Rightarrow> u64 \<Rightarrow> u64 \<Rightarrow> bool \<Rightarrow> Vcsr_unit \<Rightarrow> Vcsr_unit" where
  "trigger_trap mepc mcause mtval to_s_mode d =
     (let d = csr_tick (d\<lparr>vc_in := (vc_in d)
                \<lparr>ci_trap_trigger := True, ci_trap_mepc := mepc, ci_trap_mcause := mcause,
                 ci_trap_mtval := mtval, ci_trap_to_s_mode := to_s_mode\<rparr>\<rparr>) in
      d\<lparr>vc_in := (vc_in d)
         \<lparr>ci_trap_trigger := False, ci_trap_mepc := 0, ci_trap_mcause := 0, ci_trap_mtval := 0,
          ci_trap_to_s_mode := False\<rparr>\<rparr>)"

definition tb_read_csr :: "csr_addr \<Rightarrow> Vcsr_unit \<Rightarrow> Vcsr_unit" where
  "tb_read_csr addr d =
     csr_eval (d\<lparr>vc_in := (vc_in d)
       \<lparr>ci_csr_addr := addr, ci_csr_req := False, ci_csr_op := 0, ci_csr_rs1_data := 0\<rparr>\<rparr>)"

text \<open>\<open>x = read_csr(dut, addr)\<close> for a local variable.\<close>

definition tb_save_csr :: "csr_addr \<Rightarrow> Vcsr_unit \<Rightarrow> Vcsr_unit" where
  "tb_save_csr addr d = (let d = tb_read_csr addr d in d\<lparr>vc_local := vc_rdata d\<rparr>)"

definition tb_csr_op :: "csr_addr \<Rightarrow> 3 word \<Rightarrow> u64 \<Rightarrow> Vcsr_unit \<Rightarrow> Vcsr_unit" where
  "tb_csr_op addr op data d =
     (let d = csr_tick (d\<lparr>vc_in := (vc_in d)
                \<lparr>ci_csr_addr := addr, ci_csr_op := op, ci_csr_rs1_data := data,
                 ci_csr_req := True\<rparr>\<rparr>) in
      d\<lparr>vc_in := (vc_in d)
         \<lparr>ci_csr_req := False, ci_csr_op := 0, ci_csr_rs1_data := 0, ci_csr_addr := 0\<rparr>\<rparr>)"

definition advance_cycles :: "nat \<Rightarrow> Vcsr_unit \<Rightarrow> Vcsr_unit" where
  "advance_cycles cycles d = iterate cycles csr_tick d"

definition tb_mret :: "Vcsr_unit \<Rightarrow> Vcsr_unit" where
  "tb_mret d =
     (let d = csr_tick (d\<lparr>vc_in := (vc_in d)\<lparr>ci_mret_en := True\<rparr>\<rparr>) in
      d\<lparr>vc_in := (vc_in d)\<lparr>ci_mret_en := False\<rparr>\<rparr>)"

definition tb_sret :: "Vcsr_unit \<Rightarrow> Vcsr_unit" where
  "tb_sret d =
     (let d = csr_tick (d\<lparr>vc_in := (vc_in d)\<lparr>ci_sret_en := True\<rparr>\<rparr>) in
      d\<lparr>vc_in := (vc_in d)\<lparr>ci_sret_en := False\<rparr>\<rparr>)"

definition force_priv_mode_via_mret :: "u64 \<Rightarrow> Vcsr_unit \<Rightarrow> Vcsr_unit" where
  "force_priv_mode_via_mret encoded_mode d =
     (let d = tb_read_csr CSR_MSTATUS d;
          mstatus = vc_rdata d AND NOT (push_bit MSTATUS_MPP_LO 0x3);
          mstatus = mstatus OR push_bit MSTATUS_MPP_LO encoded_mode in
      tb_mret (tb_csr_op CSR_MSTATUS CSR_OP_WRITE mstatus d))"

text \<open>The bench's own arbiter: the cause and whether it is an interrupt.\<close>

definition arbitrate_trap_priority :: "bool \<Rightarrow> bool \<Rightarrow> bool \<Rightarrow> bool \<Rightarrow> u64 \<Rightarrow> u64 \<times> bool" where
  "arbitrate_trap_priority ext_external ext_software ext_timer has_sync_exception sync_cause =
     (if ext_external then (INTERRUPT_BIT OR INTERRUPT_M_EXTERNAL, True)
      else if ext_software then (INTERRUPT_BIT OR INTERRUPT_M_SOFTWARE, True)
      else if ext_timer then (INTERRUPT_BIT OR INTERRUPT_M_TIMER, True)
      else (if has_sync_exception then sync_cause else 0, False))"

subsection \<open>The script\<close>

text \<open>Reset, reads and writes, set and clear, read-only registers, counters.\<close>

definition tb_csr_access :: "Vcsr_unit bench_step list" where
  "tb_csr_access =
    [Drive drive_defaults,
     Drive apply_reset,
     Drive clear_trap_lines,
     Drive (tb_read_csr CSR_MSTATUS),
     Check (\<lambda>d. vc_rdata d = 0),
     Drive (tb_read_csr CSR_MIE),
     Check (\<lambda>d. vc_rdata d = 0),
     Drive (tb_read_csr CSR_MEPC),
     Check (\<lambda>d. vc_rdata d = 0),
     Drive (tb_read_csr CSR_SSTATUS),
     Check (\<lambda>d. vc_rdata d = 0),
     Drive (tb_read_csr CSR_SATP),
     Check (\<lambda>d. vc_rdata d = 0),
     Drive (tb_csr_op CSR_MTVEC CSR_OP_WRITE 0x1020),
     Drive (tb_read_csr CSR_MTVEC),
     Check (\<lambda>d. vc_rdata d = 0x1020),
     Drive (tb_csr_op CSR_MSCRATCH CSR_OP_WRITE 0xCAFEBABE),
     Drive (tb_read_csr CSR_MSCRATCH),
     Check (\<lambda>d. vc_rdata d = 0xCAFEBABE),
     Drive (tb_csr_op CSR_MIE CSR_OP_WRITE 0),
     Drive (tb_csr_op CSR_MIE CSR_OP_SET 0xB),
     Drive (tb_read_csr CSR_MIE),
     Check (\<lambda>d. vc_rdata d = 0xB),
     Drive (tb_csr_op CSR_MIE CSR_OP_CLEAR 0x3),
     Drive (tb_read_csr CSR_MIE),
     Check (\<lambda>d. vc_rdata d = 0x8),
     Drive (tb_csr_op CSR_MIE CSR_OP_SET 0x0),
     Drive (tb_read_csr CSR_MIE),
     Check (\<lambda>d. vc_rdata d = 0x8),
     Drive (tb_save_csr CSR_MISA),
     Drive (tb_csr_op CSR_MISA CSR_OP_WRITE 0),
     Drive (tb_read_csr CSR_MISA),
     Check (\<lambda>d. vc_rdata d = vc_local d),
     Drive (tb_csr_op CSR_CYCLE CSR_OP_WRITE 0x40),
     Drive (tb_read_csr CSR_MCYCLE),
     Check (\<lambda>d. vc_rdata d = 0x40),
     Drive (advance_cycles 5),
     Drive (tb_read_csr CSR_MCYCLE),
     Check (\<lambda>d. vc_rdata d = 0x45),
     Drive (tb_save_csr CSR_MINSTRET),
     Drive (advance_cycles 3),
     Drive (tb_read_csr CSR_MINSTRET),
     Check (\<lambda>d. vc_rdata d = vc_local d + 3)]"

text \<open>Traps, returns, environment calls, delegation.\<close>

definition tb_csr_traps :: "Vcsr_unit bench_step list" where
  "tb_csr_traps =
    [Drive (\<lambda>d. let d = tb_save_csr CSR_MSTATUS d in d\<lparr>vc_local := vc_local d OR
       push_bit MSTATUS_MIE_BIT 1\<rparr>),
     Drive (\<lambda>d. tb_csr_op CSR_MSTATUS CSR_OP_WRITE (vc_local d) d),
     Drive (tb_save_csr CSR_MINSTRET),
     Drive (trigger_trap 0xDEAD EXC_INST_ILLEGAL 0xDEAD False),
     Drive (tb_read_csr CSR_MINSTRET),
     Check (\<lambda>d. vc_rdata d = vc_local d),
     Drive (advance_cycles 1),
     Drive (tb_read_csr CSR_MINSTRET),
     Check (\<lambda>d. vc_rdata d = vc_local d + 1),
     Drive (tb_read_csr CSR_MEPC),
     Check (\<lambda>d. vc_rdata d = 0xDEAD),
     Drive (tb_read_csr CSR_MCAUSE),
     Check (\<lambda>d. vc_rdata d = EXC_INST_ILLEGAL),
     Drive (tb_read_csr CSR_MTVAL),
     Check (\<lambda>d. vc_rdata d = 0xDEAD),
     Drive (tb_save_csr CSR_MSTATUS),
     Check (\<lambda>d. drop_bit MSTATUS_MIE_BIT (vc_local d) AND 1 = 0),
     Check (\<lambda>d. drop_bit MSTATUS_MPIE_BIT (vc_local d) AND 1 = 1),
     Check (\<lambda>d. drop_bit MSTATUS_MPP_LO (vc_local d) AND 0x3 = PRIV_ENCODE_M),
     Drive tb_mret,
     Drive (tb_save_csr CSR_MSTATUS),
     Check (\<lambda>d. drop_bit MSTATUS_MIE_BIT (vc_local d) AND 1 = 1),
     Check (\<lambda>d. drop_bit MSTATUS_MPIE_BIT (vc_local d) AND 1 = 1),
     Check (\<lambda>d. drop_bit MSTATUS_MPP_LO (vc_local d) AND 0x3 = PRIV_ENCODE_U),
     Drive (\<lambda>d. d\<lparr>vc_local := push_bit SSTATUS_SIE_BIT 1 OR push_bit
       SSTATUS_SPP_BIT 1\<rparr>),
     Drive (\<lambda>d. tb_csr_op CSR_SSTATUS CSR_OP_WRITE (vc_local d) d),
     Drive tb_sret,
     Drive (tb_save_csr CSR_SSTATUS),
     Check (\<lambda>d. drop_bit SSTATUS_SIE_BIT (vc_local d) AND 1 = 0),
     Check (\<lambda>d. drop_bit SSTATUS_SPIE_BIT (vc_local d) AND 1 = 1),
     Check (\<lambda>d. drop_bit SSTATUS_SPP_BIT (vc_local d) AND 1 = 0),
     Drive (force_priv_mode_via_mret PRIV_ENCODE_S),
     Drive (trigger_trap 0x600 EXC_ECALL_FROM_S 0 False),
     Drive (tb_read_csr CSR_MCAUSE),
     Check (\<lambda>d. vc_rdata d = EXC_ECALL_FROM_S),
     Drive (tb_read_csr CSR_MTVAL),
     Check (\<lambda>d. vc_rdata d = 0),
     Drive (tb_read_csr CSR_MEPC),
     Check (\<lambda>d. vc_rdata d = 0x600),
     Drive (tb_read_csr CSR_MSTATUS),
     Check (\<lambda>d. drop_bit MSTATUS_MPP_LO (vc_rdata d) AND 0x3 = PRIV_ENCODE_S),
     Drive (force_priv_mode_via_mret PRIV_ENCODE_U),
     Drive (trigger_trap 0x700 EXC_ECALL_FROM_U 0 False),
     Drive (tb_read_csr CSR_MCAUSE),
     Check (\<lambda>d. vc_rdata d = EXC_ECALL_FROM_U),
     Drive (tb_read_csr CSR_MTVAL),
     Check (\<lambda>d. vc_rdata d = 0),
     Drive (tb_read_csr CSR_MEPC),
     Check (\<lambda>d. vc_rdata d = 0x700),
     Drive (tb_read_csr CSR_MSTATUS),
     Check (\<lambda>d. drop_bit MSTATUS_MPP_LO (vc_rdata d) AND 0x3 = PRIV_ENCODE_U),
     Drive (tb_csr_op CSR_MEDELEG CSR_OP_WRITE 0),
     Drive (tb_csr_op CSR_MEDELEG CSR_OP_SET (push_bit 8 1)),
     Drive (tb_csr_op CSR_STVEC CSR_OP_WRITE 0x4000),
     Drive (tb_read_csr CSR_MEDELEG),
     Check (\<lambda>d. vc_rdata d AND push_bit 8 1 \<noteq> 0),
     Drive (force_priv_mode_via_mret PRIV_ENCODE_U),
     Check (\<lambda>d. vc_priv_mode d = PRIV_ENCODE_U),
     Drive (trigger_trap 0x900 EXC_ECALL_FROM_U 0 True),
     Check (\<lambda>d. vc_trap_to_s_mode d),
     Check (\<lambda>d. vc_trap_vector d = 0x4000),
     Drive (tb_read_csr CSR_SEPC),
     Check (\<lambda>d. vc_rdata d = 0x900),
     Drive (tb_read_csr CSR_SCAUSE),
     Check (\<lambda>d. vc_rdata d = EXC_ECALL_FROM_U),
     Drive (tb_read_csr CSR_STVAL),
     Check (\<lambda>d. vc_rdata d = 0),
     Check (\<lambda>d. vc_priv_mode d = PRIV_ENCODE_S),
     Drive (force_priv_mode_via_mret PRIV_ENCODE_M)]"

text \<open>The supervisor registers, the status mirror and the floating-point block.\<close>

definition tb_csr_supervisor :: "Vcsr_unit bench_step list" where
  "tb_csr_supervisor =
    [Drive (tb_csr_op CSR_SIE CSR_OP_WRITE 0x55),
     Drive (tb_csr_op CSR_SSCRATCH CSR_OP_WRITE 0xAA),
     Drive (tb_csr_op CSR_SEPC CSR_OP_WRITE 0x1234),
     Drive (tb_csr_op CSR_SCAUSE CSR_OP_WRITE 0x21),
     Drive (tb_csr_op CSR_SIP CSR_OP_WRITE 0x3),
     Drive (tb_csr_op CSR_SATP CSR_OP_WRITE 0x8000000000000000),
     Drive (tb_read_csr CSR_SIE),
     Check (\<lambda>d. vc_rdata d = 0x55),
     Drive (tb_read_csr CSR_SSCRATCH),
     Check (\<lambda>d. vc_rdata d = 0xAA),
     Drive (tb_read_csr CSR_SEPC),
     Check (\<lambda>d. vc_rdata d = 0x1234),
     Drive (tb_read_csr CSR_SCAUSE),
     Check (\<lambda>d. vc_rdata d = 0x21),
     Drive (tb_read_csr CSR_SIP),
     Check (\<lambda>d. vc_rdata d = 0x3),
     Drive (tb_read_csr CSR_SATP),
     Check (\<lambda>d. vc_rdata d = 0x8000000000000000),
     Drive (tb_csr_op CSR_SSTATUS CSR_OP_WRITE (push_bit SSTATUS_SIE_BIT 1)),
     Drive (tb_read_csr CSR_MSTATUS),
     Check (\<lambda>d. drop_bit SSTATUS_SIE_BIT (vc_rdata d) AND 1 = 1),
     Drive (tb_csr_op CSR_SSTATUS CSR_OP_WRITE 0),
     Drive (tb_read_csr CSR_MSTATUS),
     Check (\<lambda>d. drop_bit SSTATUS_SIE_BIT (vc_rdata d) AND 1 = 0),
     Drive (tb_csr_op CSR_FFLAGS CSR_OP_WRITE 0x1F),
     Drive (tb_read_csr CSR_FFLAGS),
     Check (\<lambda>d. vc_rdata d AND 0x1F = 0x1F),
     Drive (tb_csr_op CSR_FRM CSR_OP_WRITE 0x7),
     Drive (tb_read_csr CSR_FRM),
     Check (\<lambda>d. vc_rdata d AND 0x7 = 0x7),
     Drive (tb_csr_op CSR_FCSR CSR_OP_WRITE 0xAB),
     Drive (tb_read_csr CSR_FFLAGS),
     Check (\<lambda>d. vc_rdata d AND 0x1F = 0xAB AND 0x1F),
     Drive (tb_read_csr CSR_FRM),
     Check (\<lambda>d. vc_rdata d AND 0x7 = drop_bit 5 0xAB AND 0x7)]"

text \<open>Scenario \<open>interrupt_priority_matrix\<close>: one round of its loop, and the suite.\<close>

record PriorityScenario =
  ps_external :: bool
  ps_software :: bool
  ps_timer :: bool
  ps_sync_illegal :: bool
  ps_mepc :: u64
  ps_mtval :: u64
  ps_expected_cause :: u64

definition priority_suite :: "PriorityScenario list" where
  "priority_suite =
    [\<lparr>ps_external = True, ps_software = True, ps_timer = True, ps_sync_illegal = True,
      ps_mepc = 0xA000, ps_mtval = 0x1111,
      ps_expected_cause = INTERRUPT_BIT OR INTERRUPT_M_EXTERNAL\<rparr>,
     \<lparr>ps_external = False, ps_software = True, ps_timer = True, ps_sync_illegal = True,
      ps_mepc = 0xA040, ps_mtval = 0x2222,
      ps_expected_cause = INTERRUPT_BIT OR INTERRUPT_M_SOFTWARE\<rparr>,
     \<lparr>ps_external = False, ps_software = False, ps_timer = True, ps_sync_illegal = True,
      ps_mepc = 0xA080, ps_mtval = 0x3333,
      ps_expected_cause = INTERRUPT_BIT OR INTERRUPT_M_TIMER\<rparr>,
     \<lparr>ps_external = True, ps_software = False, ps_timer = False, ps_sync_illegal = False,
      ps_mepc = 0xA0C0, ps_mtval = 0x0,
      ps_expected_cause = INTERRUPT_BIT OR INTERRUPT_M_EXTERNAL\<rparr>,
     \<lparr>ps_external = False, ps_software = False, ps_timer = False, ps_sync_illegal = True,
      ps_mepc = 0xA100, ps_mtval = 0x4444, ps_expected_cause = EXC_INST_ILLEGAL\<rparr>]"

definition priority_steps :: "PriorityScenario \<Rightarrow> Vcsr_unit bench_step list" where
  "priority_steps sc =
     (let (chosen_cause, chose_interrupt) =
            arbitrate_trap_priority (ps_external sc) (ps_software sc) (ps_timer sc)
              (ps_sync_illegal sc) EXC_INST_ILLEGAL in
      [Check (\<lambda>d. chosen_cause = ps_expected_cause sc),
       Drive (trigger_trap (ps_mepc sc) chosen_cause
         (if ps_sync_illegal sc then ps_mtval sc else 0) False),
       Drive (tb_save_csr CSR_MCAUSE),
       Check (\<lambda>d. vc_local d = ps_expected_cause sc),
       Drive (tb_read_csr CSR_MEPC),
       Check (\<lambda>d. vc_rdata d = ps_mepc sc),
       Check (\<lambda>d. (vc_local d AND INTERRUPT_BIT \<noteq> 0) = chose_interrupt),
       Drive (\<lambda>d. if ps_sync_illegal sc \<and> vc_local d AND INTERRUPT_BIT = 0
         then tb_read_csr CSR_MTVAL d else d),
       Check (\<lambda>d. ps_sync_illegal sc \<and> vc_local d AND INTERRUPT_BIT = 0
         \<longrightarrow> vc_rdata d = ps_mtval sc),
       Check (\<lambda>d. vc_priv_mode d = PRIV_ENCODE_M)])"

definition tb_csr_priority :: "Vcsr_unit bench_step list" where
  "tb_csr_priority = Drive clear_trap_lines # concat (map priority_steps priority_suite)"

text \<open>Scenario \<open>delegated_multitrap_context\<close>.\<close>

definition tb_csr_delegated :: "Vcsr_unit bench_step list" where
  "tb_csr_delegated =
    [Drive clear_trap_lines,
     Drive (tb_csr_op CSR_MEDELEG CSR_OP_WRITE 0),
     Drive (tb_csr_op CSR_MEDELEG CSR_OP_SET (push_bit 8 1)),
     Drive (tb_csr_op CSR_STVEC CSR_OP_WRITE 0x4000),
     Drive (tb_csr_op CSR_MTVEC CSR_OP_WRITE 0x8000),
     Drive (force_priv_mode_via_mret PRIV_ENCODE_S),
     Check (\<lambda>d. vc_priv_mode d = PRIV_ENCODE_S),
     Drive (trigger_trap 0x900 EXC_ECALL_FROM_U 0 True),
     Check (\<lambda>d. vc_trap_to_s_mode d),
     Check (\<lambda>d. vc_trap_vector d = 0x4000),
     Drive (tb_read_csr CSR_SEPC),
     Check (\<lambda>d. vc_rdata d = 0x900),
     Drive (tb_read_csr CSR_SCAUSE),
     Check (\<lambda>d. vc_rdata d = EXC_ECALL_FROM_U),
     Check (\<lambda>d. vc_priv_mode d = PRIV_ENCODE_S),
     Drive (trigger_trap 0xA00 EXC_INST_ILLEGAL 0 False),
     Check (\<lambda>d. \<not> vc_trap_to_s_mode d),
     Check (\<lambda>d. vc_trap_vector d = 0x8000),
     Drive (tb_read_csr CSR_MEPC),
     Check (\<lambda>d. vc_rdata d = 0xA00),
     Drive (tb_read_csr CSR_SEPC),
     Check (\<lambda>d. vc_rdata d = 0x900),
     Check (\<lambda>d. vc_priv_mode d = PRIV_ENCODE_M)]"

text \<open>Scenario \<open>nested_return_sequence\<close>.\<close>

definition tb_csr_nested :: "Vcsr_unit bench_step list" where
  "tb_csr_nested =
    [Drive clear_trap_lines,
     Drive (force_priv_mode_via_mret PRIV_ENCODE_U),
     Drive (tb_csr_op CSR_SSTATUS CSR_OP_WRITE (push_bit SSTATUS_SIE_BIT 1)),
     Drive (trigger_trap 0xB00 EXC_ECALL_FROM_U 0 True),
     Drive (tb_save_csr CSR_SSTATUS),
     Check (\<lambda>d. drop_bit SSTATUS_SIE_BIT (vc_local d) AND 1 = 0),
     Check (\<lambda>d. drop_bit SSTATUS_SPIE_BIT (vc_local d) AND 1 = 1),
     Check (\<lambda>d. drop_bit SSTATUS_SPP_BIT (vc_local d) AND 1 = 0),
     Drive (tb_read_csr CSR_SEPC),
     Check (\<lambda>d. vc_rdata d = 0xB00),
     Drive tb_sret,
     Drive (tb_save_csr CSR_SSTATUS),
     Check (\<lambda>d. drop_bit SSTATUS_SIE_BIT (vc_local d) AND 1 = 1),
     Check (\<lambda>d. drop_bit SSTATUS_SPIE_BIT (vc_local d) AND 1 = 1),
     Check (\<lambda>d. vc_priv_mode d = PRIV_ENCODE_U),
     Drive (tb_csr_op CSR_MSTATUS CSR_OP_SET (push_bit MSTATUS_MIE_BIT 1)),
     Drive (trigger_trap 0xB80 EXC_INST_ILLEGAL 0 False),
     Drive (tb_save_csr CSR_MSTATUS),
     Check (\<lambda>d. drop_bit MSTATUS_MIE_BIT (vc_local d) AND 1 = 0),
     Check (\<lambda>d. drop_bit MSTATUS_MPIE_BIT (vc_local d) AND 1 = 1),
     Check (\<lambda>d. drop_bit MSTATUS_MPP_LO (vc_local d) AND 0x3 = PRIV_ENCODE_U),
     Drive (tb_read_csr CSR_MEPC),
     Check (\<lambda>d. vc_rdata d = 0xB80),
     Drive tb_mret,
     Drive (tb_save_csr CSR_MSTATUS),
     Check (\<lambda>d. drop_bit MSTATUS_MIE_BIT (vc_local d) AND 1 = 1),
     Check (\<lambda>d. drop_bit MSTATUS_MPIE_BIT (vc_local d) AND 1 = 1),
     Check (\<lambda>d. drop_bit MSTATUS_MPP_LO (vc_local d) AND 0x3 = PRIV_ENCODE_U),
     Check (\<lambda>d. vc_priv_mode d = PRIV_ENCODE_U)]"

text \<open>Scenario \<open>illegal_csr_access_guard\<close>.\<close>

definition tb_csr_illegal :: "Vcsr_unit bench_step list" where
  "tb_csr_illegal =
    [Drive clear_trap_lines,
     Drive (force_priv_mode_via_mret PRIV_ENCODE_M),
     Check (\<lambda>d. vc_priv_mode d = PRIV_ENCODE_M),
     Drive (tb_save_csr CSR_MISA),
     Drive (\<lambda>d. csr_tick (d\<lparr>vc_in := (vc_in d)\<lparr>ci_csr_addr := CSR_MISA,
       ci_csr_op := CSR_OP_WRITE, ci_csr_rs1_data := 0x1234, ci_csr_req := True\<rparr>\<rparr>)),
     Drive (\<lambda>d. d\<lparr>vc_in := (vc_in d)\<lparr>ci_csr_req := False, ci_csr_op := 0,
       ci_csr_rs1_data := 0, ci_csr_addr := 0\<rparr>\<rparr>),
     Check (\<lambda>d. vc_illegal_access d),
     Drive (tb_read_csr CSR_MISA),
     Check (\<lambda>d. vc_rdata d = vc_local d),
     Check (\<lambda>d. \<not> vc_trap_to_s_mode d),
     Check (\<lambda>d. vc_priv_mode d = PRIV_ENCODE_M),
     Drive (tb_read_csr CSR_MTVEC),
     Check (\<lambda>d. vc_trap_vector_next d = vc_rdata d),
     Drive csr_tick,
     Check (\<lambda>d. \<not> vc_illegal_access d)]"

text \<open>Scenario \<open>delegation_cross_over\<close>: one round of its loop, and the probes.\<close>

record DelegationProbe =
  dp_is_interrupt :: bool
  dp_cause :: u64
  dp_delegate_to_s :: bool
  dp_pc :: u64

definition delegation_probes :: "DelegationProbe list" where
  "delegation_probes =
    [\<lparr>dp_is_interrupt = False, dp_cause = EXC_ECALL_FROM_U, dp_delegate_to_s = True,
      dp_pc = 0xD000\<rparr>,
     \<lparr>dp_is_interrupt = False, dp_cause = EXC_ECALL_FROM_U, dp_delegate_to_s = False,
      dp_pc = 0xD040\<rparr>,
     \<lparr>dp_is_interrupt = True, dp_cause = INTERRUPT_M_TIMER, dp_delegate_to_s = True,
      dp_pc = 0xD080\<rparr>,
     \<lparr>dp_is_interrupt = True, dp_cause = INTERRUPT_M_TIMER, dp_delegate_to_s = False,
      dp_pc = 0xD0C0\<rparr>]"

definition delegation_checks :: "DelegationProbe \<Rightarrow> Vcsr_unit bench_step list" where
  "delegation_checks pr =
     (if dp_delegate_to_s pr then
        [Check vc_trap_to_s_mode, Drive (tb_read_csr CSR_SEPC), Check (\<lambda>d. vc_rdata d = dp_pc pr)]
      else
        [Check (\<lambda>d. \<not> vc_trap_to_s_mode d), Drive (tb_read_csr CSR_MEPC),
         Check (\<lambda>d. vc_rdata d = dp_pc pr)])"

definition delegation_steps :: "DelegationProbe \<Rightarrow> Vcsr_unit bench_step list" where
  "delegation_steps pr =
     (let mask = (push_bit (unat (dp_cause pr)) 1 :: u64);
          op = (if dp_delegate_to_s pr then CSR_OP_SET else CSR_OP_CLEAR) in
      (if dp_is_interrupt pr then
         [Drive (tb_csr_op CSR_MIDELEG op mask),
          Drive (force_priv_mode_via_mret PRIV_ENCODE_S),
          Drive (trigger_trap (dp_pc pr) (INTERRUPT_BIT OR dp_cause pr) 0 (dp_delegate_to_s pr))]
       else
         [Drive (tb_csr_op CSR_MEDELEG op mask),
          Drive (force_priv_mode_via_mret PRIV_ENCODE_U),
          Drive (trigger_trap (dp_pc pr) (dp_cause pr) 0 (dp_delegate_to_s pr))]) @
      delegation_checks pr @
      [Drive (tb_save_csr (if dp_delegate_to_s pr then CSR_STVEC else CSR_MTVEC)),
       Check (\<lambda>d. vc_trap_vector d = vc_local d)])"

definition tb_csr_delegation :: "Vcsr_unit bench_step list" where
  "tb_csr_delegation =
     [Drive clear_trap_lines,
      Drive (tb_csr_op CSR_MTVEC CSR_OP_WRITE 0x1000),
      Drive (tb_csr_op CSR_STVEC CSR_OP_WRITE 0x2000),
      Drive (tb_csr_op CSR_MEDELEG CSR_OP_WRITE 0),
      Drive (tb_csr_op CSR_MIDELEG CSR_OP_WRITE 0)] @
     concat (map delegation_steps delegation_probes)"

definition tb_csr_steps :: "Vcsr_unit bench_step list" where
  "tb_csr_steps =
     tb_csr_access @ tb_csr_traps @ tb_csr_supervisor @ tb_csr_priority @ tb_csr_delegated @
     tb_csr_nested @ tb_csr_illegal @ tb_csr_delegation"

definition tb_csr_main :: "Vcsr_unit \<Rightarrow> tb_exit" where
  "tb_csr_main dut = fst (run_bench tb_csr_steps dut 0)"

section \<open>Lemmas\<close>

lemmas tb_csr_script = tb_csr_access_def tb_csr_traps_def tb_csr_supervisor_def
  tb_csr_priority_def tb_csr_delegated_def tb_csr_nested_def tb_csr_illegal_def
  tb_csr_delegation_def

lemmas tb_csr_drives = vc_rdata_def vc_illegal_access_def vc_trap_vector_next_def
  vc_trap_vector_def vc_trap_to_s_mode_def vc_priv_mode_def csr_eval_def csr_tick_def
  drive_defaults_def apply_reset_def clear_trap_lines_def trigger_trap_def tb_read_csr_def
  tb_save_csr_def tb_csr_op_def advance_cycles_def tb_mret_def tb_sret_def
  force_priv_mode_via_mret_def

text \<open>The accesses of the bench, by address.\<close>

lemma csr_read_eval:
  "read_csr s CSR_FFLAGS = ucast (fflags_reg s)"
  "read_csr s CSR_FRM = ucast (frm_reg s)"
  "read_csr s CSR_FCSR = compose_fcsr s"
  "read_csr s CSR_MSTATUS = mstatus_reg s"
  "read_csr s CSR_MISA = MISA_VALUE"
  "read_csr s CSR_MEDELEG = medeleg_reg s"
  "read_csr s CSR_MIDELEG = mideleg_reg s"
  "read_csr s CSR_MIE = mie_reg s"
  "read_csr s CSR_MTVEC = mtvec_reg s"
  "read_csr s CSR_MSCRATCH = mscratch_reg s"
  "read_csr s CSR_MEPC = mepc_reg s"
  "read_csr s CSR_MCAUSE = mcause_reg s"
  "read_csr s CSR_MTVAL = mtval_reg s"
  "read_csr s CSR_MCOUNTEREN = mcounteren_reg s"
  "read_csr s CSR_SSTATUS = sstatus_reg s"
  "read_csr s CSR_SIE = sie_reg s"
  "read_csr s CSR_STVEC = stvec_reg s"
  "read_csr s CSR_SCOUNTEREN = scounteren_reg s"
  "read_csr s CSR_SSCRATCH = sscratch_reg s"
  "read_csr s CSR_SEPC = sepc_reg s"
  "read_csr s CSR_SCAUSE = scause_reg s"
  "read_csr s CSR_STVAL = stval_reg s"
  "read_csr s CSR_SIP = sip_reg s"
  "read_csr s CSR_SATP = satp_reg s"
  "read_csr s CSR_MCYCLE = mcycle_reg s"
  "read_csr s CSR_MINSTRET = minstret_reg s"
  by (simp_all add: read_csr_def)

lemma csr_write_eval:
  "csr_write CSR_MSTATUS data op s n =
     n\<lparr>mstatus_reg := csr_write_next (mstatus_reg s) data op,
       sstatus_reg := mirror_mstatus_to_sstatus (sstatus_reg s) (csr_write_next (mstatus_reg s) data op)\<rparr>"
  "csr_write CSR_MEDELEG data op s n =
     n\<lparr>medeleg_reg := csr_write_next (medeleg_reg s) data op\<rparr>"
  "csr_write CSR_MIDELEG data op s n =
     n\<lparr>mideleg_reg := csr_write_next (mideleg_reg s) data op\<rparr>"
  "csr_write CSR_MIE data op s n =
     n\<lparr>mie_reg := csr_write_next (mie_reg s) data op\<rparr>"
  "csr_write CSR_MTVEC data op s n =
     n\<lparr>mtvec_reg := csr_write_next (mtvec_reg s) data op\<rparr>"
  "csr_write CSR_MSCRATCH data op s n =
     n\<lparr>mscratch_reg := csr_write_next (mscratch_reg s) data op\<rparr>"
  "csr_write CSR_MEPC data op s n =
     n\<lparr>mepc_reg := csr_write_next (mepc_reg s) data op\<rparr>"
  "csr_write CSR_MCAUSE data op s n =
     n\<lparr>mcause_reg := csr_write_next (mcause_reg s) data op\<rparr>"
  "csr_write CSR_MTVAL data op s n =
     n\<lparr>mtval_reg := csr_write_next (mtval_reg s) data op\<rparr>"
  "csr_write CSR_MCOUNTEREN data op s n =
     n\<lparr>mcounteren_reg := csr_write_next (mcounteren_reg s) data op\<rparr>"
  "csr_write CSR_SSTATUS data op s n =
     n\<lparr>sstatus_reg := csr_write_next (sstatus_reg s) data op,
       mstatus_reg := apply_sstatus_to_mstatus (mstatus_reg s) (csr_write_next (sstatus_reg s) data op)\<rparr>"
  "csr_write CSR_SIE data op s n =
     n\<lparr>sie_reg := csr_write_next (sie_reg s) data op\<rparr>"
  "csr_write CSR_STVEC data op s n =
     n\<lparr>stvec_reg := csr_write_next (stvec_reg s) data op\<rparr>"
  "csr_write CSR_SCOUNTEREN data op s n =
     n\<lparr>scounteren_reg := csr_write_next (scounteren_reg s) data op\<rparr>"
  "csr_write CSR_SSCRATCH data op s n =
     n\<lparr>sscratch_reg := csr_write_next (sscratch_reg s) data op\<rparr>"
  "csr_write CSR_SEPC data op s n =
     n\<lparr>sepc_reg := csr_write_next (sepc_reg s) data op\<rparr>"
  "csr_write CSR_SCAUSE data op s n =
     n\<lparr>scause_reg := csr_write_next (scause_reg s) data op\<rparr>"
  "csr_write CSR_STVAL data op s n =
     n\<lparr>stval_reg := csr_write_next (stval_reg s) data op\<rparr>"
  "csr_write CSR_SIP data op s n =
     n\<lparr>sip_reg := csr_write_next (sip_reg s) data op\<rparr>"
  "csr_write CSR_SATP data op s n =
     n\<lparr>satp_reg := csr_write_next (satp_reg s) data op\<rparr>"
  "csr_write CSR_MCYCLE data op s n =
     n\<lparr>mcycle_reg := csr_write_next (mcycle_reg s) data op\<rparr>"
  "csr_write CSR_MINSTRET data op s n =
     n\<lparr>minstret_reg := csr_write_next (minstret_reg s) data op\<rparr>"
  "csr_write CSR_FFLAGS data op s n =
     n\<lparr>fflags_reg := field 0 (csr_write_next (ucast (fflags_reg s)) data op)\<rparr>"
  "csr_write CSR_FRM data op s n =
     n\<lparr>frm_reg := field 0 (csr_write_next (ucast (frm_reg s)) data op)\<rparr>"
  "csr_write CSR_FCSR data op s n =
     n\<lparr>fflags_reg := field 0 (csr_write_next (compose_fcsr s) data op),
       frm_reg := field 5 (csr_write_next (compose_fcsr s) data op)\<rparr>"
  by (simp_all add: csr_write_def)

lemma csr_addr_eval:
  "csr_is_supported CSR_FFLAGS" "canonical_addr CSR_FFLAGS = CSR_FFLAGS"
  "csr_is_supported CSR_FRM" "canonical_addr CSR_FRM = CSR_FRM"
  "csr_is_supported CSR_FCSR" "canonical_addr CSR_FCSR = CSR_FCSR"
  "csr_is_supported CSR_MSTATUS" "canonical_addr CSR_MSTATUS = CSR_MSTATUS"
  "csr_is_supported CSR_MISA" "canonical_addr CSR_MISA = CSR_MISA"
  "csr_is_supported CSR_MEDELEG" "canonical_addr CSR_MEDELEG = CSR_MEDELEG"
  "csr_is_supported CSR_MIDELEG" "canonical_addr CSR_MIDELEG = CSR_MIDELEG"
  "csr_is_supported CSR_MIE" "canonical_addr CSR_MIE = CSR_MIE"
  "csr_is_supported CSR_MTVEC" "canonical_addr CSR_MTVEC = CSR_MTVEC"
  "csr_is_supported CSR_MSCRATCH" "canonical_addr CSR_MSCRATCH = CSR_MSCRATCH"
  "csr_is_supported CSR_MEPC" "canonical_addr CSR_MEPC = CSR_MEPC"
  "csr_is_supported CSR_MCAUSE" "canonical_addr CSR_MCAUSE = CSR_MCAUSE"
  "csr_is_supported CSR_MTVAL" "canonical_addr CSR_MTVAL = CSR_MTVAL"
  "csr_is_supported CSR_MCOUNTEREN" "canonical_addr CSR_MCOUNTEREN = CSR_MCOUNTEREN"
  "csr_is_supported CSR_SSTATUS" "canonical_addr CSR_SSTATUS = CSR_SSTATUS"
  "csr_is_supported CSR_SIE" "canonical_addr CSR_SIE = CSR_SIE"
  "csr_is_supported CSR_STVEC" "canonical_addr CSR_STVEC = CSR_STVEC"
  "csr_is_supported CSR_SCOUNTEREN" "canonical_addr CSR_SCOUNTEREN = CSR_SCOUNTEREN"
  "csr_is_supported CSR_SSCRATCH" "canonical_addr CSR_SSCRATCH = CSR_SSCRATCH"
  "csr_is_supported CSR_SEPC" "canonical_addr CSR_SEPC = CSR_SEPC"
  "csr_is_supported CSR_SCAUSE" "canonical_addr CSR_SCAUSE = CSR_SCAUSE"
  "csr_is_supported CSR_STVAL" "canonical_addr CSR_STVAL = CSR_STVAL"
  "csr_is_supported CSR_SIP" "canonical_addr CSR_SIP = CSR_SIP"
  "csr_is_supported CSR_SATP" "canonical_addr CSR_SATP = CSR_SATP"
  "csr_is_supported CSR_MCYCLE" "canonical_addr CSR_MCYCLE = CSR_MCYCLE"
  "csr_is_supported CSR_MINSTRET" "canonical_addr CSR_MINSTRET = CSR_MINSTRET"
  "canonical_addr CSR_CYCLE = CSR_MCYCLE"
  "csr_is_writable CSR_FFLAGS"
  "csr_is_writable CSR_FRM"
  "csr_is_writable CSR_FCSR"
  "csr_is_writable CSR_MSTATUS"
  "\<not> csr_is_writable CSR_MISA"
  "csr_is_writable CSR_MEDELEG"
  "csr_is_writable CSR_MIDELEG"
  "csr_is_writable CSR_MIE"
  "csr_is_writable CSR_MTVEC"
  "csr_is_writable CSR_MSCRATCH"
  "csr_is_writable CSR_MEPC"
  "csr_is_writable CSR_MCAUSE"
  "csr_is_writable CSR_MTVAL"
  "csr_is_writable CSR_MCOUNTEREN"
  "csr_is_writable CSR_SSTATUS"
  "csr_is_writable CSR_SIE"
  "csr_is_writable CSR_STVEC"
  "csr_is_writable CSR_SCOUNTEREN"
  "csr_is_writable CSR_SSCRATCH"
  "csr_is_writable CSR_SEPC"
  "csr_is_writable CSR_SCAUSE"
  "csr_is_writable CSR_STVAL"
  "csr_is_writable CSR_SIP"
  "csr_is_writable CSR_SATP"
  "csr_is_writable CSR_MCYCLE"
  "csr_is_writable CSR_MINSTRET"
  by (simp_all add: csr_is_supported_def canonical_addr_def csr_is_writable_def)

lemmas csr_bench_eval = csr_read_eval csr_write_eval csr_addr_eval is_write_cmd_def is_set_cmd_def
  is_clear_cmd_def csr_write_next_def compose_fcsr_def decode_priv_mode_def encode_priv_mode_def
  put_mpp_def apply_sstatus_to_mstatus_def mirror_mstatus_to_sstatus_def MISA_VALUE_def
  csr_count_def csr_write_phase_def csr_trap_s_def csr_trap_m_def csr_mret_def csr_sret_def
  csr_trap_phase_def csr_unit_ff_def csr_write_en_def csr_illegal_access_def csr_rdata_def
  csr_trap_vector_next_def csr_reset_def INTERRUPT_BIT_def field_eval iterate_numeral word_cat_eq

lemma tb_csr_passes: "passes tb_csr_steps d"
  unfolding tb_csr_steps_def tb_csr_script priority_suite_def delegation_probes_def
    delegation_steps_def delegation_checks_def priority_steps_def arbitrate_trap_priority_def
    list.map concat.simps
  apply (simp only: Let_def prod.case if_True if_False PriorityScenario.simps
      DelegationProbe.simps append.simps append_Nil2)
  by (simp add: tb_csr_drives csr_bench_eval cong: passes_cong)

section \<open>Properties\<close>

text \<open>
  C39: the bench of the CSR unit passes on the modelled unit, whatever its ports and registers hold
  at power-up: every assertion holds, over register accesses, counters, traps, nested returns,
  delegation in both directions, the priority matrix and the guard of read-only registers.
\<close>

theorem tb_csr_bench_passes: "tb_csr_main dut = Exit 0"
  unfolding tb_csr_main_def by (simp only: run_bench_exit_iff tb_csr_passes)

end
