(* ===== verification/Tlb.thy ===== *)
theory Tlb
  imports Stuttering
begin

text \<open>
  The translation lookaside buffer \<^verbatim>\<open>rtl/core/mmu/tlb.sv\<close>: a fully associative buffer of 32
  entries with round-robin replacement, for Sv32, Sv48 and Sv57.  The module has one register
  file of entries, written by a refill from the page table walker and invalidated by the flush
  ports, and a combinational look-up with the permission check.

  The specification \<open>spec_step\<close> forgets the slots: a queue of the last 32 refills, the oldest
  first, in which a flush blanks what it covers.  \<open>tlb_refines_queue\<close> is the refinement; what a
  look-up may answer follows from it.
\<close>

section \<open>Definitions\<close>

type_synonym satp_mode = "4 word"
type_synonym asid = "16 word"
type_synonym vpn = "45 word"
type_synonym ppn = "44 word"
type_synonym page_level = "3 word"

abbreviation SATP_MODE_BARE :: satp_mode where "SATP_MODE_BARE \<equiv> 0"
abbreviation SATP_MODE_SV32 :: satp_mode where "SATP_MODE_SV32 \<equiv> 1"
abbreviation SATP_MODE_SV48 :: satp_mode where "SATP_MODE_SV48 \<equiv> 9"
abbreviation SATP_MODE_SV57 :: satp_mode where "SATP_MODE_SV57 \<equiv> 10"
abbreviation ENTRIES :: nat where "ENTRIES \<equiv> 32"

text \<open>\<open>tlb_entry_t\<close>, the request, refill and flush ports, and the response ports.\<close>

record tlb_entry =
  e_valid :: bool
  e_mode :: satp_mode
  e_asid :: asid
  e_vpn :: vpn
  e_ppn :: ppn
  e_level :: page_level
  e_g :: bool
  e_u :: bool
  e_r :: bool
  e_w :: bool
  e_x :: bool
  e_a :: bool
  e_d :: bool

record tlb_req =
  req_valid :: bool
  req_vaddr :: u64
  req_asid :: asid
  req_mode :: satp_mode
  req_priv :: "2 word"
  req_is_fetch :: bool
  req_is_store :: bool
  req_sum :: bool
  req_mxr :: bool

record tlb_refill =
  refill_valid :: bool
  refill_vpn :: vpn
  refill_ppn :: ppn
  refill_level :: page_level
  refill_mode :: satp_mode
  refill_asid :: asid
  refill_g :: bool
  refill_u :: bool
  refill_r :: bool
  refill_w :: bool
  refill_x :: bool
  refill_a :: bool
  refill_d :: bool

record tlb_flush =
  flush_all :: bool
  flush_asid_valid :: bool
  flush_asid :: asid
  flush_vpn_valid :: bool
  flush_vpn :: vpn
  flush_mode :: satp_mode

record tlb_resp =
  resp_valid :: bool
  resp_hit :: bool
  resp_paddr :: u64
  resp_page_fault :: bool
  resp_need_ptw :: bool

text \<open>The registers: \<open>entries\<close> has \<open>ENTRIES\<close> elements.\<close>

record tlb_state =
  entries :: "tlb_entry list"
  repl_ptr :: "5 word"

definition is_supported_mode :: "satp_mode \<Rightarrow> bool" where
  "is_supported_mode mode \<longleftrightarrow>
     mode = SATP_MODE_BARE \<or> mode = SATP_MODE_SV32 \<or> mode = SATP_MODE_SV48 \<or>
     mode = SATP_MODE_SV57"

definition vpn_width :: "satp_mode \<Rightarrow> nat" where
  "vpn_width mode =
     (if mode = SATP_MODE_SV32 then 20
      else if mode = SATP_MODE_SV48 then 36
      else if mode = SATP_MODE_SV57 then 45
      else 0)"

definition vpn_stride :: "satp_mode \<Rightarrow> nat" where
  "vpn_stride mode =
     (if mode = SATP_MODE_SV32 then 10
      else if mode = SATP_MODE_SV48 \<or> mode = SATP_MODE_SV57 then 9
      else 0)"

definition make_vpn_mask :: "satp_mode \<Rightarrow> page_level \<Rightarrow> vpn" where
  "make_vpn_mask mode level =
     (let width = vpn_width mode;
          ignore = unat level * vpn_stride mode in
      if width > 0 then fold (\<lambda>i mask. put_bit i True mask) [ignore..<width] 0 else 0)"

definition vaddr_to_vpn :: "u64 \<Rightarrow> satp_mode \<Rightarrow> vpn" where
  "vaddr_to_vpn vaddr mode =
     (if mode = SATP_MODE_SV32 then ucast (field 12 vaddr :: 20 word)
      else if mode = SATP_MODE_SV48 then ucast (field 12 vaddr :: 36 word)
      else if mode = SATP_MODE_SV57 then field 12 vaddr
      else 0)"

text \<open>The result of \<open>page_shift\<close> is cast to 6 bits.\<close>

definition page_shift :: "satp_mode \<Rightarrow> page_level \<Rightarrow> 6 word" where
  "page_shift mode level = of_nat (12 + unat level * vpn_stride mode)"

definition entry_match :: "tlb_entry \<Rightarrow> vpn \<Rightarrow> asid \<Rightarrow> satp_mode \<Rightarrow> bool" where
  "entry_match e vpn asid mode \<longleftrightarrow>
     e_valid e \<and> e_mode e = mode \<and> (e_g e \<or> e_asid e = asid) \<and>
     (e_vpn e XOR vpn) AND make_vpn_mask (e_mode e) (e_level e) = 0"

definition allow_access ::
  "bool \<Rightarrow> bool \<Rightarrow> bool \<Rightarrow> bool \<Rightarrow> bool \<Rightarrow> bool \<Rightarrow> bool \<Rightarrow> bool \<Rightarrow> bool \<Rightarrow> bool \<Rightarrow> bool \<Rightarrow> bool" where
  "allow_access is_fetch is_store priv_u sum_en mxr u r w x a d =
     (let is_load = \<not> is_fetch \<and> \<not> is_store;
          readable = r \<or> (mxr \<and> x);
          priv_ok = (if u then (if priv_u then True else \<not> is_fetch \<and> sum_en) else \<not> priv_u) in
      a \<and> priv_ok \<and> ((is_fetch \<and> x) \<or> (is_store \<and> w \<and> d) \<or> (is_load \<and> readable)))"

text \<open>The loop over the entries keeps the first that matches.\<close>

definition tlb_scan :: "vpn \<Rightarrow> asid \<Rightarrow> satp_mode \<Rightarrow> tlb_entry list \<Rightarrow> tlb_entry option" where
  "tlb_scan vpn asid mode es =
     fold (\<lambda>e hit. if hit = None \<and> entry_match e vpn asid mode then Some e else hit) es None"

definition low_mask :: "6 word \<Rightarrow> u64" where
  "low_mask shift =
     (let shift_index = unat shift in
      if shift_index \<ge> 64 then - 1 else push_bit shift_index 1 - 1)"

text \<open>The look-up, \<open>always_comb\<close>.\<close>

definition tlb_lookup :: "tlb_req \<Rightarrow> tlb_entry list \<Rightarrow> tlb_resp" where
  "tlb_lookup q es =
     (let req_vpn = vaddr_to_vpn (req_vaddr q) (req_mode q);
          resp = \<lparr>resp_valid = req_valid q, resp_hit = False, resp_paddr = req_vaddr q,
                  resp_page_fault = False, resp_need_ptw = False\<rparr> in
      if \<not> req_valid q then resp
      else if \<not> is_supported_mode (req_mode q) then resp\<lparr>resp_page_fault := True\<rparr>
      else if req_mode q = SATP_MODE_BARE \<or> req_priv q = 0b11 then resp\<lparr>resp_hit := True\<rparr>
      else
        (case tlb_scan req_vpn (req_asid q) (req_mode q) es of
           None \<Rightarrow> resp\<lparr>resp_need_ptw := True\<rparr>
         | Some e \<Rightarrow>
             let lm = low_mask (page_shift (e_mode e) (e_level e));
                 hit_ppn_xlen = (push_bit 12 (ucast (e_ppn e)) :: u64);
                 req_priv_u = (req_priv q = 0b00) in
             if \<not> allow_access (req_is_fetch q) (req_is_store q) req_priv_u (req_sum q) (req_mxr q)
                    (e_u e) (e_r e) (e_w e) (e_x e) (e_a e) (e_d e)
             then resp\<lparr>resp_page_fault := True\<rparr>
             else resp\<lparr>resp_hit := True,
                       resp_paddr := (hit_ppn_xlen AND NOT lm) OR (req_vaddr q AND lm)\<rparr>))"

definition tlb_entry_reset :: tlb_entry where
  "tlb_entry_reset =
     \<lparr>e_valid = False, e_mode = SATP_MODE_BARE, e_asid = 0, e_vpn = 0, e_ppn = 0, e_level = 0,
      e_g = False, e_u = False, e_r = False, e_w = False, e_x = False, e_a = False, e_d = False\<rparr>"

text \<open>What the flush ports cover, for one entry.\<close>

definition flush_hits :: "tlb_flush \<Rightarrow> tlb_entry \<Rightarrow> bool" where
  "flush_hits f e =
     (if flush_all f then True
      else if flush_asid_valid f \<or> flush_vpn_valid f then
        (let asid_match = (\<not> flush_asid_valid f \<or> (\<not> e_g e \<and> e_asid e = flush_asid f));
             mode_match = (\<not> flush_vpn_valid f \<or> e_mode e = flush_mode f);
             vpn_match =
               (if flush_vpn_valid f
                then (e_vpn e XOR flush_vpn f) AND make_vpn_mask (e_mode e) (e_level e) = 0
                else True) in
         e_valid e \<and> asid_match \<and> mode_match \<and> vpn_match)
      else False)"

definition flush_entry :: "tlb_flush \<Rightarrow> tlb_entry \<Rightarrow> tlb_entry" where
  "flush_entry f e = (if flush_hits f e then e\<lparr>e_valid := False\<rparr> else e)"

definition refill_accepted :: "tlb_refill \<Rightarrow> bool" where
  "refill_accepted r \<longleftrightarrow>
     refill_valid r \<and> is_supported_mode (refill_mode r) \<and> refill_mode r \<noteq> SATP_MODE_BARE"

definition refill_entry :: "tlb_refill \<Rightarrow> tlb_entry" where
  "refill_entry r =
     \<lparr>e_valid = True, e_mode = refill_mode r, e_asid = refill_asid r, e_vpn = refill_vpn r,
      e_ppn = refill_ppn r, e_level = refill_level r, e_g = refill_g r, e_u = refill_u r,
      e_r = refill_r r, e_w = refill_w r, e_x = refill_x r, e_a = refill_a r, e_d = refill_d r\<rparr>"

text \<open>The clock edge, \<open>always_ff\<close>: a refill in the cycle of a flush survives it.\<close>

definition tlb_ff :: "bool \<Rightarrow> tlb_flush \<Rightarrow> tlb_refill \<Rightarrow> tlb_state \<Rightarrow> tlb_state" where
  "tlb_ff rst f r s =
     (if rst then \<lparr>entries = replicate ENTRIES tlb_entry_reset, repl_ptr = 0\<rparr>
      else
        (let es = map (flush_entry f) (entries s) in
         if refill_accepted r
         then \<lparr>entries = es[unat (repl_ptr s) := refill_entry r], repl_ptr = repl_ptr s + 1\<rparr>
         else s\<lparr>entries := es\<rparr>))"

section \<open>Specification: a queue of refills\<close>

text \<open>
  The translated modes and the sizes of a virtual page number and of one level of it, from the
  privileged specification.
\<close>

definition translated_mode :: "satp_mode \<Rightarrow> bool" where
  "translated_mode mode \<longleftrightarrow> mode \<in> {SATP_MODE_SV32, SATP_MODE_SV48, SATP_MODE_SV57}"

definition vpn_bits :: "satp_mode \<Rightarrow> nat" where
  "vpn_bits mode = (if mode = SATP_MODE_SV32 then 20 else if mode = SATP_MODE_SV48 then 36 else 45)"

definition level_bits :: "satp_mode \<Rightarrow> nat" where
  "level_bits mode = (if mode = SATP_MODE_SV32 then 10 else 9)"

text \<open>The invariant of the registers: 32 entries, the valid ones of a translated mode.\<close>

definition tlb_wf :: "tlb_state \<Rightarrow> bool" where
  "tlb_wf s \<longleftrightarrow>
     length (entries s) = ENTRIES \<and>
     list_all (\<lambda>e. e_valid e \<longrightarrow> translated_mode (e_mode e)) (entries s)"

text \<open>The refills the buffer takes.\<close>

definition accepted :: "tlb_refill \<Rightarrow> bool" where
  "accepted r \<longleftrightarrow> refill_valid r \<and> translated_mode (refill_mode r)"

text \<open>
  What a flush is meant to cover (\<open>sfence.vma\<close>): everything, or the refills that are not global
  and belong to the address space given, the pages that contain the page given, or both.
\<close>

definition flush_covers :: "tlb_flush \<Rightarrow> tlb_refill \<Rightarrow> bool" where
  "flush_covers f r \<longleftrightarrow>
     flush_all f \<or>
     (flush_asid_valid f \<or> flush_vpn_valid f) \<and>
     (flush_asid_valid f \<longrightarrow> \<not> refill_g r \<and> refill_asid r = flush_asid f) \<and>
     (flush_vpn_valid f \<longrightarrow>
        refill_mode r = flush_mode f \<and>
        list_all (\<lambda>n. bit (refill_vpn r) n = bit (flush_vpn f) n)
          [unat (refill_level r) * level_bits (refill_mode r)..<vpn_bits (refill_mode r)])"

text \<open>One cycle of the queue: blank what the flush covers, then push the refill.\<close>

definition spec_flush :: "tlb_flush \<Rightarrow> tlb_refill option \<Rightarrow> tlb_refill option" where
  "spec_flush f slot =
     (case slot of None \<Rightarrow> None | Some r \<Rightarrow> if flush_covers f r then None else Some r)"

definition spec_step ::
  "tlb_flush \<Rightarrow> tlb_refill \<Rightarrow> tlb_refill option list \<Rightarrow> tlb_refill option list" where
  "spec_step f r q =
     (let q' = map (spec_flush f) q in if accepted r then tl q' @ [Some r] else q')"

text \<open>The refill a stored entry goes back to.\<close>

definition as_refill :: "tlb_entry \<Rightarrow> tlb_refill" where
  "as_refill e =
     \<lparr>refill_valid = True, refill_vpn = e_vpn e, refill_ppn = e_ppn e, refill_level = e_level e,
      refill_mode = e_mode e, refill_asid = e_asid e, refill_g = e_g e, refill_u = e_u e,
      refill_r = e_r e, refill_w = e_w e, refill_x = e_x e, refill_a = e_a e, refill_d = e_d e\<rparr>"

definition slot_of :: "tlb_entry \<Rightarrow> tlb_refill option" where
  "slot_of e = (if e_valid e then Some (as_refill e) else None)"

text \<open>The queue a state of the registers stands for: from the replacement pointer on.\<close>

definition tlb_abs :: "tlb_state \<Rightarrow> tlb_refill option list" where
  "tlb_abs s = map slot_of (rotate (unat (repl_ptr s)) (entries s))"

text \<open>A run of the buffer on a sequence of flush and refill inputs.\<close>

definition tlb_run :: "(tlb_flush \<times> tlb_refill) list \<Rightarrow> tlb_state \<Rightarrow> tlb_state" where
  "tlb_run inputs s = fold (\<lambda>(f, r). tlb_ff False f r) inputs s"

text \<open>
  What a history of inputs since reset leaves in force: the accepted refills that no later flush
  covers and that fewer than 32 accepted refills follow.
\<close>

definition refill_count :: "(tlb_flush \<times> tlb_refill) list \<Rightarrow> nat" where
  "refill_count inputs = length (filter (\<lambda>(f, r). accepted r) inputs)"

fun in_force :: "(tlb_flush \<times> tlb_refill) list \<Rightarrow> tlb_refill \<Rightarrow> bool" where
  "in_force [] e = False"
| "in_force ((f, r) # later) e =
     (accepted r \<and> e = r \<and> list_all (\<lambda>(f, r'). \<not> flush_covers f r) later \<and>
        refill_count later < ENTRIES \<or>
      in_force later e)"

text \<open>A request that is looked up in the buffer: valid, in a translated mode and not from M mode.\<close>

definition translated :: "tlb_req \<Rightarrow> bool" where
  "translated q \<longleftrightarrow> req_valid q \<and> translated_mode (req_mode q) \<and> req_priv q \<noteq> 0b11"

text \<open>
  The permission rules: accessed pages only; user pages for U mode, and for S mode only data
  with SUM; X to fetch, W and D to store, R (or X with MXR) to load.
\<close>

definition refill_allows :: "tlb_req \<Rightarrow> tlb_refill \<Rightarrow> bool" where
  "refill_allows q r =
     (refill_a r \<and>
      (if req_priv q = 0b00 then refill_u r
       else refill_u r \<longrightarrow> req_sum q \<and> \<not> req_is_fetch q) \<and>
      (req_is_fetch q \<and> refill_x r \<or>
       req_is_store q \<and> refill_w r \<and> refill_d r \<or>
       \<not> req_is_fetch q \<and> \<not> req_is_store q \<and> (refill_r r \<or> req_mxr q \<and> refill_x r)))"

text \<open>A refill covers a virtual address if they agree above the page offset of its level.\<close>

definition page_bits :: "tlb_refill \<Rightarrow> nat" where
  "page_bits r = 12 + unat (refill_level r) * level_bits (refill_mode r)"

definition covers :: "tlb_refill \<Rightarrow> tlb_req \<Rightarrow> bool" where
  "covers r q \<longleftrightarrow>
     refill_mode r = req_mode q \<and> (refill_g r \<or> refill_asid r = req_asid q) \<and>
     list_all (\<lambda>n. bit (refill_vpn r) (n - 12) = bit (req_vaddr q) n)
       [page_bits r..<12 + vpn_bits (req_mode q)]"

text \<open>
  The translated address: the request's bits below the page offset, the page frame above.  The
  buffer keeps the number of offset bits in six bits; levels 6 and 7, which no translated mode
  has, wrap around.
\<close>

definition translates_to :: "tlb_req \<Rightarrow> tlb_refill \<Rightarrow> u64 \<Rightarrow> bool" where
  "translates_to q r paddr \<longleftrightarrow>
     (\<forall>n. bit paddr n \<longleftrightarrow>
        (if n < page_bits r mod 64 then bit (req_vaddr q) n
         else 12 \<le> n \<and> bit (refill_ppn r) (n - 12)))"

section \<open>Lemmas\<close>

lemma bit_fold_put_bits:
  fixes m :: "'a::len word"
  shows "bit (fold (\<lambda>i. put_bit i True) xs m) n \<longleftrightarrow>
           n < LENGTH('a) \<and> n \<in> set xs \<or> bit m n"
  by (induction xs arbitrary: m) (auto simp: bit_put_bit dest: bit_imp_le_length)

lemma bit_make_vpn_mask [bit_simps]:
  "bit (make_vpn_mask mode level) n \<longleftrightarrow>
     unat level * vpn_stride mode \<le> n \<and> n < vpn_width mode"
  by (auto simp: make_vpn_mask_def Let_def bit_fold_put_bits vpn_width_def)

lemma tlb_scan_find:
  "tlb_scan vpn asid mode es = List.find (\<lambda>e. entry_match e vpn asid mode) es"
proof -
  have *: "fold (\<lambda>e hit. if hit = None \<and> P e then Some e else hit) es h =
             (case h of None \<Rightarrow> List.find P es | Some e \<Rightarrow> Some e)" for P h
    and es :: "tlb_entry list"
    by (induction es arbitrary: h) (auto split: option.splits)
  show ?thesis by (simp add: tlb_scan_def *)
qed

lemma refill_accepted_iff: "refill_accepted r = accepted r"
  by (auto simp: refill_accepted_def accepted_def translated_mode_def is_supported_mode_def)

lemma mode_bits:
  assumes "translated_mode mode"
  shows "vpn_width mode = vpn_bits mode" "vpn_stride mode = level_bits mode"
  using assms
  by (auto simp: translated_mode_def vpn_width_def vpn_bits_def vpn_stride_def level_bits_def)

lemma tlb_ff_wf:
  assumes "rst \<or> tlb_wf s"
  shows "tlb_wf (tlb_ff rst f r s)"
proof (cases rst)
  case True
  then show ?thesis by (simp add: tlb_wf_def tlb_ff_def tlb_entry_reset_def list_all_iff)
next
  case False
  let ?es = "map (flush_entry f) (entries s)"
  have "\<forall>e\<in>set ?es. e_valid e \<longrightarrow> translated_mode (e_mode e)" and len: "length ?es = ENTRIES"
    using assms False by (auto simp: tlb_wf_def list_all_iff flush_entry_def)
  moreover have "accepted r \<Longrightarrow> translated_mode (e_mode (refill_entry r))"
    by (simp add: accepted_def refill_entry_def)
  ultimately show ?thesis
    using False set_update_subset_insert [of ?es "unat (repl_ptr s)" "refill_entry r"]
    by (auto simp: tlb_wf_def tlb_ff_def Let_def list_all_iff refill_accepted_iff)
qed

lemma masked_eq_iff:
  "(a XOR b) AND make_vpn_mask mode level = 0 \<longleftrightarrow>
     (\<forall>n. unat level * vpn_stride mode \<le> n \<and> n < vpn_width mode \<longrightarrow> bit a n = bit b n)"
proof -
  have "n < vpn_width mode \<Longrightarrow> n < 45" for n by (simp add: vpn_width_def split: if_splits)
  then show ?thesis by (auto simp: bit_eq_iff bit_simps)
qed

lemma flush_hits_covers:
  "e_valid e \<Longrightarrow> translated_mode (e_mode e) \<Longrightarrow> flush_hits f e = flush_covers f (as_refill e)"
  by (auto simp: flush_hits_def flush_covers_def as_refill_def masked_eq_iff list_all_iff mode_bits)

lemma slot_of_flush:
  assumes "e_valid e \<longrightarrow> translated_mode (e_mode e)"
  shows "slot_of (flush_entry f e) = spec_flush f (slot_of e)"
  using assms by (auto simp: slot_of_def flush_entry_def spec_flush_def flush_hits_covers)

lemma allow_access_entry:
  "allow_access (req_is_fetch q) (req_is_store q) (req_priv q = 0b00) (req_sum q) (req_mxr q)
     (e_u e) (e_r e) (e_w e) (e_x e) (e_a e) (e_d e) = refill_allows q (as_refill e)"
  by (auto simp: allow_access_def refill_allows_def as_refill_def Let_def)

lemma slot_of_refill: "accepted r \<Longrightarrow> slot_of (refill_entry r) = Some r"
  by (simp add: slot_of_def refill_entry_def as_refill_def accepted_def)

lemma rotate_Suc_update:
  assumes "k < length xs"
  shows "rotate (Suc k) (xs[k := x]) = tl (rotate k xs) @ [x]"
proof -
  have *: "rotate k ys = drop k ys @ take k ys" if "k < length ys" for ys :: "'a list"
    using that by (simp add: rotate_drop_take)
  have "rotate k (xs[k := x]) = x # tl (rotate k xs)"
    using assms by (simp add: * drop_update_swap [of k k] Cons_nth_drop_Suc [symmetric])
  then show ?thesis by (simp add: rotate_Suc)
qed

lemma repl_ptr_rotate:
  fixes p :: "5 word"
  assumes "length xs = ENTRIES"
  shows "rotate (unat (p + 1)) xs = rotate (Suc (unat p)) xs"
proof -
  have "unat (p + 1) = Suc (unat p) mod 32" by (simp add: unat_word_ariths)
  then show ?thesis using assms rotate_conv_mod [of "Suc (unat p)" xs] by simp
qed

lemma tlb_abs_ff:
  assumes "tlb_wf s"
  shows "tlb_abs (tlb_ff False f r s) = spec_step f r (tlb_abs s)"
proof -
  have len: "length (entries s) = ENTRIES" using assms by (simp add: tlb_wf_def)
  have "unat (repl_ptr s) < 2 ^ LENGTH(5)" by (rule unsigned_less)
  then have k: "unat (repl_ptr s) < length (entries s)" using len by simp
  have flush: "map slot_of (map (flush_entry f) (entries s)) =
      map (spec_flush f) (map slot_of (entries s))"
    using assms by (simp add: tlb_wf_def list_all_iff slot_of_flush)
  show ?thesis
    unfolding tlb_abs_def spec_step_def rotate_map [symmetric] flush [symmetric]
    using k len
    by (simp add: tlb_ff_def Let_def repl_ptr_rotate rotate_Suc_update map_tl rotate_map
        map_update slot_of_refill refill_accepted_iff comp_def del: rotate_Suc)
qed

lemma tlb_abs_reset: "tlb_abs (tlb_ff True f r s) = replicate ENTRIES None"
  by (simp add: tlb_abs_def tlb_ff_def tlb_entry_reset_def slot_of_def)

interpretation tlbq: functional_refinement
  "\<lambda>(f, r). tlb_ff False f r" "\<lambda>(f, r). spec_step f r" tlb_abs tlb_wf
  by unfold_locales (auto simp: tlb_abs_ff intro: tlb_ff_wf)

subsection \<open>The queue and the history\<close>

text \<open>The accepted refills of a history in order, blanked where a later flush covers them.\<close>

fun refill_log :: "(tlb_flush \<times> tlb_refill) list \<Rightarrow> tlb_refill option list" where
  "refill_log [] = []"
| "refill_log ((f, r) # later) =
     (if accepted r
      then [if list_all (\<lambda>(f, r'). \<not> flush_covers f r) later then Some r else None]
      else []) @ refill_log later"

lemma refill_log_append:
  "refill_log (xs @ [(f, r)]) =
     map (spec_flush f) (refill_log xs) @ (if accepted r then [Some r] else [])"
  by (induction xs rule: refill_log.induct) (auto simp: spec_flush_def)

lemma length_refill_log: "length (refill_log xs) = refill_count xs"
  by (induction xs rule: refill_log.induct) (auto simp: refill_count_def)

lemma refill_count_append:
  "refill_count (xs @ [(f, r)]) = refill_count xs + (if accepted r then 1 else 0)"
  by (simp add: refill_count_def)

lemma spec_run_log:
  assumes "0 < n"
  shows "fold (\<lambda>(f, r). spec_step f r) xs (replicate n None) =
           drop (refill_count xs) (replicate n None @ refill_log xs)"
proof (induction xs rule: rev_induct)
  case Nil
  then show ?case by (simp add: refill_count_def)
next
  case (snoc i xs)
  obtain f r where i: "i = (f, r)" by (cases i)
  define L where "L = replicate n None @ refill_log xs"
  define k where "k = refill_count xs"
  have len: "length L = n + k" by (simp add: L_def k_def length_refill_log)
  have blank: "map (spec_flush f) (replicate n None) = replicate n None"
    by (simp add: spec_flush_def)
  have log: "replicate n None @ refill_log (xs @ [i]) =
      map (spec_flush f) L @ (if accepted r then [Some r] else [])"
    unfolding i L_def refill_log_append map_append blank by simp
  have "fold (\<lambda>(f, r). spec_step f r) (xs @ [i]) (replicate n None) = spec_step f r (drop k L)"
    using snoc by (simp add: i L_def k_def)
  also have "\<dots> = drop (refill_count (xs @ [i])) (replicate n None @ refill_log (xs @ [i]))"
    unfolding log using assms len
    by (simp add: i refill_count_append spec_step_def drop_map tl_drop drop_Suc flip: k_def map_tl)
  finally show ?case .
qed

lemma in_force_log:
  "Some e \<in> set (drop (refill_count xs) (replicate ENTRIES None @ refill_log xs)) \<longleftrightarrow> in_force xs e"
proof (induction xs rule: refill_log.induct)
  case 1
  then show ?case by (simp add: refill_count_def)
next
  case (2 f r later)
  define k where "k = refill_count later"
  have k: "refill_count ((f, r) # later) = (if accepted r then Suc k else k)"
    by (simp add: refill_count_def k_def)
  have *: "drop (Suc k) (replicate 32 None @ x # xs) =
      replicate (32 - Suc k) None @ (if k < 32 then [x] else []) @ drop (k - 32) xs"
      for x :: "tlb_refill option" and xs
    by (auto simp: drop_Cons' Suc_diff_le)
  from 2 show ?case unfolding k by (auto simp: * k_def [symmetric] drop_Cons' split: if_splits)
qed

lemma tlb_contents:
  "(\<exists>e\<in>set (entries (tlb_run inputs (tlb_ff True f r s))). e_valid e \<and> as_refill e = x) \<longleftrightarrow>
     in_force inputs x"
proof -
  have wf: "tlb_wf (tlb_ff True f r s)" by (simp add: tlb_ff_wf)
  have "Some x \<in> set (tlb_abs s') \<longleftrightarrow> (\<exists>e\<in>set (entries s'). e_valid e \<and> as_refill e = x)" for s'
    by (auto simp: tlb_abs_def slot_of_def image_iff)
  then show ?thesis
    unfolding tlb_run_def
    by (metis tlbq.abs_run [OF wf] tlb_abs_reset spec_run_log in_force_log zero_less_numeral)
qed

subsection \<open>The look-up\<close>

lemma bit_vaddr_to_vpn [bit_simps]:
  "bit (vaddr_to_vpn vaddr mode) n \<longleftrightarrow> n < vpn_width mode \<and> bit vaddr (12 + n)"
  by (auto simp: vaddr_to_vpn_def vpn_width_def bit_simps)

lemma list_all_upt_shift:
  "list_all P [c + a..<c + b] \<longleftrightarrow> (\<forall>n. a \<le> n \<and> n < b \<longrightarrow> P (c + n))"
proof -
  have *: "set [c + a..<c + b] = (\<lambda>n. c + n) ` {a..<b}" by (simp add: add.commute)
  show ?thesis unfolding list_all_iff * by (simp only: ball_simps) auto
qed

lemma entry_match_covers:
  assumes "translated_mode (req_mode q)"
  shows "entry_match e (vaddr_to_vpn (req_vaddr q) (req_mode q)) (req_asid q) (req_mode q) \<longleftrightarrow>
           e_valid e \<and> covers (as_refill e) q"
  using mode_bits [OF assms]
  by (auto simp: entry_match_def covers_def as_refill_def masked_eq_iff list_all_upt_shift
      page_bits_def bit_simps)

text \<open>The address an entry gives: its page frame above the page offset, the request below.\<close>

definition page_address :: "tlb_entry \<Rightarrow> u64 \<Rightarrow> u64" where
  "page_address e vaddr =
     (let lm = low_mask (page_shift (e_mode e) (e_level e)) in
      (push_bit 12 (ucast (e_ppn e)) AND NOT lm) OR (vaddr AND lm))"

lemma page_address_translates:
  assumes "translated_mode (e_mode e)"
  shows "translates_to q (as_refill e) (page_address e (req_vaddr q))"
proof -
  let ?k = "page_bits (as_refill e) mod 64"
  have "page_bits (as_refill e) = 12 + unat (e_level e) * vpn_stride (e_mode e)"
    by (simp add: page_bits_def as_refill_def mode_bits [OF assms])
  then have "unat (page_shift (e_mode e) (e_level e)) = ?k"
    by (simp only: page_shift_def unat_of_nat) simp
  then have lm: "low_mask (page_shift (e_mode e) (e_level e)) = mask ?k"
    by (simp add: low_mask_def mask_eq_exp_minus_1 push_bit_of_1 not_le Let_def)
  show ?thesis
    unfolding translates_to_def page_address_def lm Let_def
    by (auto simp: bit_simps as_refill_def not_less dest: bit_imp_le_length)
qed

lemma translates_to_unique: "translates_to q r p \<Longrightarrow> translates_to q r p' \<Longrightarrow> p = p'"
  by (rule bit_eqI) (simp add: translates_to_def)

lemma tlb_lookup_translated:
  assumes "translated q"
  shows "tlb_lookup q es =
     (let resp = \<lparr>resp_valid = True, resp_hit = False, resp_paddr = req_vaddr q,
                  resp_page_fault = False, resp_need_ptw = False\<rparr> in
      case List.find (\<lambda>e. e_valid e \<and> covers (as_refill e) q) es of
        None \<Rightarrow> resp\<lparr>resp_need_ptw := True\<rparr>
      | Some e \<Rightarrow>
          if refill_allows q (as_refill e)
          then resp\<lparr>resp_hit := True, resp_paddr := page_address e (req_vaddr q)\<rparr>
          else resp\<lparr>resp_page_fault := True\<rparr>)"
proof -
  have mode: "is_supported_mode (req_mode q)" "req_mode q \<noteq> SATP_MODE_BARE"
    and m: "translated_mode (req_mode q)" and v: "req_valid q" "req_priv q \<noteq> 3"
    using assms by (auto simp: translated_def translated_mode_def is_supported_mode_def)
  show ?thesis
    by (simp add: tlb_lookup_def tlb_scan_find Let_def page_address_def allow_access_entry
        entry_match_covers [OF m] mode v split: option.split)
qed

lemma tlb_lookup_untranslated:
  assumes "\<not> translated q"
  shows "tlb_lookup q es =
     \<lparr>resp_valid = req_valid q,
      resp_hit = (req_valid q \<and> (req_mode q = SATP_MODE_BARE \<or> translated_mode (req_mode q))),
      resp_paddr = req_vaddr q,
      resp_page_fault =
        (req_valid q \<and> req_mode q \<noteq> SATP_MODE_BARE \<and> \<not> translated_mode (req_mode q)),
      resp_need_ptw = False\<rparr>"
  using assms
  by (auto simp: tlb_lookup_def translated_def translated_mode_def is_supported_mode_def Let_def)

lemma tlb_lookup_resp_valid: "resp_valid (tlb_lookup q es) = req_valid q"
  by (simp add: tlb_lookup_def Let_def split: option.split)

lemma tlb_lookup_run_translated:
  assumes "translated q"
  shows "let resp = tlb_lookup q (entries (tlb_run inputs (tlb_ff True f r s))) in
     (resp_need_ptw resp \<longleftrightarrow> \<not> (\<exists>x. in_force inputs x \<and> covers x q)) \<and>
     (resp_hit resp \<longrightarrow>
        (\<exists>x. in_force inputs x \<and> covers x q \<and> refill_allows q x \<and>
             translates_to q x (resp_paddr resp))) \<and>
     (resp_page_fault resp \<longrightarrow>
        (\<exists>x. in_force inputs x \<and> covers x q \<and> \<not> refill_allows q x)) \<and>
     [resp_hit resp, resp_page_fault resp, resp_need_ptw resp]
       \<in> {[True, False, False], [False, True, False], [False, False, True]}"
proof -
  define es where "es = entries (tlb_run inputs (tlb_ff True f r s))"
  have content: "in_force inputs x \<longleftrightarrow> (\<exists>e\<in>set es. e_valid e \<and> as_refill e = x)" for x
    unfolding es_def by (rule tlb_contents [symmetric])
  show ?thesis
  proof (cases "List.find (\<lambda>e. e_valid e \<and> covers (as_refill e) q) es")
    case None
    then have "\<not> (\<exists>x. in_force inputs x \<and> covers x q)" by (auto simp: content find_None_iff)
    then show ?thesis
      using None by (auto simp: tlb_lookup_translated [OF assms] Let_def simp flip: es_def)
  next
    case (Some e)
    then have in_force: "in_force inputs (as_refill e)" and cov: "covers (as_refill e) q"
      by (auto simp: content find_Some_iff)
    moreover have "translated_mode (e_mode e)"
      using cov assms by (simp add: covers_def translated_def as_refill_def)
    ultimately show ?thesis
      using Some page_address_translates [of e q]
      by (auto simp: tlb_lookup_translated [OF assms] Let_def simp flip: es_def)
  qed
qed

section \<open>Properties\<close>

text \<open>
  C18: the buffer is the queue of the last 32 accepted refills.  Reset empties it, and a clock edge
  blanks exactly the entries the flush ports cover and then, for a refill in a translated mode,
  drops the oldest and appends the new one, a refill in the cycle of a flush surviving it; the
  number of entries never changes.
\<close>

theorem tlb_refines_queue:
  assumes "tlb_wf s"
  shows "tlb_abs (tlb_ff False f r s) = spec_step f r (tlb_abs s) \<and>
         tlb_abs (tlb_ff True f r s) = replicate ENTRIES None \<and>
         tlb_wf (tlb_ff rst f r s)"
  using assms by (simp_all add: tlb_abs_ff tlb_abs_reset tlb_ff_wf)

text \<open>A page of 4 KiB in address space 1, and a flush of that address space.\<close>

definition example_refill :: tlb_refill where
  "example_refill =
     \<lparr>refill_valid = True, refill_vpn = 0x80401, refill_ppn = 0x12345, refill_level = 0,
      refill_mode = SATP_MODE_SV48, refill_asid = 1, refill_g = False, refill_u = False,
      refill_r = True, refill_w = True, refill_x = False, refill_a = True, refill_d = True\<rparr>"

definition example_flush :: tlb_flush where
  "example_flush =
     \<lparr>flush_all = False, flush_asid_valid = True, flush_asid = 1, flush_vpn_valid = False,
      flush_vpn = 0, flush_mode = SATP_MODE_SV48\<rparr>"

definition example_req :: tlb_req where
  "example_req =
     \<lparr>req_valid = True, req_vaddr = 0x80401234, req_asid = 1, req_mode = SATP_MODE_SV48,
      req_priv = 1, req_is_fetch = False, req_is_store = False, req_sum = False,
      req_mxr = False\<rparr>"

abbreviation (input) example_state :: tlb_state where
  "example_state \<equiv> \<lparr>entries = replicate ENTRIES tlb_entry_reset, repl_ptr = 31\<rparr>"

theorem tlb_refines_queue_witness:
  "tlb_abs (tlb_ff False example_flush example_refill example_state) =
     spec_step example_flush example_refill (tlb_abs example_state) \<and>
   tlb_abs (tlb_ff True example_flush example_refill example_state) = replicate ENTRIES None \<and>
   tlb_wf (tlb_ff False example_flush example_refill example_state)"
  by (rule tlb_refines_queue) (simp add: tlb_wf_def list_all_iff tlb_entry_reset_def)

text \<open>
  C17: no stale and no lost translation.  After any history of refills and flushes since reset, a
  request that needs translation is answered from the refills in force (valid and in a translated
  mode, not covered by a later flush, followed by fewer than 32 others) and from nothing else: it
  asks for a page walk exactly if none of them covers the address in its address space; a hit
  means that one covers the address and permits the access, and the answer has the request's bits
  below the page offset of its level and its page frame above; a page fault means that one covers
  the address and forbids the access.  Exactly one of the three is answered.  The number of offset
  bits is taken modulo 64, which matters for the levels 6 and 7 only.  Every other valid request
  is answered at once: with its own address in bare mode and from M mode, with a page fault in a
  mode the buffer does not support.
\<close>

theorem tlb_answers_refills_in_force:
  "let resp = tlb_lookup q (entries (tlb_run inputs (tlb_ff True f r s))) in
   resp_valid resp = req_valid q \<and>
   (if translated q then
     (resp_need_ptw resp \<longleftrightarrow> \<not> (\<exists>x. in_force inputs x \<and> covers x q)) \<and>
     (resp_hit resp \<longrightarrow>
        (\<exists>x. in_force inputs x \<and> covers x q \<and> refill_allows q x \<and>
             translates_to q x (resp_paddr resp))) \<and>
     (resp_page_fault resp \<longrightarrow>
        (\<exists>x. in_force inputs x \<and> covers x q \<and> \<not> refill_allows q x)) \<and>
     [resp_hit resp, resp_page_fault resp, resp_need_ptw resp]
       \<in> {[True, False, False], [False, True, False], [False, False, True]}
    else
     resp_paddr resp = req_vaddr q \<and> \<not> resp_need_ptw resp \<and>
     (resp_hit resp \<longleftrightarrow>
        req_valid q \<and> (req_mode q = SATP_MODE_BARE \<or> translated_mode (req_mode q))) \<and>
     (resp_page_fault resp \<longleftrightarrow>
        req_valid q \<and> req_mode q \<noteq> SATP_MODE_BARE \<and> \<not> translated_mode (req_mode q)))"
proof (cases "translated q")
  case True
  then show ?thesis
    unfolding Let_def if_P [OF True] tlb_lookup_resp_valid
    using tlb_lookup_run_translated [OF True, of inputs f r s, unfolded Let_def] by blast
next
  case False
  then show ?thesis using tlb_lookup_untranslated [OF False] by (simp add: Let_def)
qed

text \<open>
  Without a flush the example is translated to \<open>0x12345234\<close>; after the flush of its address space
  it needs a page walk.
\<close>

theorem tlb_answers_refills_in_force_witness:
  "let off = example_refill\<lparr>refill_valid := False\<rparr>;
       idle = example_flush\<lparr>flush_asid_valid := False\<rparr>;
       look = (\<lambda>inputs. tlb_lookup example_req
                 (entries (tlb_run inputs (tlb_ff True idle off example_state)))) in
   resp_hit (look [(example_flush, example_refill), (idle, off)]) \<and>
   resp_paddr (look [(example_flush, example_refill), (idle, off)]) = 0x12345234 \<and>
   resp_need_ptw (look [(example_flush, example_refill), (example_flush, off)])"
proof -
  let ?off = "example_refill\<lparr>refill_valid := False\<rparr>"
  let ?idle = "example_flush\<lparr>flush_asid_valid := False\<rparr>"
  let ?kept = "[(example_flush, example_refill), (?idle, ?off)]"
  let ?gone = "[(example_flush, example_refill), (example_flush, ?off)]"
  let ?resp = "tlb_lookup example_req (entries (tlb_run ?kept (tlb_ff True ?idle ?off example_state)))"
  have t: "translated example_req"
    by (simp add: translated_def example_req_def translated_mode_def)
  have acc: "accepted example_refill" "\<not> accepted ?off"
    "flush_covers example_flush example_refill" "\<not> flush_covers ?idle example_refill"
    by (simp_all add: accepted_def translated_mode_def flush_covers_def example_refill_def
        example_flush_def)
  have cov: "covers example_refill example_req" "refill_allows example_req example_refill"
    by (simp_all add: covers_def refill_allows_def example_refill_def example_req_def page_bits_def
        level_bits_def vpn_bits_def upt_rec bit_numeral_word_iff)
  have kept: "in_force ?kept x \<longleftrightarrow> x = example_refill" and gone: "\<not> in_force ?gone x" for x
    using acc by (auto simp: refill_count_def)
  note ans = tlb_answers_refills_in_force [of example_req ?kept ?idle ?off example_state, unfolded Let_def kept]
  have hit: "resp_hit ?resp" using ans cov t by auto
  then have "translates_to example_req example_refill (resp_paddr ?resp)" using ans t by auto
  moreover have "translates_to example_req example_refill 0x12345234"
    using page_address_translates [of "refill_entry example_refill" example_req]
    by (simp add: refill_entry_def as_refill_def example_refill_def example_req_def
        translated_mode_def page_address_def page_shift_def vpn_stride_def low_mask_def Let_def)
  ultimately have "resp_paddr ?resp = 0x12345234"
    by (rule translates_to_unique)
  with hit show ?thesis
    using tlb_answers_refills_in_force [of example_req ?gone ?idle ?off example_state] gone t
    by (simp add: Let_def)
qed

end
