(* ===== verification/Tlb_Bench.thy ===== *)
theory Tlb_Bench
  imports Bench Tlb
begin

text \<open>
  The bench \<^verbatim>\<open>tb/unit/tb_tlb.cc\<close> of the translation lookaside buffer: the device under test with
  its input ports and registers, the functions that drive it, the 27 tests of \<open>main\<close> in five
  groups, and the proof that the bench passes.
\<close>

section \<open>Definitions\<close>

text \<open>\<open>Vtlb\<close>: the input ports and the registers; the response is a function of both.\<close>

record Vtlb =
  vl_rst :: bool
  vl_req :: tlb_req
  vl_refill :: tlb_refill
  vl_flush :: tlb_flush
  vl_state :: tlb_state

definition vl_resp :: "Vtlb \<Rightarrow> tlb_resp" where
  "vl_resp d = tlb_lookup (vl_req d) (entries (vl_state d))"

abbreviation MODE_BARE :: u8 where "MODE_BARE \<equiv> 0"
abbreviation MODE_SV32 :: u8 where "MODE_SV32 \<equiv> 1"
abbreviation MODE_SV48 :: u8 where "MODE_SV48 \<equiv> 9"
abbreviation MODE_SV57 :: u8 where "MODE_SV57 \<equiv> 10"

definition tlb_tick :: "Vtlb \<Rightarrow> Vtlb" where
  "tlb_tick d = d\<lparr>vl_state := tlb_ff (vl_rst d) (vl_flush d) (vl_refill d) (vl_state d)\<rparr>"

definition make_paddr :: "u64 \<Rightarrow> u64 \<Rightarrow> u64" where
  "make_paddr ppn vaddr = push_bit 12 ppn OR (vaddr AND 0xFFF)"

definition sv48_vpn :: "u64 \<Rightarrow> u64" where
  "sv48_vpn vaddr = drop_bit 12 vaddr AND (push_bit 36 1 - 1)"

definition sv32_vpn :: "u64 \<Rightarrow> u64" where
  "sv32_vpn vaddr = drop_bit 12 vaddr AND (push_bit 20 1 - 1)"

definition sv57_vpn :: "u64 \<Rightarrow> u64" where
  "sv57_vpn vaddr = drop_bit 12 vaddr AND (push_bit 45 1 - 1)"

definition clear_req :: "Vtlb \<Rightarrow> Vtlb" where
  "clear_req d = d\<lparr>vl_req :=
     \<lparr>req_valid = False, req_vaddr = 0, req_asid = 0, req_mode = ucast MODE_SV48, req_priv = 1,
      req_is_fetch = False, req_is_store = False, req_sum = False, req_mxr = False\<rparr>\<rparr>"

definition clear_refill :: "Vtlb \<Rightarrow> Vtlb" where
  "clear_refill d = d\<lparr>vl_refill :=
     \<lparr>refill_valid = False, refill_vpn = 0, refill_ppn = 0, refill_level = 0,
      refill_mode = ucast MODE_SV48, refill_asid = 0, refill_g = False, refill_u = False,
      refill_r = False, refill_w = False, refill_x = False, refill_a = False,
      refill_d = False\<rparr>\<rparr>"

definition clear_flush :: "Vtlb \<Rightarrow> Vtlb" where
  "clear_flush d = d\<lparr>vl_flush :=
     \<lparr>flush_all = False, flush_asid_valid = False, flush_asid = 0, flush_vpn_valid = False,
      flush_vpn = 0, flush_mode = ucast MODE_SV48\<rparr>\<rparr>"

definition apply_flush_all :: "Vtlb \<Rightarrow> Vtlb" where
  "apply_flush_all d =
     (let d = clear_flush d;
          d = tlb_tick (d\<lparr>vl_flush := (vl_flush d)\<lparr>flush_all := True\<rparr>\<rparr>) in
      d\<lparr>vl_flush := (vl_flush d)\<lparr>flush_all := False\<rparr>\<rparr>)"

definition apply_flush_asid :: "u16 \<Rightarrow> Vtlb \<Rightarrow> Vtlb" where
  "apply_flush_asid asid d =
     (let d = clear_flush d in
      clear_flush (tlb_tick
        (d\<lparr>vl_flush := (vl_flush d)\<lparr>flush_asid_valid := True, flush_asid := asid\<rparr>\<rparr>)))"

definition apply_flush_vpn :: "u64 \<Rightarrow> u8 \<Rightarrow> Vtlb \<Rightarrow> Vtlb" where
  "apply_flush_vpn vpn mode d =
     (let d = clear_flush d in
      clear_flush (tlb_tick
        (d\<lparr>vl_flush := (vl_flush d)\<lparr>flush_vpn_valid := True, flush_vpn := ucast vpn,
                                    flush_mode := ucast mode\<rparr>\<rparr>)))"

definition tlb_reset :: "Vtlb \<Rightarrow> Vtlb" where
  "tlb_reset d =
     (tlb_tick (tlb_tick (clear_flush (clear_refill (clear_req (d\<lparr>vl_rst := True\<rparr>))))))
       \<lparr>vl_rst := False\<rparr>"

definition do_refill ::
  "u64 \<Rightarrow> u64 \<Rightarrow> u8 \<Rightarrow> u8 \<Rightarrow> u16 \<Rightarrow> bool \<Rightarrow> bool \<Rightarrow> bool \<Rightarrow> bool \<Rightarrow> bool \<Rightarrow> bool \<Rightarrow> bool \<Rightarrow>
   Vtlb \<Rightarrow> Vtlb" where
  "do_refill vpn ppn level mode asid g u r w x a dirty d =
     (let d = clear_refill d;
          d = tlb_tick (d\<lparr>vl_refill :=
                \<lparr>refill_valid = True, refill_vpn = ucast vpn, refill_ppn = ucast ppn,
                 refill_level = ucast level, refill_mode = ucast mode, refill_asid = asid,
                 refill_g = g, refill_u = u, refill_r = r, refill_w = w, refill_x = x,
                 refill_a = a, refill_d = dirty\<rparr>\<rparr>) in
      d\<lparr>vl_refill := (vl_refill d)\<lparr>refill_valid := False\<rparr>\<rparr>)"

definition issue_load :: "u64 \<Rightarrow> u16 \<Rightarrow> u8 \<Rightarrow> Vtlb \<Rightarrow> Vtlb" where
  "issue_load vaddr asid mode d =
     (let d = clear_req d in
      d\<lparr>vl_req := (vl_req d)
         \<lparr>req_valid := True, req_vaddr := vaddr, req_asid := asid, req_mode := ucast mode,
          req_priv := 1, req_is_fetch := False, req_is_store := False\<rparr>\<rparr>)"

definition issue_req ::
  "u64 \<Rightarrow> u16 \<Rightarrow> u8 \<Rightarrow> u8 \<Rightarrow> bool \<Rightarrow> bool \<Rightarrow> bool \<Rightarrow> bool \<Rightarrow> Vtlb \<Rightarrow> Vtlb" where
  "issue_req vaddr asid mode priv is_fetch is_store sum_en mxr d =
     (let d = clear_req d in
      d\<lparr>vl_req := (vl_req d)
         \<lparr>req_valid := True, req_vaddr := vaddr, req_asid := asid, req_mode := ucast mode,
          req_priv := ucast priv, req_is_fetch := is_fetch, req_is_store := is_store,
          req_sum := sum_en, req_mxr := mxr\<rparr>\<rparr>)"

text \<open>Tests 1 to 9: bypass, miss, refill and hit, ASIDs, permissions, a superpage.\<close>

definition tb_tlb_basic :: "Vtlb bench_step list" where
  "tb_tlb_basic =
    [Drive tlb_reset,
     Drive clear_req,
     Drive (\<lambda>d. d\<lparr>vl_req := (vl_req d)\<lparr>req_valid := True, req_mode := ucast
       MODE_BARE, req_vaddr := 0x123456789ABCDEF0, req_priv := 1\<rparr>\<rparr>),
     Check (\<lambda>d. resp_hit (vl_resp d)),
     Check (\<lambda>d. \<not> resp_page_fault (vl_resp d)),
     Check (\<lambda>d. \<not> resp_need_ptw (vl_resp d)),
     Check (\<lambda>d. resp_paddr (vl_resp d) = req_vaddr (vl_req d)),
     Drive clear_req,
     Drive (\<lambda>d. d\<lparr>vl_req := (vl_req d)\<lparr>req_valid := True, req_mode := 4,
       req_vaddr := 0x80000000\<rparr>\<rparr>),
     Check (\<lambda>d. resp_page_fault (vl_resp d)),
     Drive (issue_load 0x80401000 1 MODE_SV48),
     Check (\<lambda>d. \<not> resp_hit (vl_resp d)),
     Check (\<lambda>d. resp_need_ptw (vl_resp d)),
     Check (\<lambda>d. \<not> resp_page_fault (vl_resp d)),
     Drive (do_refill (sv48_vpn 0x80401234) 0x12345 0 MODE_SV48 1 False False True True False True
       True),
     Drive (issue_load 0x80401234 1 MODE_SV48),
     Check (\<lambda>d. resp_hit (vl_resp d)),
     Check (\<lambda>d. \<not> resp_page_fault (vl_resp d)),
     Check (\<lambda>d. resp_paddr (vl_resp d) = make_paddr 0x12345 0x80401234),
     Drive (issue_load 0x80401234 2 MODE_SV48),
     Check (\<lambda>d. \<not> resp_hit (vl_resp d)),
     Check (\<lambda>d. resp_need_ptw (vl_resp d)),
     Drive (do_refill (sv48_vpn 0x90003456) 0x23456 0 MODE_SV48 9 True False True False True True
       True),
     Drive (issue_load 0x90003456 99 MODE_SV48),
     Check (\<lambda>d. resp_hit (vl_resp d)),
     Drive (do_refill (sv48_vpn 0xA0002222) 0x34567 0 MODE_SV48 3 False False True True False True
       False),
     Drive clear_req,
     Drive (\<lambda>d. d\<lparr>vl_req := (vl_req d)\<lparr>req_valid := True, req_vaddr :=
       0xA0002222, req_asid := 3, req_mode := ucast MODE_SV48, req_priv := 1, req_is_store :=
       True\<rparr>\<rparr>),
     Check (\<lambda>d. resp_page_fault (vl_resp d)),
     Drive (do_refill (sv48_vpn 0xB0000100) 0x45678 0 MODE_SV48 4 False False False False True
       True True),
     Drive clear_req,
     Drive (\<lambda>d. d\<lparr>vl_req := (vl_req d)\<lparr>req_valid := True, req_vaddr :=
       0xB0000100, req_asid := 4, req_mode := ucast MODE_SV48, req_priv := 1, req_mxr :=
       True\<rparr>\<rparr>),
     Check (\<lambda>d. resp_hit (vl_resp d)),
     Check (\<lambda>d. \<not> resp_page_fault (vl_resp d)),
     Drive (do_refill (sv48_vpn 0xC1234000) 0x56780 1 MODE_SV48 5 False False True True True True
       True),
     Drive (issue_load 0xC1238ABC 5 MODE_SV48),
     Check (\<lambda>d. resp_hit (vl_resp d))]"

text \<open>Tests 10 to 15: the three kinds of flush, superpages of Sv32 and Sv57.\<close>

definition tb_tlb_flush :: "Vtlb bench_step list" where
  "tb_tlb_flush =
    [Drive apply_flush_all,
     Drive (issue_load 0x80401234 1 MODE_SV48),
     Check (\<lambda>d. \<not> resp_hit (vl_resp d)),
     Drive (do_refill (sv48_vpn 0xD0001111) 0x60100 0 MODE_SV48 7 False False True True False True
       True),
     Drive (do_refill (sv48_vpn 0xD0002222) 0x60200 0 MODE_SV48 8 False False True True False True
       True),
     Drive (apply_flush_asid 7),
     Drive (issue_load 0xD0001111 7 MODE_SV48),
     Check (\<lambda>d. \<not> resp_hit (vl_resp d)),
     Drive (issue_load 0xD0002222 8 MODE_SV48),
     Check (\<lambda>d. resp_hit (vl_resp d)),
     Drive (do_refill (sv48_vpn 0xE1000123) 0x70100 0 MODE_SV48 9 False False True True False True
       True),
     Drive (do_refill (sv48_vpn 0xE2000456) 0x70200 0 MODE_SV48 9 False False True True False True
       True),
     Drive (apply_flush_vpn (sv48_vpn 0xE1000123) MODE_SV48),
     Drive (issue_load 0xE1000123 9 MODE_SV48),
     Check (\<lambda>d. \<not> resp_hit (vl_resp d)),
     Drive (issue_load 0xE2000456 9 MODE_SV48),
     Check (\<lambda>d. resp_hit (vl_resp d)),
     Drive (do_refill (sv32_vpn 0x81234000) 0x31000 1 MODE_SV32 11 False False True True False
       True True),
     Drive (issue_load 0x813FFABC 11 MODE_SV32),
     Check (\<lambda>d. resp_hit (vl_resp d)),
     Check (\<lambda>d. \<not> resp_page_fault (vl_resp d)),
     Drive (do_refill (sv57_vpn 0x12345678004000) 0x4A1234 2 MODE_SV57 12 False False True True
       False True True),
     Drive (issue_load 0x1234567BFF8ABC 12 MODE_SV57),
     Check (\<lambda>d. resp_hit (vl_resp d)),
     Check (\<lambda>d. \<not> resp_page_fault (vl_resp d)),
     Drive (do_refill (sv32_vpn 0x81234567) 0x81000 0 MODE_SV32 13 False False True True False
       True True),
     Drive (do_refill (sv32_vpn 0x81234567) 0x82000 0 MODE_SV48 13 False False True True False
       True True),
     Drive (apply_flush_vpn (sv32_vpn 0x81234567) MODE_SV32),
     Drive (issue_load 0x81234567 13 MODE_SV32),
     Check (\<lambda>d. \<not> resp_hit (vl_resp d)),
     Drive (issue_load 0x81234567 13 MODE_SV48),
     Check (\<lambda>d. resp_hit (vl_resp d))]"

text \<open>Tests 16 to 22: SUM, MXR, user pages, the A bit, global entries.\<close>

definition tb_tlb_perm :: "Vtlb bench_step list" where
  "tb_tlb_perm =
    [Drive (do_refill (sv48_vpn 0x83330100) 0x83000 0 MODE_SV48 14 False True True True False True
       True),
     Drive (issue_req 0x83330100 14 MODE_SV48 1 False False False False),
     Check (\<lambda>d. resp_page_fault (vl_resp d)),
     Drive (issue_req 0x83330100 14 MODE_SV48 1 False False True False),
     Check (\<lambda>d. resp_hit (vl_resp d)),
     Check (\<lambda>d. \<not> resp_page_fault (vl_resp d)),
     Drive (issue_req 0x83330100 14 MODE_SV48 1 True False True False),
     Check (\<lambda>d. resp_page_fault (vl_resp d)),
     Drive (do_refill (sv48_vpn 0x84440200) 0x84000 0 MODE_SV48 15 False False True True True True
       True),
     Drive (issue_req 0x84440200 15 MODE_SV48 0 False False False False),
     Check (\<lambda>d. resp_page_fault (vl_resp d)),
     Drive (do_refill (sv48_vpn 0x85550300) 0x85000 0 MODE_SV48 16 False True True False False
       True True),
     Drive (issue_req 0x85550300 16 MODE_SV48 0 False False False False),
     Check (\<lambda>d. resp_hit (vl_resp d)),
     Check (\<lambda>d. \<not> resp_page_fault (vl_resp d)),
     Drive (do_refill (sv48_vpn 0x86660400) 0x86000 0 MODE_SV48 17 False False False False True
       True True),
     Drive (issue_req 0x86660400 17 MODE_SV48 1 False False False False),
     Check (\<lambda>d. resp_page_fault (vl_resp d)),
     Drive (issue_req 0x86660400 17 MODE_SV48 1 False False False True),
     Check (\<lambda>d. resp_hit (vl_resp d)),
     Check (\<lambda>d. \<not> resp_page_fault (vl_resp d)),
     Drive (do_refill (sv48_vpn 0x87770500) 0x87000 0 MODE_SV48 18 False False True True True
       False True),
     Drive (issue_req 0x87770500 18 MODE_SV48 1 False False False False),
     Check (\<lambda>d. resp_page_fault (vl_resp d)),
     Drive (issue_req 0x87770500 18 MODE_SV48 1 True False False False),
     Check (\<lambda>d. resp_page_fault (vl_resp d)),
     Drive (do_refill (sv48_vpn 0x88880600) 0x88000 0 MODE_SV48 33 True False True True False True
       True),
     Drive (apply_flush_asid 33),
     Drive (issue_load 0x88880600 99 MODE_SV48),
     Check (\<lambda>d. resp_hit (vl_resp d))]"

text \<open>Tests 23 and 24: replacement.\<close>

definition tb_tlb_pressure :: "Vtlb bench_step list" where
  "tb_tlb_pressure =
    [Drive apply_flush_all,
     Drive (do_refill (sv48_vpn 0x90001000) 0x90001 0 MODE_SV48 40 False False True True False
       True True)] @
     map (\<lambda>n. Drive (do_refill (sv48_vpn (0x100000000 + push_bit 12 (of_nat n)))
           (0x91000 + of_nat n) 0 MODE_SV48 (of_nat (50 + n)) False False True True False True True))
       [0..<32] @
     [Drive (issue_load 0x90001000 40 MODE_SV48),
     Check (\<lambda>d. \<not> resp_hit (vl_resp d)),
     Drive (do_refill (sv48_vpn 0x10001F000) 0xA001F 0 MODE_SV48 77 False False True True False
       True True),
     Drive (issue_load 0x10001F000 77 MODE_SV48),
     Check (\<lambda>d. resp_hit (vl_resp d))]"

text \<open>Tests 25 to 27: flushing by page, across superpages.\<close>

definition tb_tlb_flush_page :: "Vtlb bench_step list" where
  "tb_tlb_flush_page =
    [Drive apply_flush_all,
     Drive (do_refill (sv48_vpn 0x123400000) 0xB1000 1 MODE_SV48 88 False False True True False
       True True),
     Drive (do_refill (sv48_vpn 0x124400555) 0xB2000 1 MODE_SV48 88 False False True True False
       True True),
     Drive (apply_flush_vpn (sv48_vpn 0x123412ABC) MODE_SV48),
     Drive (issue_load 0x123400000 88 MODE_SV48),
     Check (\<lambda>d. \<not> resp_hit (vl_resp d)),
     Drive (issue_load 0x124400555 88 MODE_SV48),
     Check (\<lambda>d. resp_hit (vl_resp d)),
     Drive apply_flush_all,
     Drive (do_refill (sv57_vpn 0x12345678001000) 0xC1234 2 MODE_SV57 99 False False True True
       False True True),
     Drive (do_refill (sv57_vpn 0x12345A00002000) 0xC5678 2 MODE_SV57 99 False False True True
       False True True),
     Drive (apply_flush_vpn (sv57_vpn 0x1234567BFF8FFF) MODE_SV57),
     Drive (issue_load 0x12345678001000 99 MODE_SV57),
     Check (\<lambda>d. \<not> resp_hit (vl_resp d)),
     Drive (issue_load 0x12345A00002000 99 MODE_SV57),
     Check (\<lambda>d. resp_hit (vl_resp d)),
     Drive apply_flush_all,
     Drive (do_refill (sv48_vpn 0x99001000) 0xD1000 0 MODE_SV48 120 False False True True False
       True True),
     Drive (do_refill (sv48_vpn 0x99002000) 0xD2000 0 MODE_SV48 120 False False True True False
       True True),
     Drive (apply_flush_vpn (sv48_vpn 0x99001000) MODE_SV48),
     Drive (issue_load 0x99001000 120 MODE_SV48),
     Check (\<lambda>d. \<not> resp_hit (vl_resp d)),
     Drive (issue_load 0x99002000 120 MODE_SV48),
     Check (\<lambda>d. resp_hit (vl_resp d))]"

definition tb_tlb_main :: "Vtlb \<Rightarrow> tb_exit \<times> nat" where
  "tb_tlb_main dut =
     run_bench (tb_tlb_basic @ tb_tlb_flush @ tb_tlb_perm @ tb_tlb_pressure @ tb_tlb_flush_page)
       dut 0"

section \<open>Lemmas\<close>

lemmas tb_tlb_defs = tlb_tick_def make_paddr_def sv48_vpn_def sv32_vpn_def sv57_vpn_def
  clear_req_def clear_refill_def clear_flush_def apply_flush_all_def apply_flush_asid_def
  apply_flush_vpn_def tlb_reset_def do_refill_def issue_load_def issue_req_def vl_resp_def

lemmas tb_tlb_script = tb_tlb_basic_def tb_tlb_flush_def tb_tlb_perm_def tb_tlb_pressure_def
  tb_tlb_flush_page_def

text \<open>Comparing page numbers under the mask without building the mask.\<close>

lemma mask_eval:
  "(x AND make_vpn_mask mode level = 0) \<longleftrightarrow>
     drop_bit (unat level * vpn_stride mode) (take_bit (vpn_width mode) x) = 0"
proof -
  define k where "k = unat level * vpn_stride mode"
  have w: "vpn_width mode \<le> 45" by (simp add: vpn_width_def)
  have "x AND make_vpn_mask mode level = 0 \<longleftrightarrow>
      (\<forall>n. k \<le> n \<and> n < vpn_width mode \<longrightarrow> \<not> bit x n)"
    using masked_eq_iff [of x 0 mode level] by (simp add: k_def)
  also have "\<dots> \<longleftrightarrow> (\<forall>n. k + n < vpn_width mode \<longrightarrow> \<not> bit x (k + n))"
    by (metis le_add1 le_Suc_ex)
  also have "\<dots> \<longleftrightarrow> drop_bit k (take_bit (vpn_width mode) x) = 0"
    using w by (auto simp: bit_eq_iff bit_simps)
  finally show ?thesis by (simp add: k_def)
qed

text \<open>Entries of the buffer during the bench: still as reset left them, or fully known.\<close>

lemma reset_entry_eval:
  "entry_match tlb_entry_reset vpn asid mode = False"
  "flush_entry f tlb_entry_reset = tlb_entry_reset"
  by (simp_all add: entry_match_def flush_entry_def tlb_entry_reset_def)

lemma entry_eval:
  "entry_match
     \<lparr>e_valid = v, e_mode = m, e_asid = as, e_vpn = vp, e_ppn = pp, e_level = l, e_g = g,
      e_u = u, e_r = r, e_w = w, e_x = x, e_a = a, e_d = d\<rparr>
     vpn asid mode \<longleftrightarrow>
     v \<and> m = mode \<and> (g \<or> as = asid) \<and>
     drop_bit (unat l * vpn_stride m) (take_bit (vpn_width m) (vp XOR vpn)) = 0"
  "flush_entry f
     \<lparr>e_valid = v, e_mode = m, e_asid = as, e_vpn = vp, e_ppn = pp, e_level = l, e_g = g,
      e_u = u, e_r = r, e_w = w, e_x = x, e_a = a, e_d = d\<rparr> =
     \<lparr>e_valid = v \<and> \<not> flush_hits f
        \<lparr>e_valid = v, e_mode = m, e_asid = as, e_vpn = vp, e_ppn = pp, e_level = l, e_g = g,
      e_u = u, e_r = r, e_w = w, e_x = x, e_a = a, e_d = d\<rparr>,
      e_mode = m, e_asid = as, e_vpn = vp, e_ppn = pp, e_level = l, e_g = g,
      e_u = u, e_r = r, e_w = w, e_x = x, e_a = a, e_d = d\<rparr>"
  by (auto simp: entry_match_def mask_eval flush_entry_def flush_hits_def)

lemmas tlb_eval = tlb_ff_def reset_entry_eval refill_accepted_def refill_entry_def
  is_supported_mode_def tlb_lookup_def tlb_scan_def entry_eval mask_eval vpn_width_def
  vpn_stride_def vaddr_to_vpn_def field_def flush_hits_def allow_access_def low_mask_def
  page_shift_def replicate_numeral

lemma upt_0_32: "[0..<32] = [0, 1, 2, 3, 4, 5, 6, 7, 8, 9, 10, 11, 12, 13, 14, 15, 16, 17, 18, 19,
  20, 21, 22, 23, 24, 25, 26, 27, 28, 29, 30, 31 :: nat]"
  by (simp add: upt_rec)

lemma tb_tlb_passes:
  "passes (tb_tlb_basic @ tb_tlb_flush @ tb_tlb_perm @ tb_tlb_pressure @ tb_tlb_flush_page) d"
  unfolding tb_tlb_script upt_0_32 list.map append.simps
  by (simp add: tb_tlb_defs tlb_eval cong: passes_cong)

lemma tb_tlb_checks:
  "checks (tb_tlb_basic @ tb_tlb_flush @ tb_tlb_perm @ tb_tlb_pressure @ tb_tlb_flush_page) = 50"
  unfolding tb_tlb_script upt_0_32 list.map append.simps by simp

section \<open>Properties\<close>

text \<open>
  C40: the bench of the translation lookaside buffer passes on the modelled buffer, whatever its
  ports and registers hold at power-up: all 50 checks hold, over hits, misses, permissions,
  superpages of three modes, the kinds of flush and replacement under pressure.
\<close>

theorem tb_tlb_bench_passes: "tb_tlb_main dut = (Exit 0, 50)"
  by (simp only: tb_tlb_main_def run_bench_passes [OF tb_tlb_passes] tb_tlb_checks add_0)

end
