(* ===== verification/Spec2Isabelle.thy ===== *)
theory Spec2Isabelle
  imports Core_Tests Isa_Semantics Runner_Refinement Register_Benches Csr_Bench Tlb_Bench
begin

text \<open>
  \<^bold>\<open>richard-cpu: an RV64 five-stage core and its test benches.\<close>

  The program has two halves.  The design (\<open>rtl/core/*.sv\<close>) is an in-order RV64I core with M, S
  and U mode, CSRs, traps and interrupts: IF, ID, EX, MEM and WB stages separated by four
  pipeline registers, a hazard unit (forwarding, load-use stall, flushes), a trap controller and
  a CSR unit, wired together in \<open>richard_core.sv\<close>; a TLB (\<open>mmu/tlb.sv\<close>) stands beside it, not yet
  connected.  The benches (\<open>tb/**/*.cc\<close>) are C++ programs
  that clock the translated design, feed it instructions and data, and judge what it does: unit
  benches, the core bench \<open>tb_core.cc\<close> and the compliance runner \<open>compliance_runner.cc\<close>, which
  loads an ELF file, runs it until it writes \<open>tohost\<close> and dumps the signature region.
  A bench calls \<open>eval\<close> with the clock low and then high; what it sees of the design are the
  outputs, which depend on the registers alone, so one call of its \<open>tick\<close> is one step of the
  design's registers on the inputs the bench has set.

  \<^bold>\<open>Theories, in the order of the code.\<close>

  \<^item> \<open>Prelude\<close>: part selects, sign extension, bit assignment, byte lanes and the bounded loop
    \<open>iterate\<close>.  \<open>Rv64_Pkg\<close>: the enums and encodings of \<open>rv64_pkg.sv\<close>.  \<open>Stuttering\<close>: the
    interface between a clocked implementation and a sequential specification, as locales.
  \<^item> \<open>Alu_Branch\<close>, \<open>Regfile\<close>, \<open>Decoder\<close>, \<open>Ex_Stage\<close>, \<open>Pipeline_Regs\<close>, \<open>Mem_Stage\<close>,
    \<open>Hazard_Unit\<close>, \<open>Trap_Ctrl\<close>, \<open>Csr_Unit\<close>: one theory per module of \<open>rtl/core\<close>, the
    combinational modules as functions and the clocked ones as a record of their registers with a
    step function.  The unit benches \<open>tb_alu.cc\<close>, \<open>tb_branch.cc\<close> and \<open>tb_regfile.cc\<close> stand beside
    the module they test, as functions that count their checks.  \<open>Tlb\<close>: \<open>tlb.sv\<close>, its look-up and
    its clock edge, and the queue of refills it implements.
  \<^item> \<open>Core\<close>: \<open>richard_core.sv\<close>; \<open>core_step\<close> is one rising clock edge of the whole design.
  \<^item> \<open>Rv_Encode\<close>, \<open>Core_Sim\<close>, \<open>Core_Tests\<close>: \<open>tb_core.cc\<close>: its instruction encoders, memory,
    trap handlers, \<open>CoreSim\<close> with \<open>tick\<close>, \<open>run\<close> and \<open>reset\<close>, every test and case, and \<open>main\<close>.
  \<^item> \<open>Byte_Memory\<close>, \<open>Elf_Loader\<close>, \<open>Compliance_Runner\<close>: \<open>compliance_runner.cc\<close>: the sparse byte
    memory, the ELF64 loader (raised errors and undefined behaviour as values), the clocked run,
    the signature dump and \<open>main\<close>.
  \<^item> \<open>Bench\<close>: a unit bench as a list of steps on the state of its device under test and the inputs
    it drives: assign, evaluate, clock, assert.  \<open>Stage_Benches\<close> (\<open>tb_hazard_unit.cc\<close>,
    \<open>tb_trap_ctrl.cc\<close>, \<open>tb_ex_stage.cc\<close>, \<open>tb_mem_stage.cc\<close>, \<open>tb_wb_stage.cc\<close>, \<open>tb_decoder.cc\<close>),
    \<open>Register_Benches\<close> (\<open>tb_if_stage.cc\<close>, \<open>tb_id_stage.cc\<close>, the four pipeline registers),
    \<open>Csr_Bench\<close> (\<open>tb_csr.cc\<close>) and \<open>Tlb_Bench\<close> (\<open>tb_tlb.cc\<close>) are those scripts.
  \<^item> \<open>Pipeline_Refinement\<close>: the sequential machine the pipeline implements, over any memory, and
    the simulation, over any bench that keeps the contract of the locale \<open>core_bench\<close>.
    \<open>Sim_Refinement\<close> and \<open>Runner_Refinement\<close>: the two benches that provide it, \<open>CoreSim\<close> of the core
    bench and the compliance runner.  \<open>Isa_Semantics\<close>: what one step of the sequential machine does
    for the instructions the core bench encodes.

  \<^bold>\<open>What the theorems show.\<close>

  The pipeline executes programs: driven by the bench, it refines the machine that executes one
  instruction at a time, for instructions that neither trap nor touch a CSR, in M mode and
  without interrupts, and it needs at most three cycles per instruction after two cycles to fill
  the front end (below, and \<open>Pipeline_Refinement\<close>).  The Fibonacci test of the core bench passes
  as a consequence, and the compliance runner ends with the verdict the instructions of the loaded
  program write to \<open>tohost\<close> (\<open>runner_runs_program\<close>).  Every unit bench of the repository passes on the modelled module; the
  outcome of the core bench and of the runner does not depend on the power-up contents of the
  registers.  Each module meets its contract: forwarding delivers the newest value, the control
  lines of the hazard unit are the documented ones in every case, the decoder is exclusive and
  flags exactly what the mode forbids, a trap and the matching return restore the interrupted
  context, a CSR write is what is read back and leaves the other CSRs alone, a rejected access
  changes what the same cycle without it changes and nothing else.  The specifications are
  written apart from the code: causes and handler addresses, CSR values, refills, hex digits are
  stated over the inputs and not over the module's own helper functions.

  The TLB refines a queue of the last 32 refills: over any history of refills and flushes it
  answers from the refills still in force and from nothing else, so there is no stale and no lost
  translation.  The page shift is kept in 6 bits, so the number of offset bits counts modulo 64;
  the bits of an address above the virtual page number are not checked.

  Traps are taken as the CSRs prescribe (\<open>trap_ctrl_decision\<close>, \<open>core_exception_edge\<close>), and three
  theorems of \<open>Core\<close> show where the core departs from precise execution: a younger store that
  escapes a trap, a CSR result that is not forwarded, an instruction that executes again after an
  interrupt.  The two instructions the core bench emits to load a constant do so exactly for the
  constants in their range (\<open>load_imm64_correct\<close>).  The runner's memory round-trips, its loader
  rejects what it must and loads what the file says, its exit status is the verdict written to
  \<open>tohost\<close>, its signature file shows the bytes of the region; three theorems say when it is
  undefined or does not end.

  \<^bold>\<open>Bounds.\<close>  Every loop of the benches that is bounded in the source is structural recursion on
  that bound: \<open>iterate n\<close> for \<open>run\<close> and \<open>reset\<close>, the maximal number of cycles for the runner, the
  counts of the ELF tables.  The one loop of the runner that may not end, the signature dump with
  its wrapping counter, is a \<open>partial_function (option)\<close>, and \<open>dump_loop_returns_iff\<close> says when it
  returns.

  \<^bold>\<open>Interfaces.\<close>  \<open>Stuttering\<close> holds the locales: \<open>stuttering_refinement\<close> and
  \<open>progressing_refinement\<close>, a machine that
  implements a specification in zero or one step of it per own step and makes progress;
  \<open>observed_refinement\<close>, which adds what an observer sees of the two; \<open>functional_refinement\<close>, a
  machine with inputs and an abstraction function, interpreted by the TLB in \<open>Tlb\<close>.
  \<open>Pipeline_Refinement\<close> holds \<open>core_bench\<close>, what a bench promises to the core (how it drives the
  inputs, answers fetches and loads, performs stores), and \<open>watched_bench\<close>, a bench that watches
  the stores; they are sublocales of the refinements, and \<open>Sim_Refinement\<close> and
  \<open>Runner_Refinement\<close> interpret them by the benches of the repository.

  \<^bold>\<open>Not modelled.\<close>  Text printed by the benches other than the signature file, waveform tracing
  and argument strings beyond the options the programs read.  File contents are arguments of the
  definitions.  The translation from SystemVerilog to C++ and four-valued logic before reset
  are outside the model: registers hold arbitrary bits at power-up, except that the 2-bit privilege
  register ranges over the three values of its enum (\<open>2'b10\<close> occurs neither in a reset nor in an
  assignment of the design).  Build scripts, software and
  board files are left out.

  \<^bold>\<open>Plan.\<close>  Next: the trap and interrupt cases of \<open>tb_core.cc\<close> as theorems about the modelled
  core, and the refinement extended to CSR instructions and traps.
\<close>

section \<open>The pipeline and the sequential machine\<close>

text \<open>
  C1: one clock of the core under the bench advances the sequential machine by one instruction or
  by none.  If the pipeline stands for the architectural state \<open>a\<close> (same memory, the register
  file after the pending writes, the next instruction at the architectural PC) and the next
  instruction neither traps nor touches a CSR, then after \<open>tick\<close> the pipeline stands for \<open>a\<close> or
  for the state after that instruction: forwarding, stalls and squashed slots are invisible.
\<close>

theorem pipeline_refines_sequential:
  assumes "pipe_rel sim a" "seq_plain a"
  shows "pipe_rel (tick sim) a \<or> pipe_rel (tick sim) (seq_step a)"
  using assms by (rule tick_pipe_rel)

abbreviation (input) fib_sim :: CoreSim where
  "fib_sim \<equiv> sim_load_program 0x80000000 fibonacci_program (new_CoreSim core_reset_state)"

lemma fib_sim_plain: "\<forall>k<85. seq_plain (iterate k seq_step (boot_state (mem fib_sim)))"
proof -
  have "mem fib_sim = \<lparr>imem = fib_code, dmem = Map.empty\<rparr>"
    by (simp add: sim_load_program_def new_CoreSim_def load_program_def empty_memory_def)
  then obtain b where "seq_run 85 (boot_state (mem fib_sim)) 0 = Some (b, 107)"
    using fib_run [of Map.empty] by auto
  then show ?thesis by (rule seq_runD(3))
qed

theorem pipeline_refines_sequential_witness:
  "pipe_rel (tick (reset 3 fib_sim)) (boot_state (mem fib_sim)) \<or>
   pipe_rel (tick (reset 3 fib_sim)) (seq_step (boot_state (mem fib_sim)))"
proof (rule pipeline_refines_sequential)
  show "pipe_rel (reset 3 fib_sim) (boot_state (mem fib_sim))"
    by (rule reset_pipe_rel) simp
  show "seq_plain (boot_state (mem fib_sim))"
    using fib_sim_plain [rule_format, of 0] by simp
qed

text \<open>
  C2: from reset the core executes the program.  If the first \<open>n\<close> instructions of the sequential
  machine, started at the reset vector with all registers zero, neither trap nor touch a CSR,
  then after at least \<open>n\<close> and at most \<open>3 n + 2\<close> ticks the pipeline stands for the state after
  exactly those \<open>n\<close> instructions: no deadlock, no lost and no repeated instruction.
\<close>

theorem core_executes_program:
  assumes "0 < cycles" "\<forall>k<n. seq_plain (iterate k seq_step (boot_state (mem sim)))"
  shows "\<exists>t. n \<le> t \<and> t \<le> 3 * n + 2 \<and>
             pipe_rel (run t (reset cycles sim)) (iterate n seq_step (boot_state (mem sim)))"
  using assms by (rule reset_run)

theorem core_executes_program_witness:
  "\<exists>t. 85 \<le> t \<and> t \<le> 3 * 85 + 2 \<and>
       pipe_rel (run t (reset 3 fib_sim)) (iterate 85 seq_step (boot_state (mem fib_sim)))"
  by (rule core_executes_program [OF _ fib_sim_plain]) simp

section \<open>The benches and power-up\<close>

text \<open>
  C36: what the registers of the design hold at power-up is invisible.  The core bench gives the
  same exit status whichever tests the command line selects, and the compliance runner the same
  exit status and signature file for every command line and every file: both reset the design
  before they look, and no store escapes during the reset.
\<close>

theorem power_up_irrelevant:
  "tb_core_main pu args = tb_core_main pu' args \<and>
   runner_main files writable power_up cmd = runner_main files writable power_up' cmd"
  by (intro conjI tb_core_power_up_irrelevant runner_power_up_irrelevant)

end
